(* ===== verification/Py_Errors.thy ===== *)
theory Py_Errors
  imports Xorq_Prelude
begin

text \<open>
  The error types of \<open>src/errors.rs\<close> and \<open>src/sql/exceptions.rs\<close> and the conversions between them.
  An exception on its way out of the engine passes through three representations: the
  Python exception (\<open>PyErr\<close>), DataFusion's own error (\<open>InnerDataFusionError\<close>, which can carry a
  boxed foreign error) and the crate's \<open>DataFusionError\<close>. What the conversions keep of the
  original exception is what a Python caller can catch.

  The text of a third-party error (its Debug or Display rendering) is code outside the
  repository: the record \<open>renderers\<close> holds those functions as parameters.
\<close>

section \<open>Representations\<close>

datatype py_class =
    PyException | PyTypeError | PyRuntimeError | PyValueError | PyKeyError | PyImportError
  | PyNotImplementedError | PyStopIteration | PyStopAsyncIteration
  | ParsingException | OptimizationException | PyOther string

record py_err =
  pe_class :: py_class
  pe_msg :: string

abbreviation new_err :: "py_class \<Rightarrow> string \<Rightarrow> py_err" where
  "new_err c m \<equiv> \<lparr>pe_class = c, pe_msg = m\<rparr>"

text \<open>
  \<open>InnerDataFusionError::External\<close> holds a \<open>Box<dyn Error>\<close>; the source boxes either a \<open>PyErr\<close> or the
  crate's own error, and third-party code boxes others (represented by their Display text).
\<close>

datatype datafusion_error =
    ExecutionError inner_error
  | ArrowError string
  | Common string
  | PythonError py_err
  | EncodeError string
and inner_error =
    Inner_External boxed_error
  | Inner_Execution string
  | Inner_NotImplemented string
  | Inner_Plan string
  | Inner_Configuration string
  | Inner_ObjectStore string
  | Inner_Arrow string
  | Inner_Other string
and boxed_error =
    Boxed_PyErr py_err
  | Boxed_DataFusion datafusion_error
  | Boxed_Other string

record renderers =
  inner_debug :: "inner_error \<Rightarrow> string"
  inner_display :: "inner_error \<Rightarrow> string"
  py_debug :: "py_err \<Rightarrow> string"

section \<open>Conversions\<close>

fun fmt_datafusion_error :: "renderers \<Rightarrow> datafusion_error \<Rightarrow> string" where
  "fmt_datafusion_error rd (ExecutionError e) = ''DataFusion error: '' @ inner_debug rd e"
| "fmt_datafusion_error rd (ArrowError e) = ''Arrow error: '' @ e"
| "fmt_datafusion_error rd (PythonError e) = ''Python error '' @ py_debug rd e"
| "fmt_datafusion_error rd (Common e) = e"
| "fmt_datafusion_error rd (EncodeError e) = ''Failed to encode substrait plan: '' @ e"

definition from_arrow_error :: "string \<Rightarrow> datafusion_error" where
  "from_arrow_error err = ArrowError err"

definition from_inner_error :: "inner_error \<Rightarrow> datafusion_error" where
  "from_inner_error err = ExecutionError err"

definition from_py_err :: "py_err \<Rightarrow> datafusion_error" where
  "from_py_err err = PythonError err"

fun into_py_err :: "renderers \<Rightarrow> datafusion_error \<Rightarrow> py_err" where
  "into_py_err rd (PythonError py_err) = py_err"
| "into_py_err rd err = new_err PyException (fmt_datafusion_error rd err)"

text \<open>The argument of the constructors below is the Debug rendering of what the source passes.\<close>

definition py_type_err :: "string \<Rightarrow> py_err" where
  "py_type_err e = new_err PyTypeError e"

definition py_runtime_err :: "string \<Rightarrow> py_err" where
  "py_runtime_err e = new_err PyRuntimeError e"

definition py_datafusion_err :: "string \<Rightarrow> py_err" where
  "py_datafusion_err e = new_err PyRuntimeError e"

definition py_unsupported_variant_err :: "string \<Rightarrow> py_err" where
  "py_unsupported_variant_err e = new_err PyValueError e"

definition to_external_err :: "py_err \<Rightarrow> inner_error" where
  "to_external_err e = Inner_External (Boxed_PyErr e)"

definition py_parsing_exp :: "string \<Rightarrow> py_err" where
  "py_parsing_exp e = new_err ParsingException e"

definition py_optimization_exp :: "string \<Rightarrow> py_err" where
  "py_optimization_exp e = new_err OptimizationException e"

text \<open>Display of a boxed error, as \<open>format!("{original_boxed}")\<close> calls it.\<close>

fun boxed_display :: "renderers \<Rightarrow> boxed_error \<Rightarrow> string" where
  "boxed_display rd (Boxed_DataFusion e) = fmt_datafusion_error rd e"
| "boxed_display rd (Boxed_Other s) = s"
| "boxed_display rd (Boxed_PyErr e) = py_debug rd e"

fun from_datafusion_error :: "renderers \<Rightarrow> inner_error \<Rightarrow> py_err" where
  "from_datafusion_error rd (Inner_External (Boxed_PyErr py_err)) = py_err"
| "from_datafusion_error rd (Inner_External original_boxed) =
     new_err PyValueError (boxed_display rd original_boxed)"
| "from_datafusion_error rd err = new_err PyValueError (inner_display rd err)"

text \<open>
  How \<open>Dataset::scan\<close>, \<open>IbisTable::scan\<close> and \<open>PyTableProvider::scan\<close> wrap an error of their exec's
  constructor: the crate error itself is boxed.
\<close>

definition exec_new_err :: "datafusion_error \<Rightarrow> inner_error" where
  "exec_new_err err = Inner_External (Boxed_DataFusion err)"

section \<open>What the conversions keep\<close>

lemma from_datafusion_error_class:
  "pe_class (from_datafusion_error rd err) \<noteq> PyValueError \<Longrightarrow>
     err = to_external_err (from_datafusion_error rd err)"
  by (induction rd err rule: from_datafusion_error.induct) (auto simp: to_external_err_def)

lemma into_py_err_class:
  "into_py_err rd err = e \<Longrightarrow> err = PythonError e \<or> pe_class e = PyException"
  by (cases err) auto

text \<open>
  A Python exception that user code raised inside a scan, boxed by \<open>to_external_err\<close> on the way
  into DataFusion, comes out of \<open>from_datafusion_error\<close> as the very same exception, and so does one
  that travelled as the crate's \<open>PythonError\<close>; no other error can come out with a class of its own:
  whatever is not a boxed Python exception surfaces as \<open>ValueError\<close>.
\<close>

theorem python_exception_roundtrip:
  "from_datafusion_error rd (to_external_err e) = e
   \<and> into_py_err rd (from_py_err e) = e
   \<and> (pe_class (from_datafusion_error rd err) = PyValueError
      \<or> err = to_external_err (from_datafusion_error rd err))"
  using from_datafusion_error_class [of rd err]
  by (cases "pe_class (from_datafusion_error rd err) = PyValueError")
     (auto simp: to_external_err_def from_py_err_def)

text \<open>
  The same exception raised while the exec node is being built is boxed one level too deep
  (\<open>External(Box(DataFusionError::PythonError(e)))\<close>), the downcast to \<open>PyErr\<close> misses it, and the
  caller sees a \<open>ValueError\<close> carrying only the text of the original exception.
\<close>

theorem exec_new_exception_class_lost:
  "from_datafusion_error rd (exec_new_err (from_py_err e))
     = new_err PyValueError (''Python error '' @ py_debug rd e)"
  by (simp add: exec_new_err_def from_py_err_def)

end
