(* ===== verification/Data_Types.thy ===== *)
theory Data_Types
  imports Py_Errors
begin

text \<open>
  \<open>src/common/data_type.rs\<close>: the tables that tie Arrow types, Python types, SQL types and scalar
  values together, and the two string forms of an Arrow type.

  \<open>DataType\<close>, \<open>Field\<close>, \<open>TimeUnit\<close>, \<open>IntervalUnit\<close> and \<open>ScalarValue\<close> are enums of the arrow and datafusion
  crates; the datatypes below have the constructors the source names, and one more
  (\<open>DT_Unnamed\<close>, \<open>SV_Unnamed\<close>) for the variants it reaches only through \<open>_\<close>.
  Floating-point payloads are kept as their bit patterns, since the source never computes with
  them.
\<close>

section \<open>Arrow types and scalar values\<close>

datatype time_unit = Second | Millisecond | Microsecond | Nanosecond

datatype interval_unit = YearMonth | DayTime | MonthDayNano

datatype union_mode = Sparse | Dense

datatype data_type =
    DT_Null | DT_Boolean
  | DT_Int8 | DT_Int16 | DT_Int32 | DT_Int64 | DT_UInt8 | DT_UInt16 | DT_UInt32 | DT_UInt64
  | DT_Float16 | DT_Float32 | DT_Float64
  | DT_Timestamp time_unit "string option"
  | DT_Date32 | DT_Date64 | DT_Time32 time_unit | DT_Time64 time_unit
  | DT_Duration time_unit | DT_Interval interval_unit
  | DT_Binary | DT_FixedSizeBinary i32 | DT_LargeBinary
  | DT_Utf8 | DT_LargeUtf8 | DT_Utf8View
  | DT_List field | DT_FixedSizeList field i32 | DT_LargeList field
  | DT_Struct "field list" | DT_Union "(i8 \<times> field) list" union_mode
  | DT_Dictionary data_type data_type
  | DT_Decimal32 u8 i8 | DT_Decimal64 u8 i8 | DT_Decimal128 u8 i8 | DT_Decimal256 u8 i8
  | DT_Map field bool | DT_RunEndEncoded field field
  | DT_Unnamed string
and field = Field (field_name: string) (field_data_type: data_type) (field_nullable: bool)

text \<open>
  A list, struct or large-list scalar is an array of its own; of the array the source reads only
  its data type.
\<close>

datatype scalar_value =
    SV_Null
  | SV_Boolean "bool option"
  | SV_Float32 "u32 option" | SV_Float64 "u64 option"
  | SV_Decimal128 "i128 option" u8 i8 | SV_Decimal256 "i256 option" u8 i8
  | SV_Int8 "i8 option" | SV_Int16 "i16 option" | SV_Int32 "i32 option" | SV_Int64 "i64 option"
  | SV_UInt8 "u8 option" | SV_UInt16 "u16 option" | SV_UInt32 "u32 option" | SV_UInt64 "u64 option"
  | SV_Utf8 "string option" | SV_LargeUtf8 "string option"
  | SV_Binary "u8 list option" | SV_LargeBinary "u8 list option"
  | SV_FixedSizeBinary i32 "u8 list option"
  | SV_FixedSizeList data_type | SV_List data_type | SV_LargeList data_type | SV_Struct data_type
  | SV_Date32 "i32 option" | SV_Date64 "i64 option"
  | SV_Time32Second "i32 option" | SV_Time32Millisecond "i32 option"
  | SV_Time64Microsecond "i64 option" | SV_Time64Nanosecond "i64 option"
  | SV_TimestampSecond "i64 option" "string option"
  | SV_TimestampMillisecond "i64 option" "string option"
  | SV_TimestampMicrosecond "i64 option" "string option"
  | SV_TimestampNanosecond "i64 option" "string option"
  | SV_IntervalYearMonth "i32 option" | SV_IntervalDayTime "(i32 \<times> i32) option"
  | SV_IntervalMonthDayNano "(i32 \<times> i32 \<times> i64) option"
  | SV_DurationSecond "i64 option" | SV_DurationMillisecond "i64 option"
  | SV_DurationMicrosecond "i64 option" | SV_DurationNanosecond "i64 option"
  | SV_Dictionary data_type scalar_value
  | SV_Unnamed string

section \<open>The types of the crate\<close>

datatype rex_type = Rex_Alias | Rex_Literal | Rex_Call | Rex_Reference | Rex_ScalarSubquery | Rex_Other

datatype python_type =
    Py_Array | Py_Bool | Py_Bytes | Py_Datetime | Py_Float | Py_Int | Py_List | Py_None
  | Py_Object | Py_Str

datatype sql_type =
    SQL_ANY | SQL_ARRAY | SQL_BIGINT | SQL_BINARY | SQL_BOOLEAN | SQL_CHAR | SQL_COLUMN_LIST
  | SQL_CURSOR | SQL_DATE | SQL_DECIMAL | SQL_DISTINCT | SQL_DOUBLE | SQL_DYNAMIC_STAR
  | SQL_FLOAT | SQL_GEOMETRY | SQL_INTEGER | SQL_INTERVAL | SQL_INTERVAL_DAY
  | SQL_INTERVAL_DAY_HOUR | SQL_INTERVAL_DAY_MINUTE | SQL_INTERVAL_DAY_SECOND
  | SQL_INTERVAL_HOUR | SQL_INTERVAL_HOUR_MINUTE | SQL_INTERVAL_HOUR_SECOND
  | SQL_INTERVAL_MINUTE | SQL_INTERVAL_MINUTE_SECOND | SQL_INTERVAL_MONTH | SQL_INTERVAL_SECOND
  | SQL_INTERVAL_YEAR | SQL_INTERVAL_YEAR_MONTH | SQL_MAP | SQL_MULTISET | SQL_NULL | SQL_OTHER
  | SQL_REAL | SQL_ROW | SQL_SARG | SQL_SMALLINT | SQL_STRUCTURED | SQL_SYMBOL | SQL_TIME
  | SQL_TIME_WITH_LOCAL_TIME_ZONE | SQL_TIMESTAMP | SQL_TIMESTAMP_WITH_LOCAL_TIME_ZONE
  | SQL_TINYINT | SQL_UNKNOWN | SQL_VARBINARY | SQL_VARCHAR

record data_type_map =
  arrow_type :: data_type
  python_type_of :: python_type
  sql_type_of :: sql_type

definition new_data_type_map :: "data_type \<Rightarrow> python_type \<Rightarrow> sql_type \<Rightarrow> data_type_map" where
  "new_data_type_map a p s = \<lparr>arrow_type = a, python_type_of = p, sql_type_of = s\<rparr>"

text \<open>
  The errors of these tables. The first four are \<open>py_datafusion_err(NotImplemented(..))\<close>, a
  \<open>RuntimeError\<close> whose text is the Debug form of the offending value; the last two are \<open>ValueError\<close>s.
\<close>

datatype type_error =
    NotImplemented_type data_type
  | NotImplemented_sql sql_type
  | NotImplemented_scalar scalar_value
  | NotImplemented_text string
  | ValueError_text string
  | ValueError_type data_type

definition type_error_class :: "type_error \<Rightarrow> py_class" where
  "type_error_class e = (case e of
     ValueError_text _ \<Rightarrow> PyValueError | ValueError_type _ \<Rightarrow> PyValueError | _ \<Rightarrow> PyRuntimeError)"

section \<open>From Arrow types\<close>

fun map_from_arrow_type :: "data_type \<Rightarrow> type_error + data_type_map" where
  "map_from_arrow_type DT_Null = Inr (new_data_type_map DT_Null Py_None SQL_NULL)"
| "map_from_arrow_type DT_Boolean = Inr (new_data_type_map DT_Boolean Py_Bool SQL_BOOLEAN)"
| "map_from_arrow_type DT_Int8 = Inr (new_data_type_map DT_Int8 Py_Int SQL_TINYINT)"
| "map_from_arrow_type DT_Int16 = Inr (new_data_type_map DT_Int16 Py_Int SQL_SMALLINT)"
| "map_from_arrow_type DT_Int32 = Inr (new_data_type_map DT_Int32 Py_Int SQL_INTEGER)"
| "map_from_arrow_type DT_Int64 = Inr (new_data_type_map DT_Int64 Py_Int SQL_BIGINT)"
| "map_from_arrow_type DT_UInt8 = Inr (new_data_type_map DT_UInt8 Py_Int SQL_TINYINT)"
| "map_from_arrow_type DT_UInt16 = Inr (new_data_type_map DT_UInt16 Py_Int SQL_SMALLINT)"
| "map_from_arrow_type DT_UInt32 = Inr (new_data_type_map DT_UInt32 Py_Int SQL_INTEGER)"
| "map_from_arrow_type DT_UInt64 = Inr (new_data_type_map DT_UInt64 Py_Int SQL_BIGINT)"
| "map_from_arrow_type DT_Float16 = Inr (new_data_type_map DT_Float16 Py_Float SQL_FLOAT)"
| "map_from_arrow_type DT_Float32 = Inr (new_data_type_map DT_Float32 Py_Float SQL_FLOAT)"
| "map_from_arrow_type DT_Float64 = Inr (new_data_type_map DT_Float64 Py_Float SQL_FLOAT)"
| "map_from_arrow_type (DT_Timestamp unit tz) = Inr (new_data_type_map (DT_Timestamp unit tz) Py_Datetime SQL_DATE)"
| "map_from_arrow_type DT_Date32 = Inr (new_data_type_map DT_Date32 Py_Datetime SQL_DATE)"
| "map_from_arrow_type DT_Date64 = Inr (new_data_type_map DT_Date64 Py_Datetime SQL_DATE)"
| "map_from_arrow_type (DT_Time32 unit) = Inr (new_data_type_map (DT_Time32 unit) Py_Datetime SQL_DATE)"
| "map_from_arrow_type (DT_Time64 unit) = Inr (new_data_type_map (DT_Time64 unit) Py_Datetime SQL_DATE)"
| "map_from_arrow_type (DT_Duration u) = Inl (NotImplemented_type (DT_Duration u))"
| "map_from_arrow_type (DT_Interval interval_unit) =
     Inr (new_data_type_map (DT_Interval interval_unit) Py_Datetime
       (case interval_unit of
          DayTime \<Rightarrow> SQL_INTERVAL_DAY
        | MonthDayNano \<Rightarrow> SQL_INTERVAL_MONTH
        | YearMonth \<Rightarrow> SQL_INTERVAL_YEAR_MONTH))"
| "map_from_arrow_type DT_Binary = Inr (new_data_type_map DT_Binary Py_Bytes SQL_BINARY)"
| "map_from_arrow_type (DT_FixedSizeBinary n) = Inl (NotImplemented_type (DT_FixedSizeBinary n))"
| "map_from_arrow_type DT_LargeBinary = Inr (new_data_type_map DT_LargeBinary Py_Bytes SQL_BINARY)"
| "map_from_arrow_type DT_Utf8 = Inr (new_data_type_map DT_Utf8 Py_Str SQL_VARCHAR)"
| "map_from_arrow_type DT_LargeUtf8 = Inr (new_data_type_map DT_LargeUtf8 Py_Str SQL_VARCHAR)"
| "map_from_arrow_type (DT_List f) = Inl (NotImplemented_type (DT_List f))"
| "map_from_arrow_type (DT_FixedSizeList f n) = Inl (NotImplemented_type (DT_FixedSizeList f n))"
| "map_from_arrow_type (DT_LargeList f) = Inl (NotImplemented_type (DT_LargeList f))"
| "map_from_arrow_type (DT_Struct fs) = Inl (NotImplemented_type (DT_Struct fs))"
| "map_from_arrow_type (DT_Union fs m) = Inl (NotImplemented_type (DT_Union fs m))"
| "map_from_arrow_type (DT_Dictionary k v) = Inl (NotImplemented_type (DT_Dictionary k v))"
| "map_from_arrow_type (DT_Decimal32 precision scale) = Inr (new_data_type_map (DT_Decimal32 precision scale) Py_Float SQL_DECIMAL)"
| "map_from_arrow_type (DT_Decimal64 precision scale) = Inr (new_data_type_map (DT_Decimal64 precision scale) Py_Float SQL_DECIMAL)"
| "map_from_arrow_type (DT_Decimal128 precision scale) = Inr (new_data_type_map (DT_Decimal128 precision scale) Py_Float SQL_DECIMAL)"
| "map_from_arrow_type (DT_Decimal256 precision scale) = Inr (new_data_type_map (DT_Decimal256 precision scale) Py_Float SQL_DECIMAL)"
| "map_from_arrow_type (DT_Map f s) = Inl (NotImplemented_type (DT_Map f s))"
| "map_from_arrow_type (DT_RunEndEncoded r v) = Inl (NotImplemented_type (DT_RunEndEncoded r v))"
| "map_from_arrow_type other = Inl (NotImplemented_type other)"

section \<open>From scalar values\<close>

fun map_from_scalar_to_arrow :: "scalar_value \<Rightarrow> type_error + data_type" where
  "map_from_scalar_to_arrow (SV_Boolean v) = Inr DT_Boolean"
| "map_from_scalar_to_arrow (SV_Float32 v) = Inr DT_Float32"
| "map_from_scalar_to_arrow (SV_Float64 v) = Inr DT_Float64"
| "map_from_scalar_to_arrow (SV_Decimal128 v precision scale) = Inr (DT_Decimal128 precision scale)"
| "map_from_scalar_to_arrow (SV_Decimal256 v precision scale) = Inr (DT_Decimal256 precision scale)"
| "map_from_scalar_to_arrow (SV_Dictionary data_type scalar_type) =
     (case map_from_scalar_to_arrow scalar_type of
        Inl e \<Rightarrow> Inl e
      | Inr value_type \<Rightarrow> Inr (DT_Dictionary data_type value_type))"
| "map_from_scalar_to_arrow (SV_Int8 v) = Inr DT_Int8"
| "map_from_scalar_to_arrow (SV_Int16 v) = Inr DT_Int16"
| "map_from_scalar_to_arrow (SV_Int32 v) = Inr DT_Int32"
| "map_from_scalar_to_arrow (SV_Int64 v) = Inr DT_Int64"
| "map_from_scalar_to_arrow (SV_UInt8 v) = Inr DT_UInt8"
| "map_from_scalar_to_arrow (SV_UInt16 v) = Inr DT_UInt16"
| "map_from_scalar_to_arrow (SV_UInt32 v) = Inr DT_UInt32"
| "map_from_scalar_to_arrow (SV_UInt64 v) = Inr DT_UInt64"
| "map_from_scalar_to_arrow (SV_Utf8 v) = Inr DT_Utf8"
| "map_from_scalar_to_arrow (SV_LargeUtf8 v) = Inr DT_LargeUtf8"
| "map_from_scalar_to_arrow (SV_Binary v) = Inr DT_Binary"
| "map_from_scalar_to_arrow (SV_LargeBinary v) = Inr DT_LargeBinary"
| "map_from_scalar_to_arrow (SV_Date32 v) = Inr DT_Date32"
| "map_from_scalar_to_arrow (SV_Date64 v) = Inr DT_Date64"
| "map_from_scalar_to_arrow (SV_Time32Second v) = Inr (DT_Time32 Second)"
| "map_from_scalar_to_arrow (SV_Time32Millisecond v) = Inr (DT_Time32 Millisecond)"
| "map_from_scalar_to_arrow (SV_Time64Microsecond v) = Inr (DT_Time64 Microsecond)"
| "map_from_scalar_to_arrow (SV_Time64Nanosecond v) = Inr (DT_Time64 Nanosecond)"
| "map_from_scalar_to_arrow SV_Null = Inr DT_Null"
| "map_from_scalar_to_arrow (SV_TimestampSecond v tz) = Inr (DT_Timestamp Second tz)"
| "map_from_scalar_to_arrow (SV_TimestampMillisecond v tz) = Inr (DT_Timestamp Millisecond tz)"
| "map_from_scalar_to_arrow (SV_TimestampMicrosecond v tz) = Inr (DT_Timestamp Microsecond tz)"
| "map_from_scalar_to_arrow (SV_TimestampNanosecond v tz) = Inr (DT_Timestamp Nanosecond tz)"
| "map_from_scalar_to_arrow (SV_IntervalYearMonth v) = Inr (DT_Interval YearMonth)"
| "map_from_scalar_to_arrow (SV_IntervalDayTime v) = Inr (DT_Interval DayTime)"
| "map_from_scalar_to_arrow (SV_IntervalMonthDayNano v) = Inr (DT_Interval MonthDayNano)"
| "map_from_scalar_to_arrow (SV_List dt) = Inr dt"
| "map_from_scalar_to_arrow (SV_Struct array_ref) = Inl (NotImplemented_text ''ScalarValue::Struct'')"
| "map_from_scalar_to_arrow (SV_FixedSizeBinary len v) = Inr (DT_FixedSizeBinary len)"
| "map_from_scalar_to_arrow (SV_FixedSizeList array_ref) = Inl (NotImplemented_text ''ScalarValue::FixedSizeList'')"
| "map_from_scalar_to_arrow (SV_LargeList array_ref) = Inl (NotImplemented_text ''ScalarValue::LargeList'')"
| "map_from_scalar_to_arrow (SV_DurationSecond v) = Inr (DT_Duration Second)"
| "map_from_scalar_to_arrow (SV_DurationMillisecond v) = Inr (DT_Duration Millisecond)"
| "map_from_scalar_to_arrow (SV_DurationMicrosecond v) = Inr (DT_Duration Microsecond)"
| "map_from_scalar_to_arrow (SV_DurationNanosecond v) = Inr (DT_Duration Nanosecond)"
| "map_from_scalar_to_arrow scalar_val = Inl (NotImplemented_scalar scalar_val)"

definition map_from_scalar_value :: "scalar_value \<Rightarrow> type_error + data_type_map" where
  "map_from_scalar_value scalar_val = and_then (map_from_scalar_to_arrow scalar_val) map_from_arrow_type"

section \<open>From SQL types\<close>

fun py_map_from_sql_type :: "sql_type \<Rightarrow> type_error + data_type_map" where
  "py_map_from_sql_type SQL_ANY = Inl (NotImplemented_sql SQL_ANY)"
| "py_map_from_sql_type SQL_ARRAY = Inl (NotImplemented_sql SQL_ARRAY)"
| "py_map_from_sql_type SQL_BIGINT = Inr (new_data_type_map DT_Int64 Py_Int SQL_BIGINT)"
| "py_map_from_sql_type SQL_BINARY = Inr (new_data_type_map DT_Binary Py_Bytes SQL_BINARY)"
| "py_map_from_sql_type SQL_BOOLEAN = Inr (new_data_type_map DT_Boolean Py_Bool SQL_BOOLEAN)"
| "py_map_from_sql_type SQL_CHAR = Inr (new_data_type_map DT_UInt8 Py_Int SQL_CHAR)"
| "py_map_from_sql_type SQL_COLUMN_LIST = Inl (NotImplemented_sql SQL_COLUMN_LIST)"
| "py_map_from_sql_type SQL_CURSOR = Inl (NotImplemented_sql SQL_CURSOR)"
| "py_map_from_sql_type SQL_DATE = Inr (new_data_type_map DT_Date64 Py_Datetime SQL_DATE)"
| "py_map_from_sql_type SQL_DECIMAL = Inr (new_data_type_map (DT_Decimal128 1 1) Py_Float SQL_DECIMAL)"
| "py_map_from_sql_type SQL_DISTINCT = Inl (NotImplemented_sql SQL_DISTINCT)"
| "py_map_from_sql_type SQL_DOUBLE = Inr (new_data_type_map (DT_Decimal256 1 1) Py_Float SQL_DOUBLE)"
| "py_map_from_sql_type SQL_DYNAMIC_STAR = Inl (NotImplemented_sql SQL_DYNAMIC_STAR)"
| "py_map_from_sql_type SQL_FLOAT = Inr (new_data_type_map (DT_Decimal128 1 1) Py_Float SQL_FLOAT)"
| "py_map_from_sql_type SQL_GEOMETRY = Inl (NotImplemented_sql SQL_GEOMETRY)"
| "py_map_from_sql_type SQL_INTEGER = Inr (new_data_type_map DT_Int8 Py_Int SQL_INTEGER)"
| "py_map_from_sql_type SQL_INTERVAL = Inl (NotImplemented_sql SQL_INTERVAL)"
| "py_map_from_sql_type SQL_INTERVAL_DAY = Inl (NotImplemented_sql SQL_INTERVAL_DAY)"
| "py_map_from_sql_type SQL_INTERVAL_DAY_HOUR = Inl (NotImplemented_sql SQL_INTERVAL_DAY_HOUR)"
| "py_map_from_sql_type SQL_INTERVAL_DAY_MINUTE = Inl (NotImplemented_sql SQL_INTERVAL_DAY_MINUTE)"
| "py_map_from_sql_type SQL_INTERVAL_DAY_SECOND = Inl (NotImplemented_sql SQL_INTERVAL_DAY_SECOND)"
| "py_map_from_sql_type SQL_INTERVAL_HOUR = Inl (NotImplemented_sql SQL_INTERVAL_HOUR)"
| "py_map_from_sql_type SQL_INTERVAL_HOUR_MINUTE = Inl (NotImplemented_sql SQL_INTERVAL_HOUR_MINUTE)"
| "py_map_from_sql_type SQL_INTERVAL_HOUR_SECOND = Inl (NotImplemented_sql SQL_INTERVAL_HOUR_SECOND)"
| "py_map_from_sql_type SQL_INTERVAL_MINUTE = Inl (NotImplemented_sql SQL_INTERVAL_MINUTE)"
| "py_map_from_sql_type SQL_INTERVAL_MINUTE_SECOND = Inl (NotImplemented_sql SQL_INTERVAL_MINUTE_SECOND)"
| "py_map_from_sql_type SQL_INTERVAL_MONTH = Inl (NotImplemented_sql SQL_INTERVAL_MONTH)"
| "py_map_from_sql_type SQL_INTERVAL_SECOND = Inl (NotImplemented_sql SQL_INTERVAL_SECOND)"
| "py_map_from_sql_type SQL_INTERVAL_YEAR = Inl (NotImplemented_sql SQL_INTERVAL_YEAR)"
| "py_map_from_sql_type SQL_INTERVAL_YEAR_MONTH = Inl (NotImplemented_sql SQL_INTERVAL_YEAR_MONTH)"
| "py_map_from_sql_type SQL_MAP = Inl (NotImplemented_sql SQL_MAP)"
| "py_map_from_sql_type SQL_MULTISET = Inl (NotImplemented_sql SQL_MULTISET)"
| "py_map_from_sql_type SQL_NULL = Inr (new_data_type_map DT_Null Py_None SQL_NULL)"
| "py_map_from_sql_type SQL_OTHER = Inl (NotImplemented_sql SQL_OTHER)"
| "py_map_from_sql_type SQL_REAL = Inl (NotImplemented_sql SQL_REAL)"
| "py_map_from_sql_type SQL_ROW = Inl (NotImplemented_sql SQL_ROW)"
| "py_map_from_sql_type SQL_SARG = Inl (NotImplemented_sql SQL_SARG)"
| "py_map_from_sql_type SQL_SMALLINT = Inr (new_data_type_map DT_Int16 Py_Int SQL_SMALLINT)"
| "py_map_from_sql_type SQL_STRUCTURED = Inl (NotImplemented_sql SQL_STRUCTURED)"
| "py_map_from_sql_type SQL_SYMBOL = Inl (NotImplemented_sql SQL_SYMBOL)"
| "py_map_from_sql_type SQL_TIME = Inl (NotImplemented_sql SQL_TIME)"
| "py_map_from_sql_type SQL_TIME_WITH_LOCAL_TIME_ZONE = Inl (NotImplemented_sql SQL_TIME_WITH_LOCAL_TIME_ZONE)"
| "py_map_from_sql_type SQL_TIMESTAMP = Inl (NotImplemented_sql SQL_TIMESTAMP)"
| "py_map_from_sql_type SQL_TIMESTAMP_WITH_LOCAL_TIME_ZONE = Inl (NotImplemented_sql SQL_TIMESTAMP_WITH_LOCAL_TIME_ZONE)"
| "py_map_from_sql_type SQL_TINYINT = Inr (new_data_type_map DT_Int8 Py_Int SQL_TINYINT)"
| "py_map_from_sql_type SQL_UNKNOWN = Inl (NotImplemented_sql SQL_UNKNOWN)"
| "py_map_from_sql_type SQL_VARBINARY = Inr (new_data_type_map DT_LargeBinary Py_Bytes SQL_VARBINARY)"
| "py_map_from_sql_type SQL_VARCHAR = Inr (new_data_type_map DT_Utf8 Py_Str SQL_VARCHAR)"

section \<open>Names and string forms\<close>

fun friendly_name :: "data_type \<Rightarrow> type_error + string" where
  "friendly_name DT_Null = Inr ''Null''"
| "friendly_name DT_Boolean = Inr ''Boolean''"
| "friendly_name DT_Int8 = Inr ''Int8''"
| "friendly_name DT_Int16 = Inr ''Int16''"
| "friendly_name DT_Int32 = Inr ''Int32''"
| "friendly_name DT_Int64 = Inr ''Int64''"
| "friendly_name DT_UInt8 = Inr ''UInt8''"
| "friendly_name DT_UInt16 = Inr ''UInt16''"
| "friendly_name DT_UInt32 = Inr ''UInt32''"
| "friendly_name DT_UInt64 = Inr ''UInt64''"
| "friendly_name DT_Float16 = Inr ''Float16''"
| "friendly_name DT_Float32 = Inr ''Float32''"
| "friendly_name DT_Float64 = Inr ''Float64''"
| "friendly_name (DT_Timestamp u tz) = Inr ''Timestamp''"
| "friendly_name DT_Date32 = Inr ''Date32''"
| "friendly_name DT_Date64 = Inr ''Date64''"
| "friendly_name (DT_Time32 u) = Inr ''Time32''"
| "friendly_name (DT_Time64 u) = Inr ''Time64''"
| "friendly_name (DT_Duration u) = Inr ''Duration''"
| "friendly_name (DT_Interval u) = Inr ''Interval''"
| "friendly_name DT_Binary = Inr ''Binary''"
| "friendly_name (DT_FixedSizeBinary n) = Inr ''FixedSizeBinary''"
| "friendly_name DT_LargeBinary = Inr ''LargeBinary''"
| "friendly_name DT_Utf8 = Inr ''Utf8''"
| "friendly_name DT_LargeUtf8 = Inr ''LargeUtf8''"
| "friendly_name (DT_List f) = Inr ''List''"
| "friendly_name (DT_FixedSizeList f n) = Inr ''FixedSizeList''"
| "friendly_name (DT_LargeList f) = Inr ''LargeList''"
| "friendly_name (DT_Struct fs) = Inr ''Struct''"
| "friendly_name (DT_Union fs m) = Inr ''Union''"
| "friendly_name (DT_Dictionary k v) = Inr ''Dictionary''"
| "friendly_name (DT_Decimal32 p s) = Inr ''Decimal32''"
| "friendly_name (DT_Decimal64 p s) = Inr ''Decimal64''"
| "friendly_name (DT_Decimal128 p s) = Inr ''Decimal128''"
| "friendly_name (DT_Decimal256 p s) = Inr ''Decimal256''"
| "friendly_name (DT_Map f s) = Inr ''Map''"
| "friendly_name (DT_RunEndEncoded r v) = Inr ''RunEndEncoded''"
| "friendly_name other = Inl (NotImplemented_text ''Unknown DataType'')"

definition friendly_arrow_type_name :: "data_type_map \<Rightarrow> type_error + string" where
  "friendly_arrow_type_name self = friendly_name (arrow_type self)"

text \<open>
  Both parsers compare the lower-cased input with ASCII names, so byte-wise lower-casing of the
  ASCII letters decides the comparison as \<open>to_lowercase\<close> does.
\<close>

definition py_map_from_parquet_type_str :: "string \<Rightarrow> type_error + data_type_map" where
  "py_map_from_parquet_type_str parquet_str_type =
     (let t = to_ascii_lowercase parquet_str_type;
          arrow_dtype =
            (if t = ''boolean'' then Inr DT_Boolean
             else if t = ''int32'' then Inr DT_Int32
             else if t = ''int64'' then Inr DT_Int64
             else if t = ''int96'' then Inr (DT_Timestamp Nanosecond None)
             else if t = ''float'' then Inr DT_Float32
             else if t = ''double'' then Inr DT_Float64
             else if t = ''byte_array'' then Inr DT_Utf8
             else Inl (ValueError_text parquet_str_type))
      in and_then arrow_dtype map_from_arrow_type)"

definition strip_metadata :: "string \<Rightarrow> string" where
  "strip_metadata s = (case split_once (CHR ''['') s of Some (before, _) \<Rightarrow> before | None \<Rightarrow> s)"

definition arrow_type_of_name :: "string \<Rightarrow> data_type option" where
  "arrow_type_of_name = map_of
     [(''bool'', DT_Boolean), (''boolean'', DT_Boolean), (''uint8'', DT_UInt8),
      (''uint16'', DT_UInt16), (''uint32'', DT_UInt32), (''uint64'', DT_UInt64),
      (''int8'', DT_Int8), (''int16'', DT_Int16), (''int32'', DT_Int32), (''int64'', DT_Int64),
      (''float'', DT_Float32), (''double'', DT_Float64), (''float16'', DT_Float16),
      (''float32'', DT_Float32), (''float64'', DT_Float64), (''datetime64'', DT_Date64),
      (''object'', DT_Utf8)]"

definition py_map_from_arrow_type_str :: "string \<Rightarrow> type_error + data_type" where
  "py_map_from_arrow_type_str arrow_str_type =
     (let s = strip_metadata arrow_str_type
      in case arrow_type_of_name (to_ascii_lowercase s) of
           Some data_type \<Rightarrow> Inr data_type
         | None \<Rightarrow> Inl (ValueError_text s))"

definition data_type_map_arrow_str :: "string \<Rightarrow> type_error + data_type_map" where
  "data_type_map_arrow_str arrow_type_str =
     and_then (py_map_from_arrow_type_str arrow_type_str) map_from_arrow_type"

fun to_arrow_str :: "data_type \<Rightarrow> type_error + string" where
  "to_arrow_str DT_Boolean = Inr ''boolean''"
| "to_arrow_str DT_UInt8 = Inr ''uint8''"
| "to_arrow_str DT_UInt16 = Inr ''uint16''"
| "to_arrow_str DT_UInt32 = Inr ''uint32''"
| "to_arrow_str DT_UInt64 = Inr ''uint64''"
| "to_arrow_str DT_Int8 = Inr ''int8''"
| "to_arrow_str DT_Int16 = Inr ''int16''"
| "to_arrow_str DT_Int32 = Inr ''int32''"
| "to_arrow_str DT_Int64 = Inr ''int64''"
| "to_arrow_str DT_Float16 = Inr ''float16''"
| "to_arrow_str DT_Float32 = Inr ''float32''"
| "to_arrow_str DT_Float64 = Inr ''float64''"
| "to_arrow_str DT_Date64 = Inr ''datetime64''"
| "to_arrow_str DT_Utf8 = Inr ''object''"
| "to_arrow_str other = Inl (ValueError_type other)"

section \<open>Properties of the tables\<close>

lemma new_data_type_map_sel [simp]:
  "arrow_type (new_data_type_map a p s) = a"
  "python_type_of (new_data_type_map a p s) = p"
  "sql_type_of (new_data_type_map a p s) = s"
  by (simp_all add: new_data_type_map_def)

lemma new_data_type_map_eq [simp]:
  "new_data_type_map a p s = new_data_type_map a' p' s' \<longleftrightarrow> a = a' \<and> p = p' \<and> s = s'"
  by (simp add: new_data_type_map_def)

lemma map_from_arrow_type_arrow: "map_from_arrow_type dt = Inr m \<Longrightarrow> arrow_type m = dt"
  by (cases dt) auto

lemma map_from_arrow_type_error: "map_from_arrow_type dt = Inl e \<Longrightarrow> e = NotImplemented_type dt"
  by (cases dt) auto

lemma ascii_lower_idem [simp]: "ascii_lower (ascii_lower c) = ascii_lower c"
  by (auto simp: ascii_lower_def)

lemma to_ascii_lowercase_idem [simp]:
  "to_ascii_lowercase (to_ascii_lowercase s) = to_ascii_lowercase s"
  by (simp add: to_ascii_lowercase_def comp_def)

lemma strip_metadata_no_bracket: "CHR ''['' \<notin> set s \<Longrightarrow> strip_metadata s = s"
  using split_once_None_iff [of "CHR ''[''" s] by (simp add: strip_metadata_def)

lemma strip_metadata_bracket: "CHR ''['' \<notin> set a \<Longrightarrow> strip_metadata (a @ CHR ''['' # b) = a"
  by (simp add: strip_metadata_def)

lemma to_arrow_str_no_bracket: "to_arrow_str dt = Inr s \<Longrightarrow> CHR ''['' \<notin> set s"
  by (cases dt) auto

lemma to_arrow_str_lower: "to_arrow_str dt = Inr s \<Longrightarrow> to_ascii_lowercase s = s"
  by (cases dt) (simp_all, (hypsubst, code_simp)+)

lemma to_arrow_str_named: "to_arrow_str dt = Inr s \<Longrightarrow> arrow_type_of_name s = Some dt"
  by (cases dt) (simp_all, (hypsubst, simp add: arrow_type_of_name_def)+)

lemma arrow_type_of_name_printable:
  "arrow_type_of_name s = Some dt \<Longrightarrow> \<exists>t. to_arrow_str dt = Inr t"
  by (auto simp: arrow_type_of_name_def split: if_splits)

lemma py_map_from_arrow_type_str_printed:
  "to_arrow_str dt = Inr s \<Longrightarrow> py_map_from_arrow_type_str s = Inr dt"
  by (simp add: py_map_from_arrow_type_str_def strip_metadata_no_bracket to_arrow_str_no_bracket
      to_arrow_str_lower to_arrow_str_named)

lemma py_map_from_arrow_type_str_printable:
  "py_map_from_arrow_type_str s = Inr dt \<Longrightarrow> \<exists>t. to_arrow_str dt = Inr t"
  by (auto simp: py_map_from_arrow_type_str_def Let_def split: option.splits
      dest: arrow_type_of_name_printable)

lemma map_from_scalar_value_arrow:
  "map_from_scalar_value sv = Inr m \<Longrightarrow> map_from_scalar_to_arrow sv = Inr (arrow_type m)"
  by (auto simp: map_from_scalar_value_def result_simps dest: map_from_arrow_type_arrow)

text \<open>
  printing an Arrow type with \<open>to_arrow_str\<close> and parsing the text back gives the type again;
  every type the parser can return has a printed form that parses back to it; and the parser
  ignores the bracketed metadata that pandas adds (\<open>datetime64[ns, Europe/Berlin]\<close>).
\<close>

theorem arrow_str_roundtrip:
  "(to_arrow_str dt = Inr s \<longrightarrow> py_map_from_arrow_type_str s = Inr dt)
   \<and> (py_map_from_arrow_type_str u = Inr dt \<longrightarrow>
        (\<exists>t. to_arrow_str dt = Inr t \<and> py_map_from_arrow_type_str t = Inr dt))
   \<and> (CHR ''['' \<notin> set u \<longrightarrow>
        py_map_from_arrow_type_str (u @ CHR ''['' # v) = py_map_from_arrow_type_str u)"
proof (intro conjI impI)
  assume "py_map_from_arrow_type_str u = Inr dt"
  then show "\<exists>t. to_arrow_str dt = Inr t \<and> py_map_from_arrow_type_str t = Inr dt"
    by (blast dest: py_map_from_arrow_type_str_printable intro: py_map_from_arrow_type_str_printed)
next
  assume "CHR ''['' \<notin> set u"
  then show "py_map_from_arrow_type_str (u @ CHR ''['' # v) = py_map_from_arrow_type_str u"
    by (simp add: py_map_from_arrow_type_str_def strip_metadata_bracket strip_metadata_no_bracket
        Let_def split: option.splits)
qed (rule py_map_from_arrow_type_str_printed)

theorem arrow_str_roundtrip_witness:
  "to_arrow_str DT_Int64 = Inr ''int64'' \<and> py_map_from_arrow_type_str ''int64'' = Inr DT_Int64
   \<and> CHR ''['' \<notin> set ''datetime64''
   \<and> py_map_from_arrow_type_str (''datetime64'' @ CHR ''['' # ''ns]'')
       = py_map_from_arrow_type_str ''datetime64''"
  using arrow_str_roundtrip [of DT_Int64 "''int64''" "''datetime64''" "''ns]''"] by simp

text \<open>
  C40: a supported SQL type keeps its own name in the table built from it, but going on through
  the Arrow type of that table does not always come back: the SQL types for which SQL, Arrow
  and back is the identity are exactly nine, and \<open>INTEGER\<close>, \<open>FLOAT\<close>, \<open>DOUBLE\<close>, \<open>CHAR\<close> and \<open>VARBINARY\<close> are not
  among them (\<open>INTEGER\<close> is mapped to an 8-bit Arrow integer).
\<close>

theorem sql_type_roundtrip:
  assumes "py_map_from_sql_type s = Inr m"
  shows "sql_type_of m = s \<and> (map_from_arrow_type (arrow_type m) = Inr m \<longleftrightarrow>
      s \<in> {SQL_BIGINT, SQL_BINARY, SQL_BOOLEAN, SQL_DATE, SQL_DECIMAL, SQL_NULL, SQL_SMALLINT,
           SQL_TINYINT, SQL_VARCHAR})"
  using assms by (cases s) auto

theorem sql_type_roundtrip_witness:
  "py_map_from_sql_type SQL_INTEGER = Inr (new_data_type_map DT_Int8 Py_Int SQL_INTEGER)
   \<and> map_from_arrow_type DT_Int8 \<noteq> Inr (new_data_type_map DT_Int8 Py_Int SQL_INTEGER)"
  using sql_type_roundtrip [of SQL_INTEGER "new_data_type_map DT_Int8 Py_Int SQL_INTEGER"]
  by simp

text \<open>
  The table computed for an Arrow type or for a scalar carries that very type, so the Python
  and SQL columns always describe the value's own Arrow type; and the only error the Arrow table
  raises names the type it was asked about.
\<close>

theorem type_map_keeps_arrow_type:
  assumes "map_from_scalar_value sv = r"
  shows "\<exists>dt. (map_from_scalar_to_arrow sv = Inr dt \<and> r = map_from_arrow_type dt
      \<and> (case r of Inr m \<Rightarrow> arrow_type m = dt | Inl e \<Rightarrow> e = NotImplemented_type dt))
    \<or> (\<exists>e. map_from_scalar_to_arrow sv = Inl e \<and> r = Inl e)"
proof (cases "map_from_scalar_to_arrow sv")
  case (Inl e)
  with assms show ?thesis by (simp add: map_from_scalar_value_def)
next
  case (Inr dt)
  with assms show ?thesis
    by (auto simp: map_from_scalar_value_def split: sum.splits
        dest: map_from_arrow_type_arrow map_from_arrow_type_error)
qed

theorem type_map_keeps_arrow_type_witness:
  "map_from_scalar_value (SV_DurationSecond None) = Inl (NotImplemented_type (DT_Duration Second))
   \<and> (\<exists>dt. map_from_scalar_to_arrow (SV_DurationSecond None) = Inr dt)"
  using type_map_keeps_arrow_type [of "SV_DurationSecond None", OF refl]
  by (simp add: map_from_scalar_value_def)

end
