(* ===== verification/Expr_Model.thy ===== *)
theory Expr_Model
  imports Data_Types
begin

text \<open>
  \<open>src/expr.rs\<close>: the wrapper \<open>PyExpr\<close> around a DataFusion expression and what it tells Python about
  it: the variant object, the row-expression kind, the operands and the operator of a call, the
  types.

  \<open>Expr\<close> and \<open>Operator\<close> are enums of the datafusion crate; the datatypes below have the variants the
  source names with the fields it reads. The logical plan inside a subquery is never looked into:
  it is the type parameter \<open>'q\<close>. The Debug and Display texts of these enums and the builder
  methods \<open>lt\<close>, \<open>+\<close>, \<open>and\<close>, \<open>field\<close>, ... of \<open>Expr\<close> are code of that crate; the texts are the functions of
  the record \<open>expr_text\<close>.
\<close>

section \<open>Operators and expressions\<close>

datatype operator =
    Op_Eq | Op_NotEq | Op_Lt | Op_LtEq | Op_Gt | Op_GtEq | Op_And | Op_Or
  | Op_IsDistinctFrom | Op_IsNotDistinctFrom
  | Op_RegexMatch | Op_RegexIMatch | Op_RegexNotMatch | Op_RegexNotIMatch
  | Op_LikeMatch | Op_ILikeMatch | Op_NotLikeMatch | Op_NotILikeMatch
  | Op_Plus | Op_Minus | Op_Multiply | Op_Modulo | Op_Divide | Op_StringConcat
  | Op_BitwiseShiftLeft | Op_BitwiseShiftRight | Op_BitwiseXor | Op_BitwiseAnd | Op_BitwiseOr
  | Op_AtArrow | Op_ArrowAt | Op_Arrow | Op_LongArrow | Op_HashArrow | Op_HashLongArrow
  | Op_AtAt | Op_IntegerDivide | Op_HashMinus | Op_AtQuestion | Op_Question
  | Op_QuestionAnd | Op_QuestionPipe | Op_Colon

record like_opts =
  like_negated :: bool
  like_escape_char :: "char option"
  like_case_insensitive :: bool

datatype frame_units = Rows | Range | Groups

datatype frame_bound = Preceding scalar_value | Following scalar_value | Current_Row

record window_frame =
  wf_units :: frame_units
  wf_start :: frame_bound
  wf_end :: frame_bound

text \<open>A window call has its arguments, partition columns, ordering (expression, ascending, NULLs first) and frame.\<close>

datatype 'q expr =
    E_Alias "'q expr" "string option" string
  | E_Column "string option" string
  | E_ScalarVariable field "string list"
  | E_Literal scalar_value "(string \<times> string) list option"
  | E_BinaryExpr "'q expr" operator "'q expr"
  | E_Like like_opts "'q expr" "'q expr"
  | E_SimilarTo like_opts "'q expr" "'q expr"
  | E_Not "'q expr" | E_IsNotNull "'q expr" | E_IsNull "'q expr"
  | E_IsTrue "'q expr" | E_IsFalse "'q expr" | E_IsUnknown "'q expr"
  | E_IsNotTrue "'q expr" | E_IsNotFalse "'q expr" | E_IsNotUnknown "'q expr"
  | E_Negative "'q expr"
  | E_Between "'q expr" bool "'q expr" "'q expr"
  | E_Case "'q expr option" "('q expr \<times> 'q expr) list" "'q expr option"
  | E_Cast "'q expr" data_type | E_TryCast "'q expr" data_type
  | E_ScalarFunction string "'q expr list"
  | E_AggregateFunction string "'q expr list" bool
  | E_WindowFunction string "'q expr list" "'q expr list" "('q expr \<times> bool \<times> bool) list" window_frame
  | E_InList "'q expr" "'q expr list" bool
  | E_Exists 'q bool | E_InSubquery "'q expr" 'q bool | E_ScalarSubquery 'q
  | E_SetComparison "'q expr" 'q
  | E_GroupingSet "'q expr list"
  | E_Placeholder string
  | E_OuterReferenceColumn field string
  | E_Unnest "'q expr"
  | E_HigherOrderFunction string "'q expr list"
  | E_Lambda "string list" "'q expr"
  | E_LambdaVariable string "field option"
  | E_Wildcard "string option"

text \<open>A sort expression: an expression with its two flags.\<close>

record 'q sort_expr =
  se_expr :: "'q expr"
  se_asc :: bool
  se_nulls_first :: bool

record 'q expr_text =
  expr_debug :: "'q expr \<Rightarrow> string"
  expr_display :: "'q expr \<Rightarrow> string"
  op_debug :: "operator \<Rightarrow> string"
  op_display :: "operator \<Rightarrow> string"
  scalar_debug :: "scalar_value \<Rightarrow> string"
  expr_err_text :: "datafusion_error \<Rightarrow> string"
  cast_debug :: "'q expr \<Rightarrow> data_type \<Rightarrow> string"
  opt_char_debug :: "char option \<Rightarrow> string"
  type_display :: "data_type \<Rightarrow> string"
  strings_debug :: "string list \<Rightarrow> string"

section \<open>The variant object\<close>

text \<open>The Python classes \<open>to_variant\<close> wraps an expression into, with what their constructors get.\<close>

datatype 'q variant =
    PyAlias "'q expr" string
  | PyColumn "string option" string
  | PyScalarVariable data_type "string list"
  | PyLike like_opts "'q expr" "'q expr"
  | PyLiteral scalar_value "(string \<times> string) list option"
  | PyBinaryExpr "'q expr" operator "'q expr"
  | PyNot "'q expr" | PyIsNotNull "'q expr" | PyIsNull "'q expr"
  | PyIsTrue "'q expr" | PyIsFalse "'q expr" | PyIsUnknown "'q expr"
  | PyIsNotTrue "'q expr" | PyIsNotFalse "'q expr" | PyIsNotUnknown "'q expr"
  | PyNegative "'q expr"
  | PyCast "'q expr" data_type
  | PyCase "'q expr option" "('q expr \<times> 'q expr) list" "'q expr option"
  | PyWildcard "string option"
  | PyAggregateFunction string "'q expr list" bool

definition to_variant :: "'q expr_text \<Rightarrow> 'q expr \<Rightarrow> py_err + 'q variant" where
  "to_variant tx e = (case e of
     E_Alias x _ name \<Rightarrow> Inr (PyAlias x name)
   | E_Column rel name \<Rightarrow> Inr (PyColumn rel name)
   | E_ScalarVariable f variables \<Rightarrow> Inr (PyScalarVariable (field_data_type f) variables)
   | E_Like v x p \<Rightarrow> Inr (PyLike v x p)
   | E_Literal v md \<Rightarrow> Inr (PyLiteral v md)
   | E_BinaryExpr l op r \<Rightarrow> Inr (PyBinaryExpr l op r)
   | E_Not x \<Rightarrow> Inr (PyNot x)
   | E_IsNotNull x \<Rightarrow> Inr (PyIsNotNull x)
   | E_IsNull x \<Rightarrow> Inr (PyIsNull x)
   | E_IsTrue x \<Rightarrow> Inr (PyIsTrue x)
   | E_IsFalse x \<Rightarrow> Inr (PyIsFalse x)
   | E_IsUnknown x \<Rightarrow> Inr (PyIsUnknown x)
   | E_IsNotTrue x \<Rightarrow> Inr (PyIsNotTrue x)
   | E_IsNotFalse x \<Rightarrow> Inr (PyIsNotFalse x)
   | E_IsNotUnknown x \<Rightarrow> Inr (PyIsNotUnknown x)
   | E_Negative x \<Rightarrow> Inr (PyNegative x)
   | E_Cast x t \<Rightarrow> Inr (PyCast x t)
   | E_Case x wt el \<Rightarrow> Inr (PyCase x wt el)
   | E_Wildcard qualifier \<Rightarrow> Inr (PyWildcard qualifier)
   | E_AggregateFunction f args d \<Rightarrow> Inr (PyAggregateFunction f args d)
   | other \<Rightarrow> Inl (py_runtime_err (''Cannot convert this Expr to a Python object: '' @ expr_debug tx other)))"

section \<open>Row expressions\<close>

definition rex_type_of :: "'q expr \<Rightarrow> rex_type" where
  "rex_type_of e = (case e of
     E_Alias _ _ _ \<Rightarrow> Rex_Alias
   | E_Column _ _ \<Rightarrow> Rex_Reference
   | E_LambdaVariable _ _ \<Rightarrow> Rex_Reference
   | E_ScalarVariable _ _ \<Rightarrow> Rex_Literal
   | E_Literal _ _ \<Rightarrow> Rex_Literal
   | E_ScalarSubquery _ \<Rightarrow> Rex_ScalarSubquery
   | _ \<Rightarrow> Rex_Call)"

definition case_operands ::
  "'q expr option \<Rightarrow> ('q expr \<times> 'q expr) list \<Rightarrow> 'q expr option \<Rightarrow> 'q expr list" where
  "case_operands x when_then el =
     (case x of
        Some e \<Rightarrow> concat (map (\<lambda>(w, t). [E_BinaryExpr e Op_Eq w, t]) when_then)
      | None \<Rightarrow> concat (map (\<lambda>(w, t). [w, t]) when_then))
     @ (case el of Some e \<Rightarrow> [e] | None \<Rightarrow> [])"

definition unimplemented :: "'q expr_text \<Rightarrow> 'q expr \<Rightarrow> py_err" where
  "unimplemented tx e = py_runtime_err (''Unimplemented Expr type: '' @ expr_display tx e)"

definition rex_call_operands :: "'q expr_text \<Rightarrow> 'q expr \<Rightarrow> py_err + 'q expr list" where
  "rex_call_operands tx e = (case e of
     E_Column _ _ \<Rightarrow> Inr [e]
   | E_ScalarVariable _ _ \<Rightarrow> Inr [e]
   | E_Literal _ _ \<Rightarrow> Inr [e]
   | E_LambdaVariable _ _ \<Rightarrow> Inr [e]
   | E_Lambda _ body \<Rightarrow> Inr [body]
   | E_Alias x _ _ \<Rightarrow> Inr [x]
   | E_Not x \<Rightarrow> Inr [x]
   | E_IsNull x \<Rightarrow> Inr [x]
   | E_IsNotNull x \<Rightarrow> Inr [x]
   | E_IsTrue x \<Rightarrow> Inr [x]
   | E_IsFalse x \<Rightarrow> Inr [x]
   | E_IsUnknown x \<Rightarrow> Inr [x]
   | E_IsNotTrue x \<Rightarrow> Inr [x]
   | E_IsNotFalse x \<Rightarrow> Inr [x]
   | E_IsNotUnknown x \<Rightarrow> Inr [x]
   | E_Negative x \<Rightarrow> Inr [x]
   | E_Cast x _ \<Rightarrow> Inr [x]
   | E_TryCast x _ \<Rightarrow> Inr [x]
   | E_InSubquery x _ _ \<Rightarrow> Inr [x]
   | E_AggregateFunction _ args _ \<Rightarrow> Inr args
   | E_ScalarFunction _ args \<Rightarrow> Inr args
   | E_HigherOrderFunction _ args \<Rightarrow> Inr args
   | E_WindowFunction _ args _ _ _ \<Rightarrow> Inr args
   | E_Case x wt el \<Rightarrow> Inr (case_operands x wt el)
   | E_InList x xs _ \<Rightarrow> Inr (x # xs)
   | E_BinaryExpr l _ r \<Rightarrow> Inr [l, r]
   | E_Like _ x p \<Rightarrow> Inr [x, p]
   | E_SimilarTo _ x p \<Rightarrow> Inr [x, p]
   | E_Between x _ low high \<Rightarrow> Inr [x, low, high]
   | E_GroupingSet _ \<Rightarrow> Inl (unimplemented tx e)
   | E_Unnest _ \<Rightarrow> Inl (unimplemented tx e)
   | E_OuterReferenceColumn _ _ \<Rightarrow> Inl (unimplemented tx e)
   | E_Wildcard _ \<Rightarrow> Inl (unimplemented tx e)
   | E_ScalarSubquery _ \<Rightarrow> Inl (unimplemented tx e)
   | E_Placeholder _ \<Rightarrow> Inl (unimplemented tx e)
   | E_Exists _ _ \<Rightarrow> Inl (unimplemented tx e)
   | E_SetComparison _ _ \<Rightarrow> Inl (unimplemented tx e))"

definition like_operator :: "like_opts \<Rightarrow> string" where
  "like_operator v =
     (let name = (if like_case_insensitive v then ''ilike'' else ''like'') in
      if like_negated v then ''not '' @ name else name)"

definition rex_call_operator :: "'q expr_text \<Rightarrow> 'q expr \<Rightarrow> py_err + string" where
  "rex_call_operator tx e = (case e of
     E_BinaryExpr _ op _ \<Rightarrow> Inr (op_display tx op)
   | E_ScalarFunction name _ \<Rightarrow> Inr name
   | E_HigherOrderFunction name _ \<Rightarrow> Inr name
   | E_Lambda _ _ \<Rightarrow> Inr ''lambda''
   | E_Cast _ _ \<Rightarrow> Inr ''cast''
   | E_Between _ _ _ _ \<Rightarrow> Inr ''between''
   | E_Case _ _ _ \<Rightarrow> Inr ''case''
   | E_IsNull _ \<Rightarrow> Inr ''is null''
   | E_IsNotNull _ \<Rightarrow> Inr ''is not null''
   | E_IsTrue _ \<Rightarrow> Inr ''is true''
   | E_IsFalse _ \<Rightarrow> Inr ''is false''
   | E_IsUnknown _ \<Rightarrow> Inr ''is unknown''
   | E_IsNotTrue _ \<Rightarrow> Inr ''is not true''
   | E_IsNotFalse _ \<Rightarrow> Inr ''is not false''
   | E_IsNotUnknown _ \<Rightarrow> Inr ''is not unknown''
   | E_InList _ _ _ \<Rightarrow> Inr ''in list''
   | E_Negative _ \<Rightarrow> Inr ''negative''
   | E_Not _ \<Rightarrow> Inr ''not''
   | E_Like v _ _ \<Rightarrow> Inr (like_operator v)
   | E_SimilarTo v _ _ \<Rightarrow> Inr (if like_negated v then ''not similar to'' else ''similar to'')
   | _ \<Rightarrow> Inl (py_type_err (''Catch all triggered in get_operator_name: '' @ expr_debug tx e)))"

section \<open>Types, values and names\<close>

text \<open>The errors of the type tables, beside those of \<open>types\<close> itself.\<close>

datatype types_error = Types_Table type_error | Types_Err py_err

definition op_types :: "'q expr_text \<Rightarrow> operator \<Rightarrow> types_error + data_type_map" where
  "op_types tx op =
     (if op \<in> {Op_Eq, Op_NotEq, Op_Lt, Op_LtEq, Op_Gt, Op_GtEq, Op_And, Op_Or, Op_IsDistinctFrom,
               Op_IsNotDistinctFrom, Op_RegexMatch, Op_RegexIMatch, Op_RegexNotMatch,
               Op_RegexNotIMatch, Op_LikeMatch, Op_ILikeMatch, Op_NotLikeMatch, Op_NotILikeMatch}
      then map_err Types_Table (map_from_arrow_type DT_Boolean)
      else if op \<in> {Op_Plus, Op_Minus, Op_Multiply, Op_Modulo}
      then map_err Types_Table (map_from_arrow_type DT_Int64)
      else if op = Op_Divide then map_err Types_Table (map_from_arrow_type DT_Float64)
      else if op = Op_StringConcat then map_err Types_Table (map_from_arrow_type DT_Utf8)
      else if op \<in> {Op_BitwiseShiftLeft, Op_BitwiseShiftRight, Op_BitwiseXor, Op_BitwiseAnd,
                    Op_BitwiseOr}
      then map_err Types_Table (map_from_arrow_type DT_Binary)
      else Inl (Types_Err (py_type_err (''Unsupported expr: $'' @ op_display tx op))))"

definition types_of :: "'q expr_text \<Rightarrow> 'q expr \<Rightarrow> types_error + data_type_map" where
  "types_of tx e = (case e of
     E_BinaryExpr _ op _ \<Rightarrow> op_types tx op
   | E_Cast _ t \<Rightarrow> map_err Types_Table (map_from_arrow_type t)
   | E_Literal v _ \<Rightarrow> map_err Types_Table (map_from_scalar_value v)
   | _ \<Rightarrow> Inl (Types_Err (py_type_err (''Non Expr::Literal encountered in types: '' @ expr_debug tx e))))"

text \<open>\<open>scalar_to_pyarrow\<close> is a call into pyarrow: the parameter \<open>to_py\<close>.\<close>

definition python_value ::
  "'q expr_text \<Rightarrow> (scalar_value \<Rightarrow> py_err + 'o) \<Rightarrow> 'q expr \<Rightarrow> py_err + 'o" where
  "python_value tx to_py e = (case e of
     E_Literal v _ \<Rightarrow> to_py v
   | _ \<Rightarrow> Inl (py_type_err (''Non Expr::Literal encountered in types: '' @ expr_debug tx e)))"

text \<open>
  \<open>expr_to_field\<close> against the schema of a plan. \<open>exprlist_to_fields\<close> is DataFusion's: the parameter
  \<open>to_fields\<close>. An index out of range is a panic, the value \<^term>\<open>None\<close>.
\<close>

definition expr_to_field ::
  "('q expr \<Rightarrow> inner_error + field list) \<Rightarrow> field list \<Rightarrow> 'q expr \<Rightarrow> (datafusion_error + field) option" where
  "expr_to_field to_fields schema e = (case e of
     E_Wildcard _ \<Rightarrow> (case schema of f # _ \<Rightarrow> Some (Inr f) | [] \<Rightarrow> None)
   | E_LambdaVariable name f \<Rightarrow>
       Some (ok_or (Common (''Lambda variable '' @ name @ '' has no field'')) f)
   | _ \<Rightarrow>
       (case to_fields e of
          Inl err \<Rightarrow> Some (Inl (from_inner_error err))
        | Inr (f # _) \<Rightarrow> Some (Inr f)
        | Inr [] \<Rightarrow> None))"

definition column_name ::
  "'q expr_text \<Rightarrow> ('q expr \<Rightarrow> inner_error + field list) \<Rightarrow> field list \<Rightarrow> 'q expr \<Rightarrow> (py_err + string) option" where
  "column_name tx to_fields schema e =
     map_option (\<lambda>r. map_err (\<lambda>err. py_runtime_err (expr_err_text tx err)) (map_ok field_name r))
       (expr_to_field to_fields schema e)"

section \<open>Walking an expression\<close>

lemma case_operands_size:
  assumes "x \<in> set (case_operands c wt el)"
  shows "size x < size (E_Case c wt el)"
proof -
  have pair: "size w + size t < size_list (size_prod size size) wt" if "(w, t) \<in> set wt" for w t
    using that by (induction wt) auto
  show ?thesis
    using assms pair by (fastforce simp: case_operands_def split: option.splits)
qed

lemma args_size: "x \<in> set xs \<Longrightarrow> size x < Suc (size_list size xs)"
  by (simp add: less_Suc_eq_le size_list_estimation')

fun is_leaf :: "'q expr \<Rightarrow> bool" where
  "is_leaf (E_Column _ _) = True"
| "is_leaf (E_ScalarVariable _ _) = True"
| "is_leaf (E_Literal _ _) = True"
| "is_leaf (E_LambdaVariable _ _) = True"
| "is_leaf _ = False"

lemma rex_call_operands_size:
  assumes "rex_call_operands tx e = Inr ops" "x \<in> set ops"
  shows "size x < size e \<or> is_leaf e \<and> x = e"
  using assms args_size case_operands_size
  by (cases e) (fastforce simp: rex_call_operands_def)+

lemma rex_call_operator_operands:
  assumes "rex_call_operator tx e = Inr name"
  shows "rex_type_of e = Rex_Call \<and> (\<exists>ops. rex_call_operands tx' e = Inr ops)"
  using assms by (cases e) (simp_all add: rex_call_operator_def rex_type_of_def rex_call_operands_def)

lemma rex_call_operands_refused:
  assumes "rex_call_operands tx e = Inl err"
  shows "pe_class err = PyRuntimeError \<and> rex_call_operator tx e
    = Inl (py_type_err (''Catch all triggered in get_operator_name: '' @ expr_debug tx e))"
  using assms
  by (cases e)
     (simp_all add: rex_call_operands_def rex_call_operator_def unimplemented_def py_runtime_err_def, auto)


definition plain_text :: "unit expr_text" where
  "plain_text = \<lparr>expr_debug = (\<lambda>_. ''e''), expr_display = (\<lambda>_. ''e''), op_debug = (\<lambda>_. ''op''),
     op_display = (\<lambda>_. ''op''), scalar_debug = (\<lambda>_. ''v''), expr_err_text = (\<lambda>_. ''err''),
     cast_debug = (\<lambda>_ _. ''c''), opt_char_debug = (\<lambda>_. ''o''), type_display = (\<lambda>_. ''t''), strings_debug = (\<lambda>_. ''l'')\<rparr>"


end
