(* ===== verification/Filter_Expr.thy ===== *)
theory Filter_Expr
  imports Expr_Model
begin

text \<open>
  The translators of filter expressions that are pushed into Python readers:
  \<open>src/pyarrow_filter_expression.rs\<close> builds \<open>pyarrow.compute\<close> expressions and
  \<open>src/ibis_filter_expression.rs\<close> builds ibis expressions.

  The Python libraries are parameters: the record \<open>filter_api\<close> holds the calls the translators make,
  each of which may raise. Two locales state what the documentation of the libraries says their
  objects mean on a row; the reference meaning of the translated fragment is SQL's three-valued
  logic, \<open>sql_eval\<close>. Both locales are interpreted on objects that record the calls.
\<close>

section \<open>Calls into Python\<close>

text \<open>
  What a literal becomes in Python. A float keeps its bits and its width; Python integers are
  unbounded.
\<close>

datatype py_value =
    PV_Bool bool | PV_Int int | PV_Float32 u32 | PV_Float64 u64 | PV_Str string

record 'o filter_api =
  fa_import :: "py_err + unit"
  fa_column :: "string \<Rightarrow> py_err + 'o"
  fa_literal :: "py_value \<Rightarrow> py_err + 'o"
  fa_operator :: "string \<Rightarrow> 'o \<Rightarrow> 'o \<Rightarrow> py_err + 'o"
  fa_invert :: "'o \<Rightarrow> py_err + 'o"
  fa_method :: "string \<Rightarrow> 'o \<Rightarrow> py_err + 'o"
  fa_member :: "string \<Rightarrow> 'o \<Rightarrow> py_value list \<Rightarrow> py_err + 'o"
  fa_between :: "'o \<Rightarrow> 'o \<Rightarrow> 'o \<Rightarrow> py_err + 'o"

text \<open>A Rust call can also panic, which no caller below catches.\<close>

datatype fault = Fault datafusion_error | Panic

definition lift_py :: "py_err + 'o \<Rightarrow> fault + 'o" where
  "lift_py r = map_err (\<lambda>e. Fault (from_py_err e)) r"

definition unwrap_py :: "py_err + 'o \<Rightarrow> fault + 'o" where
  "unwrap_py r = map_err (\<lambda>_. Panic) r"

section \<open>Operators and literals\<close>

fun py_op_name :: "operator \<Rightarrow> string option" where
  "py_op_name Op_Eq = Some ''eq''"
| "py_op_name Op_NotEq = Some ''ne''"
| "py_op_name Op_Lt = Some ''lt''"
| "py_op_name Op_LtEq = Some ''le''"
| "py_op_name Op_Gt = Some ''gt''"
| "py_op_name Op_GtEq = Some ''ge''"
| "py_op_name Op_And = Some ''and_''"
| "py_op_name Op_Or = Some ''or_''"
| "py_op_name _ = None"

definition operator_to_py :: "'q expr_text \<Rightarrow> operator \<Rightarrow> fault + string" where
  "operator_to_py tx op =
     ok_or (Fault (Common (''Unsupported operator '' @ op_debug tx op))) (py_op_name op)"

fun scalar_to_py :: "scalar_value \<Rightarrow> py_value option" where
  "scalar_to_py (SV_Boolean (Some b)) = Some (PV_Bool b)"
| "scalar_to_py (SV_Int8 (Some i)) = Some (PV_Int (sint i))"
| "scalar_to_py (SV_Int16 (Some i)) = Some (PV_Int (sint i))"
| "scalar_to_py (SV_Int32 (Some i)) = Some (PV_Int (sint i))"
| "scalar_to_py (SV_Int64 (Some i)) = Some (PV_Int (sint i))"
| "scalar_to_py (SV_UInt8 (Some i)) = Some (PV_Int (uint i))"
| "scalar_to_py (SV_UInt16 (Some i)) = Some (PV_Int (uint i))"
| "scalar_to_py (SV_UInt32 (Some i)) = Some (PV_Int (uint i))"
| "scalar_to_py (SV_UInt64 (Some i)) = Some (PV_Int (uint i))"
| "scalar_to_py (SV_Float32 (Some f)) = Some (PV_Float32 f)"
| "scalar_to_py (SV_Float64 (Some f)) = Some (PV_Float64 f)"
| "scalar_to_py (SV_Utf8 (Some s)) = Some (PV_Str s)"
| "scalar_to_py _ = None"

definition cannot_handle :: "'q expr_text \<Rightarrow> string \<Rightarrow> scalar_value \<Rightarrow> fault" where
  "cannot_handle tx who v = Fault (Common (who @ '' can't handle ScalarValue: '' @ scalar_debug tx v))"

definition extract_scalar :: "'q expr_text \<Rightarrow> 'q expr \<Rightarrow> fault + py_value" where
  "extract_scalar tx e = (case e of
     E_Literal v _ \<Rightarrow> ok_or (cannot_handle tx ''PyArrow'' v) (scalar_to_py v)
   | _ \<Rightarrow> Inl (Fault (Common (''Only a list of Literals are supported got '' @ expr_debug tx e))))"

definition extract_scalar_list :: "'q expr_text \<Rightarrow> 'q expr list \<Rightarrow> fault + py_value list" where
  "extract_scalar_list tx es = collect_ok (map (extract_scalar tx) es)"

definition unsupported_expr :: "'q expr_text \<Rightarrow> 'q expr \<Rightarrow> fault" where
  "unsupported_expr tx e = Fault (Common (''Unsupported Datafusion expression '' @ expr_debug tx e))"

section \<open>The translators\<close>

text \<open>
  Both import their modules at every level of the recursion; the import is the first thing that
  can raise.
\<close>

fun pyarrow_try_from :: "'q expr_text \<Rightarrow> 'o filter_api \<Rightarrow> 'q expr \<Rightarrow> fault + 'o" where
  "pyarrow_try_from tx api (E_Column rel name) =
     and_then (lift_py (fa_import api)) (\<lambda>_. lift_py (fa_column api name))"
| "pyarrow_try_from tx api (E_Literal v md) =
     and_then (lift_py (fa_import api)) (\<lambda>_.
     and_then (ok_or (cannot_handle tx ''PyArrow'' v) (scalar_to_py v)) (\<lambda>p.
     lift_py (fa_literal api p)))"
| "pyarrow_try_from tx api (E_BinaryExpr l op r) =
     and_then (lift_py (fa_import api)) (\<lambda>_.
     and_then (operator_to_py tx op) (\<lambda>n.
     and_then (pyarrow_try_from tx api l) (\<lambda>a.
     and_then (pyarrow_try_from tx api r) (\<lambda>b.
     lift_py (fa_operator api n a b)))))"
| "pyarrow_try_from tx api (E_Not x) =
     and_then (lift_py (fa_import api)) (\<lambda>_.
     and_then (pyarrow_try_from tx api x) (\<lambda>a. lift_py (fa_invert api a)))"
| "pyarrow_try_from tx api (E_IsNotNull x) =
     and_then (lift_py (fa_import api)) (\<lambda>_.
     and_then (pyarrow_try_from tx api x) (\<lambda>a. lift_py (fa_method api ''is_valid'' a)))"
| "pyarrow_try_from tx api (E_IsNull x) =
     and_then (lift_py (fa_import api)) (\<lambda>_.
     and_then (pyarrow_try_from tx api x) (\<lambda>a. lift_py (fa_method api ''is_null'' a)))"
| "pyarrow_try_from tx api (E_Between x negated low high) =
     and_then (lift_py (fa_import api)) (\<lambda>_.
     and_then (pyarrow_try_from tx api x) (\<lambda>a.
     and_then (pyarrow_try_from tx api low) (\<lambda>lo.
     and_then (pyarrow_try_from tx api high) (\<lambda>hi.
     and_then (lift_py (fa_operator api ''le'' lo a)) (\<lambda>c.
     and_then (lift_py (fa_operator api ''le'' a hi)) (\<lambda>d.
     and_then (lift_py (fa_operator api ''and_'' c d)) (\<lambda>ret.
     if negated then lift_py (fa_invert api ret) else Inr ret)))))))"
| "pyarrow_try_from tx api (E_InList x xs negated) =
     and_then (lift_py (fa_import api)) (\<lambda>_.
     and_then (extract_scalar_list tx xs) (\<lambda>vs.
     and_then (pyarrow_try_from tx api x) (\<lambda>a.
     and_then (lift_py (fa_member api ''isin'' a vs)) (\<lambda>ret.
     if negated then unwrap_py (fa_invert api ret) else Inr ret))))"
| "pyarrow_try_from tx api e =
     and_then (lift_py (fa_import api)) (\<lambda>_. Inl (unsupported_expr tx e))"

fun ibis_try_from :: "'q expr_text \<Rightarrow> 'o filter_api \<Rightarrow> 'q expr \<Rightarrow> fault + 'o" where
  "ibis_try_from tx api (E_Column rel name) =
     and_then (lift_py (fa_import api)) (\<lambda>_. lift_py (fa_column api name))"
| "ibis_try_from tx api (E_Literal v md) =
     and_then (lift_py (fa_import api)) (\<lambda>_.
     and_then (ok_or (cannot_handle tx ''Ibis'' v) (scalar_to_py v)) (\<lambda>p.
     lift_py (fa_literal api p)))"
| "ibis_try_from tx api (E_BinaryExpr l op r) =
     and_then (lift_py (fa_import api)) (\<lambda>_.
     and_then (operator_to_py tx op) (\<lambda>n.
     and_then (ibis_try_from tx api l) (\<lambda>a.
     and_then (ibis_try_from tx api r) (\<lambda>b.
     lift_py (fa_operator api n a b)))))"
| "ibis_try_from tx api (E_Not x) =
     and_then (lift_py (fa_import api)) (\<lambda>_.
     and_then (ibis_try_from tx api x) (\<lambda>a. lift_py (fa_invert api a)))"
| "ibis_try_from tx api (E_IsNotNull x) =
     and_then (lift_py (fa_import api)) (\<lambda>_.
     and_then (ibis_try_from tx api x) (\<lambda>a. lift_py (fa_method api ''notnull'' a)))"
| "ibis_try_from tx api (E_IsNull x) =
     and_then (lift_py (fa_import api)) (\<lambda>_.
     and_then (ibis_try_from tx api x) (\<lambda>a. lift_py (fa_method api ''isnull'' a)))"
| "ibis_try_from tx api (E_InList x xs negated) =
     and_then (lift_py (fa_import api)) (\<lambda>_.
     and_then (extract_scalar_list tx xs) (\<lambda>vs.
     if negated
     then and_then (ibis_try_from tx api x) (\<lambda>a. lift_py (fa_member api ''isin'' a vs))
     else and_then (ibis_try_from tx api x) (\<lambda>a. lift_py (fa_member api ''notin'' a vs))))"
| "ibis_try_from tx api (E_Between x negated low high) =
     and_then (lift_py (fa_import api)) (\<lambda>_.
     and_then (ibis_try_from tx api low) (\<lambda>lo.
     and_then (ibis_try_from tx api high) (\<lambda>hi.
     and_then (ibis_try_from tx api x) (\<lambda>a.
     and_then (lift_py (fa_between api a lo hi)) (\<lambda>ret.
     if negated then lift_py (fa_invert api ret) else Inr ret)))))"
| "ibis_try_from tx api e =
     and_then (lift_py (fa_import api)) (\<lambda>_. Inl (unsupported_expr tx e))"

section \<open>What is translated\<close>

definition is_scalar_literal :: "'q expr \<Rightarrow> bool" where
  "is_scalar_literal e = (case e of E_Literal v _ \<Rightarrow> scalar_to_py v \<noteq> None | _ \<Rightarrow> False)"

fun translatable :: "'q expr \<Rightarrow> bool" where
  "translatable (E_Column rel name) = True"
| "translatable (E_Literal v md) = (scalar_to_py v \<noteq> None)"
| "translatable (E_BinaryExpr l op r) = (py_op_name op \<noteq> None \<and> translatable l \<and> translatable r)"
| "translatable (E_Not x) = translatable x"
| "translatable (E_IsNotNull x) = translatable x"
| "translatable (E_IsNull x) = translatable x"
| "translatable (E_Between x negated low high) = (translatable x \<and> translatable low \<and> translatable high)"
| "translatable (E_InList x xs negated) = (translatable x \<and> list_all is_scalar_literal xs)"
| "translatable e = False"

text \<open>No call raises: the modules are there and every object supports what is asked of it.\<close>

definition api_total :: "'o filter_api \<Rightarrow> bool" where
  "api_total api \<longleftrightarrow> \<not> isl (fa_import api)
     \<and> (\<forall>n. \<not> isl (fa_column api n)) \<and> (\<forall>v. \<not> isl (fa_literal api v))
     \<and> (\<forall>n a b. \<not> isl (fa_operator api n a b)) \<and> (\<forall>a. \<not> isl (fa_invert api a))
     \<and> (\<forall>n a. \<not> isl (fa_method api n a)) \<and> (\<forall>n a vs. \<not> isl (fa_member api n a vs))
     \<and> (\<forall>a b c. \<not> isl (fa_between api a b c))"

lemma isl_and_then: "isl (and_then r f) \<longleftrightarrow> isl r \<or> isl (f (projr r))"
  by (cases r) auto

lemma isl_lift_py [simp]: "isl (lift_py r) = isl r" "isl (unwrap_py r) = isl r"
  by (simp_all add: lift_py_def unwrap_py_def)

lemma isl_ok_or [simp]: "isl (ok_or e x) \<longleftrightarrow> x = None"
  by (cases x) auto

lemma isl_extract_scalar: "isl (extract_scalar tx e) \<longleftrightarrow> \<not> is_scalar_literal e"
  by (cases e) (auto simp: extract_scalar_def is_scalar_literal_def)

lemma isl_extract_scalar_list [simp]:
  "isl (extract_scalar_list tx es) \<longleftrightarrow> \<not> list_all is_scalar_literal es"
  by (auto simp: extract_scalar_list_def collect_ok_isl list_all_iff isl_extract_scalar)

lemma isl_operator_to_py [simp]: "isl (operator_to_py tx op) \<longleftrightarrow> py_op_name op = None"
  by (simp add: operator_to_py_def)

lemma isl_fst_total:
  assumes "api_total api"
  shows "\<not> isl (fa_import api)" "\<not> isl (fa_column api n)" "\<not> isl (fa_literal api v)"
    "\<not> isl (fa_operator api n a b)" "\<not> isl (fa_invert api a)" "\<not> isl (fa_method api n a)"
    "\<not> isl (fa_member api n a vs)" "\<not> isl (fa_between api a b c)"
  using assms by (auto simp: api_total_def)

lemma pyarrow_accepts:
  "api_total api \<Longrightarrow> isl (pyarrow_try_from tx api e) \<longleftrightarrow> \<not> translatable e"
  by (induction e rule: translatable.induct) (auto simp: isl_and_then isl_fst_total)

lemma ibis_accepts:
  "api_total api \<Longrightarrow> isl (ibis_try_from tx api e) \<longleftrightarrow> \<not> translatable e"
  by (induction e rule: translatable.induct) (auto simp: isl_and_then isl_fst_total)

section \<open>The meaning of a filter\<close>

text \<open>
  A row gives each column a value or NULL (\<^term>\<open>None\<close>). \<open>cmp\<close> compares two values that are not NULL.
  The connectives are Kleene's; on values that are not Booleans they are NULL.
\<close>

type_synonym row = "string \<Rightarrow> py_value option"
type_synonym cmp = "operator \<Rightarrow> py_value \<Rightarrow> py_value \<Rightarrow> bool"

definition bool3 :: "py_value option \<Rightarrow> bool option" where
  "bool3 v = (case v of Some (PV_Bool b) \<Rightarrow> Some b | _ \<Rightarrow> None)"

definition k_and :: "py_value option \<Rightarrow> py_value option \<Rightarrow> py_value option" where
  "k_and a b = (if bool3 a = Some False \<or> bool3 b = Some False then Some (PV_Bool False)
     else if bool3 a = Some True \<and> bool3 b = Some True then Some (PV_Bool True) else None)"

definition k_or :: "py_value option \<Rightarrow> py_value option \<Rightarrow> py_value option" where
  "k_or a b = (if bool3 a = Some True \<or> bool3 b = Some True then Some (PV_Bool True)
     else if bool3 a = Some False \<and> bool3 b = Some False then Some (PV_Bool False) else None)"

definition k_not :: "py_value option \<Rightarrow> py_value option" where
  "k_not a = map_option (\<lambda>b. PV_Bool (\<not> b)) (bool3 a)"

definition compare3 :: "cmp \<Rightarrow> operator \<Rightarrow> py_value option \<Rightarrow> py_value option \<Rightarrow> py_value option" where
  "compare3 cmp op a b = (case (a, b) of (Some x, Some y) \<Rightarrow> Some (PV_Bool (cmp op x y)) | _ \<Rightarrow> None)"

definition op3 :: "cmp \<Rightarrow> operator \<Rightarrow> py_value option \<Rightarrow> py_value option \<Rightarrow> py_value option" where
  "op3 cmp op a b = (if op = Op_And then k_and a b else if op = Op_Or then k_or a b
     else compare3 cmp op a b)"

definition member3 :: "cmp \<Rightarrow> py_value option \<Rightarrow> py_value list \<Rightarrow> py_value option" where
  "member3 cmp a vs = map_option (\<lambda>x. PV_Bool (list_ex (cmp Op_Eq x) vs)) a"

definition scalars_of :: "'q expr list \<Rightarrow> py_value list" where
  "scalars_of es = List.map_filter (\<lambda>e. case e of E_Literal v _ \<Rightarrow> scalar_to_py v | _ \<Rightarrow> None) es"

fun sql_eval :: "cmp \<Rightarrow> row \<Rightarrow> 'q expr \<Rightarrow> py_value option" where
  "sql_eval cmp row (E_Column rel name) = row name"
| "sql_eval cmp row (E_Literal v md) = scalar_to_py v"
| "sql_eval cmp row (E_BinaryExpr l op r) = op3 cmp op (sql_eval cmp row l) (sql_eval cmp row r)"
| "sql_eval cmp row (E_Not x) = k_not (sql_eval cmp row x)"
| "sql_eval cmp row (E_IsNotNull x) = Some (PV_Bool (sql_eval cmp row x \<noteq> None))"
| "sql_eval cmp row (E_IsNull x) = Some (PV_Bool (sql_eval cmp row x = None))"
| "sql_eval cmp row (E_Between x negated low high) =
     (let v = k_and (compare3 cmp Op_LtEq (sql_eval cmp row low) (sql_eval cmp row x))
                    (compare3 cmp Op_LtEq (sql_eval cmp row x) (sql_eval cmp row high))
      in if negated then k_not v else v)"
| "sql_eval cmp row (E_InList x xs negated) =
     (let v = member3 cmp (sql_eval cmp row x) (scalars_of xs)
      in if negated then k_not v else v)"
| "sql_eval cmp row e = None"

text \<open>A filter keeps the rows on which it is true.\<close>

definition keeps :: "py_value option \<Rightarrow> bool" where
  "keeps v \<longleftrightarrow> v = Some (PV_Bool True)"

section \<open>What the libraries promise\<close>

text \<open>
  \<open>den o row\<close> is the value of the Python expression object \<open>o\<close> on a row. Columns, literals, the
  functions of Python's \<open>operator\<close> module and inversion mean the same in both libraries:
  comparisons propagate NULL, \<open>&\<close> and \<open>|\<close> are Kleene's.
\<close>

locale filter_objects =
  fixes api :: "'o filter_api" and den :: "'o \<Rightarrow> row \<Rightarrow> py_value option" and cmp :: cmp
  assumes den_column: "fa_column api n = Inr a \<Longrightarrow> den a row = row n"
    and den_literal: "fa_literal api v = Inr a \<Longrightarrow> den a row = Some v"
    and den_operator: "py_op_name op = Some n \<Longrightarrow> fa_operator api n a b = Inr c \<Longrightarrow>
          den c row = op3 cmp op (den a row) (den b row)"
    and den_invert: "fa_invert api a = Inr c \<Longrightarrow> den c row = k_not (den a row)"

text \<open>
  pyarrow: \<open>is_valid\<close>, \<open>is_null\<close>; \<open>isin\<close> is false, not NULL, for a NULL that is not in the value set.
\<close>

locale pyarrow_objects = filter_objects +
  assumes den_is_valid: "fa_method api ''is_valid'' a = Inr c \<Longrightarrow> den c row = Some (PV_Bool (den a row \<noteq> None))"
    and den_is_null: "fa_method api ''is_null'' a = Inr c \<Longrightarrow> den c row = Some (PV_Bool (den a row = None))"
    and den_isin: "fa_member api ''isin'' a vs = Inr c \<Longrightarrow>
          den c row = Some (PV_Bool (case den a row of None \<Rightarrow> False | Some x \<Rightarrow> list_ex (cmp Op_Eq x) vs))"

text \<open>ibis: \<open>notnull\<close>, \<open>isnull\<close>, \<open>between\<close>; \<open>isin\<close> and \<open>notin\<close> are SQL's \<open>IN\<close> and \<open>NOT IN\<close>.\<close>

locale ibis_objects = filter_objects +
  assumes den_notnull: "fa_method api ''notnull'' a = Inr c \<Longrightarrow> den c row = Some (PV_Bool (den a row \<noteq> None))"
    and den_isnull: "fa_method api ''isnull'' a = Inr c \<Longrightarrow> den c row = Some (PV_Bool (den a row = None))"
    and den_between: "fa_between api a lo hi = Inr c \<Longrightarrow> den c row =
          k_and (compare3 cmp Op_LtEq (den lo row) (den a row)) (compare3 cmp Op_LtEq (den a row) (den hi row))"
    and den_ibis_isin: "fa_member api ''isin'' a vs = Inr c \<Longrightarrow> den c row = member3 cmp (den a row) vs"
    and den_ibis_notin: "fa_member api ''notin'' a vs = Inr c \<Longrightarrow> den c row = k_not (member3 cmp (den a row) vs)"

lemma lift_py_Inr_iff [result_simps]: "lift_py r = Inr a \<longleftrightarrow> r = Inr a"
  by (simp add: lift_py_def result_simps)

lemma unwrap_py_Inr_iff [result_simps]: "unwrap_py r = Inr a \<longleftrightarrow> r = Inr a"
  by (simp add: unwrap_py_def result_simps)

lemma ok_or_Inr_iff [result_simps]: "ok_or e x = Inr a \<longleftrightarrow> x = Some a"
  by (cases x) auto

lemma operator_to_py_Inr_iff [result_simps]: "operator_to_py tx op = Inr n \<longleftrightarrow> py_op_name op = Some n"
  by (simp add: operator_to_py_def result_simps)

lemma extract_scalar_Inr: "extract_scalar tx e = Inr v \<Longrightarrow> \<exists>s md. e = E_Literal s md \<and> scalar_to_py s = Some v"
  by (cases e) (simp_all add: extract_scalar_def result_simps)

lemma scalars_of_simps [simp]:
  "scalars_of [] = []"
  "scalar_to_py s = Some v \<Longrightarrow> scalars_of (E_Literal s md # es) = v # scalars_of es"
  by (simp_all add: scalars_of_def List.map_filter_simps)

lemma extract_scalar_list_scalars:
  assumes "extract_scalar_list tx xs = Inr vs"
  shows "vs = scalars_of xs"
proof -
  from assms have "list_all2 (\<lambda>x v. extract_scalar tx x = Inr v) xs vs"
    by (simp add: extract_scalar_list_def collect_ok_map_Inr_iff)
  then show ?thesis by induction (auto dest!: extract_scalar_Inr)
qed

text \<open>The fragment without \<open>IN\<close>.\<close>

fun no_in_list :: "'q expr \<Rightarrow> bool" where
  "no_in_list (E_BinaryExpr l op r) = (no_in_list l \<and> no_in_list r)"
| "no_in_list (E_Not x) = no_in_list x"
| "no_in_list (E_IsNotNull x) = no_in_list x"
| "no_in_list (E_IsNull x) = no_in_list x"
| "no_in_list (E_Between x negated low high) = (no_in_list x \<and> no_in_list low \<and> no_in_list high)"
| "no_in_list (E_InList x xs negated) = False"
| "no_in_list e = True"

text \<open>\<open>IN\<close> (not \<open>NOT IN\<close>) under conjunctions and disjunctions only.\<close>

fun positive_in_list :: "'q expr \<Rightarrow> bool" where
  "positive_in_list (E_BinaryExpr l op r) =
     (if op = Op_And \<or> op = Op_Or then positive_in_list l \<and> positive_in_list r
      else no_in_list l \<and> no_in_list r)"
| "positive_in_list (E_InList x xs negated) = (\<not> negated \<and> no_in_list x)"
| "positive_in_list e = no_in_list e"

text \<open>Equal, or false where SQL has NULL.\<close>

definition false_for_null :: "py_value option \<Rightarrow> py_value option \<Rightarrow> bool" where
  "false_for_null v w \<longleftrightarrow> v = w \<or> w = None \<and> v = Some (PV_Bool False)"

lemma false_for_null_keeps: "false_for_null v w \<Longrightarrow> keeps v = keeps w"
  by (auto simp: false_for_null_def keeps_def)

lemma false_for_null_op:
  assumes "false_for_null a a'" "false_for_null b b'" "op = Op_And \<or> op = Op_Or"
  shows "false_for_null (op3 cmp op a b) (op3 cmp op a' b')"
  using assms by (auto simp: false_for_null_def op3_def k_and_def k_or_def bool3_def split: if_splits)

context filter_objects
begin

lemma den_le: "fa_operator api ''le'' a b = Inr c \<Longrightarrow> den c row = compare3 cmp Op_LtEq (den a row) (den b row)"
  using den_operator [of Op_LtEq] by (simp add: op3_def)

lemma den_and: "fa_operator api ''and_'' a b = Inr c \<Longrightarrow> den c row = k_and (den a row) (den b row)"
  using den_operator [of Op_And] by (simp add: op3_def)

end

context pyarrow_objects
begin

lemma pyarrow_between_parts:
  assumes "pyarrow_try_from tx api (E_Between x negated low high) = Inr c"
  obtains a lo hi where "pyarrow_try_from tx api x = Inr a" "pyarrow_try_from tx api low = Inr lo"
    "pyarrow_try_from tx api high = Inr hi"
    "\<And>row. den c row = (let v = k_and (compare3 cmp Op_LtEq (den lo row) (den a row))
       (compare3 cmp Op_LtEq (den a row) (den hi row)) in if negated then k_not v else v)"
proof -
  from assms obtain a lo hi d1 d2 ret where
    t: "pyarrow_try_from tx api x = Inr a" "pyarrow_try_from tx api low = Inr lo"
    "pyarrow_try_from tx api high = Inr hi" and d: "fa_operator api ''le'' lo a = Inr d1"
    "fa_operator api ''le'' a hi = Inr d2" "fa_operator api ''and_'' d1 d2 = Inr ret"
    and n: "if negated then fa_invert api ret = Inr c else ret = c"
    by (auto simp: result_simps split: if_splits)
  from d have "den ret row = k_and (compare3 cmp Op_LtEq (den lo row) (den a row))
      (compare3 cmp Op_LtEq (den a row) (den hi row))" for row
    by (simp add: den_le den_and)
  with n have "den c row = (let v = k_and (compare3 cmp Op_LtEq (den lo row) (den a row))
       (compare3 cmp Op_LtEq (den a row) (den hi row)) in if negated then k_not v else v)" for row
    by (cases negated) (simp_all add: den_invert Let_def)
  with t show thesis by (rule that)
qed

lemma pyarrow_binary_parts:
  assumes "pyarrow_try_from tx api (E_BinaryExpr l op r) = Inr c"
  obtains a b where "pyarrow_try_from tx api l = Inr a" "pyarrow_try_from tx api r = Inr b"
    "\<And>row. den c row = op3 cmp op (den a row) (den b row)"
  using assms den_operator by (fastforce simp: result_simps)

lemma pyarrow_exact:
  "pyarrow_try_from tx api e = Inr c \<Longrightarrow> no_in_list e \<Longrightarrow> den c row = sql_eval cmp row e"
proof (induction e arbitrary: c rule: no_in_list.induct)
  case (1 l op r)
  from "1.prems"(1) show ?case
    by (rule pyarrow_binary_parts) (use 1 in simp)
next
  case (5 x negated low high)
  from "5.prems"(1) show ?case
    by (rule pyarrow_between_parts) (use 5 in simp)
qed (auto simp: result_simps den_column den_literal den_invert den_is_valid den_is_null)

lemma pyarrow_exact_or:
  "pyarrow_try_from tx api e = Inr c \<Longrightarrow> no_in_list e \<Longrightarrow> false_for_null (den c row) (sql_eval cmp row e)"
  by (simp add: pyarrow_exact false_for_null_def)

lemma pyarrow_positive:
  "pyarrow_try_from tx api e = Inr c \<Longrightarrow> positive_in_list e \<Longrightarrow> false_for_null (den c row) (sql_eval cmp row e)"
proof (induction e arbitrary: c rule: positive_in_list.induct)
  case (1 l op r)
  show ?case
  proof (cases "op = Op_And \<or> op = Op_Or")
    case True
    from "1.prems"(1) show ?thesis
      by (rule pyarrow_binary_parts) (use 1 True in \<open>simp add: false_for_null_op\<close>)
  next
    case False
    with 1 show ?thesis by (intro pyarrow_exact_or) simp_all
  qed
next
  case (2 x xs negated)
  then show ?case
    by (auto simp: result_simps den_isin pyarrow_exact member3_def false_for_null_def
      dest!: extract_scalar_list_scalars split: option.splits)
qed (erule pyarrow_exact_or, simp only: positive_in_list.simps)+

lemma pyarrow_not_in:
  assumes "pyarrow_try_from tx api (E_InList (E_Column rel n) xs True) = Inr c" "row n = None"
  shows "keeps (den c row)"
  using assms by (auto simp: result_simps den_isin den_invert den_column k_not_def bool3_def keeps_def)

end

context ibis_objects
begin

lemma ibis_between_parts:
  assumes "ibis_try_from tx api (E_Between x negated low high) = Inr c"
  obtains a lo hi where "ibis_try_from tx api x = Inr a" "ibis_try_from tx api low = Inr lo"
    "ibis_try_from tx api high = Inr hi"
    "\<And>row. den c row = (let v = k_and (compare3 cmp Op_LtEq (den lo row) (den a row))
       (compare3 cmp Op_LtEq (den a row) (den hi row)) in if negated then k_not v else v)"
proof -
  from assms obtain a lo hi ret where
    t: "ibis_try_from tx api x = Inr a" "ibis_try_from tx api low = Inr lo"
    "ibis_try_from tx api high = Inr hi" and d: "fa_between api a lo hi = Inr ret"
    and n: "if negated then fa_invert api ret = Inr c else ret = c"
    by (auto simp: result_simps split: if_splits)
  with n have "den c row = (let v = k_and (compare3 cmp Op_LtEq (den lo row) (den a row))
       (compare3 cmp Op_LtEq (den a row) (den hi row)) in if negated then k_not v else v)" for row
    by (cases negated) (simp_all add: den_invert den_between Let_def)
  with t show thesis by (rule that)
qed

lemma ibis_binary_parts:
  assumes "ibis_try_from tx api (E_BinaryExpr l op r) = Inr c"
  obtains a b where "ibis_try_from tx api l = Inr a" "ibis_try_from tx api r = Inr b"
    "\<And>row. den c row = op3 cmp op (den a row) (den b row)"
  using assms den_operator by (fastforce simp: result_simps)

lemma ibis_exact:
  "ibis_try_from tx api e = Inr c \<Longrightarrow> no_in_list e \<Longrightarrow> den c row = sql_eval cmp row e"
proof (induction e arbitrary: c rule: no_in_list.induct)
  case (1 l op r)
  from "1.prems"(1) show ?case
    by (rule ibis_binary_parts) (use 1 in simp)
next
  case (5 x negated low high)
  from "5.prems"(1) show ?case
    by (rule ibis_between_parts) (use 5 in simp)
qed (auto simp: result_simps den_column den_literal den_invert den_notnull den_isnull)

lemma ibis_in_list:
  assumes "ibis_try_from tx api (E_InList x xs negated) = Inr c" "no_in_list x"
  shows "den c row = sql_eval cmp row (E_InList x xs (\<not> negated))"
  using assms
  by (cases negated) (auto simp: result_simps Let_def den_ibis_isin den_ibis_notin ibis_exact
    dest!: extract_scalar_list_scalars)

end

section \<open>Objects that record the calls\<close>

datatype call_tree =
    T_Column string | T_Literal py_value | T_Operator string call_tree call_tree
  | T_Invert call_tree | T_Method string call_tree | T_Member string call_tree "py_value list"
  | T_Between call_tree call_tree call_tree

definition tree_api :: "call_tree filter_api" where
  "tree_api = \<lparr>fa_import = Inr (), fa_column = (\<lambda>n. Inr (T_Column n)), fa_literal = (\<lambda>v. Inr (T_Literal v)),
     fa_operator = (\<lambda>n a b. Inr (T_Operator n a b)), fa_invert = (\<lambda>a. Inr (T_Invert a)),
     fa_method = (\<lambda>n a. Inr (T_Method n a)), fa_member = (\<lambda>n a vs. Inr (T_Member n a vs)),
     fa_between = (\<lambda>a b c. Inr (T_Between a b c))\<rparr>"

lemma tree_api_total: "api_total tree_api"
  by (simp add: api_total_def tree_api_def)

definition py_op_of_name :: "string \<Rightarrow> operator option" where
  "py_op_of_name n = map_of [(''eq'', Op_Eq), (''ne'', Op_NotEq), (''lt'', Op_Lt), (''le'', Op_LtEq),
     (''gt'', Op_Gt), (''ge'', Op_GtEq), (''and_'', Op_And), (''or_'', Op_Or)] n"

lemma py_op_of_name_inverse: "py_op_name op = Some n \<Longrightarrow> py_op_of_name n = Some op"
  by (cases op) (auto simp: py_op_of_name_def)

definition null_test :: "string \<Rightarrow> py_value option \<Rightarrow> py_value option" where
  "null_test n v = (if n = ''is_valid'' \<or> n = ''notnull'' then Some (PV_Bool (v \<noteq> None))
     else if n = ''is_null'' \<or> n = ''isnull'' then Some (PV_Bool (v = None)) else None)"

fun tree_eval :: "(string \<Rightarrow> py_value option \<Rightarrow> py_value list \<Rightarrow> py_value option) \<Rightarrow> cmp \<Rightarrow>
    call_tree \<Rightarrow> row \<Rightarrow> py_value option" where
  "tree_eval mem cmp (T_Column n) row = row n"
| "tree_eval mem cmp (T_Literal v) row = Some v"
| "tree_eval mem cmp (T_Operator n a b) row =
     (case py_op_of_name n of None \<Rightarrow> None
      | Some op \<Rightarrow> op3 cmp op (tree_eval mem cmp a row) (tree_eval mem cmp b row))"
| "tree_eval mem cmp (T_Invert a) row = k_not (tree_eval mem cmp a row)"
| "tree_eval mem cmp (T_Method n a) row = null_test n (tree_eval mem cmp a row)"
| "tree_eval mem cmp (T_Member n a vs) row = mem n (tree_eval mem cmp a row) vs"
| "tree_eval mem cmp (T_Between a lo hi) row =
     k_and (compare3 cmp Op_LtEq (tree_eval mem cmp lo row) (tree_eval mem cmp a row))
           (compare3 cmp Op_LtEq (tree_eval mem cmp a row) (tree_eval mem cmp hi row))"

definition pyarrow_member :: "cmp \<Rightarrow> string \<Rightarrow> py_value option \<Rightarrow> py_value list \<Rightarrow> py_value option" where
  "pyarrow_member cmp n v vs =
     Some (PV_Bool (case v of None \<Rightarrow> False | Some x \<Rightarrow> list_ex (cmp Op_Eq x) vs))"

definition ibis_member :: "cmp \<Rightarrow> string \<Rightarrow> py_value option \<Rightarrow> py_value list \<Rightarrow> py_value option" where
  "ibis_member cmp n v vs = (if n = ''isin'' then member3 cmp v vs else k_not (member3 cmp v vs))"

interpretation pyarrow_trees: pyarrow_objects tree_api "tree_eval (pyarrow_member cmp) cmp" cmp for cmp
  by unfold_locales (auto simp: tree_api_def py_op_of_name_inverse null_test_def pyarrow_member_def)

interpretation ibis_trees: ibis_objects tree_api "tree_eval (ibis_member cmp) cmp" cmp for cmp
  by unfold_locales (auto simp: tree_api_def py_op_of_name_inverse null_test_def ibis_member_def)

lemma pyarrow_trees_laws: "pyarrow_objects tree_api (tree_eval (pyarrow_member cmp) cmp) cmp"
  by (rule pyarrow_trees.pyarrow_objects_axioms)

lemma ibis_trees_laws: "ibis_objects tree_api (tree_eval (ibis_member cmp) cmp) cmp"
  by (rule ibis_trees.ibis_objects_axioms)

section \<open>The properties of the translators\<close>

text \<open>A column, an integer literal, equality of values, and a row, for the concrete inputs below.\<close>

definition col_a :: "unit expr" where "col_a = E_Column None ''a''"
definition lit_1 :: "unit expr" where "lit_1 = E_Literal (SV_Int64 (Some 1)) None"
definition same_value :: cmp where "same_value op x y = (x = y)"

text \<open>
  When the Python libraries are present and none of their calls raises, both translators accept
  the same expressions, those of \<open>translatable\<close>; on these neither fails nor panics. So what is
  reported as pushed down depends on the expression only.
\<close>

theorem translators_accept_the_same:
  assumes "api_total api" "api_total api'"
  shows "(isl (pyarrow_try_from tx api e) \<longleftrightarrow> \<not> translatable e)
    \<and> (isl (ibis_try_from tx' api' e) \<longleftrightarrow> \<not> translatable e)"
  using pyarrow_accepts [OF assms(1)] ibis_accepts [OF assms(2)] by blast

theorem translators_accept_the_same_witness:
  "translatable (E_Not col_a) \<and> \<not> isl (pyarrow_try_from plain_text tree_api (E_Not col_a))
   \<and> isl (ibis_try_from plain_text tree_api (E_Negative col_a))"
proof (intro conjI)
  show t: "translatable (E_Not col_a)" by (simp add: col_a_def)
  show "\<not> isl (pyarrow_try_from plain_text tree_api (E_Not col_a))"
    using translators_accept_the_same [OF tree_api_total tree_api_total, of plain_text "E_Not col_a"] t by blast
  show "isl (ibis_try_from plain_text tree_api (E_Negative col_a))"
    using translators_accept_the_same [OF tree_api_total tree_api_total, of plain_text "E_Negative col_a" plain_text]
    by simp
qed

text \<open>
  C24: A filter translated for pyarrow keeps exactly the rows SQL keeps, for every filter in which
  \<open>IN\<close> occurs un-negated and under \<open>AND\<close> and \<open>OR\<close> only; without \<open>IN\<close> the two agree on every value, NULL
  included. This is what reporting the filter as \<open>Exact\<close> requires.
\<close>

theorem pyarrow_filter_exact:
  assumes "pyarrow_objects api den cmp" "pyarrow_try_from tx api e = Inr c"
  shows "(positive_in_list e \<longrightarrow> keeps (den c row) = keeps (sql_eval cmp row e))
    \<and> (no_in_list e \<longrightarrow> den c row = sql_eval cmp row e)"
  using pyarrow_objects.pyarrow_positive [OF assms] false_for_null_keeps
    pyarrow_objects.pyarrow_exact [OF assms] by blast

theorem pyarrow_filter_exact_witness:
  "keeps (tree_eval (pyarrow_member same_value) same_value (T_Member ''isin'' (T_Column ''a'') [PV_Int 1]) Map.empty)
   = keeps (sql_eval same_value Map.empty (E_InList col_a [lit_1] False))"
proof -
  have t: "pyarrow_try_from plain_text tree_api (E_InList col_a [lit_1] False)
      = Inr (T_Member ''isin'' (T_Column ''a'') [PV_Int 1])" by code_simp
  have "positive_in_list (E_InList col_a [lit_1] False)" by (simp add: col_a_def)
  with pyarrow_filter_exact [OF pyarrow_trees_laws [of same_value] t, of Map.empty] show ?thesis by blast
qed

text \<open>
  C27: \<open>NOT IN\<close> pushed into pyarrow is wrong on NULL: a row whose column is NULL is kept, while SQL
  drops it, and the filter was reported as \<open>Exact\<close>, so nothing filters the row again.
\<close>

theorem pyarrow_not_in_keeps_nulls:
  assumes "pyarrow_objects api den cmp"
    "pyarrow_try_from tx api (E_InList (E_Column rel n) xs True) = Inr c" "row n = None"
  shows "keeps (den c row) \<and> \<not> keeps (sql_eval cmp row (E_InList (E_Column rel n) xs True))"
  using pyarrow_objects.pyarrow_not_in [OF assms(1,2), of row] assms(3)
  by (simp add: keeps_def member3_def k_not_def bool3_def)

theorem pyarrow_not_in_keeps_nulls_witness:
  "keeps (tree_eval (pyarrow_member same_value) same_value
     (T_Invert (T_Member ''isin'' (T_Column ''a'') [PV_Int 1])) Map.empty)"
proof -
  have t: "pyarrow_try_from plain_text tree_api (E_InList (E_Column None ''a'') [lit_1] True)
      = Inr (T_Invert (T_Member ''isin'' (T_Column ''a'') [PV_Int 1]))" by code_simp
  from pyarrow_not_in_keeps_nulls [OF pyarrow_trees_laws [of same_value] t, of Map.empty] show ?thesis by simp
qed

text \<open>
  C25: A filter without \<open>IN\<close> translated for ibis has SQL's value on every row.
\<close>

theorem ibis_filter_exact:
  assumes "ibis_objects api den cmp" "ibis_try_from tx api e = Inr c" "no_in_list e"
  shows "den c row = sql_eval cmp row e"
  using assms by (rule ibis_objects.ibis_exact)

theorem ibis_filter_exact_witness:
  "tree_eval (ibis_member same_value) same_value (T_Method ''notnull'' (T_Column ''a'')) Map.empty
   = sql_eval same_value Map.empty (E_IsNotNull col_a)"
proof -
  have t: "ibis_try_from plain_text tree_api (E_IsNotNull col_a) = Inr (T_Method ''notnull'' (T_Column ''a''))"
    by code_simp
  show ?thesis by (rule ibis_filter_exact [OF ibis_trees_laws t]) (simp add: col_a_def)
qed

text \<open>
  C26: \<open>IN\<close> and \<open>NOT IN\<close> are swapped in the ibis translator: what it builds for one has the value of
  the other on every row, so a pushed-down \<open>IN\<close> keeps a row that is not in the list and drops
  one that is.
\<close>

theorem ibis_in_list_swapped:
  assumes "ibis_objects api den cmp" "ibis_try_from tx api (E_InList x xs negated) = Inr c" "no_in_list x"
  shows "den c row = sql_eval cmp row (E_InList x xs (\<not> negated))
    \<and> (keeps (den c row) \<longrightarrow> \<not> keeps (sql_eval cmp row (E_InList x xs negated)))"
proof -
  have "den c row = sql_eval cmp row (E_InList x xs (\<not> negated))"
    using assms by (rule ibis_objects.ibis_in_list)
  then show ?thesis
    by (cases negated) (auto simp: keeps_def member3_def k_not_def bool3_def Let_def split: if_splits)
qed

theorem ibis_in_list_swapped_witness:
  "tree_eval (ibis_member same_value) same_value (T_Member ''notin'' (T_Column ''a'') [PV_Int 1]) [''a'' \<mapsto> PV_Int 2]
     = sql_eval same_value [''a'' \<mapsto> PV_Int 2] (E_InList col_a [lit_1] True)
   \<and> keeps (tree_eval (ibis_member same_value) same_value
        (T_Member ''notin'' (T_Column ''a'') [PV_Int 1]) [''a'' \<mapsto> PV_Int 2])"
proof
  have t: "ibis_try_from plain_text tree_api (E_InList col_a [lit_1] False)
      = Inr (T_Member ''notin'' (T_Column ''a'') [PV_Int 1])" by code_simp
  have n: "no_in_list col_a" by (simp add: col_a_def)
  show "tree_eval (ibis_member same_value) same_value (T_Member ''notin'' (T_Column ''a'') [PV_Int 1]) [''a'' \<mapsto> PV_Int 2]
     = sql_eval same_value [''a'' \<mapsto> PV_Int 2] (E_InList col_a [lit_1] True)"
    using ibis_in_list_swapped [OF ibis_trees_laws [of same_value] t n, of "[''a'' \<mapsto> PV_Int 2]"]
    by (simp only: simp_thms)
  show "keeps (tree_eval (ibis_member same_value) same_value
      (T_Member ''notin'' (T_Column ''a'') [PV_Int 1]) [''a'' \<mapsto> PV_Int 2])"
    by code_simp
qed

end
