(* ===== verification/Pull_Stream.thy ===== *)
theory Pull_Stream
  imports Data_Types
begin

text \<open>
  The bridge from a blocking Python reader to an async stream of record batches, the first part of
  \<open>src/utils.rs\<close>: \<open>check_batch_schema\<close>, \<open>try_speculate\<close>, \<open>PullHost\<close>, \<open>PullGuard\<close>, \<open>run_affine_pull\<close>,
  \<open>drain_batches\<close>, the coordinator task of \<open>spawn_channel_stream\<close> and \<open>DemandStream::poll_next\<close>.

  Four activities share the state of one stream: the consumer that polls it, the coordinator
  task, the drain round running on the pull thread or on the blocking pool, and the destruction
  of the reader. Each transition below is what one of them does between two points where the
  others can interfere: an \<open>await\<close>, an operation on the channel or on a semaphore, the entry into
  and the return from \<open>pull()\<close>. A pull that never returns is a round that stays in \<open>RPulling\<close>.

  A tokio semaphore is the number of permits it has left. The bounded channel is its queue and
  the number of slots reserved by outstanding permits; a permit keeps the channel open for
  writing, \<open>send\<close> on it never fails, and dropping it gives the slot back. These are the documented
  contracts of tokio's \<open>Semaphore\<close> and \<open>mpsc\<close>.

  The reader is any function \<open>pull :: 'p \<Rightarrow> 'd pulled \<times> 'p\<close> on a state of its own: the parameter of
  the definitions below that stands for the user's Python code.
\<close>

section \<open>Constants, credit and the two budgets\<close>

definition CHANNEL_CAPACITY :: nat where "CHANNEL_CAPACITY = 8"

definition SPECULATION_BUDGET :: nat where "SPECULATION_BUDGET = 64"

definition AFFINE_THREAD_BUDGET :: nat where "AFFINE_THREAD_BUDGET = 128"

datatype read_ahead = OnDemand | Buffered

datatype credit = Demanded | Speculative

text \<open>The process-wide semaphores: permits left for speculative pulls and for pull threads.\<close>

record budgets =
  spec_avail :: nat
  affine_avail :: nat

definition full_budgets :: budgets where
  "full_budgets = \<lparr>spec_avail = SPECULATION_BUDGET, affine_avail = AFFINE_THREAD_BUDGET\<rparr>"

definition try_speculate :: "read_ahead \<Rightarrow> budgets \<Rightarrow> (credit \<times> budgets) option" where
  "try_speculate read_ahead b =
     (case read_ahead of
        OnDemand \<Rightarrow> None
      | Buffered \<Rightarrow>
          if 0 < spec_avail b then Some (Speculative, b\<lparr>spec_avail := spec_avail b - 1\<rparr>) else None)"

text \<open>Dropping a \<open>Credit\<close> gives a speculative permit back; a demanded one was forgotten when taken.\<close>

definition spec_count :: "credit list \<Rightarrow> nat" where
  "spec_count cs = length (filter (\<lambda>c. c = Speculative) cs)"

definition drop_credits :: "credit list \<Rightarrow> budgets \<Rightarrow> budgets" where
  "drop_credits cs b = b\<lparr>spec_avail := spec_avail b + spec_count cs\<rparr>"

section \<open>Batches and the schema check\<close>

text \<open>
  A \<open>SchemaRef\<close> is an \<open>Arc<Schema>\<close>: an allocation and its fields. Of a batch's columns this
  component never looks at the contents.
\<close>

record schema_ref =
  sr_ptr :: nat
  sr_fields :: "field list"

record 'd batch =
  b_schema :: schema_ref
  b_data :: 'd

type_synonym 'd item = "inner_error + 'd batch"

definition describe :: "(data_type \<Rightarrow> string) \<Rightarrow> field list \<Rightarrow> string" where
  "describe display fs =
     join_str '', '' (map (\<lambda>f. field_name f @ '': '' @ display (field_data_type f)) fs)"

definition fields_match :: "field list \<Rightarrow> field list \<Rightarrow> bool" where
  "fields_match want got \<longleftrightarrow>
     length want = length got
     \<and> list_all (\<lambda>(w, g). field_name w = field_name g \<and> field_data_type w = field_data_type g)
         (zip want got)"

definition check_batch_schema ::
  "(data_type \<Rightarrow> string) \<Rightarrow> schema_ref \<Rightarrow> 'd batch \<Rightarrow> inner_error + unit" where
  "check_batch_schema display schema batch =
     (let actual = b_schema batch in
      if sr_ptr schema = sr_ptr actual then Inr ()
      else if fields_match (sr_fields schema) (sr_fields actual) then Inr ()
      else Inl (Inner_Execution
        (''reader produced a batch that does not match the table schema: expected ['' @
         describe display (sr_fields schema) @ ''], got ['' @
         describe display (sr_fields actual) @ '']'')))"

section \<open>The state of one stream\<close>

datatype 'd pulled = Pulled "'d item" | Exhausted | Panicked string

datatype thread_state = ThrAlive | ThrEnding | ThrExited

text \<open>\<open>Pool\<close> carries whether its \<open>PullGuard\<close> holds the pull.\<close>

datatype pull_host = NoHost | Affine thread_state | Pool bool

text \<open>Where the coordinator is; \<open>CoParked\<close>, \<open>CoSlot\<close> and \<open>CoRound\<close> are its three \<open>await\<close> points.\<close>

datatype co_pc =
    CoStart | CoTop | CoParked | CoSlot credit | CoRound
  | CoDone | CoPanic string | CoFailed inner_error | CoAborted

text \<open>
  Where the drain round is: handed to the host but not begun, about to call \<open>pull()\<close> again, inside
  \<open>pull()\<close>, after a batch was sent, with the next slot in hand, returned. A round carries its own
  credit and the ones it drew on the way.
\<close>

datatype round_pc =
    RIdle
  | RQueued credit
  | RLoop credit "credit list"
  | RPulling credit "credit list"
  | RSent credit "credit list"
  | RReserved credit "credit list"
  | RFinished "string + bool"

datatype place = PullThread | BlockingPool | NoRuntime | AsyncWorker

text \<open>
  The fields from \<open>reader0\<close> on are history: they record what happened and no transition reads them.
\<close>

record ('d, 'p) pstream =
  ps_schema :: schema_ref
  ps_mode :: read_ahead
  queue :: "'d item list"
  reserved :: nat
  rx_open :: bool
  demand :: nat
  requested :: bool
  co :: co_pc
  host :: pull_host
  rnd :: round_pc
  reader :: 'p
  reader0 :: 'p
  pulls :: nat
  granted :: nat
  produced :: "'d pulled list"
  delivered :: "'d item list"
  raised :: "(inner_error + string) list"
  pulls_at_drop :: nat
  disposed :: "place list"

definition spawn_channel_stream :: "schema_ref \<Rightarrow> 'p \<Rightarrow> read_ahead \<Rightarrow> ('d, 'p) pstream" where
  "spawn_channel_stream schema pull read_ahead =
     \<lparr>ps_schema = schema, ps_mode = read_ahead, queue = [], reserved = 0, rx_open = True,
      demand = 0, requested = False, co = CoStart, host = NoHost, rnd = RIdle, reader = pull,
      reader0 = pull, pulls = 0, granted = 0, produced = [], delivered = [], raised = [],
      pulls_at_drop = 0, disposed = []\<rparr>"

definition terminal :: "co_pc \<Rightarrow> bool" where
  "terminal c = (case c of CoDone \<Rightarrow> True | CoPanic _ \<Rightarrow> True | CoFailed _ \<Rightarrow> True | CoAborted \<Rightarrow> True
     | _ \<Rightarrow> False)"

text \<open>\<open>try_reserve_owned\<close> and \<open>reserve_owned\<close> succeed on an open channel with a free slot.\<close>

definition has_slot :: "('d, 'p) pstream \<Rightarrow> bool" where
  "has_slot s \<longleftrightarrow> rx_open s \<and> length (queue s) + reserved s < CHANNEL_CAPACITY"

definition permit_send :: "'d item \<Rightarrow> ('d, 'p) pstream \<Rightarrow> ('d, 'p) pstream" where
  "permit_send x s = s\<lparr>reserved := reserved s - 1,
     queue := (if rx_open s then queue s @ [x] else queue s)\<rparr>"

definition permit_drop :: "('d, 'p) pstream \<Rightarrow> ('d, 'p) pstream" where
  "permit_drop s = s\<lparr>reserved := reserved s - 1\<rparr>"

section \<open>Transitions\<close>

type_synonym ('d, 'p) cfg = "budgets \<times> ('d, 'p) pstream"

text \<open>
  \<open>PullHost::new\<close>: a dedicated thread if the budget has a permit, the thread spawns and it takes the
  reader; otherwise the pool, and the permit is back in the budget.
\<close>

definition PullHost_new :: "bool \<Rightarrow> bool \<Rightarrow> budgets \<Rightarrow> pull_host \<times> budgets" where
  "PullHost_new spawned init_sent b =
     (if affine_avail b = 0 then (Pool True, b)
      else if spawned then
        (if init_sent then (Affine ThrAlive, b\<lparr>affine_avail := affine_avail b - 1\<rparr>)
         else (Pool True, b))
      else (Pool True, b))"

definition start_host :: "bool \<Rightarrow> bool \<Rightarrow> ('d, 'p) cfg \<Rightarrow> ('d, 'p) cfg option" where
  "start_host spawned init_sent = (\<lambda>(b, s).
     if co s = CoStart then
       (case PullHost_new spawned init_sent b of (h, b') \<Rightarrow> Some (b', s\<lparr>host := h, co := CoTop\<rparr>))
     else None)"

text \<open>The head of the coordinator's loop: demand first, then speculation, else park.\<close>

definition take_credit :: "('d, 'p) cfg \<Rightarrow> ('d, 'p) cfg option" where
  "take_credit = (\<lambda>(b, s).
     if co s = CoTop then
       (if 0 < demand s then Some (b, s\<lparr>demand := demand s - 1, co := CoSlot Demanded\<rparr>)
        else (case try_speculate (ps_mode s) b of
                Some (c, b') \<Rightarrow> Some (b', s\<lparr>co := CoSlot c\<rparr>)
              | None \<Rightarrow> Some (b, s\<lparr>co := CoParked\<rparr>)))
     else None)"

definition wake_on_demand :: "('d, 'p) cfg \<Rightarrow> ('d, 'p) cfg option" where
  "wake_on_demand = (\<lambda>(b, s).
     if co s = CoParked \<and> 0 < demand s
     then Some (b, s\<lparr>demand := demand s - 1, co := CoSlot Demanded\<rparr>) else None)"

text \<open>
  \<open>PullHost::round\<close> up to its \<open>await\<close>: the job goes to the pull thread, or the guard gives the pull up
  to a blocking task. A thread that is gone ends the stream; an empty guard is the panic of
  \<open>PullGuard::take\<close>.
\<close>

definition round_dispatch :: "credit \<Rightarrow> ('d, 'p) cfg \<Rightarrow> ('d, 'p) cfg option" where
  "round_dispatch c = (\<lambda>(b, s).
     (case host s of
        NoHost \<Rightarrow> None
      | Affine t \<Rightarrow>
          if t = ThrAlive then Some (b, s\<lparr>rnd := RQueued c, co := CoRound\<rparr>)
          else Some (drop_credits [c] b, (permit_drop s)\<lparr>co := CoDone\<rparr>)
      | Pool full \<Rightarrow>
          if full then Some (b, s\<lparr>host := Pool False, rnd := RQueued c, co := CoRound\<rparr>)
          else Some (drop_credits [c] b, (permit_drop s)\<lparr>co := CoPanic ''pull is in flight''\<rparr>)))"

text \<open>Waiting for a slot: it comes, or the receiver was dropped and the loop breaks.\<close>

definition reserve_slot :: "('d, 'p) cfg \<Rightarrow> ('d, 'p) cfg option" where
  "reserve_slot = (\<lambda>(b, s).
     (case co s of
        CoSlot c \<Rightarrow>
          if has_slot s then round_dispatch c (b, s\<lparr>reserved := reserved s + 1\<rparr>)
          else if rx_open s then None
          else Some (drop_credits [c] b, s\<lparr>co := CoDone\<rparr>)
      | _ \<Rightarrow> None))"

definition enter_pull :: "('d, 'p) cfg \<Rightarrow> ('d, 'p) cfg option" where
  "enter_pull = (\<lambda>(b, s).
     (case rnd s of
        RQueued c \<Rightarrow> Some (b, s\<lparr>rnd := RPulling c [], pulls := pulls s + 1\<rparr>)
      | RLoop c cs \<Rightarrow> Some (b, s\<lparr>rnd := RPulling c cs, pulls := pulls s + 1\<rparr>)
      | _ \<Rightarrow> None))"

text \<open>The round returns: its credits are dropped, its outcome is ready to be reported.\<close>

definition finish_round ::
  "string + bool \<Rightarrow> credit list \<Rightarrow> ('d, 'p) cfg \<Rightarrow> ('d, 'p) cfg" where
  "finish_round outcome cs = (\<lambda>(b, s). (drop_credits cs b, s\<lparr>rnd := RFinished outcome\<rparr>))"

definition pull_returns ::
  "('p \<Rightarrow> 'd pulled \<times> 'p) \<Rightarrow> (data_type \<Rightarrow> string) \<Rightarrow> ('d, 'p) cfg \<Rightarrow> ('d, 'p) cfg option" where
  "pull_returns pull display = (\<lambda>(b, s).
     (case rnd s of
        RPulling c cs \<Rightarrow>
          (case pull (reader s) of (r, p') \<Rightarrow>
             let s1 = s\<lparr>reader := p', produced := produced s @ [r]\<rparr> in
             Some (case r of
                 Pulled (Inr batch) \<Rightarrow>
                   (case check_batch_schema display (ps_schema s) batch of
                      Inl e \<Rightarrow> finish_round (Inr True) (c # cs) (b, permit_send (Inl e) s1)
                    | Inr _ \<Rightarrow> (b, (permit_send (Inr batch) s1)\<lparr>rnd := RSent c cs\<rparr>))
               | Pulled (Inl e) \<Rightarrow> finish_round (Inr True) (c # cs) (b, permit_send (Inl e) s1)
               | Exhausted \<Rightarrow> finish_round (Inr True) (c # cs) (b, permit_drop s1)
               | Panicked payload \<Rightarrow> finish_round (Inl payload) (c # cs) (b, permit_drop s1)))
      | _ \<Rightarrow> None))"

definition next_slot :: "('d, 'p) cfg \<Rightarrow> ('d, 'p) cfg option" where
  "next_slot = (\<lambda>(b, s).
     (case rnd s of
        RSent c cs \<Rightarrow>
          Some (if has_slot s then (b, s\<lparr>reserved := reserved s + 1, rnd := RReserved c cs\<rparr>)
                else finish_round (Inr False) (c # cs) (b, s))
      | _ \<Rightarrow> None))"

definition next_credit :: "('d, 'p) cfg \<Rightarrow> ('d, 'p) cfg option" where
  "next_credit = (\<lambda>(b, s).
     (case rnd s of
        RReserved c cs \<Rightarrow>
          Some (if 0 < demand s then (b, s\<lparr>demand := demand s - 1, rnd := RLoop c cs\<rparr>)
                else (case try_speculate (ps_mode s) b of
                        Some (c', b') \<Rightarrow> (b', s\<lparr>rnd := RLoop c (cs @ [c'])\<rparr>)
                      | None \<Rightarrow> finish_round (Inr False) (c # cs) (b, permit_drop s)))
      | _ \<Rightarrow> None))"

text \<open>
  The outcome reaches the coordinator. The pull thread leaves its loop when the stream ended or
  the pull panicked; a pool round hands the pull back to the guard, unless the pull died with
  its task or nobody is left to take it back.
\<close>

definition report_round :: "('d, 'p) cfg \<Rightarrow> ('d, 'p) cfg option" where
  "report_round = (\<lambda>(b, s).
     (case rnd s of
        RFinished outcome \<Rightarrow>
          Some (b, s\<lparr>rnd := RIdle,
            co := (if co s = CoRound then
                     (case outcome of Inr False \<Rightarrow> CoTop | Inr True \<Rightarrow> CoDone | Inl p \<Rightarrow> CoPanic p)
                   else co s),
            host := (case host s of
                Affine t \<Rightarrow> Affine (if outcome = Inr False then t else ThrEnding)
              | Pool full \<Rightarrow> Pool (co s = CoRound \<and> (case outcome of Inr _ \<Rightarrow> True | Inl _ \<Rightarrow> False))
              | NoHost \<Rightarrow> NoHost),
            disposed := (case host s of
                Pool _ \<Rightarrow> if co s = CoRound \<and> (case outcome of Inr _ \<Rightarrow> True | Inl _ \<Rightarrow> False)
                  then disposed s else disposed s @ [BlockingPool]
              | _ \<Rightarrow> disposed s)\<rparr>)
      | _ \<Rightarrow> None))"

text \<open>A blocking task cancelled before it ran (runtime shutdown): the \<open>JoinError\<close> that is no panic.\<close>

definition cancel_round :: "inner_error \<Rightarrow> ('d, 'p) cfg \<Rightarrow> ('d, 'p) cfg option" where
  "cancel_round join_err = (\<lambda>(b, s).
     (case (rnd s, host s) of
        (RQueued c, Pool _) \<Rightarrow>
          Some (drop_credits [c] b, (permit_drop s)\<lparr>rnd := RIdle,
            co := (if co s = CoRound then CoFailed join_err else co s),
            disposed := disposed s @ [BlockingPool]\<rparr>)
      | _ \<Rightarrow> None))"

text \<open>
  \<open>run_affine_pull\<close> returns: after an ended round, or when \<open>recv\<close> fails because the coordinator and
  with it the job sender are gone. The reader dies on this thread, the permit goes back.
\<close>

definition thread_exit :: "('d, 'p) cfg \<Rightarrow> ('d, 'p) cfg option" where
  "thread_exit = (\<lambda>(b, s).
     if rnd s = RIdle \<and>
        (host s = Affine ThrEnding \<or> host s = Affine ThrAlive \<and> terminal (co s))
     then Some (b\<lparr>affine_avail := affine_avail b + 1\<rparr>,
                s\<lparr>host := Affine ThrExited, disposed := disposed s @ [PullThread]\<rparr>)
     else None)"

text \<open>\<open>Drop for PullGuard\<close>, when the coordinator that owns it is gone.\<close>

definition guard_drop :: "bool \<Rightarrow> ('d, 'p) cfg \<Rightarrow> ('d, 'p) cfg option" where
  "guard_drop in_runtime = (\<lambda>(b, s).
     if terminal (co s) \<and> host s = Pool True
     then Some (b, s\<lparr>host := Pool False,
            disposed := disposed s @ [if in_runtime then BlockingPool else NoRuntime]\<rparr>)
     else None)"

section \<open>The consumer\<close>

datatype 'd poll = Pending | Ready "'d item option" | Unwind string

text \<open>
  \<open>DemandStream::poll_next\<close>. The inner stream is DataFusion's receiver stream: it yields what is
  in the channel, reports the failure or panic of the coordinator task (\<open>task_first\<close> says whether
  it looks at the task before the channel), and ends when no sender is left.
\<close>

definition grant :: "('d, 'p) pstream \<Rightarrow> ('d, 'p) pstream" where
  "grant s = (if requested s then s
     else s\<lparr>demand := demand s + 1, requested := True, granted := granted s + 1\<rparr>)"

definition poll_inner :: "bool \<Rightarrow> ('d, 'p) pstream \<Rightarrow> 'd poll \<times> ('d, 'p) pstream" where
  "poll_inner task_first s =
     (case queue s of
        x # xs \<Rightarrow>
          (case (task_first, co s) of
             (True, CoPanic p) \<Rightarrow> (Unwind p, s\<lparr>co := CoDone, raised := raised s @ [Inr p]\<rparr>)
           | (True, CoFailed e) \<Rightarrow> (Ready (Some (Inl e)), s\<lparr>co := CoDone, raised := raised s @ [Inl e]\<rparr>)
           | _ \<Rightarrow> (Ready (Some x), s\<lparr>queue := xs, delivered := delivered s @ [x]\<rparr>))
      | [] \<Rightarrow>
          (case co s of
             CoPanic p \<Rightarrow> (Unwind p, s\<lparr>co := CoDone, raised := raised s @ [Inr p]\<rparr>)
           | CoFailed e \<Rightarrow> (Ready (Some (Inl e)), s\<lparr>co := CoDone, raised := raised s @ [Inl e]\<rparr>)
           | c \<Rightarrow> if terminal c \<and> reserved s = 0 then (Ready None, s) else (Pending, s)))"

definition poll_next :: "bool \<Rightarrow> ('d, 'p) pstream \<Rightarrow> 'd poll \<times> ('d, 'p) pstream" where
  "poll_next task_first s =
     (case poll_inner task_first (grant s) of
        (Ready (Some x), s') \<Rightarrow> (Ready (Some x), s'\<lparr>requested := False\<rparr>)
      | (r, s') \<Rightarrow> (r, s'))"

definition poll_step :: "bool \<Rightarrow> ('d, 'p) cfg \<Rightarrow> ('d, 'p) cfg option" where
  "poll_step task_first = (\<lambda>(b, s).
     if rx_open s then Some (b, snd (poll_next task_first s)) else None)"

text \<open>Dropping the stream closes the channel; the task is aborted at an \<open>await\<close>, or before it starts.\<close>

definition drop_stream :: "('d, 'p) cfg \<Rightarrow> ('d, 'p) cfg option" where
  "drop_stream = (\<lambda>(b, s).
     if rx_open s then Some (b, s\<lparr>rx_open := False, queue := [], pulls_at_drop := pulls s\<rparr>) else None)"

definition abort :: "('d, 'p) cfg \<Rightarrow> ('d, 'p) cfg option" where
  "abort = (\<lambda>(b, s).
     if rx_open s then None
     else (case co s of
        CoStart \<Rightarrow> Some (b, s\<lparr>co := CoAborted, disposed := disposed s @ [AsyncWorker]\<rparr>)
      | CoParked \<Rightarrow> Some (b, s\<lparr>co := CoAborted\<rparr>)
      | CoSlot c \<Rightarrow> Some (drop_credits [c] b, s\<lparr>co := CoAborted\<rparr>)
      | CoRound \<Rightarrow> Some (b, s\<lparr>co := CoAborted\<rparr>)
      | _ \<Rightarrow> None))"

section \<open>One stream, and the process\<close>

datatype action =
    StartHost bool bool | TakeCredit | WakeOnDemand | ReserveSlot
  | EnterPull | PullReturns | NextSlot | NextCredit | ReportRound
  | CancelRound inner_error | ThreadExit | GuardDrop bool
  | Poll bool | DropStream | Abort

fun pstep ::
  "('p \<Rightarrow> 'd pulled \<times> 'p) \<Rightarrow> (data_type \<Rightarrow> string) \<Rightarrow> action \<Rightarrow> ('d, 'p) cfg \<Rightarrow> ('d, 'p) cfg option" where
  "pstep pull display (StartHost spawned init_sent) g = start_host spawned init_sent g"
| "pstep pull display TakeCredit g = take_credit g"
| "pstep pull display WakeOnDemand g = wake_on_demand g"
| "pstep pull display ReserveSlot g = reserve_slot g"
| "pstep pull display EnterPull g = enter_pull g"
| "pstep pull display PullReturns g = pull_returns pull display g"
| "pstep pull display NextSlot g = next_slot g"
| "pstep pull display NextCredit g = next_credit g"
| "pstep pull display ReportRound g = report_round g"
| "pstep pull display (CancelRound e) g = cancel_round e g"
| "pstep pull display ThreadExit g = thread_exit g"
| "pstep pull display (GuardDrop in_runtime) g = guard_drop in_runtime g"
| "pstep pull display (Poll task_first) g = poll_step task_first g"
| "pstep pull display DropStream g = drop_stream g"
| "pstep pull display Abort g = abort g"

fun prun ::
  "('p \<Rightarrow> 'd pulled \<times> 'p) \<Rightarrow> (data_type \<Rightarrow> string) \<Rightarrow> action list \<Rightarrow> ('d, 'p) cfg \<Rightarrow> ('d, 'p) cfg option" where
  "prun pull display [] g = Some g"
| "prun pull display (a # as) g =
     (case pstep pull display a g of None \<Rightarrow> None | Some g' \<Rightarrow> prun pull display as g')"

text \<open>All streams of the process, over the two budgets they share.\<close>

record ('d, 'p) world =
  budg :: budgets
  streams :: "('d, 'p) pstream list"

definition winit :: "('d, 'p) world" where
  "winit = \<lparr>budg = full_budgets, streams = []\<rparr>"

definition wspawn :: "schema_ref \<Rightarrow> 'p \<Rightarrow> read_ahead \<Rightarrow> ('d, 'p) world \<Rightarrow> ('d, 'p) world" where
  "wspawn schema p mode w = w\<lparr>streams := streams w @ [spawn_channel_stream schema p mode]\<rparr>"

inductive wstep ::
  "('p \<Rightarrow> 'd pulled \<times> 'p) \<Rightarrow> (data_type \<Rightarrow> string) \<Rightarrow> ('d, 'p) world \<Rightarrow> ('d, 'p) world \<Rightarrow> bool"
  for pull display where
  spawn: "wstep pull display w (wspawn schema p mode w)"
| act: "i < length (streams w) \<Longrightarrow>
     pstep pull display a (budg w, streams w ! i) = Some (b', s') \<Longrightarrow>
     wstep pull display w (w\<lparr>budg := b', streams := (streams w)[i := s']\<rparr>)"

definition reachable ::
  "('p \<Rightarrow> 'd pulled \<times> 'p) \<Rightarrow> (data_type \<Rightarrow> string) \<Rightarrow> ('d, 'p) world \<Rightarrow> bool" where
  "reachable pull display w \<longleftrightarrow> (wstep pull display)\<^sup>*\<^sup>* winit w"

text \<open>An executable schedule of the process.\<close>

fun wacts ::
  "('p \<Rightarrow> 'd pulled \<times> 'p) \<Rightarrow> (data_type \<Rightarrow> string) \<Rightarrow> (nat \<times> action) list \<Rightarrow>
   ('d, 'p) world \<Rightarrow> ('d, 'p) world option" where
  "wacts pull display [] w = Some w"
| "wacts pull display ((i, a) # xs) w =
     (if i < length (streams w) then
        (case pstep pull display a (budg w, streams w ! i) of
           None \<Rightarrow> None
         | Some (b', s') \<Rightarrow> wacts pull display xs (w\<lparr>budg := b', streams := (streams w)[i := s']\<rparr>))
      else None)"

lemma reachable_init: "reachable pull display winit"
  by (simp add: reachable_def)

lemma reachable_spawn: "reachable pull display w \<Longrightarrow> reachable pull display (wspawn schema p mode w)"
  unfolding reachable_def by (erule rtranclp.rtrancl_into_rtrancl) (rule wstep.spawn)

lemma reachable_acts:
  "reachable pull display w \<Longrightarrow> wacts pull display xs w = Some w' \<Longrightarrow> reachable pull display w'"
proof (induction xs arbitrary: w)
  case (Cons x xs)
  obtain i a where x: "x = (i, a)" by fastforce
  from Cons.prems x obtain b' s' where i: "i < length (streams w)"
    and p: "pstep pull display a (budg w, streams w ! i) = Some (b', s')"
    and r: "wacts pull display xs (w\<lparr>budg := b', streams := (streams w)[i := s']\<rparr>) = Some w'"
    by (auto split: if_splits option.splits)
  from wstep.act [OF i p] Cons.prems(1)
  have "reachable pull display (w\<lparr>budg := b', streams := (streams w)[i := s']\<rparr>)"
    unfolding reachable_def by (rule rtranclp.rtrancl_into_rtrancl [rotated])
  with r show ?case by (blast intro: Cons.IH)
qed simp

end
