(* ===== verification/Pull_Invariants.thy ===== *)
theory Pull_Invariants
  imports Pull_Stream
begin

text \<open>
  What every reachable state of the streams of a process satisfies: channel capacity and permit
  accounting, conservation of the two process-wide budgets, the agreement of coordinator, round
  and host, the order and the schema of what is delivered, the demand accounting behind
  \<open>ReadAhead::OnDemand\<close>, and what is still allowed to happen after the stream is dropped.
  Each invariant is kept by every transition of one stream (\<open>pstep\<close>) and is lifted to the process
  through the locale \<open>step_invariant\<close>.
\<close>

section \<open>What a state holds\<close>

fun permits_held :: "round_pc \<Rightarrow> nat" where
  "permits_held (RQueued c) = 1"
| "permits_held (RLoop c cs) = 1"
| "permits_held (RPulling c cs) = 1"
| "permits_held (RReserved c cs) = 1"
| "permits_held r = 0"

fun round_credits :: "round_pc \<Rightarrow> credit list" where
  "round_credits (RQueued c) = [c]"
| "round_credits (RLoop c cs) = c # cs"
| "round_credits (RPulling c cs) = c # cs"
| "round_credits (RSent c cs) = c # cs"
| "round_credits (RReserved c cs) = c # cs"
| "round_credits r = []"

fun co_credits :: "co_pc \<Rightarrow> credit list" where
  "co_credits (CoSlot c) = [c]"
| "co_credits c = []"

definition spec_held :: "('d, 'p) pstream \<Rightarrow> nat" where
  "spec_held s = spec_count (co_credits (co s)) + spec_count (round_credits (rnd s))"

definition thread_held :: "('d, 'p) pstream \<Rightarrow> nat" where
  "thread_held s = (case host s of Affine t \<Rightarrow> if t = ThrExited then 0 else 1 | _ \<Rightarrow> 0)"

lemma spec_count_simps [simp]:
  "spec_count [] = 0"
  "spec_count (c # cs) = (if c = Speculative then 1 else 0) + spec_count cs"
  "spec_count (cs @ ds) = spec_count cs + spec_count ds"
  by (simp_all add: spec_count_def)

lemma drop_credits_sel [simp]:
  "spec_avail (drop_credits cs b) = spec_avail b + spec_count cs"
  "affine_avail (drop_credits cs b) = affine_avail b"
  by (simp_all add: drop_credits_def)

lemma try_speculate_SomeD:
  "try_speculate m b = Some (c, b') \<Longrightarrow>
     m = Buffered \<and> c = Speculative \<and> 0 < spec_avail b \<and> b' = b\<lparr>spec_avail := spec_avail b - 1\<rparr>"
  by (auto simp: try_speculate_def split: read_ahead.splits if_splits)

lemmas transition_defs =
  start_host_def PullHost_new_def take_credit_def wake_on_demand_def reserve_slot_def
  round_dispatch_def enter_pull_def pull_returns_def finish_round_def next_slot_def
  next_credit_def report_round_def cancel_round_def thread_exit_def guard_drop_def
  poll_next_def poll_inner_def grant_def drop_stream_def abort_def
  permit_send_def permit_drop_def has_slot_def Let_def

section \<open>The transitions, case by case\<close>

text \<open>
  Inversion of one step: which transition it was, on which branch, with the state it leads to
  written out. Every invariant below is proved over these cases.
\<close>

lemma start_host_cases:
  assumes "start_host sp ini (b, s) = Some (b', s')"
  obtains (Start_Affine) "co s = CoStart" "0 < affine_avail b"
      "b' = b\<lparr>affine_avail := affine_avail b - 1\<rparr>" "s' = s\<lparr>host := Affine ThrAlive, co := CoTop\<rparr>"
  | (Start_Pool) "co s = CoStart" "b' = b" "s' = s\<lparr>host := Pool True, co := CoTop\<rparr>"
  using assms by (auto simp: start_host_def PullHost_new_def split: if_splits)

lemma take_credit_cases:
  assumes "take_credit (b, s) = Some (b', s')"
  obtains (Take_Demand) "co s = CoTop" "0 < demand s" "b' = b"
      "s' = s\<lparr>demand := demand s - 1, co := CoSlot Demanded\<rparr>"
  | (Take_Spec) "co s = CoTop" "demand s = 0" "ps_mode s = Buffered" "0 < spec_avail b"
      "b' = b\<lparr>spec_avail := spec_avail b - 1\<rparr>" "s' = s\<lparr>co := CoSlot Speculative\<rparr>"
  | (Park) "co s = CoTop" "demand s = 0" "b' = b" "s' = s\<lparr>co := CoParked\<rparr>"
proof -
  have c: "co s = CoTop" using assms by (auto simp: take_credit_def split: if_splits)
  note eq = assms [unfolded take_credit_def]
  show ?thesis
  proof (cases "0 < demand s")
    case True
    with c eq show ?thesis by (intro Take_Demand) auto
  next
    case d: False
    show ?thesis
    proof (cases "try_speculate (ps_mode s) b")
      case None
      with c d eq show ?thesis by (intro Park) auto
    next
      case (Some cb)
      with c d eq show ?thesis
        by (cases cb) (auto intro!: Take_Spec dest!: try_speculate_SomeD)
    qed
  qed
qed

lemma wake_on_demand_cases:
  assumes "wake_on_demand (b, s) = Some (b', s')"
  obtains (Wake) "co s = CoParked" "0 < demand s" "b' = b"
      "s' = s\<lparr>demand := demand s - 1, co := CoSlot Demanded\<rparr>"
  using assms by (auto simp: wake_on_demand_def split: if_splits)

lemma reserve_slot_cases:
  assumes "reserve_slot (b, s) = Some (b', s')"
  obtains (Disp_Affine) c where "co s = CoSlot c" "has_slot s" "host s = Affine ThrAlive" "b' = b"
      "s' = s\<lparr>reserved := reserved s + 1, rnd := RQueued c, co := CoRound\<rparr>"
  | (Disp_Pool) c where "co s = CoSlot c" "has_slot s" "host s = Pool True" "b' = b"
      "s' = s\<lparr>reserved := reserved s + 1, host := Pool False, rnd := RQueued c, co := CoRound\<rparr>"
  | (Disp_Gone) c t where "co s = CoSlot c" "has_slot s" "host s = Affine t" "t \<noteq> ThrAlive"
      "b' = drop_credits [c] b" "s' = s\<lparr>co := CoDone\<rparr>"
  | (Disp_Empty) c where "co s = CoSlot c" "has_slot s" "host s = Pool False"
      "b' = drop_credits [c] b" "s' = s\<lparr>co := CoPanic ''pull is in flight''\<rparr>"
  | (Slot_Closed) c where "co s = CoSlot c" "\<not> rx_open s"
      "b' = drop_credits [c] b" "s' = s\<lparr>co := CoDone\<rparr>"
proof -
  obtain c where c: "co s = CoSlot c"
    using assms by (cases "co s") (auto simp: reserve_slot_def)
  show ?thesis
  proof (cases "has_slot s")
    case False
    with assms c show ?thesis
      by (intro Slot_Closed [OF c]) (auto simp: reserve_slot_def split: if_splits)
  next
    case slot: True
    note eq = assms [unfolded reserve_slot_def round_dispatch_def permit_drop_def]
    show ?thesis
    proof (cases "host s")
      case NoHost
      with eq c slot show ?thesis by simp
    next
      case (Affine t)
      with eq c slot show ?thesis
        by (cases "t = ThrAlive") (auto intro: Disp_Affine [OF c slot] Disp_Gone [OF c slot])
    next
      case (Pool f)
      with eq c slot show ?thesis
        by (cases f) (auto intro: Disp_Pool [OF c slot] Disp_Empty [OF c slot])
    qed
  qed
qed

lemma enter_pull_cases:
  assumes "enter_pull (b, s) = Some (b', s')"
  obtains (Enter) c cs where "rnd s = RQueued c \<and> cs = [] \<or> rnd s = RLoop c cs" "b' = b"
      "s' = s\<lparr>rnd := RPulling c cs, pulls := pulls s + 1\<rparr>"
  using assms by (cases "rnd s") (auto simp: enter_pull_def)

text \<open>What one return of \<open>pull()\<close> puts into the channel, and whether the stream goes on.\<close>

fun item_of :: "(data_type \<Rightarrow> string) \<Rightarrow> schema_ref \<Rightarrow> 'd pulled \<Rightarrow> 'd item list" where
  "item_of display schema (Pulled (Inr batch)) =
     (case check_batch_schema display schema batch of Inl e \<Rightarrow> [Inl e] | Inr _ \<Rightarrow> [Inr batch])"
| "item_of display schema (Pulled (Inl e)) = [Inl e]"
| "item_of display schema r = []"

fun goes_on :: "(data_type \<Rightarrow> string) \<Rightarrow> schema_ref \<Rightarrow> 'd pulled \<Rightarrow> bool" where
  "goes_on display schema (Pulled (Inr batch)) = (check_batch_schema display schema batch = Inr ())"
| "goes_on display schema r = False"

lemma pull_returns_cases:
  assumes "pull_returns pull display (b, s) = Some (b', s')"
  obtains (Pull_Good) c cs r p' x where "rnd s = RPulling c cs" "pull (reader s) = (r, p')"
      "goes_on display (ps_schema s) r" "item_of display (ps_schema s) r = [x]" "b' = b"
      "s' = s\<lparr>reader := p', produced := produced s @ [r], reserved := reserved s - 1,
         queue := (if rx_open s then queue s @ [x] else queue s), rnd := RSent c cs\<rparr>"
  | (Pull_Last) c cs r p' x where "rnd s = RPulling c cs" "pull (reader s) = (r, p')"
      "\<not> goes_on display (ps_schema s) r" "item_of display (ps_schema s) r = [x]"
      "b' = drop_credits (c # cs) b"
      "s' = s\<lparr>reader := p', produced := produced s @ [r], reserved := reserved s - 1,
         queue := (if rx_open s then queue s @ [x] else queue s), rnd := RFinished (Inr True)\<rparr>"
  | (Pull_None) c cs r p' out where "rnd s = RPulling c cs" "pull (reader s) = (r, p')"
      "\<not> goes_on display (ps_schema s) r" "item_of display (ps_schema s) r = []"
      "out = Inr True \<or> isl out" "b' = drop_credits (c # cs) b"
      "s' = s\<lparr>reader := p', produced := produced s @ [r], reserved := reserved s - 1,
         rnd := RFinished out\<rparr>"
proof -
  obtain c cs where r: "rnd s = RPulling c cs"
    using assms by (cases "rnd s") (auto simp: pull_returns_def)
  obtain r p' where p: "pull (reader s) = (r, p')" by fastforce
  show ?thesis
  proof (cases r)
    case (Pulled i)
    show ?thesis
    proof (cases i)
      case (Inl e)
      with r p Pulled assms show ?thesis
        by (intro Pull_Last [of c cs r p' "Inl e"])
           (auto simp: pull_returns_def finish_round_def permit_send_def Let_def)
    next
      case (Inr bt)
      note * = r p Pulled this
      note eq = assms [unfolded pull_returns_def finish_round_def permit_send_def Let_def]
      show ?thesis
      proof (cases "check_batch_schema display (ps_schema s) bt")
        case (Inl e)
        with * eq show ?thesis by (intro Pull_Last [OF r p, of "Inl e"]) auto
      next
        case (Inr u)
        with * eq show ?thesis by (intro Pull_Good [OF r p, of "Inr bt"]) auto
      qed
    qed
  next
    case Exhausted
    with r p assms show ?thesis
      by (intro Pull_None [of c cs r p' "Inr True"])
         (auto simp: pull_returns_def finish_round_def permit_drop_def Let_def)
  next
    case (Panicked payload)
    with r p assms show ?thesis
      by (intro Pull_None [of c cs r p' "Inl payload"])
         (auto simp: pull_returns_def finish_round_def permit_drop_def Let_def)
  qed
qed

lemma next_slot_cases:
  assumes "next_slot (b, s) = Some (b', s')"
  obtains (Next_Slot) c cs where "rnd s = RSent c cs" "has_slot s" "b' = b"
      "s' = s\<lparr>reserved := reserved s + 1, rnd := RReserved c cs\<rparr>"
  | (Next_Full) c cs where "rnd s = RSent c cs" "\<not> has_slot s" "b' = drop_credits (c # cs) b"
      "s' = s\<lparr>rnd := RFinished (Inr False)\<rparr>"
  using assms by (cases "rnd s") (auto simp: next_slot_def finish_round_def split: if_splits)

lemma next_credit_cases:
  assumes "next_credit (b, s) = Some (b', s')"
  obtains (Next_Demand) c cs where "rnd s = RReserved c cs" "0 < demand s" "b' = b"
      "s' = s\<lparr>demand := demand s - 1, rnd := RLoop c cs\<rparr>"
  | (Next_Spec) c cs where "rnd s = RReserved c cs" "demand s = 0" "ps_mode s = Buffered"
      "0 < spec_avail b" "b' = b\<lparr>spec_avail := spec_avail b - 1\<rparr>"
      "s' = s\<lparr>rnd := RLoop c (cs @ [Speculative])\<rparr>"
  | (Next_Stop) c cs where "rnd s = RReserved c cs" "demand s = 0"
      "b' = drop_credits (c # cs) b" "s' = s\<lparr>reserved := reserved s - 1, rnd := RFinished (Inr False)\<rparr>"
  using assms
  by (cases "rnd s") (auto simp: next_credit_def finish_round_def permit_drop_def
      split: if_splits option.splits dest!: try_speculate_SomeD)

definition co_after :: "string + bool \<Rightarrow> co_pc \<Rightarrow> co_pc" where
  "co_after out c = (if c = CoRound then
     (case out of Inr False \<Rightarrow> CoTop | Inr True \<Rightarrow> CoDone | Inl p \<Rightarrow> CoPanic p) else c)"

lemma report_round_cases:
  assumes "report_round (b, s) = Some (b', s')"
  obtains (Report_Thread) out t where "rnd s = RFinished out" "host s = Affine t" "b' = b"
      "s' = s\<lparr>rnd := RIdle, co := co_after out (co s),
         host := Affine (if out = Inr False then t else ThrEnding)\<rparr>"
  | (Report_Back) e f where "rnd s = RFinished (Inr e)" "host s = Pool f" "co s = CoRound" "b' = b"
      "s' = s\<lparr>rnd := RIdle, co := co_after (Inr e) (co s), host := Pool True\<rparr>"
  | (Report_Dead) out f where "rnd s = RFinished out" "host s = Pool f" "co s \<noteq> CoRound \<or> isl out"
      "b' = b"
      "s' = s\<lparr>rnd := RIdle, co := co_after out (co s), host := Pool False,
         disposed := disposed s @ [BlockingPool]\<rparr>"
  | (Report_NoHost) out where "rnd s = RFinished out" "host s = NoHost" "b' = b"
      "s' = s\<lparr>rnd := RIdle, co := co_after out (co s)\<rparr>"
proof -
  obtain out where r: "rnd s = RFinished out"
    using assms by (cases "rnd s") (auto simp: report_round_def)
  note eq = assms [unfolded report_round_def]
  show ?thesis
  proof (cases "host s")
    case NoHost
    with eq r show ?thesis by (intro Report_NoHost [OF r]) (auto simp: co_after_def)
  next
    case (Affine t)
    with eq r show ?thesis by (intro Report_Thread [OF r Affine]) (auto simp: co_after_def)
  next
    case (Pool f)
    show ?thesis
    proof (cases "co s = CoRound \<and> \<not> isl out")
      case True
      then obtain e where "out = Inr e" by (cases out) auto
      with True eq r Pool show ?thesis by (intro Report_Back [of e f]) (auto simp: co_after_def)
    next
      case False
      with eq r Pool show ?thesis
        by (intro Report_Dead [OF r Pool]; cases out) (auto simp: co_after_def)
    qed
  qed
qed

lemma cancel_round_cases:
  assumes "cancel_round e (b, s) = Some (b', s')"
  obtains (Cancel) c f where "rnd s = RQueued c" "host s = Pool f" "b' = drop_credits [c] b"
      "s' = s\<lparr>reserved := reserved s - 1, rnd := RIdle,
         co := (if co s = CoRound then CoFailed e else co s), disposed := disposed s @ [BlockingPool]\<rparr>"
  using assms
  by (cases "rnd s"; cases "host s") (auto simp: cancel_round_def permit_drop_def split: list.splits)

lemma thread_exit_cases:
  assumes "thread_exit (b, s) = Some (b', s')"
  obtains (Thread_Exit) t where "rnd s = RIdle" "host s = Affine t" "t \<noteq> ThrExited"
      "t = ThrEnding \<or> terminal (co s)"
      "b' = b\<lparr>affine_avail := affine_avail b + 1\<rparr>"
      "s' = s\<lparr>host := Affine ThrExited, disposed := disposed s @ [PullThread]\<rparr>"
  using assms by (auto simp: thread_exit_def split: if_splits)

lemma guard_drop_cases:
  assumes "guard_drop rt (b, s) = Some (b', s')"
  obtains (Guard_Drop) pl where "terminal (co s)" "host s = Pool True" "pl \<in> {BlockingPool, NoRuntime}"
      "b' = b" "s' = s\<lparr>host := Pool False, disposed := disposed s @ [pl]\<rparr>"
  using assms by (auto simp: guard_drop_def split: if_splits)

lemma grant_sel [simp]:
  "queue (grant s) = queue s" "reserved (grant s) = reserved s" "rx_open (grant s) = rx_open s"
  "co (grant s) = co s" "host (grant s) = host s" "rnd (grant s) = rnd s" "pulls (grant s) = pulls s"
  "produced (grant s) = produced s" "delivered (grant s) = delivered s" "raised (grant s) = raised s"
  "disposed (grant s) = disposed s" "reader (grant s) = reader s" "reader0 (grant s) = reader0 s"
  "pulls_at_drop (grant s) = pulls_at_drop s" "ps_schema (grant s) = ps_schema s" "ps_mode (grant s) = ps_mode s"
  "pulls_at_drop (grant s) = pulls_at_drop s" "requested (grant s)" "reader (grant s) = reader s"
  by (simp_all add: grant_def)

lemma poll_cases:
  assumes "s' = snd (poll_next first s)"
  obtains (Poll_Item) x xs where "queue s = x # xs"
      "s' = (grant s)\<lparr>queue := xs, delivered := delivered s @ [x], requested := False\<rparr>"
  | (Poll_Unwind) p where "co s = CoPanic p" "s' = (grant s)\<lparr>co := CoDone, raised := raised s @ [Inr p]\<rparr>"
  | (Poll_Failed) e where "co s = CoFailed e"
      "s' = (grant s)\<lparr>co := CoDone, raised := raised s @ [Inl e], requested := False\<rparr>"
  | (Poll_Nothing) "queue s = []" "s' = grant s"
proof -
  note eq = assms [unfolded poll_next_def poll_inner_def]
  consider (p) p where "co s = CoPanic p" "queue s = [] \<or> first"
    | (f) e where "co s = CoFailed e" "queue s = [] \<or> first"
    | (x) x xs where "queue s = x # xs" "first \<Longrightarrow> \<nexists>p. co s = CoPanic p" "first \<Longrightarrow> \<nexists>e. co s = CoFailed e"
    | (n) "queue s = []" "\<nexists>p. co s = CoPanic p" "\<nexists>e. co s = CoFailed e"
    by (metis neq_Nil_conv)
  then show ?thesis
  proof cases
    case p
    with eq show ?thesis by (intro Poll_Unwind [OF p(1)]; cases "queue s"; simp)
  next
    case f
    with eq show ?thesis by (intro Poll_Failed [OF f(1)]; cases "queue s"; simp)
  next
    case x
    with eq show ?thesis
      by (intro Poll_Item [OF x(1)]; cases first; cases "co s"; simp)
  next
    case n
    with eq show ?thesis by (intro Poll_Nothing [OF n(1)]; cases "co s"; simp split: if_splits)
  qed
qed

lemma drop_stream_cases:
  assumes "drop_stream (b, s) = Some (b', s')"
  obtains (Drop) "rx_open s" "b' = b" "s' = s\<lparr>rx_open := False, queue := [], pulls_at_drop := pulls s\<rparr>"
  using assms by (auto simp: drop_stream_def split: if_splits)

lemma abort_cases:
  assumes "abort (b, s) = Some (b', s')"
  obtains (Abort_Start) "\<not> rx_open s" "co s = CoStart" "b' = b"
      "s' = s\<lparr>co := CoAborted, disposed := disposed s @ [AsyncWorker]\<rparr>"
  | (Abort_Wait) "\<not> rx_open s" "co s = CoParked \<or> co s = CoRound" "b' = b" "s' = s\<lparr>co := CoAborted\<rparr>"
  | (Abort_Slot) c where "\<not> rx_open s" "co s = CoSlot c" "b' = drop_credits [c] b"
      "s' = s\<lparr>co := CoAborted\<rparr>"
  using assms by (cases "co s") (auto simp: abort_def split: if_splits)

lemma poll_step_cases:
  assumes "poll_step first (b, s) = Some (b', s')"
  obtains (Poll_Item) x xs where "rx_open s" "queue s = x # xs" "b' = b"
      "s' = (grant s)\<lparr>queue := xs, delivered := delivered s @ [x], requested := False\<rparr>"
  | (Poll_Unwind) p where "rx_open s" "co s = CoPanic p" "b' = b"
      "s' = (grant s)\<lparr>co := CoDone, raised := raised s @ [Inr p]\<rparr>"
  | (Poll_Failed) e where "rx_open s" "co s = CoFailed e" "b' = b"
      "s' = (grant s)\<lparr>co := CoDone, raised := raised s @ [Inl e], requested := False\<rparr>"
  | (Poll_Nothing) "rx_open s" "queue s = []" "b' = b" "s' = grant s"
proof -
  have o: "rx_open s" and b: "b' = b" and s': "s' = snd (poll_next first s)"
    using assms by (simp_all add: poll_step_def split: if_splits)
  from s' show ?thesis
    by (cases rule: poll_cases) (use o b that in blast)+
qed

lemmas pstep_elims =
  poll_step_cases
  start_host_cases take_credit_cases wake_on_demand_cases reserve_slot_cases enter_pull_cases
  pull_returns_cases next_slot_cases next_credit_cases report_round_cases cancel_round_cases
  thread_exit_cases guard_drop_cases drop_stream_cases abort_cases

section \<open>The channel\<close>

definition chan_inv :: "('d, 'p) pstream \<Rightarrow> bool" where
  "chan_inv s \<longleftrightarrow> reserved s = permits_held (rnd s)
     \<and> length (queue s) + reserved s \<le> CHANNEL_CAPACITY"

lemma chan_inv_spawn [simp]: "chan_inv (spawn_channel_stream schema p mode)"
  by (simp add: chan_inv_def spawn_channel_stream_def)

section \<open>Control: coordinator, round and host agree\<close>

lemma terminal_simps [simp]:
  "\<not> terminal CoStart" "\<not> terminal CoTop" "\<not> terminal CoParked" "\<not> terminal (CoSlot c)"
  "\<not> terminal CoRound" "terminal CoDone" "terminal (CoPanic p)" "terminal (CoFailed e)"
  "terminal CoAborted"
  by (simp_all add: terminal_def)

fun between_rounds :: "co_pc \<Rightarrow> bool" where
  "between_rounds CoTop = True"
| "between_rounds CoParked = True"
| "between_rounds (CoSlot c) = True"
| "between_rounds c = False"

text \<open>Where the reader is once the coordinator is gone and no round runs.\<close>

fun laid_off :: "pull_host \<Rightarrow> place list \<Rightarrow> co_pc \<Rightarrow> nat \<Rightarrow> bool" where
  "laid_off NoHost ds c n \<longleftrightarrow> ds = [AsyncWorker] \<and> n = 0 \<and> c = CoAborted"
| "laid_off (Affine t) ds c n \<longleftrightarrow> ds = (if t = ThrExited then [PullThread] else [])"
| "laid_off (Pool full) ds c n \<longleftrightarrow> (if full then ds = [] else ds = [BlockingPool] \<or> ds = [NoRuntime])"

text \<open>
  A stream has not started, waits between two rounds with its host ready, has a round under way
  (which an aborted coordinator leaves running), or is over.
\<close>

inductive ctl :: "co_pc \<Rightarrow> round_pc \<Rightarrow> pull_host \<Rightarrow> place list \<Rightarrow> nat \<Rightarrow> bool \<Rightarrow> bool" where
  ctl_start: "ctl CoStart RIdle NoHost [] 0 rx"
| ctl_wait: "between_rounds c \<Longrightarrow> h = Affine ThrAlive \<or> h = Pool True \<Longrightarrow> ctl c RIdle h [] n rx"
| ctl_round: "c = CoRound \<or> c = CoAborted \<and> \<not> rx \<Longrightarrow> r \<noteq> RIdle \<Longrightarrow>
    h = Affine ThrAlive \<or> h = Pool False \<Longrightarrow> ctl c r h [] n rx"
| ctl_over: "terminal c \<Longrightarrow> (c = CoAborted \<longrightarrow> \<not> rx) \<Longrightarrow> laid_off h ds c n \<Longrightarrow> ctl c RIdle h ds n rx"

definition ctl_inv :: "('d, 'p) pstream \<Rightarrow> bool" where
  "ctl_inv s \<longleftrightarrow> ctl (co s) (rnd s) (host s) (disposed s) (pulls s) (rx_open s)"

inductive_simps ctl_by_co:
  "ctl CoStart r h ds n rx" "ctl CoTop r h ds n rx" "ctl CoParked r h ds n rx"
  "ctl (CoSlot c) r h ds n rx" "ctl CoRound r h ds n rx" "ctl CoDone r h ds n rx"
  "ctl (CoPanic p) r h ds n rx" "ctl (CoFailed e) r h ds n rx" "ctl CoAborted r h ds n rx"

lemma ctl_inv_spawn [simp]: "ctl_inv (spawn_channel_stream schema p mode)"
  by (simp add: ctl_inv_def spawn_channel_stream_def ctl_start)

lemma ctl_running: "ctl c r h ds n rx \<Longrightarrow> r \<noteq> RIdle \<Longrightarrow>
    (c = CoRound \<or> c = CoAborted \<and> \<not> rx) \<and> (h = Affine ThrAlive \<or> h = Pool False) \<and> ds = []"
  by (auto elim: ctl.cases)

lemma ctl_running_iff: "r \<noteq> RIdle \<Longrightarrow> ctl c r h ds n rx \<longleftrightarrow>
    (c = CoRound \<or> c = CoAborted \<and> \<not> rx) \<and> (h = Affine ThrAlive \<or> h = Pool False) \<and> ds = []"
  by (auto elim: ctl.cases intro: ctl_round)

lemma ctl_terminal_iff: "terminal c \<Longrightarrow> ctl c RIdle h ds n rx \<longleftrightarrow>
    (c = CoAborted \<longrightarrow> \<not> rx) \<and> laid_off h ds c n"
  by (auto elim: ctl.cases intro: ctl_over)

lemma laid_off_other: "laid_off h ds c n \<Longrightarrow> c \<noteq> CoAborted \<Longrightarrow> laid_off h ds c' n"
  by (cases h) auto

lemma ctl_ending: "ctl c RIdle (Affine ThrEnding) ds n rx \<Longrightarrow> terminal c"
  by (auto elim: ctl.cases)

lemma ctl_thread_ending: "ctl_inv s \<Longrightarrow> host s = Affine ThrEnding \<Longrightarrow> terminal (co s)"
  by (auto simp: ctl_inv_def elim: ctl.cases)

lemma ctl_slot_idle: "ctl_inv s \<Longrightarrow> co s = CoSlot c \<Longrightarrow> rnd s = RIdle"
  by (simp add: ctl_inv_def ctl_by_co)

lemma chan_inv_step:
  assumes "pstep pull display a (b, s) = Some (b', s')" "ctl_inv s" "chan_inv s"
  shows "chan_inv s'"
  using assms
  by (cases a) (auto simp: chan_inv_def has_slot_def dest: ctl_slot_idle elim!: pstep_elims)

lemma ctl_drop: "ctl c r h ds n rx \<Longrightarrow> ctl c r h ds n False"
  by (auto elim!: ctl.cases intro: ctl.intros)

lemma ctl_pulls: "ctl c r h ds n rx \<Longrightarrow> r \<noteq> RIdle \<Longrightarrow> ctl c r h ds m rx"
  by (simp add: ctl_running_iff)

lemma ctl_inv_step:
  assumes st: "pstep pull display a (b, s) = Some (b', s')" and inv: "ctl_inv s"
  shows "ctl_inv s'"
proof (cases a)
  case (Poll f)
  with st inv show ?thesis
    by (cases "rnd s = RIdle")
       (auto simp: ctl_inv_def ctl_terminal_iff ctl_running_iff elim!: poll_step_cases
         dest: laid_off_other)
next
  case (StartHost x y)
  with st inv show ?thesis
    by (auto simp: ctl_inv_def ctl_by_co elim!: start_host_cases)
next
  case ReportRound
  with st inv show ?thesis
    by (auto simp: ctl_inv_def ctl_by_co ctl_running_iff co_after_def
         elim!: report_round_cases split: sum.splits bool.splits)
next
  case (CancelRound e)
  with st inv show ?thesis
    by (auto simp: ctl_inv_def ctl_by_co ctl_running_iff elim!: cancel_round_cases)
next
  case ThreadExit
  with st inv show ?thesis
    by (cases "terminal (co s)")
       (auto simp: ctl_inv_def ctl_terminal_iff dest: ctl_ending elim!: thread_exit_cases)
next
  case (GuardDrop r)
  with st inv show ?thesis
    by (cases "rnd s = RIdle")
       (auto simp: ctl_inv_def ctl_terminal_iff ctl_running_iff elim!: guard_drop_cases)
next
  case TakeCredit
  with st inv show ?thesis
    by (auto simp: ctl_inv_def ctl_by_co elim!: take_credit_cases)
next
  case WakeOnDemand
  with st inv show ?thesis
    by (auto simp: ctl_inv_def ctl_by_co elim!: wake_on_demand_cases)
next
  case ReserveSlot
  with st inv show ?thesis
    by (auto simp: ctl_inv_def ctl_by_co elim!: reserve_slot_cases)
next
  case Abort
  with st inv show ?thesis
    by (auto simp: ctl_inv_def ctl_by_co elim!: abort_cases)
next
  case DropStream
  with st inv show ?thesis
    by (auto simp: ctl_inv_def intro: ctl_drop elim!: drop_stream_cases)
qed (use st inv in \<open>auto simp: ctl_inv_def ctl_running_iff elim!: enter_pull_cases
       pull_returns_cases next_slot_cases next_credit_cases\<close>)

section \<open>The two budgets\<close>

lemma spec_budget_step:
  assumes "pstep pull display a (b, s) = Some (b', s')" "ctl_inv s"
  shows "spec_avail b' + spec_held s' = spec_avail b + spec_held s"
  using assms
  by (cases a) (auto simp: spec_held_def co_after_def dest: ctl_slot_idle elim!: pstep_elims
    split: sum.splits bool.splits)

lemma ctl_start_host: "ctl_inv s \<Longrightarrow> co s = CoStart \<Longrightarrow> host s = NoHost"
  by (simp add: ctl_inv_def ctl_by_co)

lemma ctl_round_alive: "ctl_inv s \<Longrightarrow> rnd s \<noteq> RIdle \<Longrightarrow> host s = Affine t \<Longrightarrow> t = ThrAlive"
  by (auto simp: ctl_inv_def ctl_running_iff)

lemma thread_budget_step:
  assumes "pstep pull display a (b, s) = Some (b', s')" "ctl_inv s"
  shows "affine_avail b' + thread_held s' = affine_avail b + thread_held s"
  using assms
  by (cases a) (auto simp: thread_held_def dest: ctl_start_host ctl_round_alive elim!: pstep_elims)

section \<open>Demand\<close>

text \<open>A credit drawn for a \<open>pull()\<close> that has not begun.\<close>

fun unspent :: "round_pc \<Rightarrow> nat" where
  "unspent (RQueued c) = 1"
| "unspent (RLoop c cs) = 1"
| "unspent r = 0"

definition answered :: "('d, 'p) pstream \<Rightarrow> nat" where
  "answered s = length (delivered s) + length (filter isl (raised s))"

definition demand_inv :: "('d, 'p) pstream \<Rightarrow> bool" where
  "demand_inv s \<longleftrightarrow>
     granted s = answered s + (if requested s then 1 else 0)
     \<and> (ps_mode s = OnDemand \<longrightarrow>
          pulls s + unspent (rnd s) + length (co_credits (co s)) + demand s \<le> granted s)"

lemma demand_inv_spawn [simp]: "demand_inv (spawn_channel_stream schema p mode)"
  by (simp add: demand_inv_def answered_def spawn_channel_stream_def)

lemma granted_grant:
  "requested (grant s)"
  "granted (grant s) = granted s + (if requested s then 0 else 1)"
  "demand (grant s) = demand s + (if requested s then 0 else 1)"
  by (simp_all add: grant_def)

lemma granted_step:
  assumes "pstep pull display a (b, s) = Some (b', s')"
    "granted s = answered s + (if requested s then 1 else 0)"
  shows "granted s' = answered s' + (if requested s' then 1 else 0)"
  using assms by (cases a) (auto simp: answered_def granted_grant elim!: pstep_elims)

lemma co_credits_after [simp]:
  "co_credits (co_after out c) = (if c = CoRound then [] else co_credits c)"
  by (auto simp: co_after_def split: sum.splits bool.splits)

lemma ps_mode_step: "pstep pull display a (b, s) = Some (b', s') \<Longrightarrow> ps_mode s' = ps_mode s"
  by (cases a) (auto elim!: pstep_elims)

definition on_demand_bound :: "('d, 'p) pstream \<Rightarrow> bool" where
  "on_demand_bound s \<longleftrightarrow>
     pulls s + unspent (rnd s) + length (co_credits (co s)) + demand s \<le> granted s"

lemma on_demand_step:
  assumes "pstep pull display a (b, s) = Some (b', s')" "ctl_inv s" "ps_mode s = OnDemand"
    "on_demand_bound s"
  shows "on_demand_bound s'"
  using assms
  by (cases a) (auto simp: on_demand_bound_def granted_grant dest: ctl_slot_idle elim!: pstep_elims)

lemma demand_inv_step:
  assumes "pstep pull display a (b, s) = Some (b', s')" "ctl_inv s" "demand_inv s"
  shows "demand_inv s'"
  using assms granted_step [OF assms(1)] on_demand_step [OF assms(1)]
  by (auto simp: demand_inv_def on_demand_bound_def ps_mode_step)

section \<open>What the consumer sees\<close>

text \<open>The reader run on its own: what \<open>n\<close> calls of \<open>pull()\<close> put out, stopping where the stream does.\<close>

fun read_n ::
  "('p \<Rightarrow> 'd pulled \<times> 'p) \<Rightarrow> (data_type \<Rightarrow> string) \<Rightarrow> schema_ref \<Rightarrow> nat \<Rightarrow> 'p \<Rightarrow>
   'd pulled list \<times> 'p" where
  "read_n pull display schema 0 p = ([], p)"
| "read_n pull display schema (Suc n) p =
     (case pull p of (r, p') \<Rightarrow>
        if goes_on display schema r
        then (case read_n pull display schema n p' of (rs, q) \<Rightarrow> (r # rs, q))
        else ([r], p'))"

definition items_of :: "(data_type \<Rightarrow> string) \<Rightarrow> schema_ref \<Rightarrow> 'd pulled list \<Rightarrow> 'd item list" where
  "items_of display schema rs = concat (map (item_of display schema) rs)"

lemma items_of_simps [simp]:
  "items_of display schema [] = []"
  "items_of display schema (rs @ qs) = items_of display schema rs @ items_of display schema qs"
  "items_of display schema (r # rs) = item_of display schema r @ items_of display schema rs"
  by (simp_all add: items_of_def)

lemma read_n_snoc:
  assumes "read_n pull display schema n p = (rs, q)" "list_all (goes_on display schema) rs"
    "pull q = (r, q')"
  shows "read_n pull display schema (Suc n) p = (rs @ [r], q')"
  using assms
proof (induction n arbitrary: p rs)
  case (Suc n)
  obtain r1 p1 where p: "pull p = (r1, p1)" by fastforce
  from Suc.prems p obtain rs' where rs: "rs = r1 # rs'" and g: "goes_on display schema r1"
    and n: "read_n pull display schema n p1 = (rs', q)"
    by (auto split: if_splits prod.splits)
  from Suc.prems rs have "list_all (goes_on display schema) rs'" by simp
  from Suc.IH [OF n this Suc.prems(3)] show ?case
    by (subst read_n.simps(2)) (simp del: read_n.simps add: p g rs)
qed simp

declare read_n.simps(2) [simp del]

text \<open>The stream has seen its last \<open>pull()\<close>.\<close>

definition ended :: "('d, 'p) pstream \<Rightarrow> bool" where
  "ended s \<longleftrightarrow> rnd s = RIdle \<and> terminal (co s) \<or> (\<exists>out. rnd s = RFinished out \<and> out \<noteq> Inr False)"

definition in_pull :: "round_pc \<Rightarrow> nat" where
  "in_pull r = (case r of RPulling _ _ \<Rightarrow> 1 | _ \<Rightarrow> 0)"

definition order_inv ::
  "('p \<Rightarrow> 'd pulled \<times> 'p) \<Rightarrow> (data_type \<Rightarrow> string) \<Rightarrow> ('d, 'p) pstream \<Rightarrow> bool" where
  "order_inv pull display s \<longleftrightarrow>
     pulls s = length (produced s) + in_pull (rnd s)
     \<and> read_n pull display (ps_schema s) (length (produced s)) (reader0 s) = (produced s, reader s)
     \<and> (list_all (goes_on display (ps_schema s)) (produced s) \<or> ended s)
     \<and> (if rx_open s then delivered s @ queue s = items_of display (ps_schema s) (produced s)
        else queue s = [] \<and> prefix (delivered s) (items_of display (ps_schema s) (produced s)))"

lemma order_inv_spawn [simp]: "order_inv pull display (spawn_channel_stream schema p mode)"
  by (simp add: order_inv_def in_pull_def spawn_channel_stream_def)

lemma order_inv_return:
  assumes "order_inv pull display s" "rnd s = RPulling c cs" "pull (reader s) = (r, p')"
  shows "read_n pull display (ps_schema s) (Suc (length (produced s))) (reader0 s)
           = (produced s @ [r], p')"
    and "pulls s = Suc (length (produced s))"
    and "list_all (goes_on display (ps_schema s)) (produced s)"
  using assms by (auto simp: order_inv_def ended_def in_pull_def intro: read_n_snoc)

lemma in_pull_simps [simp]:
  "in_pull RIdle = 0" "in_pull (RQueued c) = 0" "in_pull (RLoop c cs) = 0"
  "in_pull (RPulling c cs) = 1" "in_pull (RSent c cs) = 0" "in_pull (RReserved c cs) = 0"
  "in_pull (RFinished out) = 0"
  by (simp_all add: in_pull_def)

lemma ctl_rnd_co: "ctl_inv s \<Longrightarrow> rnd s = RIdle \<or> co s = CoRound \<or> co s = CoAborted \<and> \<not> rx_open s"
  by (auto simp: ctl_inv_def elim: ctl.cases)

lemma ended_step:
  assumes "pstep pull display a (b, s) = Some (b', s')" "ctl_inv s" "ended s"
  shows "ended s'"
  using assms(3) unfolding ended_def
proof (elim disjE conjE exE)
  assume "rnd s = RIdle" "terminal (co s)"
  with assms(1) show "rnd s' = RIdle \<and> terminal (co s') \<or> (\<exists>out. rnd s' = RFinished out \<and> out \<noteq> Inr False)"
    by (cases a) (auto elim!: pstep_elims)
next
  fix out assume "rnd s = RFinished out" "out \<noteq> Inr False"
  with assms(1) ctl_rnd_co [OF assms(2)]
  show "rnd s' = RIdle \<and> terminal (co s') \<or> (\<exists>out. rnd s' = RFinished out \<and> out \<noteq> Inr False)"
    by (cases a) (auto simp: co_after_def elim!: pstep_elims split: sum.splits bool.splits)
qed

text \<open>The steps other than a poll, a drop and the two ends of a \<open>pull()\<close> leave the traffic alone.\<close>

definition same_traffic :: "('d, 'p) pstream \<Rightarrow> ('d, 'p) pstream \<Rightarrow> bool" where
  "same_traffic s t \<longleftrightarrow>
     ps_schema t = ps_schema s \<and> pulls t = pulls s \<and> in_pull (rnd t) = in_pull (rnd s)
     \<and> produced t = produced s \<and> reader t = reader s \<and> reader0 t = reader0 s
     \<and> rx_open t = rx_open s \<and> delivered t = delivered s \<and> queue t = queue s"

lemma same_traffic_step:
  assumes "pstep pull display a (b, s) = Some (b', s')" "ctl_inv s"
    "a \<noteq> EnterPull" "a \<noteq> PullReturns" "a \<noteq> DropStream" "\<And>f. a \<noteq> Poll f"
  shows "same_traffic s s'"
  using assms
  by (cases a) (auto simp: same_traffic_def dest: ctl_slot_idle elim!: pstep_elims)

lemma order_inv_frame:
  "order_inv pull display s \<Longrightarrow> same_traffic s t \<Longrightarrow> (ended s \<Longrightarrow> ended t) \<Longrightarrow> order_inv pull display t"
  by (simp add: order_inv_def same_traffic_def) blast

lemma order_inv_step:
  assumes st: "pstep pull display a (b, s) = Some (b', s')"
    and inv: "ctl_inv s" "order_inv pull display s"
  shows "order_inv pull display s'"
proof -
  consider (ret) "a = PullReturns" | (poll) f where "a = Poll f" | (enter) "a = EnterPull"
    | (drp) "a = DropStream"
    | (other) "a \<noteq> EnterPull" "a \<noteq> PullReturns" "a \<noteq> DropStream" "\<And>f. a \<noteq> Poll f"
    by (cases a) auto
  then show ?thesis
  proof cases
    case ret
    with st have "pull_returns pull display (b, s) = Some (b', s')" by simp
    then show ?thesis
    proof (cases rule: pull_returns_cases)
      case (Pull_Good c cs r p' x)
      with inv order_inv_return [OF inv(2) Pull_Good(1,2)] show ?thesis
        by (auto simp: order_inv_def ended_def)
    next
      case (Pull_Last c cs r p' x)
      with inv order_inv_return [OF inv(2) Pull_Last(1,2)] show ?thesis
        by (auto simp: order_inv_def ended_def)
    next
      case (Pull_None c cs r p' out)
      with inv order_inv_return [OF inv(2) Pull_None(1,2)] show ?thesis
        by (auto simp: order_inv_def ended_def)
    qed
  next
    case (poll f)
    with st inv show ?thesis by (auto simp: order_inv_def ended_def elim!: poll_step_cases)
  next
    case enter
    with st inv show ?thesis by (auto simp: order_inv_def ended_def elim!: enter_pull_cases)
  next
    case drp
    with st inv show ?thesis
      by (auto simp: order_inv_def ended_def intro: prefixI [OF sym] elim!: drop_stream_cases)
  next
    case other
    with same_traffic_step [OF st inv(1)] ended_step [OF st inv(1)] inv(2) show ?thesis
      by (blast intro: order_inv_frame)
  qed
qed

section \<open>The end of the stream\<close>

text \<open>A stream that ends while it is read ends because its reader did, or reports its own failure.\<close>

definition reader_over :: "(data_type \<Rightarrow> string) \<Rightarrow> ('d, 'p) pstream \<Rightarrow> bool" where
  "reader_over display s \<longleftrightarrow>
     produced s \<noteq> [] \<and> \<not> goes_on display (ps_schema s) (last (produced s))"

fun over_co :: "co_pc \<Rightarrow> bool" where
  "over_co CoDone = True"
| "over_co (CoPanic p) = True"
| "over_co c = False"

fun over_rnd :: "round_pc \<Rightarrow> bool" where
  "over_rnd (RFinished out) = (out \<noteq> Inr False)"
| "over_rnd r = False"

definition end_inv :: "(data_type \<Rightarrow> string) \<Rightarrow> ('d, 'p) pstream \<Rightarrow> bool" where
  "end_inv display s \<longleftrightarrow>
     (over_rnd (rnd s) \<longrightarrow> reader_over display s)
     \<and> (rx_open s \<and> over_co (co s) \<longrightarrow>
          reader_over display s \<or> filter isl (raised s) \<noteq> [])"

lemma end_inv_spawn [simp]: "end_inv display (spawn_channel_stream schema p mode)"
  by (simp add: end_inv_def spawn_channel_stream_def)

lemma reader_over_frame: "same_traffic s t \<Longrightarrow> reader_over display t = reader_over display s"
  by (simp add: same_traffic_def reader_over_def)

lemma ctl_slot_host: "ctl_inv s \<Longrightarrow> co s = CoSlot c \<Longrightarrow> host s = Affine ThrAlive \<or> host s = Pool True"
  by (simp add: ctl_inv_def ctl_by_co)

lemma pstep_cases_report:
  assumes "pstep pull display a (b, s) = Some (b', s')" "a = ReportRound"
  obtains out where "rnd s = RFinished out" "rnd s' = RIdle" "co s' = co_after out (co s)"
    "rx_open s' = rx_open s" "requested s' = requested s" "queue s' = queue s" "demand s' = demand s"
    "raised s' = raised s"
  using assms by (auto elim!: report_round_cases)

lemma co_after_over:
  "over_co (co_after out CoRound) \<longleftrightarrow> out \<noteq> Inr False"
  by (auto simp: co_after_def split: sum.splits bool.splits)

lemma end_inv_report:
  assumes st: "pstep pull display a (b, s) = Some (b', s')" and a: "a = ReportRound"
    and inv: "ctl_inv s" "end_inv display s"
  shows "end_inv display s'"
proof -
  from st a obtain out where r: "rnd s = RFinished out" "rnd s' = RIdle" "co s' = co_after out (co s)"
    "rx_open s' = rx_open s" by (rule pstep_cases_report)
  have o: "reader_over display s' = reader_over display s"
    using reader_over_frame [OF same_traffic_step [OF st inv(1)]] a by simp
  from inv(2) r(1) have over: "out \<noteq> Inr False \<Longrightarrow> reader_over display s"
    by (simp add: end_inv_def)
  from ctl_rnd_co [OF inv(1)] r(1) have "rx_open s \<Longrightarrow> co s = CoRound" by auto
  then have "rx_open s \<Longrightarrow> over_co (co s') \<Longrightarrow> reader_over display s"
    using over co_after_over [of out] r(3) by simp
  with o r show ?thesis by (simp add: end_inv_def)
qed

lemma end_frame:
  assumes "end_inv display s" "reader_over display t = reader_over display s" "raised t = raised s"
    "over_rnd (rnd t) \<Longrightarrow> over_rnd (rnd s)" "rx_open t \<Longrightarrow> over_co (co t) \<Longrightarrow> rx_open s \<and> over_co (co s)"
  shows "end_inv display t"
  using assms by (simp add: end_inv_def)

lemma end_quiet_step:
  assumes "pstep pull display a (b, s) = Some (b', s')" "ctl_inv s"
    "a \<noteq> PullReturns" "a \<noteq> ReportRound" "\<And>f. a \<noteq> Poll f"
  shows "raised s' = raised s \<and> (over_rnd (rnd s') \<longrightarrow> over_rnd (rnd s))
    \<and> (rx_open s' \<and> over_co (co s') \<longrightarrow> rx_open s \<and> over_co (co s))"
  using assms ctl_slot_host [OF assms(2)] ctl_slot_idle [OF assms(2)]
  by (cases a) (auto elim!: pstep_elims split: if_splits)

lemma end_inv_step:
  assumes st: "pstep pull display a (b, s) = Some (b', s')" and inv: "ctl_inv s" "end_inv display s"
  shows "end_inv display s'"
proof -
  consider (ret) "a = PullReturns" | (poll) f where "a = Poll f" | (report) "a = ReportRound"
    | (other) "a \<noteq> PullReturns" "a \<noteq> ReportRound" "\<And>f. a \<noteq> Poll f"
    by (cases a) auto
  then show ?thesis
  proof cases
    case ret
    with st have "pull_returns pull display (b, s) = Some (b', s')" by simp
    then show ?thesis
      by (cases rule: pull_returns_cases)
         (use ctl_rnd_co [OF inv(1)] in \<open>simp_all add: end_inv_def reader_over_def, auto\<close>)
  next
    case (poll f)
    with st inv show ?thesis by (auto simp: end_inv_def reader_over_def elim!: poll_step_cases)
  next
    case report
    then show ?thesis by (rule end_inv_report [OF st _ inv])
  next
    case other
    have "produced s' = produced s \<and> ps_schema s' = ps_schema s"
      using other st by (cases a) (auto elim!: pstep_elims)
    then have "reader_over display s' = reader_over display s" by (simp add: reader_over_def)
    with end_quiet_step [OF st inv(1) other] inv(2) show ?thesis by (blast intro: end_frame)
  qed
qed

section \<open>No lost request\<close>

text \<open>
  An unanswered request of the consumer has an item waiting, a credit on its way to a \<open>pull()\<close>, a
  \<open>pull()\<close> under way, or the end of the stream coming.
\<close>

definition wake_inv :: "('d, 'p) pstream \<Rightarrow> bool" where
  "wake_inv s \<longleftrightarrow> (rx_open s \<and> requested s \<longrightarrow>
     queue s \<noteq> [] \<or> 0 < demand s \<or> co_credits (co s) \<noteq> [] \<or> 0 < unspent (rnd s)
     \<or> 0 < in_pull (rnd s) \<or> ended s)"

lemma wake_inv_spawn [simp]: "wake_inv (spawn_channel_stream schema p mode)"
  by (simp add: wake_inv_def spawn_channel_stream_def)

lemma wake_inv_step:
  assumes st: "pstep pull display a (b, s) = Some (b', s')" and inv: "ctl_inv s" "wake_inv s"
  shows "wake_inv s'"
proof (cases "ended s")
  case True
  with ended_step [OF st inv(1)] show ?thesis by (simp add: wake_inv_def)
next
  case n: False
  show ?thesis
  proof (cases a)
    case PullReturns
    with st show ?thesis by (auto simp: wake_inv_def ended_def elim!: pull_returns_cases)
  next
    case ReportRound
    with st inv ctl_rnd_co [OF inv(1)] have "wake_inv s' \<or> ended s"
      by (elim pstep_cases_report) (auto simp: wake_inv_def)
    with n show ?thesis by simp
  next
    case (CancelRound e)
    with st inv ctl_rnd_co [OF inv(1)] show ?thesis
      by (auto simp: wake_inv_def ended_def elim!: cancel_round_cases)
  next
    case ReserveSlot
    with st inv ctl_slot_idle [OF inv(1)] show ?thesis
      by (auto simp: wake_inv_def ended_def elim!: reserve_slot_cases)
  next
    case (Poll f)
    with st inv n show ?thesis
      by (auto simp: wake_inv_def granted_grant elim!: poll_step_cases split: if_splits)
  qed (use st inv n in \<open>auto simp: wake_inv_def elim!: pstep_elims\<close>)
qed

section \<open>After the stream is dropped\<close>

text \<open>A \<open>pull()\<close> that is already paid for when the receiver goes away.\<close>

fun committed :: "round_pc \<Rightarrow> nat" where
  "committed (RQueued c) = 1"
| "committed (RLoop c cs) = 1"
| "committed (RReserved c cs) = 1"
| "committed r = 0"

lemma committed_le: "committed r \<le> 1"
  by (cases r) auto

definition drop_inv :: "('d, 'p) pstream \<Rightarrow> bool" where
  "drop_inv s \<longleftrightarrow> (\<not> rx_open s \<longrightarrow> pulls s + committed (rnd s) \<le> pulls_at_drop s + 1)"

lemma drop_inv_spawn [simp]: "drop_inv (spawn_channel_stream schema p mode)"
  by (simp add: drop_inv_def spawn_channel_stream_def)

lemma drop_inv_step:
  assumes "pstep pull display a (b, s) = Some (b', s')" "drop_inv s"
  shows "drop_inv s'"
  using assms committed_le [of "rnd s"]
  by (cases a) (auto simp: drop_inv_def has_slot_def elim!: pstep_elims)

section \<open>The invariant of a stream and of the process\<close>

definition stream_inv ::
  "('p \<Rightarrow> 'd pulled \<times> 'p) \<Rightarrow> (data_type \<Rightarrow> string) \<Rightarrow> ('d, 'p) pstream \<Rightarrow> bool" where
  "stream_inv pull display s \<longleftrightarrow> ctl_inv s \<and> chan_inv s \<and> demand_inv s
     \<and> order_inv pull display s \<and> end_inv display s \<and> wake_inv s \<and> drop_inv s"

lemma stream_inv_spawn [simp]: "stream_inv pull display (spawn_channel_stream schema p mode)"
  by (simp add: stream_inv_def)

lemma stream_inv_step [inv_intros]:
  assumes "pstep pull display a (b, s) = Some (b', s')" "stream_inv pull display s"
  shows "stream_inv pull display s'"
  using assms
  by (auto simp: stream_inv_def intro: ctl_inv_step chan_inv_step demand_inv_step order_inv_step
    end_inv_step wake_inv_step drop_inv_step)

definition budgets_kept :: "('d, 'p) world \<Rightarrow> bool" where
  "budgets_kept w \<longleftrightarrow>
     spec_avail (budg w) + sum_list (map spec_held (streams w)) = SPECULATION_BUDGET
     \<and> affine_avail (budg w) + sum_list (map thread_held (streams w)) = AFFINE_THREAD_BUDGET"

definition world_inv ::
  "('p \<Rightarrow> 'd pulled \<times> 'p) \<Rightarrow> (data_type \<Rightarrow> string) \<Rightarrow> ('d, 'p) world \<Rightarrow> bool" where
  "world_inv pull display w \<longleftrightarrow> list_all (stream_inv pull display) (streams w) \<and> budgets_kept w"

lemma spawn_holds_nothing [simp]:
  "spec_held (spawn_channel_stream schema p mode) = 0"
  "thread_held (spawn_channel_stream schema p mode) = 0"
  by (simp_all add: spec_held_def thread_held_def spawn_channel_stream_def)

lemma budgets_kept_act:
  assumes "budgets_kept w" "i < length (streams w)"
    and "spec_avail b' + spec_held s' = spec_avail (budg w) + spec_held (streams w ! i)"
    and "affine_avail b' + thread_held s' = affine_avail (budg w) + thread_held (streams w ! i)"
  shows "budgets_kept (w\<lparr>budg := b', streams := (streams w)[i := s']\<rparr>)"
  using assms sum_list_update_nat [of i "map spec_held (streams w)" "spec_held s'"]
    sum_list_update_nat [of i "map thread_held (streams w)" "thread_held s'"]
  by (simp add: budgets_kept_def map_update)

lemma world_inv_step:
  assumes "wstep pull display w w'" "world_inv pull display w"
  shows "world_inv pull display w'"
  using assms
proof cases
  case (spawn schema p mode)
  with assms(2) show ?thesis
    by (auto simp: world_inv_def budgets_kept_def wspawn_def)
next
  case (act i a b' s')
  from assms(2) act(2) have inv: "stream_inv pull display (streams w ! i)"
    by (simp add: world_inv_def list_all_length)
  then have c: "ctl_inv (streams w ! i)" by (simp add: stream_inv_def)
  show ?thesis
    using assms(2) act stream_inv_step [OF act(3) inv]
      budgets_kept_act [OF _ act(2) spec_budget_step [OF act(3) c] thread_budget_step [OF act(3) c]]
    by (auto simp: world_inv_def list_all_length nth_list_update)
qed

interpretation process: step_invariant "\<lambda>w. w = winit" "wstep pull display" "world_inv pull display"
  for pull :: "'p \<Rightarrow> 'd pulled \<times> 'p" and display
proof unfold_locales
  show "world_inv pull display w" if "w = winit" for w :: "('d, 'p) world"
    using that by (simp add: world_inv_def budgets_kept_def winit_def full_budgets_def)
qed (rule world_inv_step)

lemma reachable_inv: "reachable pull display w \<Longrightarrow> world_inv pull display w"
  unfolding reachable_def by (rule process.reached_invar) simp_all

lemma reachable_stream:
  assumes "reachable pull display w" "s \<in> set (streams w)"
  shows "ctl_inv s" "chan_inv s" "demand_inv s" "order_inv pull display s"
    "end_inv display s" "wake_inv s" "drop_inv s"
  using reachable_inv [OF assms(1)] assms(2)
  by (auto simp: world_inv_def stream_inv_def list_all_iff)

end
