(* ===== verification/Pull_Properties.thy ===== *)
theory Pull_Properties
  imports Pull_Invariants
begin

text \<open>
  What the bridge promises its consumer and the process: bounded memory, bounded speculation and
  threads, laziness on demand, order and schema of what is delivered, progress for a consumer
  that waits, and an orderly end for a stream that is dropped. The properties hold in every state
  the process can reach, whatever the schedule and whatever the reader does.
\<close>

section \<open>Progress\<close>

text \<open>The consumer has asked, nothing is there yet, and the stream is not over.\<close>

definition waiting :: "('d, 'p) pstream \<Rightarrow> bool" where
  "waiting s \<longleftrightarrow> rx_open s \<and> requested s \<and> queue s = [] \<and> \<not> terminal (co s)"

fun is_producer :: "action \<Rightarrow> bool" where
  "is_producer (Poll _) = False"
| "is_producer DropStream = False"
| "is_producer Abort = False"
| "is_producer _ = True"

fun round_rank :: "round_pc \<Rightarrow> nat" where
  "round_rank (RSent _ _) = 12"
| "round_rank (RReserved _ _) = 11"
| "round_rank (RFinished out) = (if out = Inr False then 10 else 3)"
| "round_rank (RQueued _) = 5"
| "round_rank (RLoop _ _) = 5"
| "round_rank (RPulling _ _) = 4"
| "round_rank RIdle = 0"

fun co_rank :: "co_pc \<Rightarrow> nat" where
  "co_rank CoStart = 9"
| "co_rank CoTop = 8"
| "co_rank CoParked = 7"
| "co_rank (CoSlot _) = 6"
| "co_rank _ = 0"

lemma round_rank_le: "round_rank r \<le> 12"
  by (cases r) auto

definition serve_rank :: "('d, 'p) pstream \<Rightarrow> nat" where
  "serve_rank s = co_rank (co s) + round_rank (rnd s)"

text \<open>The step the producer side takes next.\<close>

fun next_action :: "co_pc \<Rightarrow> round_pc \<Rightarrow> action" where
  "next_action CoStart _ = StartHost True True"
| "next_action CoTop _ = TakeCredit"
| "next_action CoParked _ = WakeOnDemand"
| "next_action (CoSlot _) _ = ReserveSlot"
| "next_action _ (RQueued _) = EnterPull"
| "next_action _ (RLoop _ _) = EnterPull"
| "next_action _ (RPulling _ _) = PullReturns"
| "next_action _ (RSent _ _) = NextSlot"
| "next_action _ (RReserved _ _) = NextCredit"
| "next_action _ _ = ReportRound"

lemma take_credit_some: "co s = CoTop \<Longrightarrow> take_credit (b, s) \<noteq> None"
  by (auto simp: take_credit_def split: option.splits)

lemma pull_returns_some: "rnd s = RPulling c cs \<Longrightarrow> pull_returns pull display (b, s) \<noteq> None"
  by (simp add: pull_returns_def Let_def split: prod.splits)

lemma round_action_some:
  assumes "rnd s \<noteq> RIdle" "co s = CoRound"
  shows "pstep pull display (next_action (co s) (rnd s)) (b, s) \<noteq> None"
  using assms pull_returns_some
  by (cases "rnd s") (auto simp: enter_pull_def next_slot_def next_credit_def report_round_def)

lemma waiting_progress:
  assumes inv: "ctl_inv s" "chan_inv s" "wake_inv s" and w: "waiting s"
  shows "pstep pull display (next_action (co s) (rnd s)) (b, s) \<noteq> None"
proof (cases "co s")
  case CoStart
  then show ?thesis by (simp add: start_host_def split: prod.splits)
next
  case CoTop
  then show ?thesis using take_credit_some by simp
next
  case CoParked
  with inv w have "0 < demand s"
    by (auto simp: ctl_inv_def ctl_by_co wake_inv_def waiting_def ended_def)
  with CoParked show ?thesis by (simp add: wake_on_demand_def)
next
  case (CoSlot c)
  with inv w have "has_slot s" "host s = Affine ThrAlive \<or> host s = Pool True"
    by (auto simp: ctl_inv_def ctl_by_co has_slot_def waiting_def chan_inv_def CHANNEL_CAPACITY_def)
  with CoSlot show ?thesis by (auto simp: reserve_slot_def round_dispatch_def)
next
  case CoRound
  with inv(1) have "rnd s \<noteq> RIdle" by (auto simp: ctl_inv_def ctl_by_co)
  with CoRound show ?thesis using round_action_some by metis
qed (use w in \<open>simp_all add: waiting_def\<close>)

lemma next_action_producer: "is_producer (next_action c r)"
  by (cases "(c, r)" rule: next_action.cases) simp_all

lemma waiting_rank:
  assumes inv: "ctl_inv s" and w: "waiting s" and pr: "is_producer a"
    and st: "pstep pull display a (b, s) = Some (b', s')"
  shows "waiting s' \<longrightarrow> serve_rank s' < serve_rank s"
  using assms ctl_rnd_co [OF inv] ctl_slot_idle [OF inv] ctl_thread_ending [OF inv]
  by (cases a) (auto simp: waiting_def serve_rank_def co_after_def elim!: pstep_elims
    split: if_splits sum.splits bool.splits)

lemma producer_keeps_request:
  "pstep pull display a (b, s) = Some (b', s') \<Longrightarrow> is_producer a \<Longrightarrow>
     rx_open s' = rx_open s \<and> requested s' = requested s"
  by (cases a) (auto elim!: pstep_elims)

section \<open>After the drop\<close>

text \<open>How many steps a dropped stream has left at most.\<close>

fun round_left :: "round_pc \<Rightarrow> nat" where
  "round_left (RReserved _ _) = 7"
| "round_left (RQueued _) = 6"
| "round_left (RLoop _ _) = 6"
| "round_left (RPulling _ _) = 5"
| "round_left (RSent _ _) = 4"
| "round_left (RFinished _) = 3"
| "round_left RIdle = 0"

fun co_left :: "co_pc \<Rightarrow> nat" where
  "co_left CoStart = 6"
| "co_left CoRound = 5"
| "co_left CoTop = 4"
| "co_left CoParked = 3"
| "co_left (CoSlot _) = 2"
| "co_left (CoPanic _) = 1"
| "co_left (CoFailed _) = 1"
| "co_left _ = 0"

fun host_left :: "pull_host \<Rightarrow> nat" where
  "host_left NoHost = 2"
| "host_left (Affine t) = (case t of ThrAlive \<Rightarrow> 2 | ThrEnding \<Rightarrow> 1 | ThrExited \<Rightarrow> 0)"
| "host_left (Pool full) = (if full then 1 else 0)"

definition drop_rank :: "('d, 'p) pstream \<Rightarrow> nat" where
  "drop_rank s = round_left (rnd s) + co_left (co s) + host_left (host s)"

lemma co_left_after: "co_left (co_after out c) \<le> co_left c"
  by (auto simp: co_after_def split: sum.splits bool.splits)

lemma host_left_le: "host_left h \<le> 2"
  by (cases h) (auto split: thread_state.splits)

lemma drop_rank_step:
  assumes st: "pstep pull display a (b, s) = Some (b', s')" and inv: "ctl_inv s" and d: "\<not> rx_open s"
  shows "\<not> rx_open s' \<and> drop_rank s' < drop_rank s"
proof (cases "a = ReportRound")
  case True
  with st obtain out where "rnd s = RFinished out" "rnd s' = RIdle" "co s' = co_after out (co s)"
    "rx_open s' = rx_open s" by (rule pstep_cases_report)
  with d co_left_after [of out "co s"] host_left_le [of "host s'"] show ?thesis
    by (simp add: drop_rank_def)
next
  case False
  with st d ctl_start_host [OF inv] show ?thesis
    by (cases a) (auto simp: drop_rank_def has_slot_def elim!: pstep_elims split: thread_state.splits)
qed

text \<open>No step of the stream can be taken, whatever the budgets are.\<close>

definition stuck ::
  "('p \<Rightarrow> 'd pulled \<times> 'p) \<Rightarrow> (data_type \<Rightarrow> string) \<Rightarrow> ('d, 'p) pstream \<Rightarrow> bool" where
  "stuck pull display s \<longleftrightarrow> (\<forall>a b. pstep pull display a (b, s) = None)"

lemma stuckD: "stuck pull display s \<Longrightarrow> pstep pull display a (b, s) = None"
  by (simp add: stuck_def)

lemma aborted_action_some:
  assumes "rnd s \<noteq> RIdle" "co s = CoAborted"
  shows "pstep pull display (next_action (co s) (rnd s)) (b, s) \<noteq> None"
  using assms pull_returns_some
  by (cases "rnd s") (auto simp: enter_pull_def next_slot_def next_credit_def report_round_def)

lemma stuck_over:
  assumes st: "stuck pull display s" and inv: "ctl_inv s" and d: "\<not> rx_open s"
  shows "rnd s = RIdle \<and> terminal (co s) \<and> laid_off (host s) (disposed s) (co s) (pulls s)
     \<and> host s \<noteq> Affine ThrAlive \<and> host s \<noteq> Affine ThrEnding \<and> host s \<noteq> Pool True"
proof -
  have r: "rnd s = RIdle"
  proof (rule ccontr)
    assume n: "rnd s \<noteq> RIdle"
    with ctl_rnd_co [OF inv] have "co s = CoRound \<or> co s = CoAborted" by auto
    with n round_action_some aborted_action_some stuckD [OF st] show False by metis
  qed
  have t: "terminal (co s)"
  proof (cases "co s")
    case CoTop
    with stuckD [OF st, of TakeCredit full_budgets] take_credit_some [OF CoTop, of full_budgets]
    show ?thesis by simp
  next
    case CoRound
    with inv r show ?thesis by (simp add: ctl_inv_def ctl_by_co)
  qed (use stuckD [OF st, of Abort] d in \<open>simp_all add: abort_def\<close>)
  show ?thesis
    using stuckD [OF st, of ThreadExit] stuckD [OF st, of "GuardDrop True"] r t inv
    by (auto simp: ctl_inv_def ctl_terminal_iff thread_exit_def guard_drop_def)
qed

lemma laid_off_done:
  assumes "laid_off h ds c n" "h \<noteq> Affine ThrAlive" "h \<noteq> Affine ThrEnding" "h \<noteq> Pool True"
  shows "length ds = 1 \<and> (AsyncWorker \<in> set ds \<longrightarrow> n = 0)"
  using assms by (cases h; cases "\<exists>t. h = Affine t") (auto split: if_splits, metis thread_state.exhaust)

section \<open>A round on its own\<close>

text \<open>
  \<open>drain_batches\<close> as one call: the steps of the round one after another, with nobody else in
  between. A step that is not at its point has been overtaken by the end of the round.
\<close>

definition drain_once ::
  "('p \<Rightarrow> 'd pulled \<times> 'p) \<Rightarrow> (data_type \<Rightarrow> string) \<Rightarrow> ('d, 'p) cfg \<Rightarrow> ('d, 'p) cfg" where
  "drain_once pull display g =
     (case enter_pull g of None \<Rightarrow> g | Some g1 \<Rightarrow>
     (case pull_returns pull display g1 of None \<Rightarrow> g1 | Some g2 \<Rightarrow>
     (case next_slot g2 of None \<Rightarrow> g2 | Some g3 \<Rightarrow>
     (case next_credit g3 of None \<Rightarrow> g3 | Some g4 \<Rightarrow> g4))))"

fun round_ready :: "round_pc \<Rightarrow> bool" where
  "round_ready (RQueued c) = True"
| "round_ready (RLoop c cs) = True"
| "round_ready r = False"

definition drain_tail :: "('d, 'p) cfg \<Rightarrow> ('d, 'p) cfg" where
  "drain_tail g =
     (case next_slot g of None \<Rightarrow> g | Some g' \<Rightarrow>
     (case next_credit g' of None \<Rightarrow> g' | Some g'' \<Rightarrow> g''))"

lemma drain_tail_finished: "rnd s = RFinished out \<Longrightarrow> drain_tail (b, s) = (b, s)"
  by (simp add: drain_tail_def next_slot_def)

lemma drain_tail_sent:
  assumes r: "rnd s = RSent c cs" and g: "drain_tail (b, s) = (b', s')"
  shows "pulls s' = pulls s \<and> (\<exists>as. prun pull display as (b, s) = Some (b', s'))
    \<and> ((\<exists>out. rnd s' = RFinished out) \<or> (\<exists>c cs. rnd s' = RLoop c cs) \<and> rx_open s \<and> rx_open s'
         \<and> queue s' = queue s \<and> length (queue s) < CHANNEL_CAPACITY)"
proof -
  obtain b1 s1 where n: "next_slot (b, s) = Some (b1, s1)"
    using r by (cases "has_slot s") (auto simp: next_slot_def finish_round_def)
  then show ?thesis
  proof (cases rule: next_slot_cases)
    case (Next_Full c cs)
    with n g have "(b', s') = (b1, s1)" by (simp add: drain_tail_def next_credit_def)
    with Next_Full n show ?thesis by (auto intro!: exI [of _ "[NextSlot]"])
  next
    case (Next_Slot c cs)
    then have "next_credit (b1, s1) \<noteq> None"
      by (auto simp: next_credit_def finish_round_def split: option.splits)
    with n g have m: "next_credit (b1, s1) = Some (b', s')" by (auto simp: drain_tail_def)
    then have "\<exists>as. prun pull display as (b, s) = Some (b', s')"
      using n by (auto intro!: exI [of _ "[NextSlot, NextCredit]"])
    with m Next_Slot show ?thesis by (auto simp: has_slot_def elim!: next_credit_cases)
  qed
qed

lemma drain_once_tail:
  "enter_pull g = Some g1 \<Longrightarrow> pull_returns pull display g1 = Some g2 \<Longrightarrow>
     drain_once pull display g = drain_tail g2"
  by (simp add: drain_once_def drain_tail_def)

text \<open>What one turn of the loop leads to.\<close>

lemma drain_once_turn:
  assumes r: "round_ready (rnd s)" and g: "drain_once pull display (b, s) = (b', s')"
  shows "pulls s' = pulls s + 1 \<and> (\<exists>as. prun pull display as (b, s) = Some (b', s'))
    \<and> ((\<exists>out. rnd s' = RFinished out) \<or> (\<exists>c cs. rnd s' = RLoop c cs)
         \<and> length (queue s') = length (queue s) + 1 \<and> length (queue s') < CHANNEL_CAPACITY)"
proof -
  obtain b1 s1 where e: "enter_pull (b, s) = Some (b1, s1)"
    using r by (cases "rnd s") (auto simp: enter_pull_def)
  then obtain c cs where s1: "rnd s1 = RPulling c cs" "pulls s1 = pulls s + 1" "queue s1 = queue s"
    by (auto elim!: enter_pull_cases)
  obtain b2 s2 where p: "pull_returns pull display (b1, s1) = Some (b2, s2)"
    using pull_returns_some [OF s1(1), of pull display b1] by auto
  have s2: "pulls s2 = pulls s + 1" "(\<exists>out. rnd s2 = RFinished out) \<or>
      rnd s2 = RSent c cs \<and> (rx_open s2 \<longrightarrow> length (queue s2) = length (queue s) + 1)"
    using p s1 by (auto elim!: pull_returns_cases)
  have t: "drain_tail (b2, s2) = (b', s')" using drain_once_tail [OF e p] g by simp
  have "pulls s' = pulls s2 \<and> (\<exists>as. prun pull display as (b2, s2) = Some (b', s'))
    \<and> ((\<exists>out. rnd s' = RFinished out) \<or> (\<exists>c cs. rnd s' = RLoop c cs)
         \<and> length (queue s') = length (queue s) + 1 \<and> length (queue s') < CHANNEL_CAPACITY)"
    using s2(2)
  proof
    assume "\<exists>out. rnd s2 = RFinished out"
    with drain_tail_finished [of s2 _ b2] t show ?thesis by (auto intro!: exI [of _ "[]"])
  next
    assume "rnd s2 = RSent c cs \<and> (rx_open s2 \<longrightarrow> length (queue s2) = length (queue s) + 1)"
    with drain_tail_sent [OF _ t, of c cs pull display] show ?thesis by auto
  qed
  moreover have "prun pull display (EnterPull # PullReturns # as) (b, s) = prun pull display as (b2, s2)" for as
    using e p by simp
  ultimately show ?thesis using s2(1) by metis
qed

lemma drain_once_loops:
  assumes "drain_once pull display (b, s) = (b', s')" "rnd s' = RLoop c cs"
  shows "round_ready (rnd s)"
proof (rule ccontr)
  assume n: "\<not> round_ready (rnd s)"
  then have "drain_once pull display (b, s) = (b, s)"
    by (cases "rnd s") (simp_all add: drain_once_def enter_pull_def)
  with assms n show False by simp
qed

function drain_batches ::
  "('p \<Rightarrow> 'd pulled \<times> 'p) \<Rightarrow> (data_type \<Rightarrow> string) \<Rightarrow> ('d, 'p) cfg \<Rightarrow> ('d, 'p) cfg" where
  "drain_batches pull display g =
     (let g' = drain_once pull display g in
      case rnd (snd g') of RLoop _ _ \<Rightarrow> drain_batches pull display g' | _ \<Rightarrow> g')"
  by pat_completeness auto
termination
proof (relation "measure (\<lambda>(_, _, g). CHANNEL_CAPACITY - length (queue (snd g)))", simp)
  fix pull :: "'p \<Rightarrow> 'd pulled \<times> 'p" and display and g g' :: "('d, 'p) cfg" and c cs
  assume g': "g' = drain_once pull display g" and l: "rnd (snd g') = RLoop c cs"
  obtain b s b' s' where [simp]: "g = (b, s)" "g' = (b', s')" by (cases g, cases g')
  from g' have o: "drain_once pull display (b, s) = (b', s')" by simp
  from l have l': "rnd s' = RLoop c cs" by simp
  from drain_once_turn [OF drain_once_loops [OF o l'] o] l'
  show "((pull, display, g'), pull, display, g) \<in>
      measure (\<lambda>(_, _, g). CHANNEL_CAPACITY - length (queue (snd g)))"
    by auto
qed

declare drain_batches.simps [simp del]

lemma prun_append:
  "prun pull display as g = Some g' \<Longrightarrow> prun pull display (as @ bs) g = prun pull display bs g'"
  by (induction as arbitrary: g) (auto split: option.splits)

lemma drain_batches_total:
  assumes "round_ready (rnd (snd g))" "length (queue (snd g)) < CHANNEL_CAPACITY"
  shows "(\<exists>out. rnd (snd (drain_batches pull display g)) = RFinished out)
    \<and> pulls (snd g) < pulls (snd (drain_batches pull display g))
    \<and> pulls (snd (drain_batches pull display g)) + length (queue (snd g)) \<le> pulls (snd g) + CHANNEL_CAPACITY
    \<and> (\<exists>as. prun pull display as g = Some (drain_batches pull display g))"
  using assms
proof (induction pull display g rule: drain_batches.induct)
  case (1 pull display g)
  obtain b s b1 s1 where [simp]: "g = (b, s)" and g: "drain_once pull display g = (b1, s1)"
    by (cases g, cases "drain_once pull display g")
  have turn: "pulls s1 = pulls s + 1 \<and> (\<exists>as. prun pull display as (b, s) = Some (b1, s1))
    \<and> ((\<exists>out. rnd s1 = RFinished out) \<or> (\<exists>c cs. rnd s1 = RLoop c cs)
         \<and> length (queue s1) = length (queue s) + 1 \<and> length (queue s1) < CHANNEL_CAPACITY)"
    using drain_once_turn [of s pull display b b1 s1] 1(2) g by simp
  then obtain as where as: "prun pull display as g = Some (b1, s1)" by auto
  show ?case
  proof (cases "\<exists>c cs. rnd s1 = RLoop c cs")
    case True
    then obtain c cs where l: "rnd s1 = RLoop c cs" by blast
    then have d: "drain_batches pull display g = drain_batches pull display (b1, s1)"
      using g by (subst drain_batches.simps) simp
    from l turn have q: "length (queue s1) = length (queue s) + 1"
      "length (queue s1) < CHANNEL_CAPACITY" "pulls s1 = pulls s + 1" by auto
    have IH: "(\<exists>out. rnd (snd (drain_batches pull display g)) = RFinished out)
      \<and> pulls s1 < pulls (snd (drain_batches pull display g))
      \<and> pulls (snd (drain_batches pull display g)) + length (queue s1) \<le> pulls s1 + CHANNEL_CAPACITY
      \<and> (\<exists>as. prun pull display as (b1, s1) = Some (drain_batches pull display g))"
      using 1(1) [OF g [symmetric], of c cs] l q d by simp
    then obtain bs where "prun pull display bs (b1, s1) = Some (drain_batches pull display g)" by blast
    with prun_append [OF as]
    have "prun pull display (as @ bs) g = Some (drain_batches pull display g)" by simp
    with IH q show ?thesis by auto
  next
    case False
    then have "drain_batches pull display g = (b1, s1)"
      using g by (subst drain_batches.simps) (simp add: Let_def split: round_pc.splits)
    moreover have "\<exists>out. rnd s1 = RFinished out"
      using False turn by (cases "rnd s1") auto
    ultimately show ?thesis using turn 1(3) as by auto
  qed
qed

lemma drop_rank_le: "drop_rank s \<le> 15"
proof -
  have "round_left (rnd s) \<le> 7" by (cases "rnd s") auto
  moreover have "co_left (co s) \<le> 6" by (cases "co s") auto
  ultimately show ?thesis using host_left_le [of "host s"] by (simp add: drop_rank_def)
qed

section \<open>The schema check\<close>

lemma fields_match_iff:
  "fields_match want got \<longleftrightarrow> map field_name want = map field_name got
     \<and> map field_data_type want = map field_data_type got"
  by (auto simp: fields_match_def list_eq_iff_nth_eq list_all_length)

lemma item_of_checked:
  "Inr batch \<in> set (item_of display schema r) \<Longrightarrow> check_batch_schema display schema batch = Inr ()"
  by (cases "(display, schema, r)" rule: item_of.cases) (auto split: sum.splits)

lemma order_prefix:
  "order_inv pull display s \<Longrightarrow> prefix (delivered s) (items_of display (ps_schema s) (produced s))"
  by (auto simp: order_inv_def split: if_splits intro: prefixI [OF sym])

section \<open>Concrete runs\<close>

text \<open>
  A reader that counts down, and schedules of the process over it: the concrete inputs at which
  the properties below are applied.
\<close>

definition demo_schema :: schema_ref where
  "demo_schema = \<lparr>sr_ptr = 1, sr_fields = [Field ''a'' DT_Int64 True]\<rparr>"

fun countdown :: "nat \<Rightarrow> nat pulled \<times> nat" where
  "countdown 0 = (Exhausted, 0)"
| "countdown (Suc n) = (Pulled (Inr \<lparr>b_schema = demo_schema, b_data = Suc n\<rparr>), n)"

definition plain :: "data_type \<Rightarrow> string" where "plain t = []"

definition demo_run :: "read_ahead \<Rightarrow> nat \<Rightarrow> action list \<Rightarrow> (nat, nat) world option" where
  "demo_run mode n as = wacts countdown plain (map (Pair 0) as) (wspawn demo_schema n mode winit)"

lemma demo_reachable: "demo_run mode n as = Some w \<Longrightarrow> reachable countdown plain w"
  unfolding demo_run_def by (rule reachable_acts [OF reachable_spawn [OF reachable_init]])

definition demo_world :: "read_ahead \<Rightarrow> nat \<Rightarrow> action list \<Rightarrow> (nat, nat) world" where
  "demo_world mode n as = the (demo_run mode n as)"

lemma demo_world_reachable: "demo_run mode n as \<noteq> None \<Longrightarrow> reachable countdown plain (demo_world mode n as)"
  by (auto simp: demo_world_def intro: demo_reachable)

definition go :: "action list" where
  "go = [StartHost True True, TakeCredit, ReserveSlot, EnterPull, PullReturns]"

lemma demo_runs:
  "demo_run Buffered 3 go \<noteq> None"
  "demo_run OnDemand 3 (Poll False # go @ [Poll False]) \<noteq> None"
  "demo_run OnDemand 3 [Poll False, StartHost True True] \<noteq> None"
  "demo_run Buffered 0 (go @ [ReportRound, Poll False]) \<noteq> None"
  "demo_run Buffered 3 (go @ [NextSlot, DropStream]) \<noteq> None"
  by code_simp+

lemma demo_stream:
  "length (streams w) = 1 \<Longrightarrow> streams w ! 0 \<in> set (streams w)"
  by (intro nth_mem) simp

section \<open>Bounded memory, speculation and threads\<close>

text \<open>
  C12: The channel of a stream never holds more than \<open>CHANNEL_CAPACITY\<close> items, reserved slots
  included, and the slots reserved are exactly the one permit its drain round holds: no permit is
  leaked or lost on any path.
\<close>

theorem channel_never_overflows:
  assumes "reachable pull display w" "s \<in> set (streams w)"
  shows "length (queue s) + reserved s \<le> CHANNEL_CAPACITY \<and> reserved s = permits_held (rnd s)"
  using reachable_stream(2) [OF assms] by (simp add: chan_inv_def)

theorem channel_never_overflows_witness:
  "length (queue (streams (demo_world Buffered 3 go) ! 0)) = 1
   \<and> length (queue (streams (demo_world Buffered 3 go) ! 0))
       + reserved (streams (demo_world Buffered 3 go) ! 0) \<le> CHANNEL_CAPACITY"
proof -
  have n: "length (streams (demo_world Buffered 3 go)) = 1
    \<and> length (queue (streams (demo_world Buffered 3 go) ! 0)) = 1" by code_simp
  then have "streams (demo_world Buffered 3 go) ! 0 \<in> set (streams (demo_world Buffered 3 go))"
    by (intro nth_mem) simp
  from channel_never_overflows [OF demo_world_reachable [OF demo_runs(1)] this] n show ?thesis by blast
qed

text \<open>
  C13: The speculation budget is conserved over all streams of the process: permits left and
  speculative credits held, by a coordinator waiting for a slot or by a running round, always add up
  to \<open>SPECULATION_BUDGET\<close>, through errors, panics, cancelled tasks, aborts and drops.
\<close>

theorem speculation_budget_conserved:
  assumes "reachable pull display w"
  shows "spec_avail (budg w) + sum_list (map spec_held (streams w)) = SPECULATION_BUDGET"
  using reachable_inv [OF assms] by (simp add: world_inv_def budgets_kept_def)

theorem speculation_budget_conserved_witness:
  "spec_avail (budg (demo_world Buffered 3 go)) = 63
   \<and> 63 + sum_list (map spec_held (streams (demo_world Buffered 3 go))) = SPECULATION_BUDGET"
  using speculation_budget_conserved [OF demo_world_reachable [OF demo_runs(1)]]
proof -
  assume "spec_avail (budg (demo_world Buffered 3 go))
    + sum_list (map spec_held (streams (demo_world Buffered 3 go))) = SPECULATION_BUDGET"
  moreover have "spec_avail (budg (demo_world Buffered 3 go)) = 63" by code_simp
  ultimately show ?thesis by simp
qed

text \<open>
  C14: The thread budget is conserved: permits left and live pull threads always add up to
  \<open>AFFINE_THREAD_BUDGET\<close>, so at most that many pull threads ever run at once.
\<close>

theorem thread_budget_conserved:
  assumes "reachable pull display w"
  shows "affine_avail (budg w) + sum_list (map thread_held (streams w)) = AFFINE_THREAD_BUDGET"
  using reachable_inv [OF assms] by (simp add: world_inv_def budgets_kept_def)

theorem thread_budget_conserved_witness:
  "affine_avail (budg (demo_world Buffered 3 go)) = 127
   \<and> affine_avail (budg (demo_world Buffered 3 go))
       + sum_list (map thread_held (streams (demo_world Buffered 3 go))) = AFFINE_THREAD_BUDGET"
proof
  show "affine_avail (budg (demo_world Buffered 3 go)) = 127" by code_simp
qed (rule thread_budget_conserved [OF demo_world_reachable [OF demo_runs(1)]])

section \<open>Laziness, order and schema\<close>

text \<open>
  C9: An \<open>OnDemand\<close> stream is lazy: it has begun at most one \<open>pull()\<close> per item or error its consumer
  got, plus one for a request still unanswered. It never reads ahead of its consumer.
\<close>

theorem on_demand_never_reads_ahead:
  assumes "reachable pull display w" "s \<in> set (streams w)" "ps_mode s = OnDemand"
  shows "pulls s \<le> answered s + (if requested s then 1 else 0)"
  using reachable_stream(3) [OF assms(1,2)] assms(3) by (simp add: demand_inv_def)

theorem on_demand_never_reads_ahead_witness:
  "pulls (streams (demo_world OnDemand 3 (Poll False # go @ [Poll False])) ! 0) = 1
   \<and> answered (streams (demo_world OnDemand 3 (Poll False # go @ [Poll False])) ! 0) = 1
   \<and> pulls (streams (demo_world OnDemand 3 (Poll False # go @ [Poll False])) ! 0)
      \<le> answered (streams (demo_world OnDemand 3 (Poll False # go @ [Poll False])) ! 0)
        + (if requested (streams (demo_world OnDemand 3 (Poll False # go @ [Poll False])) ! 0) then 1 else 0)"
proof (intro conjI)
  let ?w = "demo_world OnDemand 3 (Poll False # go @ [Poll False])"
  have "length (streams ?w) = 1" by code_simp
  then have m: "streams ?w ! 0 \<in> set (streams ?w)" by (intro nth_mem) simp
  have "ps_mode (streams ?w ! 0) = OnDemand" by code_simp
  from on_demand_never_reads_ahead [OF demo_world_reachable [OF demo_runs(2)] m this]
  show "pulls (streams ?w ! 0) \<le> answered (streams ?w ! 0) + (if requested (streams ?w ! 0) then 1 else 0)" .
qed code_simp+

text \<open>
  C6: The consumer sees what the reader produced, in order and without loss: what was delivered
  and what still waits in the channel is what some number of \<open>pull()\<close> calls put out, each
  error or mismatching batch once and last; after a drop what was delivered is a prefix of it. The
  reader is never called again after it ended, failed, panicked or broke the schema.
\<close>

theorem delivered_in_order:
  assumes "reachable pull display w" "s \<in> set (streams w)"
  shows "\<exists>n \<le> pulls s. pulls s \<le> n + 1 \<and>
    (let items = items_of display (ps_schema s) (fst (read_n pull display (ps_schema s) n (reader0 s)))
     in prefix (delivered s) items \<and> (rx_open s \<longrightarrow> delivered s @ queue s = items))"
  using reachable_stream(4) [OF assms] order_prefix [OF reachable_stream(4) [OF assms]]
  by (intro exI [of _ "length (produced s)"])
     (auto simp: order_inv_def in_pull_def Let_def split: if_splits round_pc.splits)

theorem delivered_in_order_witness:
  "delivered (streams (demo_world OnDemand 3 (Poll False # go @ [Poll False])) ! 0) \<noteq> []
   \<and> (\<exists>n \<le> 1. prefix (delivered (streams (demo_world OnDemand 3 (Poll False # go @ [Poll False])) ! 0))
        (items_of plain demo_schema (fst (read_n countdown plain demo_schema n 3))))"
proof
  let ?w = "demo_world OnDemand 3 (Poll False # go @ [Poll False])"
  show "delivered (streams ?w ! 0) \<noteq> []" by code_simp
  have l: "length (streams ?w) = 1" by code_simp
  have "pulls (streams ?w ! 0) = 1" "ps_schema (streams ?w ! 0) = demo_schema"
    "reader0 (streams ?w ! 0) = 3" by code_simp+
  with delivered_in_order [OF demo_world_reachable [OF demo_runs(2)] demo_stream [OF l]]
  show "\<exists>n \<le> 1. prefix (delivered (streams ?w ! 0))
      (items_of plain demo_schema (fst (read_n countdown plain demo_schema n 3)))"
    by (auto simp: Let_def)
qed

lemma read_n_over:
  assumes "read_n pull display schema n p = (rs, q)" "rs \<noteq> []" "\<not> goes_on display schema (last rs)"
    "n \<le> m"
  shows "read_n pull display schema m p = (rs, q)"
  using assms
proof (induction n arbitrary: p rs m)
  case (Suc n)
  obtain r p' where p: "pull p = (r, p')" by fastforce
  from Suc.prems(4) obtain k where m: "m = Suc k" "n \<le> k" by (cases m) auto
  show ?case
  proof (cases "goes_on display schema r")
    case False
    with Suc.prems p m show ?thesis by (simp add: read_n.simps(2))
  next
    case True
    with Suc.prems(1) p obtain rs' where "read_n pull display schema n p' = (rs', q)" "rs = r # rs'"
      by (auto simp: read_n.simps(2) split: prod.splits)
    moreover from this Suc.prems(2,3) True have "rs' \<noteq> []" by auto
    ultimately show ?thesis using Suc.IH [of p' rs' k] Suc.prems(3) m True p
      by (simp add: read_n.simps(2))
  qed
qed simp

lemma poll_end:
  assumes "fst (poll_next first s) = Ready None"
  shows "queue s = [] \<and> terminal (co s) \<and> (co s = CoDone \<or> co s = CoAborted)"
  using assms
  by (cases "queue s"; cases "co s")
     (auto simp: poll_next_def poll_inner_def split: if_splits bool.splits)

lemma ended_reads_all:
  assumes "reachable pull display w" "s \<in> set (streams w)" "rx_open s"
    and e: "fst (poll_next first s) = Ready None" and f: "filter isl (raised s) = []"
    and m: "length (produced s) \<le> m"
  shows "read_n pull display (ps_schema s) m (reader0 s) = (produced s, reader s)"
    "delivered s = items_of display (ps_schema s) (produced s)"
proof -
  note inv = reachable_stream [OF assms(1,2)]
  have "co s \<noteq> CoAborted" using inv(1) assms(3) by (auto simp: ctl_inv_def ctl_by_co)
  with poll_end [OF e] have q: "queue s = []" "co s = CoDone" by auto
  with inv(5) assms(3) f have o: "reader_over display s" by (simp add: end_inv_def)
  from inv(4) assms(3) q
  have r: "read_n pull display (ps_schema s) (length (produced s)) (reader0 s) = (produced s, reader s)"
    and d: "delivered s = items_of display (ps_schema s) (produced s)"
    by (simp_all add: order_inv_def)
  show "read_n pull display (ps_schema s) m (reader0 s) = (produced s, reader s)"
    using read_n_over [OF r _ _ m] o by (simp add: reader_over_def)
  show "delivered s = items_of display (ps_schema s) (produced s)" by (fact d)
qed

text \<open>
  C5: No silent truncation: when a stream reports its end and its coordinator did not fail with
  an error of its own, everything the reader has to give was delivered; calling \<open>pull()\<close> any
  number of further times would add nothing.
\<close>

theorem end_of_stream_is_end_of_reader:
  assumes "reachable pull display w" "s \<in> set (streams w)" "rx_open s"
    and e: "fst (poll_next first s) = Ready None" and f: "filter isl (raised s) = []"
  shows "\<exists>n. \<forall>m \<ge> n. delivered s =
    items_of display (ps_schema s) (fst (read_n pull display (ps_schema s) m (reader0 s)))"
  by (intro exI [of _ "length (produced s)"]) (simp add: ended_reads_all [OF assms])

theorem end_of_stream_is_end_of_reader_witness:
  "fst (poll_next False (streams (demo_world Buffered 0 (go @ [ReportRound])) ! 0)) = Ready None
   \<and> (\<exists>n. \<forall>m \<ge> n. items_of plain demo_schema (fst (read_n countdown plain demo_schema m 0)) = [])"
proof
  let ?w = "demo_world Buffered 0 (go @ [ReportRound])" and ?s = "streams (demo_world Buffered 0 (go @ [ReportRound])) ! 0"
  show e: "fst (poll_next False ?s) = Ready None" by code_simp
  have r: "demo_run Buffered 0 (go @ [ReportRound]) \<noteq> None" by code_simp
  have l: "length (streams ?w) = 1" by code_simp
  have o: "rx_open ?s" by code_simp
  have f: "filter isl (raised ?s) = []" by code_simp
  have "delivered ?s = []" "ps_schema ?s = demo_schema" "reader0 ?s = 0" by code_simp+
  with end_of_stream_is_end_of_reader [OF demo_world_reachable [OF r] demo_stream [OF l] o e f]
  show "\<exists>n. \<forall>m \<ge> n. items_of plain demo_schema (fst (read_n countdown plain demo_schema m 0)) = []"
    by (simp add: eq_commute [of "[]"])
qed

section \<open>A consumer that waits\<close>

text \<open>
  C4: A consumer that waits is served. While a poll is pending and the stream is not over, some
  step of the producer side (coordinator or drain round) can be taken, whatever the other streams
  did to the budgets; each such step either answers the consumer or brings the answer closer,
  \<open>serve_rank\<close> starting at 12 at most and going down. So no wake-up is lost, and a reader whose
  \<open>pull()\<close> returns is never waited for in vain.
\<close>

theorem waiting_consumer_is_served:
  assumes "reachable pull display w" "s \<in> set (streams w)" "waiting s"
  shows "serve_rank s \<le> 12
    \<and> (\<exists>a. is_producer a \<and> (\<forall>b. pstep pull display a (b, s) \<noteq> None))
    \<and> (\<forall>a b b' s'. is_producer a \<and> pstep pull display a (b, s) = Some (b', s') \<longrightarrow>
         queue s' \<noteq> [] \<or> terminal (co s') \<or> waiting s' \<and> serve_rank s' < serve_rank s)"
proof (intro conjI allI impI)
  note inv = reachable_stream [OF assms(1,2)]
  show "serve_rank s \<le> 12"
    using inv(1) assms(3) round_rank_le [of "rnd s"]
    by (auto simp: ctl_inv_def serve_rank_def waiting_def elim!: ctl.cases between_rounds.elims)
  show "\<exists>a. is_producer a \<and> (\<forall>b. pstep pull display a (b, s) \<noteq> None)"
    using waiting_progress [OF inv(1,2,6) assms(3)] next_action_producer by blast
  fix a b b' s'
  assume a: "is_producer a \<and> pstep pull display a (b, s) = Some (b', s')"
  then show "queue s' \<noteq> [] \<or> terminal (co s') \<or> waiting s' \<and> serve_rank s' < serve_rank s"
    using waiting_rank [OF inv(1) assms(3), of a pull display b b' s']
      producer_keeps_request [of pull display a b s b' s'] assms(3)
    by (auto simp: waiting_def)
qed

theorem waiting_consumer_is_served_witness:
  "serve_rank (streams (demo_world OnDemand 3 [Poll False, StartHost True True]) ! 0) = 8
   \<and> (\<exists>a. is_producer a \<and> (\<forall>b. pstep countdown plain a
        (b, streams (demo_world OnDemand 3 [Poll False, StartHost True True]) ! 0) \<noteq> None))"
proof
  let ?w = "demo_world OnDemand 3 [Poll False, StartHost True True]"
  have l: "length (streams ?w) = 1" by code_simp
  have w: "waiting (streams ?w ! 0)" by code_simp
  show "serve_rank (streams ?w ! 0) = 8" by code_simp
  from waiting_consumer_is_served [OF demo_world_reachable [OF demo_runs(3)] demo_stream [OF l] w]
  show "\<exists>a. is_producer a \<and> (\<forall>b. pstep countdown plain a (b, streams ?w ! 0) \<noteq> None)" by blast
qed

section \<open>A stream that is dropped\<close>

text \<open>
  C11: After the stream is dropped the reader is entered at most once more: one \<open>pull()\<close> at most
  was committed to when the receiver went away.
\<close>

theorem dropped_stream_pulls_at_most_once:
  assumes "reachable pull display w" "s \<in> set (streams w)" "\<not> rx_open s"
  shows "pulls s \<le> pulls_at_drop s + 1"
  using reachable_stream(7) [OF assms(1,2)] assms(3) by (simp add: drop_inv_def)

theorem dropped_stream_pulls_at_most_once_witness:
  "pulls (streams (demo_world Buffered 3 (go @ [NextSlot, DropStream, NextCredit, EnterPull])) ! 0) = 2
   \<and> pulls (streams (demo_world Buffered 3 (go @ [NextSlot, DropStream, NextCredit, EnterPull])) ! 0)
     \<le> pulls_at_drop (streams (demo_world Buffered 3 (go @ [NextSlot, DropStream, NextCredit, EnterPull])) ! 0) + 1"
proof
  let ?as = "go @ [NextSlot, DropStream, NextCredit, EnterPull]"
  let ?w = "demo_world Buffered 3 ?as"
  show "pulls (streams ?w ! 0) = 2" by code_simp
  have r: "demo_run Buffered 3 ?as \<noteq> None" by code_simp
  have l: "length (streams ?w) = 1" by code_simp
  have d: "\<not> rx_open (streams ?w ! 0)" by code_simp
  show "pulls (streams ?w ! 0) \<le> pulls_at_drop (streams ?w ! 0) + 1"
    by (rule dropped_stream_pulls_at_most_once [OF demo_world_reachable [OF r] demo_stream [OF l] d])
qed

text \<open>
  C10: A dropped stream winds down and leaks nothing. It stays dropped, each of its steps lowers
  \<open>drop_rank\<close>, and when no step is left its speculative credits and its thread permit are back in
  the budgets and its reader has been destroyed exactly once. The reader dies on an async worker
  only if it was never entered: the coordinator was aborted before its first poll.
\<close>

theorem dropped_stream_winds_down:
  assumes "reachable pull display w" "s \<in> set (streams w)" "\<not> rx_open s"
  shows "drop_rank s \<le> 15
    \<and> (\<forall>a b b' s'. pstep pull display a (b, s) = Some (b', s') \<longrightarrow>
         \<not> rx_open s' \<and> drop_rank s' < drop_rank s)
    \<and> (stuck pull display s \<longrightarrow>
         spec_held s = 0 \<and> thread_held s = 0 \<and> length (disposed s) = 1
         \<and> (AsyncWorker \<in> set (disposed s) \<longrightarrow> pulls s = 0))"
proof (intro conjI allI impI)
  note inv = reachable_stream [OF assms(1,2)]
  show "drop_rank s \<le> 15" by (rule drop_rank_le)
  show "\<not> rx_open s'" "drop_rank s' < drop_rank s" if "pstep pull display a (b, s) = Some (b', s')" for a b b' s'
    using drop_rank_step [OF that inv(1) assms(3)] by simp_all
  assume "stuck pull display s"
  note o = stuck_over [OF this inv(1) assms(3)]
  show "spec_held s = 0" using o by (cases "co s") (auto simp: spec_held_def)
  show "thread_held s = 0"
    using o by (auto simp: thread_held_def split: pull_host.splits) (metis thread_state.exhaust)
  show "length (disposed s) = 1" "AsyncWorker \<in> set (disposed s) \<Longrightarrow> pulls s = 0"
    using laid_off_done o by blast+
qed

text \<open>A run to the end of a dropped stream.\<close>

definition wind_down :: "action list" where
  "wind_down = go @ [DropStream, NextSlot, ReportRound, TakeCredit, Abort, ThreadExit]"

lemma wound_down_stuck:
  "rnd s = RIdle \<Longrightarrow> co s = CoAborted \<Longrightarrow> host s = Affine ThrExited \<Longrightarrow> \<not> rx_open s \<Longrightarrow> stuck pull display s"
  by (auto simp: stuck_def split: prod.splits) (case_tac a; simp add: transition_defs poll_step_def)

theorem dropped_stream_winds_down_witness:
  "disposed (streams (demo_world Buffered 3 wind_down) ! 0) = [PullThread]
   \<and> spec_held (streams (demo_world Buffered 3 wind_down) ! 0) = 0
   \<and> thread_held (streams (demo_world Buffered 3 wind_down) ! 0) = 0"
proof
  let ?w = "demo_world Buffered 3 wind_down"
  show "disposed (streams ?w ! 0) = [PullThread]" by code_simp
  have r: "demo_run Buffered 3 wind_down \<noteq> None" by code_simp
  have l: "length (streams ?w) = 1" by code_simp
  have d: "\<not> rx_open (streams ?w ! 0)" by code_simp
  have s: "stuck countdown plain (streams ?w ! 0)" by (rule wound_down_stuck) code_simp+
  from dropped_stream_winds_down [OF demo_world_reachable [OF r] demo_stream [OF l] d] s
  show "spec_held (streams ?w ! 0) = 0 \<and> thread_held (streams ?w ! 0) = 0" by blast
qed

text \<open>
  C15: \<open>drain_batches\<close> returns whenever its \<open>pull()\<close> calls do: run on its own, a round ends, after at
  least one and at most as many \<open>pull()\<close> calls as the channel had free slots, and what it does
  is a run of the round's transitions.
\<close>

theorem drain_batches_returns:
  assumes "rnd s = RQueued c" "length (queue s) < CHANNEL_CAPACITY"
  shows "\<exists>b' s' out as. drain_batches pull display (b, s) = (b', s') \<and> rnd s' = RFinished out
    \<and> pulls s < pulls s' \<and> pulls s' \<le> pulls s + (CHANNEL_CAPACITY - length (queue s))
    \<and> prun pull display as (b, s) = Some (b', s')"
  using drain_batches_total [of "(b, s)" pull display] assms
  by (cases "drain_batches pull display (b, s)") auto

definition queued_demo :: "(nat, nat) pstream" where
  "queued_demo = (spawn_channel_stream demo_schema 9 Buffered)\<lparr>rnd := RQueued Speculative, reserved := 1\<rparr>"

theorem drain_batches_returns_witness:
  "pulls (snd (drain_batches countdown plain (full_budgets, queued_demo))) = 8
   \<and> pulls (snd (drain_batches countdown plain (full_budgets, queued_demo)))
       \<le> pulls queued_demo + (CHANNEL_CAPACITY - length (queue queued_demo))"
proof
  show "pulls (snd (drain_batches countdown plain (full_budgets, queued_demo))) = 8" by code_simp
  have q: "rnd queued_demo = RQueued Speculative" "length (queue queued_demo) < CHANNEL_CAPACITY"
    by code_simp+
  show "pulls (snd (drain_batches countdown plain (full_budgets, queued_demo)))
       \<le> pulls queued_demo + (CHANNEL_CAPACITY - length (queue queued_demo))"
    using drain_batches_returns [OF q, of countdown plain full_budgets] by auto
qed

text \<open>
  Every batch handed to the consumer carries the schema of the table: the very schema object,
  or the same number of columns with the same names and types in the same order.
\<close>

theorem delivered_batches_have_the_schema:
  assumes "reachable pull display w" "s \<in> set (streams w)" "Inr batch \<in> set (delivered s)"
  shows "sr_ptr (b_schema batch) = sr_ptr (ps_schema s)
    \<or> map field_name (sr_fields (b_schema batch)) = map field_name (sr_fields (ps_schema s))
      \<and> map field_data_type (sr_fields (b_schema batch)) = map field_data_type (sr_fields (ps_schema s))"
proof -
  from set_mono_prefix [OF order_prefix [OF reachable_stream(4) [OF assms(1,2)]]]
  have "set (delivered s) \<subseteq> set (items_of display (ps_schema s) (produced s))" .
  with assms(3) have "check_batch_schema display (ps_schema s) batch = Inr ()"
    by (auto simp: items_of_def intro: item_of_checked)
  then show ?thesis by (auto simp: check_batch_schema_def Let_def fields_match_iff split: if_splits)
qed

theorem delivered_batches_have_the_schema_witness:
  "delivered (streams (demo_world OnDemand 3 (Poll False # go @ [Poll False])) ! 0)
     = [Inr \<lparr>b_schema = demo_schema, b_data = 3\<rparr>]
   \<and> (sr_ptr demo_schema = sr_ptr (ps_schema (streams (demo_world OnDemand 3 (Poll False # go @ [Poll False])) ! 0))
     \<or> map field_name (sr_fields demo_schema)
        = map field_name (sr_fields (ps_schema (streams (demo_world OnDemand 3 (Poll False # go @ [Poll False])) ! 0))))"
proof
  let ?w = "demo_world OnDemand 3 (Poll False # go @ [Poll False])"
  have l: "length (streams ?w) = 1" by code_simp
  show d: "delivered (streams ?w ! 0) = [Inr \<lparr>b_schema = demo_schema, b_data = 3\<rparr>]" by code_simp
  have m: "Inr \<lparr>b_schema = demo_schema, b_data = 3\<rparr> \<in> set (delivered (streams ?w ! 0))"
    unfolding d by simp
  from delivered_batches_have_the_schema [OF demo_world_reachable [OF demo_runs(2)] demo_stream [OF l] m]
  show "sr_ptr demo_schema = sr_ptr (ps_schema (streams ?w ! 0))
     \<or> map field_name (sr_fields demo_schema) = map field_name (sr_fields (ps_schema (streams ?w ! 0)))"
    by auto
qed

text \<open>
  The schema check accepts exactly the batches whose columns have the names and the types of
  the table, position by position, when one schema object stands for one schema; nullability and
  metadata do not count. Everything else is an execution error that quotes both schemas.
\<close>

theorem schema_check_exact:
  assumes "sr_ptr schema = sr_ptr (b_schema batch) \<Longrightarrow> schema = b_schema batch"
  shows "check_batch_schema display schema batch =
    (if map field_name (sr_fields schema) = map field_name (sr_fields (b_schema batch))
        \<and> map field_data_type (sr_fields schema) = map field_data_type (sr_fields (b_schema batch))
     then Inr ()
     else Inl (Inner_Execution
        (''reader produced a batch that does not match the table schema: expected [''
         @ describe display (sr_fields schema) @ ''], got [''
         @ describe display (sr_fields (b_schema batch)) @ '']'')))"
  using assms by (auto simp: check_batch_schema_def Let_def fields_match_iff)

theorem schema_check_exact_witness:
  "check_batch_schema plain demo_schema
     \<lparr>b_schema = \<lparr>sr_ptr = 2, sr_fields = [Field ''a'' DT_Int64 False]\<rparr>, b_data = (0::nat)\<rparr> = Inr ()"
  by (subst schema_check_exact) (simp_all add: demo_schema_def)

end
