(* ===== verification/Table_Providers.thy ===== *)
theory Table_Providers
  imports Filter_Expr Pull_Properties
begin

text \<open>
  The tables backed by Python objects: \<open>src/dataset.rs\<close> and \<open>src/dataset_exec.rs\<close> (a pyarrow dataset),
  \<open>src/ibis_table.rs\<close> and \<open>src/ibis_table_exec.rs\<close> (an ibis table), \<open>src/provider.rs\<close> (a user's Python
  \<open>TableProvider\<close>) and \<open>src/py_record_batch_provider.rs\<close> (an Arrow C stream). Each decides which filters it
  takes, builds a plan for a scan and, when executed, hands a lazily built reader to
  \<open>spawn_channel_stream\<close>.

  The Python objects are parameters: records of the calls the source makes on them. So are
  DataFusion's \<open>conjunction\<close> and \<open>project_schema\<close> and arrow's \<open>RecordBatch::project\<close>.
\<close>

section \<open>Filter pushdown\<close>

datatype pushdown = Exact | Inexact | Unsupported

datatype scan_fault = Scan_Err inner_error | Scan_Panic

definition scan_fault_of :: "fault \<Rightarrow> scan_fault" where
  "scan_fault_of f = (case f of Fault e \<Rightarrow> Scan_Err (exec_new_err e) | Panic \<Rightarrow> Scan_Panic)"

definition supports_filters_pushdown ::
  "('e \<Rightarrow> fault + 'o) \<Rightarrow> 'e list \<Rightarrow> scan_fault + pushdown list" where
  "supports_filters_pushdown try_from filters =
     collect_ok (map (\<lambda>f. case try_from f of
         Inr _ \<Rightarrow> Inr Exact
       | Inl (Fault _) \<Rightarrow> Inr Unsupported
       | Inl Panic \<Rightarrow> Inl Scan_Panic) filters)"

text \<open>The filters DataFusion passes to \<open>scan\<close>: those not reported as \<open>Unsupported\<close>.\<close>

definition pushed :: "'e list \<Rightarrow> pushdown list \<Rightarrow> 'e list" where
  "pushed fs ps = map fst (filter (\<lambda>(f, p). p \<noteq> Unsupported) (zip fs ps))"

section \<open>The pyarrow dataset\<close>

record ('o, 'f) dataset_obj =
  ds_is_dataset :: "py_err + bool"
  ds_schema :: "py_err + schema_ref"
  ds_field_name :: "nat \<Rightarrow> py_err + string"
  ds_projected_schema :: "string list option \<Rightarrow> 'o option \<Rightarrow> py_err + schema_ref"
  ds_get_fragments :: "'o option \<Rightarrow> py_err + 'f list"

record dataset =
  dataset_schema :: schema_ref

definition Dataset_new :: "('o, 'f) dataset_obj \<Rightarrow> py_err + dataset" where
  "Dataset_new ds =
     and_then (ds_is_dataset ds) (\<lambda>is_ds.
     if is_ds then and_then (ds_schema ds) (\<lambda>s. Inr \<lparr>dataset_schema = s\<rparr>)
     else Inl (new_err PyValueError ''dataset argument must be a pyarrow.dataset.Dataset object''))"

record ('o, 'f) dataset_exec =
  de_schema :: schema_ref
  de_fragments :: "'f list"
  de_columns :: "string list option"
  de_filter :: "'o option"
  de_partitions :: nat

definition DatasetExec_new ::
  "('q expr list \<Rightarrow> 'q expr option) \<Rightarrow> 'q expr_text \<Rightarrow> 'o filter_api \<Rightarrow> ('o, 'f) dataset_obj \<Rightarrow>
   nat list option \<Rightarrow> 'q expr list \<Rightarrow> fault + ('o, 'f) dataset_exec" where
  "DatasetExec_new conjunction tx api ds projection filters =
     and_then (transpose_opt (map_option
         (\<lambda>p. collect_ok (map (\<lambda>index. lift_py (ds_field_name ds index)) p)) projection)) (\<lambda>columns.
     and_then (transpose_opt (map_option (pyarrow_try_from tx api) (conjunction filters))) (\<lambda>filter_expr.
     and_then (lift_py (ds_projected_schema ds columns filter_expr)) (\<lambda>schema.
     and_then (lift_py (ds_get_fragments ds filter_expr)) (\<lambda>fragments.
     Inr \<lparr>de_schema = schema, de_fragments = fragments, de_columns = columns,
          de_filter = filter_expr, de_partitions = length fragments\<rparr>))))"

definition Dataset_scan ::
  "('q expr list \<Rightarrow> 'q expr option) \<Rightarrow> 'q expr_text \<Rightarrow> 'o filter_api \<Rightarrow> ('o, 'f) dataset_obj \<Rightarrow>
   nat list option \<Rightarrow> 'q expr list \<Rightarrow> scan_fault + ('o, 'f) dataset_exec" where
  "Dataset_scan conjunction tx api ds projection filters =
     map_err scan_fault_of (DatasetExec_new conjunction tx api ds projection filters)"

definition Dataset_pushdown ::
  "'q expr_text \<Rightarrow> 'o filter_api \<Rightarrow> 'q expr list \<Rightarrow> scan_fault + pushdown list" where
  "Dataset_pushdown tx api filters = supports_filters_pushdown (pyarrow_try_from tx api) filters"

text \<open>\<open>Display\<close> of the plan; \<open>str()\<close> of the filter object can raise, which is a formatter error.\<close>

definition DatasetExec_fmt :: "('o \<Rightarrow> py_err + string) \<Rightarrow> ('o, 'f) dataset_exec \<Rightarrow> unit + string" where
  "DatasetExec_fmt str e =
     (let projected_columns = map field_name (sr_fields (de_schema e)) in
      case de_filter e of
        Some f \<Rightarrow>
          (case str f of
             Inl _ \<Rightarrow> Inl ()
           | Inr text \<Rightarrow> Inr (''DatasetExec: number_of_fragments='' @ show_nat (length (de_fragments e))
               @ '', filter_expr='' @ text @ '', projection=['' @ join_str '', '' projected_columns @ '']''))
      | None \<Rightarrow> Inr (''DatasetExec: number_of_fragments='' @ show_nat (length (de_fragments e))
          @ '', projection=['' @ join_str '', '' projected_columns @ '']''))"

section \<open>ibis tables and Python providers\<close>

text \<open>
  \<open>it_filter\<close> is \<open>table.filter(*args)\<close>, which may raise, and what \<open>to_pyarrow_batches()\<close> of the
  filtered table does.
\<close>

record ('o, 'r) ibis_obj =
  it_is_table :: "py_err + bool"
  it_schema :: "py_err + schema_ref"
  it_batches :: "py_err + 'r"
  it_filter :: "'o list \<Rightarrow> py_err + (py_err + 'r)"

record ibis_table =
  ibis_schema :: schema_ref

definition IbisTable_new :: "('o, 'r) ibis_obj \<Rightarrow> py_err + ibis_table" where
  "IbisTable_new t =
     and_then (it_is_table t) (\<lambda>is_table.
     if is_table then and_then (it_schema t) (\<lambda>s. Inr \<lparr>ibis_schema = s\<rparr>)
     else Inl (new_err PyValueError ''ibis_table argument must be a ibis.expr.types.Table object''))"

record 'r ibis_exec =
  ie_reader :: 'r
  ie_schema :: schema_ref
  ie_projection :: "nat list option"

definition IbisTableExec_new ::
  "('r \<Rightarrow> py_err + schema_ref) \<Rightarrow> (schema_ref \<Rightarrow> nat list option \<Rightarrow> inner_error + schema_ref) \<Rightarrow>
   'r \<Rightarrow> nat list option \<Rightarrow> fault + 'r ibis_exec" where
  "IbisTableExec_new reader_schema project_schema record_batch_reader projections =
     and_then (lift_py (reader_schema record_batch_reader)) (\<lambda>s.
     and_then (map_err (\<lambda>e. Fault (from_inner_error e)) (project_schema s projections)) (\<lambda>s'.
     Inr \<lparr>ie_reader = record_batch_reader, ie_schema = s', ie_projection = projections\<rparr>))"

text \<open>\<open>IbisFilterExpression::try_from(filter).unwrap()\<close> for every filter.\<close>

definition ibis_args :: "'q expr_text \<Rightarrow> 'o filter_api \<Rightarrow> 'q expr list \<Rightarrow> scan_fault + 'o list" where
  "ibis_args tx api filters =
     collect_ok (map (\<lambda>f. map_err (\<lambda>_. Scan_Panic) (ibis_try_from tx api f)) filters)"

definition unwrap_scan :: "py_err + 'r \<Rightarrow> scan_fault + 'r" where
  "unwrap_scan r = map_err (\<lambda>_. Scan_Panic) r"

definition external :: "py_err + 'r \<Rightarrow> scan_fault + 'r" where
  "external r = map_err (\<lambda>e. Scan_Err (to_external_err e)) r"

definition IbisTable_scan ::
  "'q expr_text \<Rightarrow> 'o filter_api \<Rightarrow> ('r \<Rightarrow> py_err + schema_ref) \<Rightarrow>
   (schema_ref \<Rightarrow> nat list option \<Rightarrow> inner_error + schema_ref) \<Rightarrow> ('o, 'r) ibis_obj \<Rightarrow>
   nat list option \<Rightarrow> 'q expr list \<Rightarrow> scan_fault + 'r ibis_exec" where
  "IbisTable_scan tx api reader_schema project_schema t projection filters =
     and_then
       (if filters \<noteq> [] then
          and_then (ibis_args tx api filters) (\<lambda>args.
          and_then (external (it_filter t args)) unwrap_scan)
        else unwrap_scan (it_batches t)) (\<lambda>reader.
     map_err scan_fault_of (IbisTableExec_new reader_schema project_schema reader projection))"

definition Ibis_pushdown ::
  "'q expr_text \<Rightarrow> 'o filter_api \<Rightarrow> 'q expr list \<Rightarrow> scan_fault + pushdown list" where
  "Ibis_pushdown tx api filters = supports_filters_pushdown (ibis_try_from tx api) filters"

record ('o, 'r) provider_obj =
  tp_schema :: "py_err + schema_ref"
  tp_scan :: "'o list \<Rightarrow> py_err + 'r"

definition PyTableProvider_new :: "('o, 'r) provider_obj \<Rightarrow> py_err + schema_ref" where
  "PyTableProvider_new p = tp_schema p"

definition PyTableProvider_scan ::
  "'q expr_text \<Rightarrow> 'o filter_api \<Rightarrow> ('r \<Rightarrow> py_err + schema_ref) \<Rightarrow>
   (schema_ref \<Rightarrow> nat list option \<Rightarrow> inner_error + schema_ref) \<Rightarrow> ('o, 'r) provider_obj \<Rightarrow>
   nat list option \<Rightarrow> 'q expr list \<Rightarrow> scan_fault + 'r ibis_exec" where
  "PyTableProvider_scan tx api reader_schema project_schema p projection filters =
     and_then (ibis_args tx api filters) (\<lambda>args.
     and_then (external (tp_scan p args)) (\<lambda>reader.
     map_err scan_fault_of (IbisTableExec_new reader_schema project_schema reader projection)))"

section \<open>Pulls\<close>

text \<open>
  The state of a pull closure: what it needs to build its reader, the reader once built, and how
  often it tried to build it (history).
\<close>

record ('s, 'i) lazy_pull =
  lp_source :: 's
  lp_iter :: "'i option"
  lp_builds :: nat

definition fresh_pull :: "'s \<Rightarrow> ('s, 'i) lazy_pull" where
  "fresh_pull src = \<lparr>lp_source = src, lp_iter = None, lp_builds = 0\<rparr>"

text \<open>The shape the three closures share: build on the first call, then take the next item.\<close>

definition pull_next ::
  "('i \<Rightarrow> (inner_error + 'd batch) option \<times> 'i) \<Rightarrow> 'i \<Rightarrow> ('s, 'i) lazy_pull \<Rightarrow> 'd pulled \<times> ('s, 'i) lazy_pull" where
  "pull_next nxt it p =
     (case nxt it of (r, it') \<Rightarrow>
        (case r of None \<Rightarrow> Exhausted | Some item \<Rightarrow> Pulled item, p\<lparr>lp_iter := Some it'\<rparr>))"

definition lazily ::
  "('s \<Rightarrow> (inner_error + 'i) \<times> 's) \<Rightarrow> ('i \<Rightarrow> (inner_error + 'd batch) option \<times> 'i) \<Rightarrow>
   ('s, 'i) lazy_pull \<Rightarrow> 'd pulled \<times> ('s, 'i) lazy_pull" where
  "lazily build nxt p =
     (case lp_iter p of
        Some it \<Rightarrow> pull_next nxt it p
      | None \<Rightarrow>
          (case build (lp_source p) of (built, src') \<Rightarrow>
             let p1 = p\<lparr>lp_source := src', lp_builds := lp_builds p + 1\<rparr> in
             (case built of
                Inl e \<Rightarrow> (Pulled (Inl e), p1)
              | Inr it \<Rightarrow> pull_next nxt it p1)))"

text \<open>
  \<open>DatasetExec::execute\<close>: the columns and the filter are moved out of the closure when the scanner
  is built (\<open>Option::take\<close>).
\<close>

record 'o dataset_source =
  dp_columns :: "string list option"
  dp_filter :: "'o option"

definition dataset_build ::
  "(nat \<Rightarrow> py_err + 'f) \<Rightarrow> (py_err + unit) \<Rightarrow>
   ('f \<Rightarrow> string list option \<Rightarrow> 'o option \<Rightarrow> nat \<Rightarrow> py_err + 'i) \<Rightarrow> nat \<Rightarrow> nat \<Rightarrow>
   'o dataset_source \<Rightarrow> (inner_error + 'i) \<times> 'o dataset_source" where
  "dataset_build get_fragment schema_attr scanner_batches part batch_size src =
     (case and_then (get_fragment part) (\<lambda>f. map_ok (\<lambda>_. f) schema_attr) of
        Inl e \<Rightarrow> (Inl (to_external_err e), src)
      | Inr fragment \<Rightarrow>
          (map_err to_external_err (scanner_batches fragment (dp_columns src) (dp_filter src) batch_size),
           \<lparr>dp_columns = None, dp_filter = None\<rparr>))"

definition python_next ::
  "('i \<Rightarrow> (py_err + 'd batch) option \<times> 'i) \<Rightarrow> 'i \<Rightarrow> (inner_error + 'd batch) option \<times> 'i" where
  "python_next nxt it = (case nxt it of (r, it') \<Rightarrow> (map_option (map_err to_external_err) r, it'))"

definition dataset_pull where
  "dataset_pull get_fragment schema_attr scanner_batches nxt part batch_size =
     lazily (dataset_build get_fragment schema_attr scanner_batches part batch_size) (python_next nxt)"

definition dataset_execute :: "('o, 'f) dataset_exec \<Rightarrow> ('d, ('o dataset_source, 'i) lazy_pull) pstream" where
  "dataset_execute e = spawn_channel_stream (de_schema e)
     (fresh_pull \<lparr>dp_columns = de_columns e, dp_filter = de_filter e\<rparr>) Buffered"

text \<open>\<open>IbisTableExec::execute\<close>: the batch is projected after it was taken from the iterator.\<close>

definition project_pulled ::
  "(nat list \<Rightarrow> 'd batch \<Rightarrow> string + 'd batch) \<Rightarrow> nat list option \<Rightarrow> 'd pulled \<Rightarrow> 'd pulled" where
  "project_pulled project projection r =
     (case (r, projection) of
        (Pulled (Inr batch), Some indices) \<Rightarrow> Pulled (map_err Inner_Arrow (project indices batch))
      | _ \<Rightarrow> r)"

definition ibis_pull ::
  "('r \<Rightarrow> py_err + 'i) \<Rightarrow> ('i \<Rightarrow> (py_err + 'd batch) option \<times> 'i) \<Rightarrow>
   (nat list \<Rightarrow> 'd batch \<Rightarrow> string + 'd batch) \<Rightarrow> nat list option \<Rightarrow>
   ('r, 'i) lazy_pull \<Rightarrow> 'd pulled \<times> ('r, 'i) lazy_pull" where
  "ibis_pull iter_of nxt project projection p =
     (case lazily (\<lambda>r. (map_err to_external_err (iter_of r), r)) (python_next nxt) p of
        (r, p') \<Rightarrow> (project_pulled project projection r, p'))"

definition ibis_execute :: "'r ibis_exec \<Rightarrow> ('d, ('r, 'i) lazy_pull) pstream" where
  "ibis_execute e = spawn_channel_stream (ie_schema e) (fresh_pull (ie_reader e)) OnDemand"

text \<open>\<open>PyArrowStreamPartition::execute\<close>: the C stream reader reports Arrow errors.\<close>

definition arrow_pull ::
  "('r \<Rightarrow> py_err + 'i) \<Rightarrow> ('i \<Rightarrow> (string + 'd batch) option \<times> 'i) \<Rightarrow>
   ('r, 'i) lazy_pull \<Rightarrow> 'd pulled \<times> ('r, 'i) lazy_pull" where
  "arrow_pull reader_of nxt =
     lazily (\<lambda>r. (map_err to_external_err (reader_of r), r))
       (\<lambda>it. case nxt it of (r, it') \<Rightarrow> (map_option (map_err Inner_Arrow) r, it'))"

definition arrow_execute :: "schema_ref \<Rightarrow> 'r \<Rightarrow> ('d, ('r, 'i) lazy_pull) pstream" where
  "arrow_execute schema py_object = spawn_channel_stream schema (fresh_pull py_object) Buffered"

section \<open>The contract of pushdown\<close>

text \<open>
  What DataFusion relies on: a provider may be handed every filter it reported as \<open>Exact\<close>, and no
  other; the providers here never answer \<open>Inexact\<close>.
\<close>

locale pushdown_provider =
  fixes push :: "'e list \<Rightarrow> scan_fault + pushdown list"
    and takes :: "'e list \<Rightarrow> bool"
  assumes takes_exact: "(\<And>f. f \<in> set fs \<Longrightarrow> push [f] = Inr [Exact]) \<Longrightarrow> takes fs"
    and never_inexact: "push [f] \<noteq> Inr [Inexact]"
    and push_cons: "push (f # fs) = Inr ps \<Longrightarrow> \<exists>p qs. ps = p # qs \<and> push [f] = Inr [p] \<and> push fs = Inr qs"
begin

lemma pushed_exact: "push fs = Inr ps \<Longrightarrow> f \<in> set (pushed fs ps) \<Longrightarrow> push [f] = Inr [Exact]"
proof (induction fs arbitrary: ps)
  case (Cons g fs)
  from push_cons [OF Cons.prems(1)] obtain p qs where
    ps: "ps = p # qs" "push [g] = Inr [p]" "push fs = Inr qs" by blast
  with Cons never_inexact [of g] show ?case by (cases p) (auto simp: pushed_def)
qed (simp add: pushed_def)

lemma takes_pushed: "push fs = Inr ps \<Longrightarrow> takes (pushed fs ps)"
  by (intro takes_exact pushed_exact)

end

lemma supports_filters_pushdown_cons:
  "supports_filters_pushdown t (f # fs) = Inr ps \<Longrightarrow>
     \<exists>p qs. ps = p # qs \<and> supports_filters_pushdown t [f] = Inr [p] \<and> supports_filters_pushdown t fs = Inr qs"
  by (auto simp: supports_filters_pushdown_def split: sum.splits fault.splits)

lemma supports_filters_pushdown_not_inexact: "supports_filters_pushdown t [f] \<noteq> Inr [Inexact]"
  by (auto simp: supports_filters_pushdown_def split: sum.splits fault.splits)

lemma supports_filters_pushdown_exact:
  "supports_filters_pushdown t [f] = Inr [Exact] \<longleftrightarrow> \<not> isl (t f)"
  by (auto simp: supports_filters_pushdown_def split: sum.splits fault.splits)

interpretation ibis_provider: pushdown_provider "Ibis_pushdown tx api" "\<lambda>fs. \<not> isl (ibis_args tx api fs)"
  for tx api
  unfolding Ibis_pushdown_def
  by unfold_locales
     (auto simp: ibis_args_def collect_ok_isl supports_filters_pushdown_exact supports_filters_pushdown_not_inexact
       intro: supports_filters_pushdown_cons)

text \<open>DataFusion's \<open>conjunction\<close>: nothing for no filters, else their \<open>AND\<close>.\<close>

locale conjoining =
  fixes conjunction :: "'q expr list \<Rightarrow> 'q expr option"
  assumes conjunction_nil: "conjunction [] = None"
    and conjunction_cons: "conjunction (f # fs) = Some (foldl (\<lambda>a b. E_BinaryExpr a Op_And b) f fs)"

definition dataset_filter ::
  "('q expr list \<Rightarrow> 'q expr option) \<Rightarrow> 'q expr_text \<Rightarrow> 'o filter_api \<Rightarrow> 'q expr list \<Rightarrow> fault + 'o option" where
  "dataset_filter conjunction tx api fs =
     transpose_opt (map_option (pyarrow_try_from tx api) (conjunction fs))"

lemma lift_py_no_panic [simp]: "lift_py r \<noteq> Inl Panic" "Inl Panic \<noteq> lift_py r"
  by (cases r; simp add: lift_py_def)+

lemma operator_to_py_no_panic [simp]: "operator_to_py tx op \<noteq> Inl Panic"
  by (cases "py_op_name op") (simp_all add: operator_to_py_def)

lemma pyarrow_and_no_panic:
  "pyarrow_try_from tx api a \<noteq> Inl Panic \<Longrightarrow> pyarrow_try_from tx api b \<noteq> Inl Panic \<Longrightarrow>
     pyarrow_try_from tx api (E_BinaryExpr a op b) \<noteq> Inl Panic"
  by (auto simp: and_then_Inl_iff)

lemma pyarrow_chain_no_panic:
  "pyarrow_try_from tx api a \<noteq> Inl Panic \<Longrightarrow> (\<And>f. f \<in> set fs \<Longrightarrow> pyarrow_try_from tx api f \<noteq> Inl Panic) \<Longrightarrow>
     pyarrow_try_from tx api (foldl (\<lambda>a b. E_BinaryExpr a Op_And b) a fs) \<noteq> Inl Panic"
proof (induction fs arbitrary: a)
  case (Cons f fs)
  then show ?case using pyarrow_and_no_panic [of tx api a f Op_And]
    by (simp del: pyarrow_try_from.simps)
qed simp

lemma transpose_opt_Inl: "transpose_opt x = Inl e \<longleftrightarrow> x = Some (Inl e)"
  by (cases x rule: transpose_opt.cases) simp_all

sublocale conjoining \<subseteq> dataset_provider:
  pushdown_provider "Dataset_pushdown tx api" "\<lambda>fs. dataset_filter conjunction tx api fs \<noteq> Inl Panic" for tx api
proof unfold_locales
  show "dataset_filter conjunction tx api fs \<noteq> Inl Panic"
    if "\<And>f. f \<in> set fs \<Longrightarrow> Dataset_pushdown tx api [f] = Inr [Exact]" for fs
  proof (cases fs)
    case Nil
    then show ?thesis by (simp add: dataset_filter_def conjunction_nil)
  next
    case (Cons f gs)
    have "pyarrow_try_from tx api g \<noteq> Inl Panic" if "g \<in> set fs" for g
      using \<open>\<And>f. f \<in> set fs \<Longrightarrow> Dataset_pushdown tx api [f] = Inr [Exact]\<close> [OF that]
      unfolding Dataset_pushdown_def supports_filters_pushdown_exact by auto
    with Cons pyarrow_chain_no_panic [of tx api f gs] show ?thesis
      by (simp add: dataset_filter_def conjunction_cons transpose_opt_Inl)
  qed
qed (unfold Dataset_pushdown_def, rule supports_filters_pushdown_not_inexact, rule supports_filters_pushdown_cons)

context conjoining
begin

lemma dataset_takes_pushed:
  "Dataset_pushdown tx api fs = Inr ps \<Longrightarrow> dataset_filter conjunction tx api (pushed fs ps) \<noteq> Inl Panic"
  by (rule dataset_provider.takes_pushed)

end

fun and_all :: "'q expr list \<Rightarrow> 'q expr option" where
  "and_all [] = None"
| "and_all (f # fs) = Some (foldl (\<lambda>a b. E_BinaryExpr a Op_And b) f fs)"

interpretation and_all: conjoining and_all
  by unfold_locales simp_all

lemma Dataset_scan_panic:
  "Dataset_scan conjunction tx api ds projection filters = Inl Scan_Panic \<Longrightarrow>
     dataset_filter conjunction tx api filters = Inl Panic"
proof -
  assume "Dataset_scan conjunction tx api ds projection filters = Inl Scan_Panic"
  then have "DatasetExec_new conjunction tx api ds projection filters = Inl Panic"
    by (cases "DatasetExec_new conjunction tx api ds projection filters")
       (auto simp: Dataset_scan_def scan_fault_of_def split: fault.splits)
  then show ?thesis
    by (auto simp: DatasetExec_new_def dataset_filter_def and_then_Inl_iff transpose_opt_Inl
      dest!: collect_ok_InlD)
qed

lemma map_err_const: "map_err (\<lambda>_. c) r = Inl e \<Longrightarrow> e = c"
  by (cases r) auto

lemma IbisTableExec_new_no_panic: "IbisTableExec_new rs ps r p \<noteq> Inl Panic"
proof -
  have "map_err (\<lambda>e. Fault (from_inner_error e)) x \<noteq> Inl Panic" for x :: "inner_error + schema_ref"
    by (cases x) auto
  then show ?thesis by (auto simp: IbisTableExec_new_def and_then_Inl_iff)
qed

lemma scan_fault_of_panic: "map_err scan_fault_of r = Inl Scan_Panic \<longleftrightarrow> r = Inl Panic"
  by (cases r) (auto simp: scan_fault_of_def split: fault.splits)

lemma external_no_panic: "external r \<noteq> Inl Scan_Panic"
  by (cases r) (simp_all add: external_def)

lemma unwrap_scan_Inl: "unwrap_scan r = Inl e \<longleftrightarrow> e = Scan_Panic \<and> isl r"
  by (cases r) (auto simp: unwrap_scan_def)

lemma external_Inr: "external r = Inr x \<longleftrightarrow> r = Inr x"
  by (simp add: external_def result_simps)

lemma ibis_args_Inl: "ibis_args tx api fs = Inl e \<Longrightarrow> e = Scan_Panic"
  by (auto simp: ibis_args_def dest!: collect_ok_InlD dest: map_err_const [OF sym])

lemma PyTableProvider_scan_panic:
  "PyTableProvider_scan tx api rs ps p proj filters = Inl Scan_Panic \<longleftrightarrow> isl (ibis_args tx api filters)"
  by (cases "ibis_args tx api filters")
     (auto simp: PyTableProvider_scan_def and_then_Inl_iff external_no_panic scan_fault_of_panic
       IbisTableExec_new_no_panic dest: ibis_args_Inl)

text \<open>
  C28: A filter that was reported as \<open>Exact\<close> never brings a scan down: with the filters DataFusion
  pushes, the scan of a dataset does not panic, and neither does that of a Python table provider,
  although both translate the filters again and the latter unwraps the result.
\<close>

theorem pushed_filters_never_panic:
  assumes "conjoining conjunction"
  shows "(Dataset_pushdown tx api fs = Inr ps \<longrightarrow>
      Dataset_scan conjunction tx api ds projection (pushed fs ps) \<noteq> Inl Scan_Panic)
    \<and> (Ibis_pushdown tx' api' fs' = Inr ps' \<longrightarrow>
      PyTableProvider_scan tx' api' rs pj p projection (pushed fs' ps') \<noteq> Inl Scan_Panic)"
proof (intro conjI impI)
  assume "Dataset_pushdown tx api fs = Inr ps"
  from conjoining.dataset_takes_pushed [OF assms this]
  show "Dataset_scan conjunction tx api ds projection (pushed fs ps) \<noteq> Inl Scan_Panic"
    using Dataset_scan_panic by blast
next
  assume "Ibis_pushdown tx' api' fs' = Inr ps'"
  from ibis_provider.takes_pushed [OF this]
  show "PyTableProvider_scan tx' api' rs pj p projection (pushed fs' ps') \<noteq> Inl Scan_Panic"
    unfolding PyTableProvider_scan_panic .
qed

definition demo_dataset :: "(call_tree, nat) dataset_obj" where
  "demo_dataset = \<lparr>ds_is_dataset = Inr True, ds_schema = Inr demo_schema,
     ds_field_name = (\<lambda>i. Inr ''a''), ds_projected_schema = (\<lambda>_ _. Inr demo_schema),
     ds_get_fragments = (\<lambda>_. Inr [0, 1])\<rparr>"

theorem pushed_filters_never_panic_witness:
  "Dataset_pushdown plain_text tree_api [E_Not col_a, E_Negative col_a] = Inr [Exact, Unsupported]
   \<and> Dataset_scan and_all plain_text tree_api demo_dataset None
       (pushed [E_Not col_a, E_Negative col_a] [Exact, Unsupported]) \<noteq> Inl Scan_Panic"
proof
  show p: "Dataset_pushdown plain_text tree_api [E_Not col_a, E_Negative col_a] = Inr [Exact, Unsupported]"
    by code_simp
  have "conjoining (and_all :: unit expr list \<Rightarrow> unit expr option)" by (rule and_all.conjoining_axioms)
  from pushed_filters_never_panic [OF this] p
  show "Dataset_scan and_all plain_text tree_api demo_dataset None
       (pushed [E_Not col_a, E_Negative col_a] [Exact, Unsupported]) \<noteq> Inl Scan_Panic" by blast
qed

text \<open>
  C29: What makes the scan of an ibis table panic: a filter that cannot be translated, or
  \<open>to_pyarrow_batches()\<close> raising, which \<open>scan\<close> unwraps although it could return the exception. An
  exception raised by \<open>filter\<close> does come out as an error.
\<close>

theorem ibis_scan_panics_iff:
  "IbisTable_scan tx api rs pj t projection filters = Inl Scan_Panic \<longleftrightarrow>
     (if filters = [] then isl (it_batches t)
      else (\<exists>f \<in> set filters. isl (ibis_try_from tx api f))
        \<or> (\<exists>args raised. ibis_args tx api filters = Inr args \<and> it_filter t args = Inr (Inl raised)))"
proof (cases "filters = []")
  case True
  then show ?thesis
    by (auto simp: IbisTable_scan_def and_then_Inl_iff unwrap_scan_Inl scan_fault_of_panic
      IbisTableExec_new_no_panic)
next
  case False
  have a: "isl (ibis_args tx api filters) \<longleftrightarrow> (\<exists>f \<in> set filters. isl (ibis_try_from tx api f))"
    by (simp add: ibis_args_def collect_ok_isl)
  have "ibis_args tx api filters = Inl Scan_Panic \<longleftrightarrow> isl (ibis_args tx api filters)"
    using ibis_args_Inl [of tx api filters] by (cases "ibis_args tx api filters") auto
  with False a show ?thesis
    by (auto simp: IbisTable_scan_def and_then_Inl_iff unwrap_scan_Inl scan_fault_of_panic
      IbisTableExec_new_no_panic external_no_panic external_Inr isl_def)
qed

section \<open>The reader is built once\<close>

text \<open>
  A pull that builds its reader on the first call. \<open>builds\<close> counts the attempts; a failed attempt
  surfaces as an error.
\<close>

locale lazy_reader =
  fixes pull :: "'p \<Rightarrow> 'd pulled \<times> 'p" and built :: "'p \<Rightarrow> bool" and builds :: "'p \<Rightarrow> nat"
  assumes pull_built: "pull p = (r, p') \<Longrightarrow> built p \<Longrightarrow> built p' \<and> builds p' = builds p"
    and pull_fresh: "pull p = (r, p') \<Longrightarrow> \<not> built p \<Longrightarrow>
          builds p' = builds p + 1 \<and> (built p' \<or> (\<exists>e. r = Pulled (Inl e)))"
begin

lemma read_built: "read_n pull display schema n p = (rs, q) \<Longrightarrow> built p \<Longrightarrow> builds q = builds p"
proof (induction n arbitrary: p rs)
  case (Suc n)
  obtain r p' where p: "pull p = (r, p')" by fastforce
  with pull_built Suc show ?case by (fastforce simp: read_n.simps(2) split: if_splits prod.splits)
qed simp

lemma read_builds: "read_n pull display schema n p = (rs, q) \<Longrightarrow> \<not> built p \<Longrightarrow> builds q \<le> builds p + 1"
proof (cases n)
  case (Suc m)
  assume r: "read_n pull display schema n p = (rs, q)" and f: "\<not> built p"
  obtain x p' where p: "pull p = (x, p')" by fastforce
  from pull_fresh [OF p f] have b: "builds p' = builds p + 1" "goes_on display schema x \<Longrightarrow> built p'" by auto
  show ?thesis
  proof (cases "goes_on display schema x")
    case True
    with r p Suc obtain rs' where "read_n pull display schema m p' = (rs', q)"
      by (auto simp: read_n.simps(2) split: prod.splits)
    from read_built [OF this b(2) [OF True]] b(1) show ?thesis by simp
  next
    case False
    with r p Suc b show ?thesis by (simp add: read_n.simps(2))
  qed
qed simp

lemma stream_builds_once:
  assumes "reachable pull display w" "s \<in> set (streams w)" "\<not> built (reader0 s)"
  shows "builds (reader s) \<le> builds (reader0 s) + 1"
  using reachable_stream(4) [OF assms(1,2)] read_builds assms(3) by (auto simp: order_inv_def)

end

lemma pull_next_lazy:
  "pull_next nxt it p = (r, p') \<Longrightarrow> lp_iter p' \<noteq> None \<and> lp_builds p' = lp_builds p"
  by (auto simp: pull_next_def split: prod.splits)

interpretation lazily: lazy_reader "lazily build nxt" "\<lambda>p. lp_iter p \<noteq> None" lp_builds for build nxt
proof unfold_locales
  show "lp_iter p' \<noteq> None \<and> lp_builds p' = lp_builds p"
    if "lazily build nxt p = (r, p')" "lp_iter p \<noteq> None" for p r p'
    using that by (auto simp: lazily_def dest: pull_next_lazy)
  show "lp_builds p' = lp_builds p + 1 \<and> (lp_iter p' \<noteq> None \<or> (\<exists>e. r = Pulled (Inl e)))"
    if "lazily build nxt p = (r, p')" "\<not> lp_iter p \<noteq> None" for p r p'
    using that by (auto simp: lazily_def Let_def split: prod.splits sum.splits dest!: pull_next_lazy)
qed

interpretation ibis_lazily: lazy_reader "ibis_pull iter_of nxt project projection" "\<lambda>p. lp_iter p \<noteq> None" lp_builds
  for iter_of nxt project projection
proof unfold_locales
  fix p p' r assume "ibis_pull iter_of nxt project projection p = (r, p')"
  then obtain r0 where l: "lazily (\<lambda>r. (map_err to_external_err (iter_of r), r)) (python_next nxt) p = (r0, p')"
    and r: "r = project_pulled project projection r0" by (auto simp: ibis_pull_def split: prod.splits)
  show "lp_iter p' \<noteq> None \<and> lp_builds p' = lp_builds p" if "lp_iter p \<noteq> None"
    using lazily.pull_built [OF l that] .
  show "lp_builds p' = lp_builds p + 1 \<and> (lp_iter p' \<noteq> None \<or> (\<exists>e. r = Pulled (Inl e)))" if "\<not> lp_iter p \<noteq> None"
    using lazily.pull_fresh [OF l that] r by (auto simp: project_pulled_def)
qed

lemma lazily_once:
  "reachable (lazily build nxt) display w \<Longrightarrow> s \<in> set (streams w) \<Longrightarrow> reader0 s = fresh_pull src \<Longrightarrow>
     lp_builds (reader s) \<le> 1"
  using lazily.stream_builds_once [of build nxt display w s] by (simp add: fresh_pull_def)

lemma ibis_once:
  "reachable (ibis_pull iter_of nxt project projection) display w \<Longrightarrow> s \<in> set (streams w) \<Longrightarrow>
     reader0 s = fresh_pull src \<Longrightarrow> lp_builds (reader s) \<le> 1"
  using ibis_lazily.stream_builds_once [of iter_of nxt project projection display w s]
  by (simp add: fresh_pull_def)

text \<open>
  C17: The Python reader of a scan is built once, however often the stream is polled and whatever
  happens to it: a failed attempt ends the stream and is never repeated. For the dataset scan
  this also means that the columns and the filter, which the first attempt moves out of the
  closure, are never missing from a later one.
\<close>

theorem reader_is_built_once:
  "(reachable (dataset_pull get_fragment schema_attr scanner_batches nxt part batch_size) display w
      \<and> s \<in> set (streams w) \<and> reader0 s = fresh_pull src \<longrightarrow> lp_builds (reader s) \<le> 1)
   \<and> (reachable (ibis_pull iter_of nxt' project projection) display w'
      \<and> s' \<in> set (streams w') \<and> reader0 s' = fresh_pull src' \<longrightarrow> lp_builds (reader s') \<le> 1)
   \<and> (reachable (arrow_pull reader_of nxt'') display w''
      \<and> s'' \<in> set (streams w'') \<and> reader0 s'' = fresh_pull src'' \<longrightarrow> lp_builds (reader s'') \<le> 1)"
  unfolding dataset_pull_def arrow_pull_def by (blast intro: lazily_once ibis_once)

text \<open>A reader whose construction fails, polled twice.\<close>

definition failing_world :: "(nat, (unit, unit) lazy_pull) world option" where
  "failing_world = wacts (ibis_pull (\<lambda>_. Inl (new_err PyTypeError ''no'')) (\<lambda>i. (None, i)) (\<lambda>_ b. Inr b) None) plain
     (map (Pair 0) ([Poll False] @ go @ [ReportRound, Poll False, Poll False]))
     (winit\<lparr>streams := [ibis_execute \<lparr>ie_reader = (), ie_schema = demo_schema, ie_projection = None\<rparr>]\<rparr>)"

theorem reader_is_built_once_witness:
  "lp_builds (reader (streams (the failing_world) ! 0)) = 1
   \<and> lp_builds (reader (streams (the failing_world) ! 0)) \<le> 1"
proof
  let ?pull = "ibis_pull (\<lambda>_. Inl (new_err PyTypeError ''no'')) (\<lambda>i. (None, i)) (\<lambda>_ b. Inr b) None
    :: (unit, unit) lazy_pull \<Rightarrow> nat pulled \<times> (unit, unit) lazy_pull"
  show "lp_builds (reader (streams (the failing_world) ! 0)) = 1" by code_simp
  have "failing_world \<noteq> None" by code_simp
  then have "failing_world = Some (the failing_world)" by auto
  moreover have "(winit\<lparr>streams := [ibis_execute \<lparr>ie_reader = (), ie_schema = demo_schema, ie_projection = None\<rparr>]\<rparr>
      :: (nat, (unit, unit) lazy_pull) world) = wspawn demo_schema (fresh_pull ()) OnDemand winit"
    by (simp add: wspawn_def winit_def ibis_execute_def)
  ultimately have r: "reachable ?pull plain (the failing_world)"
    unfolding failing_world_def using reachable_acts [OF reachable_spawn [OF reachable_init]] by metis
  have l: "length (streams (the failing_world)) = 1" by code_simp
  have f: "reader0 (streams (the failing_world) ! 0) = fresh_pull ()" by code_simp
  show "lp_builds (reader (streams (the failing_world) ! 0)) \<le> 1"
    by (rule reader_is_built_once [THEN conjunct2, THEN conjunct1, THEN mp,
        OF conjI [OF r conjI [OF demo_stream [OF l] f]]])
qed

end
