(* ===== verification/Data_Frames.thy ===== *)
theory Data_Frames
  imports Pull_Stream
begin

text \<open>
  The objects a query is run with: the process-wide runtime (\<open>src/utils.rs\<close>, last part), the record
  batch stream Python iterates over (\<open>src/record_batch.rs\<close>), the DataFrame (\<open>src/dataframe.rs\<close>) and the
  catalog objects (\<open>src/catalog.rs\<close>). DataFusion's own operations are the functions of \<open>frame_api\<close>; \<open>'f\<close>
  is a DataFrame of that crate, \<open>'b\<close> a record batch, \<open>'o\<close> a Python object.
\<close>

section \<open>The runtime\<close>

text \<open>\<open>OnceLock<RwLock<Option<Runtime>>>\<close>; the number names the runtime that was created.\<close>

datatype runtime_cell = Uninitialised | Up nat | Down

definition get_runtime :: "nat \<Rightarrow> runtime_cell \<Rightarrow> runtime_cell" where
  "get_runtime fresh c = (case c of Uninitialised \<Rightarrow> Up fresh | _ \<Rightarrow> c)"

definition try_get_tokio_handle :: "nat \<Rightarrow> runtime_cell \<Rightarrow> nat option \<times> runtime_cell" where
  "try_get_tokio_handle fresh c =
     (let c' = get_runtime fresh c in (case c' of Up h \<Rightarrow> Some h | _ \<Rightarrow> None, c'))"

datatype runtime_fault = Runtime_Panic string

definition get_tokio_handle :: "nat \<Rightarrow> runtime_cell \<Rightarrow> (runtime_fault + nat) \<times> runtime_cell" where
  "get_tokio_handle fresh c =
     (let (h, c') = try_get_tokio_handle fresh c
      in (ok_or (Runtime_Panic ''tokio runtime has been shut down'') h, c'))"

datatype shutdown = Shutdown_Timeout nat nat | Shutdown_Background nat

definition shutdown_runtime :: "nat \<Rightarrow> nat option \<Rightarrow> runtime_cell \<Rightarrow> shutdown option \<times> runtime_cell" where
  "shutdown_runtime fresh timeout_secs c =
     (case get_runtime fresh c of
        Up h \<Rightarrow> (Some (case timeout_secs of Some s \<Rightarrow> Shutdown_Timeout h s | None \<Rightarrow> Shutdown_Background h), Down)
      | c' \<Rightarrow> (None, c'))"

text \<open>
  \<open>wait_for_future\<close> blocks the calling thread on a future. \<open>current\<close> is the runtime the thread runs
  inside of, if any: there the worker is handed back first.
\<close>

datatype blocking = Block_On nat | Block_In_Place nat

definition wait_for_future :: "nat \<Rightarrow> nat option \<Rightarrow> runtime_cell \<Rightarrow> (runtime_fault + blocking) \<times> runtime_cell" where
  "wait_for_future fresh current c =
     (let (h, c') = get_tokio_handle fresh c
      in (map_ok (\<lambda>handle. case current of Some own \<Rightarrow> Block_In_Place own | None \<Rightarrow> Block_On handle) h, c'))"

lemma runtime_never_restarts:
  "c = Down \<Longrightarrow> snd (shutdown_runtime fresh t c) = Down \<and> fst (try_get_tokio_handle fresh c) = None
     \<and> isl (fst (wait_for_future fresh current c))"
  by (simp add: shutdown_runtime_def try_get_tokio_handle_def wait_for_future_def get_tokio_handle_def get_runtime_def)

lemma shut_down_is_down: "snd (shutdown_runtime fresh t c) = Down"
  by (cases c) (simp_all add: shutdown_runtime_def get_runtime_def)

lemma no_nested_block_on:
  "fst (wait_for_future fresh (Some own) c) = Inr b \<Longrightarrow> b = Block_In_Place own"
  by (auto simp: wait_for_future_def map_ok_Inr_iff split: prod.splits)

section \<open>Record batch streams\<close>

text \<open>\<open>next_stream\<close>: what Python gets for what the awaited stream gave.\<close>

definition next_stream :: "renderers \<Rightarrow> bool \<Rightarrow> (inner_error + 'b) option \<Rightarrow> py_err + 'b" where
  "next_stream rd sync item = (case item of
     Some (Inr batch) \<Rightarrow> Inr batch
   | Some (Inl e) \<Rightarrow> Inl (from_datafusion_error rd e)
   | None \<Rightarrow> Inl (if sync then new_err PyStopIteration ''stream exhausted''
                 else new_err PyStopAsyncIteration ''stream exhausted''))"

lemma next_stream_simps [simp]:
  "next_stream rd sync (Some (Inr batch)) = Inr batch"
  "next_stream rd sync (Some (Inl e)) = Inl (from_datafusion_error rd e)"
  "next_stream rd True None = Inl (new_err PyStopIteration ''stream exhausted'')"
  "next_stream rd False None = Inl (new_err PyStopAsyncIteration ''stream exhausted'')"
  by (simp_all add: next_stream_def)

text \<open>
  \<open>next()\<close> and \<open>__next__\<close> wait on the calling thread, which panics after a shutdown; \<open>__anext__\<close> hands the
  future to Python's event loop.
\<close>

definition stream_next ::
  "renderers \<Rightarrow> nat \<Rightarrow> nat option \<Rightarrow> (inner_error + 'b) option \<Rightarrow> runtime_cell \<Rightarrow>
   (runtime_fault + (py_err + 'b)) \<times> runtime_cell" where
  "stream_next rd fresh current item c =
     (case wait_for_future fresh current c of (r, c') \<Rightarrow> (map_ok (\<lambda>_. next_stream rd True item) r, c'))"

definition stream_anext :: "renderers \<Rightarrow> (inner_error + 'b) option \<Rightarrow> py_err + 'b" where
  "stream_anext rd item = next_stream rd False item"

definition batch_to_pyarrow :: "('b \<Rightarrow> py_err + 'o) \<Rightarrow> 'b \<Rightarrow> py_err + 'o" where
  "batch_to_pyarrow to_py batch = to_py batch"

section \<open>DataFrames\<close>

datatype df_join_type = Join_Inner | Join_Left | Join_Right | Join_Full | Join_LeftSemi | Join_LeftAnti

record ('f, 'b, 's) frame_api =
  df_select_columns :: "string list \<Rightarrow> 'f \<Rightarrow> inner_error + 'f"
  df_with_column_renamed :: "string \<Rightarrow> string \<Rightarrow> 'f \<Rightarrow> inner_error + 'f"
  df_limit :: "nat \<Rightarrow> nat option \<Rightarrow> 'f \<Rightarrow> inner_error + 'f"
  df_distinct :: "'f \<Rightarrow> inner_error + 'f"
  df_join :: "'f \<Rightarrow> df_join_type \<Rightarrow> string list \<Rightarrow> string list \<Rightarrow> 'f \<Rightarrow> inner_error + 'f"
  df_explain :: "bool \<Rightarrow> bool \<Rightarrow> 'f \<Rightarrow> inner_error + 'f"
  df_union :: "'f \<Rightarrow> 'f \<Rightarrow> inner_error + 'f"
  df_union_distinct :: "'f \<Rightarrow> 'f \<Rightarrow> inner_error + 'f"
  df_intersect :: "'f \<Rightarrow> 'f \<Rightarrow> inner_error + 'f"
  df_except :: "'f \<Rightarrow> 'f \<Rightarrow> inner_error + 'f"
  df_collect :: "'f \<Rightarrow> inner_error + 'b list"
  df_collect_partitioned :: "'f \<Rightarrow> inner_error + 'b list list"
  df_cache :: "'f \<Rightarrow> inner_error + 'f"
  df_repartition :: "nat \<Rightarrow> 'f \<Rightarrow> inner_error + 'f"
  df_write_csv :: "string \<Rightarrow> 'f \<Rightarrow> inner_error + unit"
  df_write_parquet :: "string \<Rightarrow> string option \<Rightarrow> 'f \<Rightarrow> inner_error + unit"
  df_write_json :: "string \<Rightarrow> 'f \<Rightarrow> inner_error + unit"
  df_count :: "'f \<Rightarrow> inner_error + nat"
  df_schema :: "'f \<Rightarrow> 's"
  df_pretty :: "'b list \<Rightarrow> string + string"

definition lift_df :: "renderers \<Rightarrow> inner_error + 'x \<Rightarrow> py_err + 'x" where
  "lift_df rd r = map_err (from_datafusion_error rd) r"

definition frame_describe :: "renderers \<Rightarrow> ('f \<Rightarrow> inner_error + 'f) \<Rightarrow> 'f \<Rightarrow> py_err + 'f" where
  "frame_describe rd summarise df = lift_df rd (summarise df)"

definition frame_schema :: "('f, 'b, 's) frame_api \<Rightarrow> 'f \<Rightarrow> 's" where
  "frame_schema api df = df_schema api df"

definition execution_plan :: "renderers \<Rightarrow> ('f \<Rightarrow> inner_error + 'plan) \<Rightarrow> 'f \<Rightarrow> py_err + 'plan" where
  "execution_plan rd create_physical_plan df = lift_df rd (create_physical_plan df)"

text \<open>A Python key: a string, a tuple, another sequence (with what extracting each item gives), or else.\<close>

datatype py_key = Key_Str string | Key_Tuple "(py_err + string) list" | Key_Seq "(py_err + string) list" | Key_Other

definition select_columns :: "renderers \<Rightarrow> ('f, 'b, 's) frame_api \<Rightarrow> string list \<Rightarrow> 'f \<Rightarrow> py_err + 'f" where
  "select_columns rd api args df = lift_df rd (df_select_columns api args df)"

definition not_indexable :: py_err where
  "not_indexable = new_err PyTypeError ''DataFrame can only be indexed by string index or indices''"

definition getitem :: "renderers \<Rightarrow> ('f, 'b, 's) frame_api \<Rightarrow> py_key \<Rightarrow> 'f \<Rightarrow> py_err + 'f" where
  "getitem rd api key df = (case key of
     Key_Str s \<Rightarrow> select_columns rd api [s] df
   | Key_Tuple items \<Rightarrow> and_then (collect_ok items) (\<lambda>keys. select_columns rd api keys df)
   | Key_Seq items \<Rightarrow>
       (case collect_ok items of Inr keys \<Rightarrow> select_columns rd api keys df | Inl _ \<Rightarrow> Inl not_indexable)
   | Key_Other \<Rightarrow> Inl not_indexable)"

text \<open>The text of a frame's batches; a failure to format them is text too.\<close>

definition batches_text :: "(string \<Rightarrow> string) \<Rightarrow> ('f, 'b, 's) frame_api \<Rightarrow> 'b list \<Rightarrow> string" where
  "batches_text str_debug api batches = (case df_pretty api batches of
     Inr t \<Rightarrow> ''DataFrame()'' @ [CHR 0x0A] @ t | Inl e \<Rightarrow> ''Error: '' @ str_debug e)"

definition frame_repr :: "renderers \<Rightarrow> (string \<Rightarrow> string) \<Rightarrow> ('f, 'b, 's) frame_api \<Rightarrow> 'f \<Rightarrow> py_err + string" where
  "frame_repr rd str_debug api df =
     and_then (lift_df rd (df_limit api 0 (Some 10) df)) (\<lambda>limited.
     map_ok (batches_text str_debug api) (lift_df rd (df_collect api limited)))"

definition with_column_renamed :: "renderers \<Rightarrow> ('f, 'b, 's) frame_api \<Rightarrow> string \<Rightarrow> string \<Rightarrow> 'f \<Rightarrow> py_err + 'f" where
  "with_column_renamed rd api old new df = lift_df rd (df_with_column_renamed api old new df)"

definition frame_limit :: "renderers \<Rightarrow> ('f, 'b, 's) frame_api \<Rightarrow> nat \<Rightarrow> nat \<Rightarrow> 'f \<Rightarrow> py_err + 'f" where
  "frame_limit rd api count offset df = lift_df rd (df_limit api offset (Some count) df)"

definition frame_collect :: "renderers \<Rightarrow> ('f, 'b, 's) frame_api \<Rightarrow> ('b \<Rightarrow> py_err + 'o) \<Rightarrow> 'f \<Rightarrow> py_err + 'o list" where
  "frame_collect rd api to_py df =
     and_then (lift_df rd (df_collect api df)) (\<lambda>batches. collect_ok (map to_py batches))"

definition frame_collect_partitioned ::
  "renderers \<Rightarrow> ('f, 'b, 's) frame_api \<Rightarrow> ('b \<Rightarrow> py_err + 'o) \<Rightarrow> 'f \<Rightarrow> py_err + 'o list list" where
  "frame_collect_partitioned rd api to_py df =
     and_then (lift_df rd (df_collect_partitioned api df)) (\<lambda>parts.
       collect_ok (map (\<lambda>rbs. collect_ok (map to_py rbs)) parts))"

definition join_type_of :: "string \<Rightarrow> py_err + df_join_type" where
  "join_type_of how =
     (if how = ''inner'' then Inr Join_Inner
      else if how = ''left'' then Inr Join_Left
      else if how = ''right'' then Inr Join_Right
      else if how = ''full'' then Inr Join_Full
      else if how = ''semi'' then Inr Join_LeftSemi
      else if how = ''anti'' then Inr Join_LeftAnti
      else Inl (new_err PyValueError (''The join type '' @ how @ '' does not exist or is not implemented'')))"

definition frame_join ::
  "renderers \<Rightarrow> ('f, 'b, 's) frame_api \<Rightarrow> 'f \<Rightarrow> string list \<times> string list \<Rightarrow> string \<Rightarrow> 'f \<Rightarrow> py_err + 'f" where
  "frame_join rd api right join_keys how df =
     and_then (join_type_of how) (\<lambda>jt. lift_df rd (df_join api right jt (fst join_keys) (snd join_keys) df))"

definition frame_union :: "renderers \<Rightarrow> ('f, 'b, 's) frame_api \<Rightarrow> 'f \<Rightarrow> bool \<Rightarrow> 'f \<Rightarrow> py_err + 'f" where
  "frame_union rd api other dist df =
     lift_df rd (if dist then df_union_distinct api other df else df_union api other df)"

definition frame_union_distinct :: "renderers \<Rightarrow> ('f, 'b, 's) frame_api \<Rightarrow> 'f \<Rightarrow> 'f \<Rightarrow> py_err + 'f" where
  "frame_union_distinct rd api other df = lift_df rd (df_union_distinct api other df)"

definition frame_intersect :: "renderers \<Rightarrow> ('f, 'b, 's) frame_api \<Rightarrow> 'f \<Rightarrow> 'f \<Rightarrow> py_err + 'f" where
  "frame_intersect rd api other df = lift_df rd (df_intersect api other df)"

definition frame_except_all :: "renderers \<Rightarrow> ('f, 'b, 's) frame_api \<Rightarrow> 'f \<Rightarrow> 'f \<Rightarrow> py_err + 'f" where
  "frame_except_all rd api other df = lift_df rd (df_except api other df)"

definition frame_cache :: "renderers \<Rightarrow> ('f, 'b, 's) frame_api \<Rightarrow> 'f \<Rightarrow> py_err + 'f" where
  "frame_cache rd api df = lift_df rd (df_cache api df)"

definition frame_distinct :: "renderers \<Rightarrow> ('f, 'b, 's) frame_api \<Rightarrow> 'f \<Rightarrow> py_err + 'f" where
  "frame_distinct rd api df = lift_df rd (df_distinct api df)"

definition frame_repartition :: "renderers \<Rightarrow> ('f, 'b, 's) frame_api \<Rightarrow> nat \<Rightarrow> 'f \<Rightarrow> py_err + 'f" where
  "frame_repartition rd api num df = lift_df rd (df_repartition api num df)"

text \<open>\<open>print\<close> is Python's function of that name, with the import that finds it.\<close>

definition print_dataframe ::
  "renderers \<Rightarrow> (string \<Rightarrow> string) \<Rightarrow> ('f, 'b, 's) frame_api \<Rightarrow> (string \<Rightarrow> py_err + unit) \<Rightarrow> 'f \<Rightarrow> py_err + unit" where
  "print_dataframe rd str_debug api print df =
     and_then (lift_df rd (df_collect api df)) (\<lambda>batches. print (batches_text str_debug api batches))"

definition frame_show ::
  "renderers \<Rightarrow> (string \<Rightarrow> string) \<Rightarrow> ('f, 'b, 's) frame_api \<Rightarrow> (string \<Rightarrow> py_err + unit) \<Rightarrow> nat \<Rightarrow> 'f \<Rightarrow> py_err + unit" where
  "frame_show rd str_debug api print num df =
     and_then (lift_df rd (df_limit api 0 (Some num) df)) (print_dataframe rd str_debug api print)"

definition frame_explain ::
  "renderers \<Rightarrow> (string \<Rightarrow> string) \<Rightarrow> ('f, 'b, 's) frame_api \<Rightarrow> (string \<Rightarrow> py_err + unit) \<Rightarrow> bool \<Rightarrow> bool \<Rightarrow> 'f \<Rightarrow>
   py_err + unit" where
  "frame_explain rd str_debug api print verbose analyze df =
     and_then (lift_df rd (df_explain api verbose analyze df)) (print_dataframe rd str_debug api print)"

definition write_csv :: "renderers \<Rightarrow> ('f, 'b, 's) frame_api \<Rightarrow> string \<Rightarrow> 'f \<Rightarrow> py_err + unit" where
  "write_csv rd api path df = lift_df rd (df_write_csv api path df)"

text \<open>The default options of the writer with \<open>global.compression\<close> set.\<close>

definition write_parquet :: "renderers \<Rightarrow> ('f, 'b, 's) frame_api \<Rightarrow> string \<Rightarrow> string \<Rightarrow> 'f \<Rightarrow> py_err + unit" where
  "write_parquet rd api path compression df = lift_df rd (df_write_parquet api path (Some compression) df)"

definition write_json :: "renderers \<Rightarrow> ('f, 'b, 's) frame_api \<Rightarrow> string \<Rightarrow> 'f \<Rightarrow> py_err + unit" where
  "write_json rd api path df = lift_df rd (df_write_json api path df)"

definition frame_count :: "renderers \<Rightarrow> ('f, 'b, 's) frame_api \<Rightarrow> 'f \<Rightarrow> py_err + nat" where
  "frame_count rd api df = lift_df rd (df_count api df)"

text \<open>\<open>to_arrow_table\<close>: the schema of the first batch, or the frame's own when there is none.\<close>

definition to_arrow_table ::
  "renderers \<Rightarrow> ('f, 'b, 's) frame_api \<Rightarrow> ('b \<Rightarrow> py_err + 'o) \<Rightarrow> ('o \<Rightarrow> py_err + 'sch) \<Rightarrow> ('s \<Rightarrow> py_err + 'sch) \<Rightarrow>
   ('o list \<Rightarrow> 'sch \<Rightarrow> py_err + 't) \<Rightarrow> 'f \<Rightarrow> py_err + 't" where
  "to_arrow_table rd api to_py schema_attr schema_to_py from_batches df =
     and_then (frame_collect rd api to_py df) (\<lambda>batches.
     and_then (case batches of [] \<Rightarrow> schema_to_py (df_schema api df) | b # _ \<Rightarrow> schema_attr b) (\<lambda>schema.
     from_batches batches schema))"

text \<open>
  \<open>to_pandas\<close>, \<open>to_pylist\<close>, \<open>to_pydict\<close> and \<open>to_polars\<close> call Python on the arrow table: a method of the
  table, or the class polars gives.
\<close>

definition table_method :: "py_err + 't \<Rightarrow> (string \<Rightarrow> 't \<Rightarrow> py_err + 'o) \<Rightarrow> string \<Rightarrow> py_err + 'o" where
  "table_method table call_method0 name = and_then table (call_method0 name)"

definition to_polars :: "py_err + 't \<Rightarrow> py_err + ('t \<Rightarrow> py_err + 'o) \<Rightarrow> py_err + 'o" where
  "to_polars table dataframe = and_then table (\<lambda>t. and_then dataframe (\<lambda>call1. call1 t))"

text \<open>\<open>execute_stream\<close>: the join error of the spawned task first, then what the task returned.\<close>

definition execute_stream :: "renderers \<Rightarrow> string + (inner_error + 'st) \<Rightarrow> py_err + 'st" where
  "execute_stream rd joined =
     and_then (map_err py_datafusion_err (map_ok (lift_df rd) joined)) (\<lambda>stream. stream)"

text \<open>\<open>execute_stream_partitioned\<close>: the join error of the spawned task first, then DataFusion's own.\<close>

definition execute_stream_partitioned ::
  "renderers \<Rightarrow> string + (inner_error + 'st list) \<Rightarrow> py_err + 'st list" where
  "execute_stream_partitioned rd joined =
     and_then (map_err py_datafusion_err joined) (\<lambda>streams. lift_df rd streams)"

section \<open>The catalog\<close>

definition catalog_names :: "string list \<Rightarrow> string list" where
  "catalog_names schema_names = schema_names"

text \<open>A \<open>HashSet\<close> of the names.\<close>

definition database_names :: "string list \<Rightarrow> string set" where
  "database_names table_names = set table_names"

definition table_schema_of :: "('s \<Rightarrow> py_err + 'o) \<Rightarrow> 's \<Rightarrow> py_err + 'o" where
  "table_schema_of to_py schema = to_py schema"

definition catalog_repr :: "string list \<Rightarrow> string" where
  "catalog_repr names = ''Catalog(schema_names=['' @ join_str '';'' names @ ''])''"

definition database_repr :: "string list \<Rightarrow> string" where
  "database_repr names = ''Database(table_names=['' @ join_str '';'' names @ ''])''"

definition catalog_database :: "(string \<Rightarrow> 'd option) \<Rightarrow> string \<Rightarrow> py_err + 'd" where
  "catalog_database schema name =
     ok_or (new_err PyKeyError (''Database with name '' @ name @ '' doesn'' @ [CHR 0x27] @ ''t exist.'')) (schema name)"

definition database_table :: "(string \<Rightarrow> inner_error + 't option) \<Rightarrow> string \<Rightarrow> py_err + 't" where
  "database_table lookup name = (case lookup name of
     Inr (Some table) \<Rightarrow> Inr table
   | _ \<Rightarrow> Inl (new_err PyValueError (''Table not found: '' @ name)))"

datatype table_type = Base | View | Temporary

definition table_kind :: "table_type \<Rightarrow> string" where
  "table_kind t = (case t of Base \<Rightarrow> ''physical'' | View \<Rightarrow> ''view'' | Temporary \<Rightarrow> ''temporary'')"

definition table_repr :: "table_type \<Rightarrow> string" where
  "table_repr t = ''Table(kind='' @ table_kind t @ '')''"

section \<open>Histories of the runtime\<close>

text \<open>
  What a process does with its runtime: ask for a handle, shut down, wait for a future from a plain
  thread or from inside a runtime. The number of the step names the runtime it would create.
\<close>

datatype runtime_op = Ask | Shut "nat option" | Wait "nat option"

fun runtime_step :: "nat \<Rightarrow> runtime_op \<Rightarrow> runtime_cell \<Rightarrow> nat option \<times> runtime_cell" where
  "runtime_step fresh Ask c = try_get_tokio_handle fresh c"
| "runtime_step fresh (Shut t) c = (None, snd (shutdown_runtime fresh t c))"
| "runtime_step fresh (Wait current) c =
     (case wait_for_future fresh current c of
        (Inr (Block_On h), c') \<Rightarrow> (Some h, c') | (_, c') \<Rightarrow> (None, c'))"

fun runtime_run :: "nat \<Rightarrow> runtime_op list \<Rightarrow> runtime_cell \<Rightarrow> nat option list" where
  "runtime_run fresh [] c = []"
| "runtime_run fresh (op # ops) c =
     (case runtime_step fresh op c of (h, c') \<Rightarrow> h # runtime_run (Suc fresh) ops c')"

text \<open>
  The life of the runtime as an order: not yet created, then one runtime, then shut down for good.
\<close>

instantiation runtime_cell :: order
begin

definition less_eq_runtime_cell :: "runtime_cell \<Rightarrow> runtime_cell \<Rightarrow> bool" where
  "less_eq_runtime_cell a b \<longleftrightarrow> a = b \<or> a = Uninitialised \<or> b = Down"

definition less_runtime_cell :: "runtime_cell \<Rightarrow> runtime_cell \<Rightarrow> bool" where
  "less_runtime_cell a b \<longleftrightarrow> a \<noteq> b \<and> (a = Uninitialised \<or> b = Down)"

instance
  by standard (auto simp: less_eq_runtime_cell_def less_runtime_cell_def)

end

lemmas runtime_defs = try_get_tokio_handle_def shutdown_runtime_def wait_for_future_def get_tokio_handle_def
  get_runtime_def

lemma runtime_step_cases:
  "runtime_step fresh op c = (h, c') \<Longrightarrow>
     (c = Down \<longrightarrow> h = None \<and> c' = Down) \<and> (\<forall>k. c = Up k \<longrightarrow> (c' = Up k \<or> c' = Down) \<and> h \<in> {None, Some k})
     \<and> (c = Uninitialised \<longrightarrow> (c' = Up fresh \<or> c' = Down) \<and> h \<in> {None, Some fresh})"
  by (cases op; cases c) (auto simp: runtime_defs Let_def split: option.splits)

lemma runtime_advances: "c \<le> snd (runtime_step fresh op c)"
proof -
  obtain h c' where s: "runtime_step fresh op c = (h, c')" by fastforce
  from runtime_step_cases [OF s] s show ?thesis by (cases c) (auto simp: less_eq_runtime_cell_def)
qed

lemma runtime_run_down: "set (runtime_run fresh ops Down) \<subseteq> {None}"
proof (induction ops arbitrary: fresh)
  case (Cons op ops)
  obtain h c where "runtime_step fresh op Down = (h, c)" by fastforce
  with runtime_step_cases [OF this] Cons show ?case by simp
qed simp

lemma runtime_run_up: "set (runtime_run fresh ops (Up k)) \<subseteq> {None, Some k}"
proof (induction ops arbitrary: fresh)
  case (Cons op ops)
  obtain h c where s: "runtime_step fresh op (Up k) = (h, c)" by fastforce
  from runtime_step_cases [OF s] have "c = Up k \<or> c = Down" "h \<in> {None, Some k}" by simp_all
  with s Cons runtime_run_down [of "Suc fresh" ops] show ?case by auto
qed simp

text \<open>
  C7: A process has at most one tokio runtime. Over any history of handle requests, waits and
  shutdowns every handle that was given out belongs to the same runtime; a shutdown leaves the cell
  empty for good, so that after it no handle is given out and a wait panics instead of starting a new
  runtime; and a future awaited from a thread that already runs inside a runtime is never blocked on
  without handing the worker back.
\<close>

theorem one_runtime:
  "(Some h \<in> set (runtime_run n ops Uninitialised) \<and> Some h' \<in> set (runtime_run n ops Uninitialised) \<longrightarrow> h = h')
   \<and> set (runtime_run n ops (snd (shutdown_runtime fresh timeout c))) \<subseteq> {None}
   \<and> fst (wait_for_future fresh' current (snd (shutdown_runtime fresh timeout c)))
       = Inl (Runtime_Panic ''tokio runtime has been shut down'')
   \<and> fst (wait_for_future fresh (Some own) c) \<noteq> Inr (Block_On k)"
proof -
  have "\<exists>k. set (runtime_run n ops Uninitialised) \<subseteq> {None, Some k}"
  proof (cases ops)
    case (Cons op ops')
    obtain h0 c0 where s: "runtime_step n op Uninitialised = (h0, c0)" by fastforce
    from runtime_step_cases [OF s] have "c0 = Up n \<or> c0 = Down" "h0 \<in> {None, Some n}" by simp_all
    with s Cons runtime_run_down [of "Suc n" ops'] runtime_run_up [of "Suc n" ops' n] show ?thesis by auto
  qed simp
  then show ?thesis
    using no_nested_block_on [of fresh own c] runtime_run_down [of n ops]
    by (auto simp: shut_down_is_down wait_for_future_def get_tokio_handle_def try_get_tokio_handle_def get_runtime_def)
qed

theorem one_runtime_witness:
  "runtime_run 0 [Ask, Wait None, Wait (Some 9), Shut (Some 5), Ask] Uninitialised = [Some 0, Some 0, None, None, None]
   \<and> set (runtime_run 0 [Ask, Wait None] (snd (shutdown_runtime 3 None (Up 2)))) \<subseteq> {None}"
proof
  show "runtime_run 0 [Ask, Wait None, Wait (Some 9), Shut (Some 5), Ask] Uninitialised = [Some 0, Some 0, None, None, None]"
    by code_simp
  show "set (runtime_run 0 [Ask, Wait None] (snd (shutdown_runtime 3 None (Up 2)))) \<subseteq> {None}"
    using one_runtime [of 0 0 "[Ask, Wait None]" 0 3 None "Up 2"] by blast
qed

end
