(* ===== verification/Scan_Results.thy ===== *)
theory Scan_Results
  imports Table_Providers Data_Frames "HOL-Library.Multiset"
begin

text \<open>
  What a query over a Python-backed table sees: pushdown, scan, the pulls and the reader bridge taken
  together. The rows of the delivered batches, filtered by what was not pushed down, are compared
  with the rows of the table filtered by every predicate of the query.

  What pyarrow and ibis do with a scanner, a fragment or a filtered table is stated as locales and
  interpreted on tables that are lists of rows.
\<close>

section \<open>Streams read to their end\<close>

text \<open>A Python iterator gives exactly these batches and stops.\<close>

fun iterates :: "('i \<Rightarrow> (py_err + 'b) option \<times> 'i) \<Rightarrow> 'i \<Rightarrow> 'b list \<Rightarrow> bool" where
  "iterates nxt it [] = (fst (nxt it) = None)"
| "iterates nxt it (b # bs) =
     (case nxt it of (Some (Inr c), it') \<Rightarrow> c = b \<and> iterates nxt it' bs | _ \<Rightarrow> False)"

text \<open>
  In some run of the process a stream over the pull state \<open>p\<close> delivered the batches \<open>bs\<close>, reported its
  end and had no failure of its own.
\<close>

definition stream_gave ::
  "('p \<Rightarrow> 'd pulled \<times> 'p) \<Rightarrow> (data_type \<Rightarrow> string) \<Rightarrow> 'p \<Rightarrow> 'd batch list \<Rightarrow> bool" where
  "stream_gave pull display p bs \<longleftrightarrow> (\<exists>w s first. reachable pull display w \<and> s \<in> set (streams w)
     \<and> reader0 s = p \<and> rx_open s \<and> fst (poll_next first s) = Ready None \<and> filter isl (raised s) = []
     \<and> delivered s = map Inr bs)"

lemma ended_reader_over:
  assumes "reachable pull display w" "s \<in> set (streams w)" "rx_open s"
    and e: "fst (poll_next first s) = Ready None" and f: "filter isl (raised s) = []"
  shows "reader_over display s"
proof -
  note inv = reachable_stream [OF assms(1,2)]
  have "co s \<noteq> CoAborted" using inv(1) assms(3) by (auto simp: ctl_inv_def ctl_by_co)
  with poll_end [OF e] have "co s = CoDone" by auto
  with inv(5) assms(3) f show ?thesis by (simp add: end_inv_def)
qed

lemma stream_gaveD:
  assumes "stream_gave pull display p bs"
  obtains schema n rs q where "read_n pull display schema n p = (rs, q)" "rs \<noteq> []"
    "\<not> goes_on display schema (last rs)" "items_of display schema rs = map Inr bs"
proof -
  from assms obtain w s first where s: "reachable pull display w" "s \<in> set (streams w)" "rx_open s"
    "fst (poll_next first s) = Ready None" "filter isl (raised s) = []"
    and p: "reader0 s = p" and d: "delivered s = map Inr bs"
    by (auto simp: stream_gave_def)
  from ended_reader_over [OF s] have "produced s \<noteq> []" "\<not> goes_on display (ps_schema s) (last (produced s))"
    by (simp_all add: reader_over_def)
  moreover from ended_reads_all [OF s order_refl] p d
  have "read_n pull display (ps_schema s) (length (produced s)) p = (produced s, reader s)"
    "items_of display (ps_schema s) (produced s) = map Inr bs" by simp_all
  ultimately show ?thesis using that by blast
qed

definition project_batch ::
  "(nat list \<Rightarrow> 'd batch \<Rightarrow> string + 'd batch) \<Rightarrow> nat list option \<Rightarrow> 'd batch \<Rightarrow> inner_error + 'd batch" where
  "project_batch project projection batch =
     (case projection of None \<Rightarrow> Inr batch | Some indices \<Rightarrow> map_err Inner_Arrow (project indices batch))"

lemma ibis_pull_open:
  "lp_iter p = Some it \<Longrightarrow> nxt it = (r, it') \<Longrightarrow> ibis_pull iter_of nxt project projection p =
     (case r of None \<Rightarrow> Exhausted | Some (Inl e) \<Rightarrow> Pulled (Inl (to_external_err e))
      | Some (Inr b) \<Rightarrow> Pulled (project_batch project projection b), p\<lparr>lp_iter := Some it'\<rparr>)"
  by (auto simp: ibis_pull_def lazily_def pull_next_def python_next_def project_pulled_def project_batch_def
      split: option.splits sum.splits)

lemma ibis_pull_fresh:
  "ibis_pull iter_of nxt project projection (fresh_pull rdr) =
     (case iter_of rdr of
        Inl e \<Rightarrow> (Pulled (Inl (to_external_err e)), \<lparr>lp_source = rdr, lp_iter = None, lp_builds = 1\<rparr>)
      | Inr it \<Rightarrow> ibis_pull iter_of nxt project projection \<lparr>lp_source = rdr, lp_iter = Some it, lp_builds = 1\<rparr>)"
  by (auto simp: ibis_pull_def lazily_def fresh_pull_def pull_next_def project_pulled_def split: sum.splits prod.splits)

text \<open>The pull of a dataset is an ibis pull without projection once its scanner is there.\<close>

lemma lazily_open:
  "lp_iter p = Some it \<Longrightarrow> nxt it = (r, it') \<Longrightarrow> lazily build (python_next nxt) p =
     (case r of None \<Rightarrow> Exhausted | Some (Inl e) \<Rightarrow> Pulled (Inl (to_external_err e))
      | Some (Inr b) \<Rightarrow> Pulled (Inr b), p\<lparr>lp_iter := Some it'\<rparr>)"
  by (auto simp: lazily_def pull_next_def python_next_def split: option.splits sum.splits)

lemma lazily_fresh:
  "lazily build nxt (fresh_pull src) =
     (case build src of
        (Inl e, src') \<Rightarrow> (Pulled (Inl e), \<lparr>lp_source = src', lp_iter = None, lp_builds = 1\<rparr>)
      | (Inr it, src') \<Rightarrow> lazily build nxt \<lparr>lp_source = src', lp_iter = Some it, lp_builds = 1\<rparr>)"
  by (auto simp: lazily_def fresh_pull_def pull_next_def split: sum.splits prod.splits)

text \<open>
  Reading an open pull to its end without an error: the iterator stops, and each of its batches came
  out projected. \<open>pull\<close> is any pull that takes the next batch of its iterator through \<open>proj\<close>.
\<close>

lemma open_read_iterates:
  fixes pull :: "('s, 'i) lazy_pull \<Rightarrow> 'd pulled \<times> ('s, 'i) lazy_pull"
  assumes step: "\<And>p it r it'. lp_iter p = Some it \<Longrightarrow> nxt it = (r, it') \<Longrightarrow> pull p =
       (case r of None \<Rightarrow> Exhausted | Some (Inl e) \<Rightarrow> Pulled (Inl (to_external_err e))
        | Some (Inr b) \<Rightarrow> Pulled (proj b), p\<lparr>lp_iter := Some it'\<rparr>)"
  shows "read_n pull display schema n p = (rs, q) \<Longrightarrow> lp_iter p = Some it \<Longrightarrow> rs \<noteq> [] \<Longrightarrow>
    \<not> goes_on display schema (last rs) \<Longrightarrow> items_of display schema rs = map Inr bs \<Longrightarrow>
    \<exists>cs. iterates nxt it cs \<and> list_all2 (\<lambda>c b. proj c = Inr b) cs bs"
proof (induction n arbitrary: p it rs q bs)
  case (Suc n)
  obtain r it' where r: "nxt it = (r, it')" by fastforce
  note pull = step [OF Suc.prems(2) r]
  consider "r = None" | e where "r = Some (Inl e)" | b where "r = Some (Inr b)"
    by (metis not_None_eq sum.exhaust)
  then show ?case
  proof cases
    case 1
    with pull Suc.prems r show ?thesis by (auto simp: read_n.simps(2) intro!: exI [of _ "[]"])
  next
    case (2 e)
    with pull Suc.prems show ?thesis by (auto simp: read_n.simps(2))
  next
    case (3 b)
    show ?thesis
    proof (cases "goes_on display schema (Pulled (proj b))")
      case True
      then obtain b' where b': "proj b = Inr b'" "check_batch_schema display schema b' = Inr ()"
        by (cases "proj b") auto
      obtain rs' q' where rs': "read_n pull display schema n (p\<lparr>lp_iter := Some it'\<rparr>) = (rs', q')" by fastforce
      with Suc.prems(1) pull 3 True have rs: "rs = Pulled (proj b) # rs'" by (simp add: read_n.simps(2))
      with Suc.prems(4) True have "rs' \<noteq> []" by auto
      moreover from Suc.prems(5) rs b' obtain bs' where bs: "bs = b' # bs'" "items_of display schema rs' = map Inr bs'"
        by (cases bs) auto
      ultimately obtain cs where "iterates nxt it' cs" "list_all2 (\<lambda>c b. proj c = Inr b) cs bs'"
        using Suc.IH [OF rs' _ _ _ bs(2)] Suc.prems(4) rs by auto
      with r 3 b' bs show ?thesis by (intro exI [of _ "b # cs"]) simp
    next
      case False
      with pull 3 Suc.prems(1) have "rs = [Pulled (proj b)]" by (simp add: read_n.simps(2))
      with Suc.prems(5) False show ?thesis
        by (cases "proj b") (auto split: sum.splits)
    qed
  qed
qed simp

lemma dataset_gave:
  assumes "stream_gave (lazily build (python_next nxt)) display (fresh_pull src) bs"
  obtains it src' where "build src = (Inr it, src')" "iterates nxt it bs"
proof -
  from stream_gaveD [OF assms] obtain schema n rs q where
    r: "read_n (lazily build (python_next nxt)) display schema n (fresh_pull src) = (rs, q)" "rs \<noteq> []"
      "\<not> goes_on display schema (last rs)" "items_of display schema rs = map Inr bs" by blast
  then obtain m where n: "n = Suc m" by (cases n) auto
  obtain built src' where b: "build src = (built, src')" by fastforce
  show ?thesis
  proof (cases built)
    case (Inl e)
    with r b n show ?thesis by (auto simp: read_n.simps(2) lazily_fresh)
  next
    case (Inr it)
    let ?p = "\<lparr>lp_source = src', lp_iter = Some it, lp_builds = 1\<rparr>"
    from r(1) b Inr n have "read_n (lazily build (python_next nxt)) display schema n ?p = (rs, q)"
      by (simp add: read_n.simps(2) lazily_fresh)
    then have "\<exists>cs. iterates nxt it cs \<and> list_all2 (\<lambda>c b. (Inr c :: inner_error + _) = Inr b) cs bs"
      by (rule open_read_iterates [rotated]) (simp_all add: lazily_open r(2-4))
    then have "iterates nxt it bs" by (simp add: list.rel_eq)
    with that b Inr show ?thesis by simp
  qed
qed

lemma ibis_gave:
  assumes "stream_gave (ibis_pull iter_of nxt project projection) display (fresh_pull rdr) bs"
  obtains it cs where "iter_of rdr = Inr it" "iterates nxt it cs"
    "list_all2 (\<lambda>c b. project_batch project projection c = Inr b) cs bs"
proof -
  from stream_gaveD [OF assms] obtain schema n rs q where
    r: "read_n (ibis_pull iter_of nxt project projection) display schema n (fresh_pull rdr) = (rs, q)" "rs \<noteq> []"
      "\<not> goes_on display schema (last rs)" "items_of display schema rs = map Inr bs" by blast
  then obtain m where n: "n = Suc m" by (cases n) auto
  show ?thesis
  proof (cases "iter_of rdr")
    case (Inl e)
    with r n show ?thesis by (auto simp: read_n.simps(2) ibis_pull_fresh)
  next
    case (Inr it)
    let ?p = "\<lparr>lp_source = rdr, lp_iter = Some it, lp_builds = 1\<rparr>"
    from r(1) Inr n have "read_n (ibis_pull iter_of nxt project projection) display schema n ?p = (rs, q)"
      by (simp add: read_n.simps(2) ibis_pull_fresh)
    then have "\<exists>cs. iterates nxt it cs \<and> list_all2 (\<lambda>c b. project_batch project projection c = Inr b) cs bs"
      by (rule open_read_iterates [rotated]) (simp_all add: ibis_pull_open r(2-4))
    with that Inr show ?thesis by auto
  qed
qed

section \<open>Columns and residual filters\<close>

text \<open>The columns a filter reads.\<close>

fun columns_of :: "'q expr \<Rightarrow> string set" where
  "columns_of (E_Column rel name) = {name}"
| "columns_of (E_BinaryExpr l op r) = columns_of l \<union> columns_of r"
| "columns_of (E_Not x) = columns_of x"
| "columns_of (E_IsNotNull x) = columns_of x"
| "columns_of (E_IsNull x) = columns_of x"
| "columns_of (E_Between x negated low high) = columns_of x \<union> columns_of low \<union> columns_of high"
| "columns_of (E_InList x xs negated) = columns_of x"
| "columns_of e = {}"

lemma sql_eval_columns:
  "(\<And>n. n \<in> columns_of e \<Longrightarrow> row n = row' n) \<Longrightarrow> sql_eval cmp row e = sql_eval cmp row' e"
  by (induction e rule: columns_of.induct) simp_all

text \<open>A row reduced to the selected columns.\<close>

definition select_row :: "string list option \<Rightarrow> row \<Rightarrow> row" where
  "select_row columns row = (case columns of None \<Rightarrow> row | Some ns \<Rightarrow> row |` set ns)"

lemma select_row_None [simp]: "select_row None = (\<lambda>row. row)"
  by (simp add: fun_eq_iff select_row_def)

definition reads_only :: "string list option \<Rightarrow> 'q expr \<Rightarrow> bool" where
  "reads_only columns e \<longleftrightarrow> (case columns of None \<Rightarrow> True | Some ns \<Rightarrow> columns_of e \<subseteq> set ns)"

lemma sql_eval_select: "reads_only columns e \<Longrightarrow> sql_eval cmp (select_row columns row) e = sql_eval cmp row e"
  by (rule sql_eval_columns) (auto simp: reads_only_def select_row_def restrict_map_def split: option.splits)

text \<open>What DataFusion still filters by itself: the filters not answered \<open>Exact\<close>.\<close>

definition residual :: "'e list \<Rightarrow> pushdown list \<Rightarrow> 'e list" where
  "residual fs ps = map fst (filter (\<lambda>(f, p). p \<noteq> Exact) (zip fs ps))"

lemma pushed_residual: "length ps = length fs \<Longrightarrow> set (pushed fs ps) \<union> set (residual fs ps) = set fs"
proof -
  assume l: "length ps = length fs"
  have "f \<in> set (pushed fs ps) \<union> set (residual fs ps)" if f: "f \<in> set fs" for f
  proof -
    from f l obtain p where "(f, p) \<in> set (zip fs ps)"
      by (metis in_set_impl_in_set_zip1)
    then show ?thesis by (cases p) (force simp: pushed_def residual_def)+
  qed
  moreover have "set (pushed fs ps) \<union> set (residual fs ps) \<subseteq> set fs"
    by (auto simp: pushed_def residual_def dest: set_zip_leftD)
  ultimately show ?thesis by blast
qed

definition all_keep :: "cmp \<Rightarrow> 'q expr list \<Rightarrow> row \<Rightarrow> bool" where
  "all_keep cmp fs row \<longleftrightarrow> (\<forall>f \<in> set fs. keeps (sql_eval cmp row f))"

lemma all_keep_split:
  "length ps = length fs \<Longrightarrow> all_keep cmp fs row \<longleftrightarrow> all_keep cmp (pushed fs ps) row \<and> all_keep cmp (residual fs ps) row"
  using pushed_residual [of ps fs] unfolding all_keep_def by blast

lemma supports_filters_pushdown_length: "supports_filters_pushdown t fs = Inr ps \<Longrightarrow> length ps = length fs"
  by (auto simp: supports_filters_pushdown_def collect_ok_map_Inr_iff dest: list_all2_lengthD)

lemma residual_after_select:
  assumes "\<And>f. f \<in> set (residual fs ps) \<Longrightarrow> reads_only columns f" "length ps = length fs"
  shows "filter (all_keep cmp (residual fs ps)) (map (select_row columns) (filter (all_keep cmp (pushed fs ps)) rows))
    = map (select_row columns) (filter (all_keep cmp fs) rows)"
proof -
  have "all_keep cmp (residual fs ps) (select_row columns row) = all_keep cmp (residual fs ps) row" for row
    using assms(1) by (auto simp: all_keep_def sql_eval_select)
  moreover have "filter (all_keep cmp fs) rows
      = filter (\<lambda>row. all_keep cmp (pushed fs ps) row \<and> all_keep cmp (residual fs ps) row) rows"
    by (rule filter_cong) (simp_all add: all_keep_split [OF assms(2)])
  ultimately show ?thesis by (simp add: filter_map o_def conj_commute)
qed

section \<open>Conjunctions\<close>

lemma keeps_and: "keeps (op3 cmp Op_And a b) \<longleftrightarrow> keeps a \<and> keeps b"
  by (auto simp: keeps_def op3_def k_and_def bool3_def split: option.splits py_value.splits)

lemma sql_conjunction:
  "keeps (sql_eval cmp row (foldl (\<lambda>a b. E_BinaryExpr a Op_And b) f fs)) \<longleftrightarrow> all_keep cmp (f # fs) row"
  by (induction fs arbitrary: f) (auto simp: all_keep_def keeps_and)

lemma positive_conjunction:
  "positive_in_list (foldl (\<lambda>a b. E_BinaryExpr a Op_And b) f fs) \<longleftrightarrow> (\<forall>g \<in> set (f # fs). positive_in_list g)"
  by (induction fs arbitrary: f) auto

text \<open>The rows a filter object of a library keeps.\<close>

definition selects :: "('o \<Rightarrow> row \<Rightarrow> py_value option) \<Rightarrow> 'o option \<Rightarrow> row \<Rightarrow> bool" where
  "selects den flt row \<longleftrightarrow> (case flt of None \<Rightarrow> True | Some c \<Rightarrow> keeps (den c row))"

lemma dataset_filter_selects:
  assumes "conjoining conjunction" "pyarrow_objects api den cmp" "dataset_filter conjunction tx api fs = Inr flt"
    and "\<forall>f \<in> set fs. positive_in_list f"
  shows "selects den flt row \<longleftrightarrow> all_keep cmp fs row"
proof (cases fs)
  case Nil
  with assms(3) conjoining.conjunction_nil [OF assms(1)] show ?thesis
    by (auto simp: dataset_filter_def selects_def all_keep_def)
next
  case (Cons f gs)
  let ?e = "foldl (\<lambda>a b. E_BinaryExpr a Op_And b) f gs"
  from assms(3) Cons conjoining.conjunction_cons [OF assms(1), of f gs]
  obtain c where c: "pyarrow_try_from tx api ?e = Inr c" "flt = Some c"
    by (cases "pyarrow_try_from tx api ?e") (auto simp: dataset_filter_def)
  have "positive_in_list ?e" using assms(4) Cons by (simp add: positive_conjunction)
  with false_for_null_keeps pyarrow_objects.pyarrow_positive [OF assms(2) c(1)]
  show ?thesis unfolding Cons sql_conjunction [symmetric] by (auto simp: selects_def c(2))
qed

section \<open>What pyarrow promises of a dataset\<close>

text \<open>
  A dataset is its fragments, each a list of rows. \<open>get_fragments\<close> may leave out fragments no row of
  which the filter keeps; a fragment's scanner gives the selected columns of the rows it keeps.
\<close>

locale pyarrow_scans = pyarrow_objects api den cmp
  for api :: "'o filter_api" and den :: "'o \<Rightarrow> row \<Rightarrow> py_value option" and cmp :: cmp +
  fixes all_fragments :: "'f list" and frag_rows :: "'f \<Rightarrow> row list"
    and get_fragments :: "'o option \<Rightarrow> py_err + 'f list"
    and scanner_batches :: "'f \<Rightarrow> string list option \<Rightarrow> 'o option \<Rightarrow> nat \<Rightarrow> py_err + 'i"
    and nxt :: "'i \<Rightarrow> (py_err + 'd batch) option \<times> 'i"
    and rows_of :: "'d batch \<Rightarrow> row list"
  assumes fragments_pruned: "get_fragments flt = Inr frs \<Longrightarrow> \<exists>P. frs = filter P all_fragments
        \<and> (\<forall>f \<in> set all_fragments. \<not> P f \<longrightarrow> (\<forall>row \<in> set (frag_rows f). \<not> selects den flt row))"
    and scanned: "scanner_batches f columns flt n = Inr it \<Longrightarrow> iterates nxt it bs \<Longrightarrow>
        concat (map rows_of bs) = map (select_row columns) (filter (selects den flt) (frag_rows f))"
begin

lemma pruned_rows:
  assumes "get_fragments flt = Inr frs"
  shows "concat (map (\<lambda>f. filter (selects den flt) (frag_rows f)) frs)
    = filter (selects den flt) (concat (map frag_rows all_fragments))"
proof -
  from fragments_pruned [OF assms] obtain P where P: "frs = filter P all_fragments"
    "\<And>f row. f \<in> set all_fragments \<Longrightarrow> \<not> P f \<Longrightarrow> row \<in> set (frag_rows f) \<Longrightarrow> \<not> selects den flt row" by blast
  have "concat (map (\<lambda>f. filter (selects den flt) (frag_rows f)) (filter P fs))
      = filter (selects den flt) (concat (map frag_rows fs))" if "set fs \<subseteq> set all_fragments" for fs
    using that
  proof (induction fs)
    case (Cons f fs)
    then have "\<not> P f \<Longrightarrow> filter (selects den flt) (frag_rows f) = []"
      using P(2) by (auto simp: filter_empty_conv)
    with Cons show ?case by simp
  qed simp
  with P(1) show ?thesis by simp
qed

lemma partitions_rows:
  assumes "get_fragments flt = Inr frs"
    and "\<And>i. i < length frs \<Longrightarrow> \<exists>it. scanner_batches (frs ! i) columns flt n = Inr it \<and> iterates nxt it (bs i)"
  shows "concat (map (\<lambda>i. concat (map rows_of (bs i))) [0..<length frs])
    = map (select_row columns) (filter (selects den flt) (concat (map frag_rows all_fragments)))"
proof -
  have "concat (map rows_of (bs i)) = map (select_row columns) (filter (selects den flt) (frag_rows (frs ! i)))"
    if "i < length frs" for i
    using assms(2) [OF that] scanned by blast
  then have "map (\<lambda>i. concat (map rows_of (bs i))) [0..<length frs]
      = map (\<lambda>f. map (select_row columns) (filter (selects den flt) (frag_rows f))) frs"
    by (intro nth_equalityI) simp_all
  then have "concat (map (\<lambda>i. concat (map rows_of (bs i))) [0..<length frs])
      = map (select_row columns) (concat (map (\<lambda>f. filter (selects den flt) (frag_rows f)) frs))"
    by (simp add: map_concat o_def)
  then show ?thesis unfolding pruned_rows [OF assms(1)] .
qed

end

text \<open>\<open>fragments[partition]\<close> of the list a scan keeps; out of range Python raises an \<open>IndexError\<close>.\<close>

definition fragment_at :: "'f list \<Rightarrow> nat \<Rightarrow> py_err + 'f" where
  "fragment_at frs i = (if i < length frs then Inr (frs ! i)
     else Inl (new_err (PyOther ''IndexError'') ''list index out of range''))"

lemma DatasetExec_newD:
  assumes "Dataset_scan conjunction tx api ds projection filters = Inr e"
  shows "dataset_filter conjunction tx api filters = Inr (de_filter e)"
    "ds_get_fragments ds (de_filter e) = Inr (de_fragments e)" "de_partitions e = length (de_fragments e)"
  using assms by (auto simp: Dataset_scan_def DatasetExec_new_def dataset_filter_def result_simps)

lemma dataset_partition_gave:
  assumes "stream_gave (dataset_pull (fragment_at frs) schema_attr scanner_batches nxt i bsz) display
      (fresh_pull \<lparr>dp_columns = columns, dp_filter = flt\<rparr>) bs" "i < length frs"
  shows "\<exists>it. scanner_batches (frs ! i) columns flt bsz = Inr it \<and> iterates nxt it bs"
proof -
  from dataset_gave [OF assms(1) [unfolded dataset_pull_def]] obtain it src' where
    "dataset_build (fragment_at frs) schema_attr scanner_batches i bsz \<lparr>dp_columns = columns, dp_filter = flt\<rparr>
       = (Inr it, src')" "iterates nxt it bs" by blast
  with assms(2) show ?thesis
    by (auto simp: dataset_build_def fragment_at_def result_simps split: sum.splits)
qed

section \<open>What ibis promises of a table\<close>

text \<open>
  The batches of a table hold its rows in some order; those of a filtered table the rows all filters
  keep. \<open>RecordBatch::project\<close> keeps the columns at the given positions.
\<close>

locale ibis_scans = ibis_objects api den cmp
  for api :: "'o filter_api" and den :: "'o \<Rightarrow> row \<Rightarrow> py_value option" and cmp :: cmp +
  fixes table_rows :: "row list" and t :: "('o, 'r) ibis_obj"
    and iter_of :: "'r \<Rightarrow> py_err + 'i" and nxt :: "'i \<Rightarrow> (py_err + 'd batch) option \<times> 'i"
    and project :: "nat list \<Rightarrow> 'd batch \<Rightarrow> string + 'd batch" and names :: "nat \<Rightarrow> string"
    and rows_of :: "'d batch \<Rightarrow> row list"
  assumes table_batches: "it_batches t = Inr r \<Longrightarrow> iter_of r = Inr it \<Longrightarrow> iterates nxt it cs \<Longrightarrow>
        mset (concat (map rows_of cs)) = mset table_rows"
    and filtered_batches: "it_filter t args = Inr (Inr r) \<Longrightarrow> iter_of r = Inr it \<Longrightarrow> iterates nxt it cs \<Longrightarrow>
        mset (concat (map rows_of cs)) = mset (filter (\<lambda>row. \<forall>a \<in> set args. keeps (den a row)) table_rows)"
    and projected: "project indices b = Inr b' \<Longrightarrow>
        rows_of b' = map (select_row (Some (map names indices))) (rows_of b)"
begin

lemma project_batch_rows:
  "project_batch project projection c = Inr b \<Longrightarrow>
     rows_of b = map (select_row (map_option (map names) projection)) (rows_of c)"
  by (cases projection) (simp_all add: project_batch_def result_simps projected)

lemma projected_rows:
  "list_all2 (\<lambda>c b. project_batch project projection c = Inr b) cs bs \<Longrightarrow>
     concat (map rows_of bs) = map (select_row (map_option (map names) projection)) (concat (map rows_of cs))"
  by (induction rule: list_all2_induct) (simp_all add: project_batch_rows)

lemma ibis_args_keep:
  assumes "ibis_args tx api fs = Inr args" "\<forall>f \<in> set fs. no_in_list f"
  shows "(\<forall>a \<in> set args. keeps (den a row)) \<longleftrightarrow> all_keep cmp fs row"
proof -
  from assms(1) have "list_all2 (\<lambda>f a. ibis_try_from tx api f = Inr a) fs args"
    by (simp add: ibis_args_def collect_ok_map_Inr_iff map_err_Inr_iff)
  then show ?thesis using assms(2)
    by (induction rule: list_all2_induct) (auto simp: all_keep_def ibis_exact)
qed

lemma scan_rows:
  assumes "IbisTable_scan tx api rs pj t projection fs = Inr e" "\<forall>f \<in> set fs. no_in_list f"
    and "iter_of (ie_reader e) = Inr it" "iterates nxt it cs"
  shows "mset (concat (map rows_of cs)) = mset (filter (all_keep cmp fs) table_rows)"
proof (cases "fs = []")
  case True
  with assms(1) have "it_batches t = Inr (ie_reader e)"
    by (auto simp: IbisTable_scan_def IbisTableExec_new_def unwrap_scan_def result_simps)
  with table_batches assms(3,4) True show ?thesis by (simp add: all_keep_def)
next
  case False
  with assms(1) obtain args where a: "ibis_args tx api fs = Inr args" "it_filter t args = Inr (Inr (ie_reader e))"
    by (auto simp: IbisTable_scan_def IbisTableExec_new_def unwrap_scan_def external_def result_simps)
  then show ?thesis
    using filtered_batches [OF a(2) assms(3,4)] ibis_args_keep [OF a(1) assms(2)] by simp
qed

end

section \<open>Tables that are lists of rows\<close>

text \<open>A batch of such a table holds association lists; an iterator is the list of the batches to come.\<close>

type_synonym listed = "(string \<times> py_value) list list"

definition listed_rows :: "listed batch \<Rightarrow> row list" where
  "listed_rows b = map map_of (b_data b)"

definition listed_batch :: "listed \<Rightarrow> listed batch" where
  "listed_batch rs = \<lparr>b_schema = demo_schema, b_data = rs\<rparr>"

definition listed_select :: "string list option \<Rightarrow> (string \<times> py_value) list \<Rightarrow> (string \<times> py_value) list" where
  "listed_select columns r = (case columns of None \<Rightarrow> r | Some ns \<Rightarrow> filter (\<lambda>(k, v). k \<in> set ns) r)"

fun listed_next :: "'b list \<Rightarrow> (py_err + 'b) option \<times> 'b list" where
  "listed_next [] = (None, [])"
| "listed_next (b # bs) = (Some (Inr b), bs)"

definition listed_scanner ::
  "('o \<Rightarrow> row \<Rightarrow> py_value option) \<Rightarrow> listed \<Rightarrow> string list option \<Rightarrow> 'o option \<Rightarrow> nat \<Rightarrow> py_err + listed batch list" where
  "listed_scanner den rs columns flt n =
     Inr [listed_batch (map (listed_select columns) (filter (\<lambda>r. selects den flt (map_of r)) rs))]"

definition listed_project :: "(nat \<Rightarrow> string) \<Rightarrow> nat list \<Rightarrow> listed batch \<Rightarrow> string + listed batch" where
  "listed_project names indices b = Inr (listed_batch (map (listed_select (Some (map names indices))) (b_data b)))"

definition listed_table :: "('o \<Rightarrow> row \<Rightarrow> py_value option) \<Rightarrow> listed \<Rightarrow> ('o, listed batch list) ibis_obj" where
  "listed_table den rs = \<lparr>it_is_table = Inr True, it_schema = Inr demo_schema, it_batches = Inr [listed_batch rs],
     it_filter = (\<lambda>args. Inr (Inr [listed_batch (filter (\<lambda>r. \<forall>a \<in> set args. keeps (den a (map_of r))) rs)]))\<rparr>"

lemma listed_next_iterates: "iterates listed_next it bs \<longleftrightarrow> bs = it"
proof (induction bs arbitrary: it)
  case Nil
  show ?case by (cases it) simp_all
next
  case (Cons b bs)
  then show ?case by (cases it) auto
qed

lemma map_of_listed_select: "map_of (listed_select columns r) = select_row columns (map_of r)"
proof (cases columns)
  case (Some ns)
  have "map_of (filter (\<lambda>(k, v). k \<in> set ns) r) = map_of r |` set ns"
    by (induction r) (auto simp: restrict_map_def fun_eq_iff)
  with Some show ?thesis by (simp add: listed_select_def select_row_def)
qed (simp add: listed_select_def select_row_def)

interpretation listed_dataset: pyarrow_scans tree_api "tree_eval (pyarrow_member cmp) cmp" cmp
    frs "map map_of" "\<lambda>_. Inr frs" "listed_scanner (tree_eval (pyarrow_member cmp) cmp)" listed_next listed_rows
  for cmp frs
proof (intro pyarrow_scans.intro pyarrow_trees_laws, unfold_locales)
  show "\<exists>P. frs' = filter P frs \<and> (\<forall>f \<in> set frs. \<not> P f \<longrightarrow>
      (\<forall>row \<in> set (map map_of f). \<not> selects (tree_eval (pyarrow_member cmp) cmp) flt row))"
    if "(Inr frs :: py_err + _) = Inr frs'" for flt frs'
    using that by (intro exI [of _ "\<lambda>_. True"]) simp
qed (auto simp: listed_scanner_def listed_next_iterates listed_rows_def listed_batch_def filter_map o_def map_of_listed_select)

interpretation listed_ibis: ibis_scans tree_api "tree_eval (ibis_member cmp) cmp" cmp "map map_of rs"
    "listed_table (tree_eval (ibis_member cmp) cmp) rs" Inr listed_next "listed_project names" names listed_rows
  for cmp rs names
  by (intro ibis_scans.intro ibis_trees_laws, unfold_locales)
     (auto simp: listed_table_def listed_next_iterates listed_rows_def listed_batch_def listed_project_def filter_map o_def
       map_of_listed_select)

section \<open>Properties\<close>

lemma reader0_execute [simp]:
  "reader0 (dataset_execute e) = fresh_pull \<lparr>dp_columns = de_columns e, dp_filter = de_filter e\<rparr>"
  "reader0 (ibis_execute ie) = fresh_pull (ie_reader ie)"
  by (simp_all add: dataset_execute_def ibis_execute_def spawn_channel_stream_def)


text \<open>A run of the process with one stream, whose consumer has seen the end.\<close>

lemma run_gave:
  assumes "wacts pull display (map (Pair 0) as) (wspawn schema p mode winit) = Some w" "length (streams w) = 1"
    and "reader0 (streams w ! 0) = p" "rx_open (streams w ! 0)" "fst (poll_next first (streams w ! 0)) = Ready None"
    and "filter isl (raised (streams w ! 0)) = []" "delivered (streams w ! 0) = map Inr bs"
  shows "stream_gave pull display p bs"
  unfolding stream_gave_def
  using reachable_acts [OF reachable_spawn [OF reachable_init] assms(1)] demo_stream [OF assms(2)] assms(3-) by blast

definition to_end :: "action list" where
  "to_end = go @ [NextSlot, NextCredit, EnterPull, PullReturns, ReportRound, Poll False]"

text \<open>Two fragments of one row each, read with the filter \<open>a = 1\<close> to the end of both partitions.\<close>

abbreviation demo_den :: "call_tree \<Rightarrow> row \<Rightarrow> py_value option" where
  "demo_den \<equiv> tree_eval (pyarrow_member same_value) same_value"

definition demo_filter :: "unit expr" where "demo_filter = E_BinaryExpr col_a Op_Eq lit_1"

definition demo_fragments :: "listed list" where
  "demo_fragments = [[[(''a'', PV_Int 1)]], [[(''a'', PV_Int 2)]]]"

definition demo_rows_dataset :: "(call_tree, listed) dataset_obj" where
  "demo_rows_dataset = \<lparr>ds_is_dataset = Inr True, ds_schema = Inr demo_schema,
     ds_field_name = (\<lambda>i. Inr ''a''), ds_projected_schema = (\<lambda>_ _. Inr demo_schema),
     ds_get_fragments = (\<lambda>_. Inr demo_fragments)\<rparr>"

definition demo_tree :: call_tree where
  "demo_tree = T_Operator ''eq'' (T_Column ''a'') (T_Literal (PV_Int 1))"

definition demo_scan :: "(call_tree, listed) dataset_exec" where
  "demo_scan = \<lparr>de_schema = demo_schema, de_fragments = demo_fragments, de_columns = None,
     de_filter = Some demo_tree, de_partitions = 2\<rparr>"

definition demo_pull :: "nat \<Rightarrow> (call_tree dataset_source, listed batch list) lazy_pull \<Rightarrow>
    listed pulled \<times> (call_tree dataset_source, listed batch list) lazy_pull" where
  "demo_pull i = dataset_pull (fragment_at demo_fragments) (Inr ()) (listed_scanner demo_den) listed_next i 8"

definition part_run :: "nat \<Rightarrow> (listed, (call_tree dataset_source, listed batch list) lazy_pull) world option" where
  "part_run i = wacts (demo_pull i) plain (map (Pair 0) to_end)
     (wspawn demo_schema (fresh_pull \<lparr>dp_columns = None, dp_filter = Some demo_tree\<rparr>) Buffered winit)"

definition part_batches :: "nat \<Rightarrow> listed batch list" where
  "part_batches i = [listed_batch (if i = 0 then [[(''a'', PV_Int 1)]] else [])]"

lemma demo_parts:
  "stream_gave (demo_pull 0) plain (fresh_pull \<lparr>dp_columns = None, dp_filter = Some demo_tree\<rparr>) (part_batches 0)"
  "stream_gave (demo_pull 1) plain (fresh_pull \<lparr>dp_columns = None, dp_filter = Some demo_tree\<rparr>) (part_batches 1)"
proof -
  have "part_run 0 \<noteq> None" by code_simp
  then have r: "part_run 0 = Some (the (part_run 0))" by auto
  show "stream_gave (demo_pull 0) plain (fresh_pull \<lparr>dp_columns = None, dp_filter = Some demo_tree\<rparr>) (part_batches 0)"
    by (rule run_gave [OF r [unfolded part_run_def], folded part_run_def, where first = False]) code_simp+
  have "part_run 1 \<noteq> None" by code_simp
  then have r: "part_run 1 = Some (the (part_run 1))" by auto
  show "stream_gave (demo_pull 1) plain (fresh_pull \<lparr>dp_columns = None, dp_filter = Some demo_tree\<rparr>) (part_batches 1)"
    by (rule run_gave [OF r [unfolded part_run_def], folded part_run_def, where first = False]) code_simp+
qed



text \<open>A table of two rows whose filter is pushed, and a second filter that is not.\<close>

definition demo_table :: "(call_tree, listed batch list) ibis_obj" where
  "demo_table = listed_table (tree_eval (ibis_member same_value) same_value) (concat demo_fragments)"

definition demo_ibis_scan :: "listed batch list ibis_exec" where
  "demo_ibis_scan = \<lparr>ie_reader = [listed_batch [[(''a'', PV_Int 1)]]], ie_schema = demo_schema, ie_projection = None\<rparr>"

definition ibis_run :: "(listed, (listed batch list, listed batch list) lazy_pull) world option" where
  "ibis_run = wacts (ibis_pull Inr listed_next (listed_project (\<lambda>_. ''a'')) None) plain (map (Pair 0) to_end)
     (wspawn demo_schema (fresh_pull (ie_reader demo_ibis_scan)) Buffered winit)"


end
