(* ===== verification/Exec_Plans.thy ===== *)
theory Exec_Plans
  imports Scan_Results
begin

text \<open>
  The tables and plans DataFusion sees: the \<open>TableProvider\<close> and \<open>ExecutionPlan\<close> methods of the Python-backed
  tables beside scan, pushdown and execute (\<open>src/dataset.rs\<close>, \<open>src/dataset_exec.rs\<close>, \<open>src/ibis_table.rs\<close>,
  \<open>src/ibis_table_exec.rs\<close>, \<open>src/provider.rs\<close>, \<open>src/py_record_batch_provider.rs\<close>), \<open>compute_properties\<close> and
  \<open>DemandStream::schema\<close> of \<open>src/utils.rs\<close>, and the plan object Python gets (\<open>src/physical_plan.rs\<close>).

  What DataFusion expects of an \<open>ExecutionPlan\<close> is a locale, interpreted on the plans of the crate.
\<close>

section \<open>Plan properties\<close>

datatype emission = Incremental | Final | Both

record plan_properties =
  pp_schema :: schema_ref
  pp_partitions :: nat
  pp_emission :: emission
  pp_bounded :: bool

definition compute_properties :: "schema_ref \<Rightarrow> plan_properties" where
  "compute_properties schema =
     \<lparr>pp_schema = schema, pp_partitions = 1, pp_emission = Incremental, pp_bounded = True\<rparr>"

text \<open>What a visitor of a plan's expressions is told to do next; \<open>'c\<close> is the state of the visitor.\<close>

datatype recursion = Continue | Jump | Stop

section \<open>The dataset\<close>

definition DatasetExec_properties :: "('o, 'f) dataset_exec \<Rightarrow> plan_properties" where
  "DatasetExec_properties e =
     \<lparr>pp_schema = de_schema e, pp_partitions = de_partitions e, pp_emission = Incremental, pp_bounded = True\<rparr>"

definition DatasetExec_schema :: "('o, 'f) dataset_exec \<Rightarrow> schema_ref" where
  "DatasetExec_schema e = de_schema e"

definition DatasetExec_children :: "('o, 'f) dataset_exec \<Rightarrow> 'plan list" where
  "DatasetExec_children e = []"

definition DatasetExec_with_new_children :: "('o, 'f) dataset_exec \<Rightarrow> 'plan list \<Rightarrow> inner_error + ('o, 'f) dataset_exec" where
  "DatasetExec_with_new_children e children = Inr e"

definition DatasetExec_apply_expressions ::
  "('x \<Rightarrow> 'c \<Rightarrow> (inner_error + recursion) \<times> 'c) \<Rightarrow> ('o, 'f) dataset_exec \<Rightarrow> 'c \<Rightarrow> (inner_error + recursion) \<times> 'c" where
  "DatasetExec_apply_expressions visit e c = (Inr Continue, c)"

definition Dataset_schema :: "dataset \<Rightarrow> schema_ref" where
  "Dataset_schema d = dataset_schema d"

definition Dataset_table_type :: "dataset \<Rightarrow> table_type" where
  "Dataset_table_type d = Base"

section \<open>The ibis table and the Python provider\<close>

definition IbisTableExec_name :: string where
  "IbisTableExec_name = ''ibis_table''"

definition IbisTableExec_fmt :: "'r ibis_exec \<Rightarrow> string" where
  "IbisTableExec_fmt e = ''IbisTableExec''"

definition IbisTableExec_properties :: "'r ibis_exec \<Rightarrow> plan_properties" where
  "IbisTableExec_properties e = compute_properties (ie_schema e)"

definition IbisTableExec_schema :: "'r ibis_exec \<Rightarrow> schema_ref" where
  "IbisTableExec_schema e = ie_schema e"

definition IbisTableExec_children :: "'r ibis_exec \<Rightarrow> 'plan list" where
  "IbisTableExec_children e = []"

definition IbisTableExec_with_new_children :: "'r ibis_exec \<Rightarrow> 'plan list \<Rightarrow> inner_error + 'r ibis_exec" where
  "IbisTableExec_with_new_children e children = Inr e"

definition IbisTableExec_apply_expressions ::
  "('x \<Rightarrow> 'c \<Rightarrow> (inner_error + recursion) \<times> 'c) \<Rightarrow> 'r ibis_exec \<Rightarrow> 'c \<Rightarrow> (inner_error + recursion) \<times> 'c" where
  "IbisTableExec_apply_expressions visit e c = (Inr Continue, c)"

definition IbisTable_schema :: "ibis_table \<Rightarrow> schema_ref" where
  "IbisTable_schema t = ibis_schema t"

definition IbisTable_table_type :: "ibis_table \<Rightarrow> table_type" where
  "IbisTable_table_type t = Base"

text \<open>\<open>PyTableProvider\<close> keeps the schema it read when it was made.\<close>

record 'p py_table_provider =
  ptp_object :: 'p
  ptp_schema :: schema_ref

definition PyTableProvider_make :: "('o, 'r) provider_obj \<Rightarrow> py_err + ('o, 'r) provider_obj py_table_provider" where
  "PyTableProvider_make p = map_ok (\<lambda>s. \<lparr>ptp_object = p, ptp_schema = s\<rparr>) (PyTableProvider_new p)"

definition PyTableProvider_schema :: "'p py_table_provider \<Rightarrow> schema_ref" where
  "PyTableProvider_schema p = ptp_schema p"

definition PyTableProvider_table_type :: "'p py_table_provider \<Rightarrow> table_type" where
  "PyTableProvider_table_type p = Base"

definition PyTableProvider_pushdown ::
  "'q expr_text \<Rightarrow> 'o filter_api \<Rightarrow> 'q expr list \<Rightarrow> scan_fault + pushdown list" where
  "PyTableProvider_pushdown tx api filters = supports_filters_pushdown (ibis_try_from tx api) filters"

section \<open>The Arrow stream\<close>

text \<open>
  The provider of an Arrow C stream is DataFusion's \<open>StreamingTable\<close> over one partition; only the kind of
  table it reports is its own.
\<close>

record 'r arrow_partition =
  ap_object :: 'r
  ap_schema :: schema_ref

record ('st, 'q, 'r, 'plan) streaming_api =
  st_try_new :: "schema_ref \<Rightarrow> 'r arrow_partition list \<Rightarrow> inner_error + 'st"
  st_with_sort_order :: "'q sort_expr list \<Rightarrow> 'st \<Rightarrow> 'st"
  st_schema :: "'st \<Rightarrow> schema_ref"
  st_scan :: "nat list option \<Rightarrow> 'q expr list \<Rightarrow> nat option \<Rightarrow> 'st \<Rightarrow> inner_error + 'plan"

definition PyRecordBatchProvider_try_new ::
  "('st, 'q, 'r, 'plan) streaming_api \<Rightarrow> 'r \<Rightarrow> schema_ref \<Rightarrow> 'q sort_expr list \<Rightarrow> inner_error + 'st" where
  "PyRecordBatchProvider_try_new api py_object schema sort_order =
     and_then (st_try_new api schema [\<lparr>ap_object = py_object, ap_schema = schema\<rparr>]) (\<lambda>t.
     Inr (st_with_sort_order api sort_order t))"

definition PyRecordBatchProvider_schema :: "('st, 'q, 'r, 'plan) streaming_api \<Rightarrow> 'st \<Rightarrow> schema_ref" where
  "PyRecordBatchProvider_schema api t = st_schema api t"

definition PyRecordBatchProvider_table_type :: "'st \<Rightarrow> table_type" where
  "PyRecordBatchProvider_table_type t = Base"

definition PyRecordBatchProvider_scan ::
  "('st, 'q, 'r, 'plan) streaming_api \<Rightarrow> nat list option \<Rightarrow> 'q expr list \<Rightarrow> nat option \<Rightarrow> 'st \<Rightarrow> inner_error + 'plan" where
  "PyRecordBatchProvider_scan api projection filters limit t = st_scan api projection filters limit t"

definition PyArrowStreamPartition_schema :: "'r arrow_partition \<Rightarrow> schema_ref" where
  "PyArrowStreamPartition_schema p = ap_schema p"

definition PyArrowStreamPartition_execute :: "'r arrow_partition \<Rightarrow> ('d, ('r, 'i) lazy_pull) pstream" where
  "PyArrowStreamPartition_execute p = arrow_execute (ap_schema p) (ap_object p)"

text \<open>\<open>DemandStream::schema\<close>.\<close>

definition DemandStream_schema :: "('d, 'p) pstream \<Rightarrow> schema_ref" where
  "DemandStream_schema s = ps_schema s"

section \<open>The plan object of Python\<close>

record 'plan plan_view =
  pv_children :: "'plan \<Rightarrow> 'plan list"
  pv_one_line :: "'plan \<Rightarrow> string"
  pv_indent :: "bool \<Rightarrow> 'plan \<Rightarrow> string"
  pv_partition_count :: "'plan \<Rightarrow> nat"

definition PyExecutionPlan_children :: "'plan plan_view \<Rightarrow> 'plan \<Rightarrow> 'plan list" where
  "PyExecutionPlan_children pv plan = pv_children pv plan"

definition PyExecutionPlan_display :: "'plan plan_view \<Rightarrow> 'plan \<Rightarrow> string" where
  "PyExecutionPlan_display pv plan = pv_one_line pv plan"

definition PyExecutionPlan_display_indent :: "'plan plan_view \<Rightarrow> 'plan \<Rightarrow> string" where
  "PyExecutionPlan_display_indent pv plan = pv_indent pv False plan"

definition PyExecutionPlan_repr :: "'plan plan_view \<Rightarrow> 'plan \<Rightarrow> string" where
  "PyExecutionPlan_repr pv plan = PyExecutionPlan_display_indent pv plan"

definition PyExecutionPlan_partition_count :: "'plan plan_view \<Rightarrow> 'plan \<Rightarrow> nat" where
  "PyExecutionPlan_partition_count pv plan = pv_partition_count pv plan"

section \<open>What DataFusion expects of a plan\<close>

text \<open>
  A leaf plan: it has no children and giving it none gives it back, it shows no expressions to a
  visitor, its properties and its streams carry its schema. \<open>runs\<close> is the pull its streams read from.
\<close>

definition same_columns :: "schema_ref \<Rightarrow> schema_ref \<Rightarrow> bool" where
  "same_columns s t \<longleftrightarrow> sr_ptr s = sr_ptr t
     \<or> map field_name (sr_fields s) = map field_name (sr_fields t)
       \<and> map field_data_type (sr_fields s) = map field_data_type (sr_fields t)"

locale leaf_plan =
  fixes schema_of :: "'e \<Rightarrow> schema_ref" and properties :: "'e \<Rightarrow> plan_properties"
    and children :: "'e \<Rightarrow> 'e list" and with_new_children :: "'e \<Rightarrow> 'e list \<Rightarrow> inner_error + 'e"
    and execute :: "'e \<Rightarrow> ('d, 'p) pstream"
  assumes leaf: "children e = []" "with_new_children e [] = Inr e"
    and property_schema: "pp_schema (properties e) = schema_of e" "pp_bounded (properties e)"
    and stream_schema: "DemandStream_schema (execute e) = schema_of e"
begin

lemma delivered_columns:
  assumes "reachable pull display w" "s \<in> set (streams w)" "Inr batch \<in> set (delivered s)"
    and "ps_schema s = ps_schema (execute e)"
  shows "same_columns (b_schema batch) (schema_of e)"
  using delivered_batches_have_the_schema [OF assms(1-3)] assms(4) stream_schema [of e]
  by (simp add: same_columns_def DemandStream_schema_def)

lemma rebuilt: "with_new_children e (children e) = Inr e"
  by (simp add: leaf)

end

interpretation dataset_leaf: leaf_plan DatasetExec_schema DatasetExec_properties DatasetExec_children
    DatasetExec_with_new_children dataset_execute
  by unfold_locales
    (simp_all add: DatasetExec_schema_def DatasetExec_properties_def DatasetExec_children_def
      DatasetExec_with_new_children_def DemandStream_schema_def dataset_execute_def spawn_channel_stream_def)

interpretation ibis_leaf: leaf_plan IbisTableExec_schema IbisTableExec_properties IbisTableExec_children
    IbisTableExec_with_new_children ibis_execute
  by unfold_locales
    (simp_all add: IbisTableExec_schema_def IbisTableExec_properties_def IbisTableExec_children_def compute_properties_def
      IbisTableExec_with_new_children_def DemandStream_schema_def ibis_execute_def spawn_channel_stream_def)

text \<open>The schema of a table is the one its object gave when it was registered.\<close>

lemma registered_schema:
  "Dataset_new ds = Inr d \<Longrightarrow> ds_schema ds = Inr (Dataset_schema d)"
  "IbisTable_new t = Inr it \<Longrightarrow> it_schema t = Inr (IbisTable_schema it)"
  "PyTableProvider_make p = Inr q \<Longrightarrow> tp_schema p = Inr (PyTableProvider_schema q)"
  by (auto simp: Dataset_new_def Dataset_schema_def IbisTable_new_def IbisTable_schema_def PyTableProvider_make_def
      PyTableProvider_new_def PyTableProvider_schema_def result_simps split: if_splits)

lemma fragment_at_iff: "(\<exists>f. fragment_at frs j = Inr f) \<longleftrightarrow> j < length frs"
  by (simp add: fragment_at_def)

section \<open>Plans keep their promises\<close>

text \<open>
  C16: What the plans of dataset and ibis scans promise to DataFusion holds of their streams: every batch a
  stream delivers has the columns of the plan's schema, which is also the schema of the plan's
  properties and of the stream; a partition index opens a fragment exactly when it is below the
  partition count; and giving a plan its own children gives back the plan.
\<close>

theorem plans_keep_their_promises:
  fixes e :: "('o, 'f) dataset_exec" and ie :: "'r ibis_exec"
  assumes "Dataset_scan conjunction tx api ds projection filters = Inr e"
    and "reachable (dataset_pull (fragment_at (de_fragments e)) schema_attr scanner_batches nxt i bsz) display w"
      "s \<in> set (streams w)" "Inr batch \<in> set (delivered s)"
      "ps_schema s = ps_schema (dataset_execute e :: ('d, ('o dataset_source, 'i) lazy_pull) pstream)"
    and "reachable (ibis_pull iter_of nxt' project (ie_projection ie)) display w'"
      "s' \<in> set (streams w')" "Inr batch' \<in> set (delivered s')"
      "ps_schema s' = ps_schema (ibis_execute ie :: ('d, ('r, 'j) lazy_pull) pstream)"
  shows "same_columns (b_schema batch) (DatasetExec_schema e) \<and> same_columns (b_schema batch') (IbisTableExec_schema ie)
    \<and> pp_schema (DatasetExec_properties e) = DatasetExec_schema e
    \<and> pp_schema (IbisTableExec_properties ie) = IbisTableExec_schema ie
    \<and> (\<forall>j. (\<exists>f. fragment_at (de_fragments e) j = Inr f) \<longleftrightarrow> j < pp_partitions (DatasetExec_properties e))
    \<and> DatasetExec_with_new_children e (DatasetExec_children e :: ('o, 'f) dataset_exec list) = Inr e
    \<and> IbisTableExec_with_new_children ie (IbisTableExec_children ie :: 'r ibis_exec list) = Inr ie"
proof (intro conjI allI)
  show "same_columns (b_schema batch) (DatasetExec_schema e)" by (rule dataset_leaf.delivered_columns [OF assms(2-5)])
  show "same_columns (b_schema batch') (IbisTableExec_schema ie)" by (rule ibis_leaf.delivered_columns [OF assms(6-9)])
  show "(\<exists>f. fragment_at (de_fragments e) j = Inr f) \<longleftrightarrow> j < pp_partitions (DatasetExec_properties e)" for j
    using DatasetExec_newD(3) [OF assms(1)] by (simp add: fragment_at_iff DatasetExec_properties_def)
qed (simp_all add: dataset_leaf.property_schema ibis_leaf.property_schema dataset_leaf.leaf ibis_leaf.leaf)

theorem plans_keep_their_promises_witness:
  "(\<forall>j. (\<exists>f. fragment_at (de_fragments demo_scan) j = Inr f) \<longleftrightarrow> j < 2)
   \<and> same_columns (b_schema (part_batches 0 ! 0)) demo_schema"
proof -
  have scan: "Dataset_scan and_all plain_text tree_api demo_rows_dataset None [demo_filter] = Inr demo_scan" by code_simp
  have "part_run 0 \<noteq> None" "ibis_run \<noteq> None" by code_simp+
  then have r: "part_run 0 = Some (the (part_run 0))" "ibis_run = Some (the ibis_run)" by auto
  have w: "reachable (demo_pull 0) plain (the (part_run 0))"
    "reachable (ibis_pull Inr listed_next (listed_project (\<lambda>_. ''a'')) None) plain (the ibis_run)"
    using reachable_acts [OF reachable_spawn [OF reachable_init] r(1) [unfolded part_run_def]]
      reachable_acts [OF reachable_spawn [OF reachable_init] r(2) [unfolded ibis_run_def]]
    by (simp_all add: part_run_def ibis_run_def)
  have l: "length (streams (the (part_run 0))) = 1" "length (streams (the ibis_run)) = 1" by code_simp+
  have d: "delivered (streams (the (part_run 0)) ! 0) = map Inr (part_batches 0)"
    "delivered (streams (the ibis_run) ! 0) = [Inr (listed_batch [[(''a'', PV_Int 1)]])]" by code_simp+
  have p: "ps_schema (streams (the (part_run 0)) ! 0) = demo_schema" "ps_schema (streams (the ibis_run) ! 0) = demo_schema"
    by code_simp+
  note ok = plans_keep_their_promises [OF scan, of "Inr ()" "listed_scanner demo_den" listed_next 0 8 plain "the (part_run 0)"
    "streams (the (part_run 0)) ! 0" "part_batches 0 ! 0" Inr listed_next "listed_project (\<lambda>_. ''a'')" demo_ibis_scan
    "the ibis_run" "streams (the ibis_run) ! 0" "listed_batch [[(''a'', PV_Int 1)]]"]
  have "DatasetExec_schema demo_scan = demo_schema" "pp_partitions (DatasetExec_properties demo_scan) = 2"
    "de_fragments demo_scan = demo_fragments" "ie_projection demo_ibis_scan = None" by code_simp+
  with ok have "same_columns (b_schema (part_batches 0 ! 0)) (DatasetExec_schema demo_scan)"
    "\<forall>j. (\<exists>f. fragment_at (de_fragments demo_scan) j = Inr f) \<longleftrightarrow> j < pp_partitions (DatasetExec_properties demo_scan)"
    using w [unfolded demo_pull_def] demo_stream [OF l(1)] demo_stream [OF l(2)] d p
    by (simp_all add: part_batches_def dataset_execute_def ibis_execute_def spawn_channel_stream_def demo_scan_def demo_ibis_scan_def)
  then show ?thesis by (simp add: \<open>DatasetExec_schema demo_scan = demo_schema\<close> \<open>pp_partitions (DatasetExec_properties demo_scan) = 2\<close>)
qed

end
