(* ===== verification/Object_Storage.thy ===== *)
theory Object_Storage
  imports Py_Errors
begin

text \<open>
  \<open>src/object_storage.rs\<close>: the option records of the cloud stores and the builders made from them, the
  choice of a store by URL scheme and its registration in a session.

  The builders belong to the object_store crate: a builder is the sequence of \<open>with_\<close> calls made on
  \<open>from_env()\<close>, and what \<open>build()\<close> makes of it is a parameter. So are the parsing of URLs, the AWS
  configuration found in the environment, \<open>ConfigField::set\<close> and \<open>TableOptions::alter_with_string_hash_map\<close>.
\<close>

section \<open>Options\<close>

record aws_options =
  access_key_id :: "string option"
  secret_access_key :: "string option"
  session_token :: "string option"
  region :: "string option"
  endpoint :: "string option"
  allow_http :: "bool option"

definition default_aws_options :: aws_options where
  "default_aws_options = \<lparr>access_key_id = None, secret_access_key = None, session_token = None,
     region = None, endpoint = None, allow_http = None\<rparr>"

record gcp_options =
  service_account_path :: "string option"
  service_account_key :: "string option"
  application_credentials_path :: "string option"

definition default_gcp_options :: gcp_options where
  "default_gcp_options = \<lparr>service_account_path = None, service_account_key = None,
     application_credentials_path = None\<rparr>"

text \<open>\<open>key.split_once('.').unwrap_or((key, ""))\<close>\<close>

definition split_key :: "string \<Rightarrow> string \<times> string" where
  "split_key key = (case split_once CHR ''.'' key of Some ab \<Rightarrow> ab | None \<Rightarrow> (key, []))"

text \<open>\<open>ConfigField::set\<close> of a string and of a Boolean field: the rest of the key and the text.\<close>

record config_fields =
  set_string :: "string \<Rightarrow> string \<Rightarrow> inner_error + string"
  set_bool :: "string \<Rightarrow> string \<Rightarrow> inner_error + bool"
  show_bool :: "bool \<Rightarrow> string"

definition config_err :: "string \<Rightarrow> inner_error + 'a" where
  "config_err s = Inl (Inner_Configuration s)"

definition aws_set :: "config_fields \<Rightarrow> string \<Rightarrow> string \<Rightarrow> aws_options \<Rightarrow> inner_error + aws_options" where
  "aws_set cf key0 val o1 =
     (case split_key key0 of (_, aws_key) \<Rightarrow>
      case split_key aws_key of (key, rem) \<Rightarrow>
        if key = ''access_key_id'' then map_ok (\<lambda>v. o1\<lparr>access_key_id := Some v\<rparr>) (set_string cf rem val)
        else if key = ''secret_access_key'' then map_ok (\<lambda>v. o1\<lparr>secret_access_key := Some v\<rparr>) (set_string cf rem val)
        else if key = ''session_token'' then map_ok (\<lambda>v. o1\<lparr>session_token := Some v\<rparr>) (set_string cf rem val)
        else if key = ''region'' then map_ok (\<lambda>v. o1\<lparr>region := Some v\<rparr>) (set_string cf rem val)
        else if key = ''oss'' \<or> key = ''cos'' \<or> key = ''endpoint''
        then map_ok (\<lambda>v. o1\<lparr>endpoint := Some v\<rparr>) (set_string cf rem val)
        else if key = ''allow_http'' then map_ok (\<lambda>v. o1\<lparr>allow_http := Some v\<rparr>) (set_bool cf rem val)
        else config_err (''Config value \"'' @ rem @ ''\" not found on AwsOptions''))"

text \<open>An entry: key, value if there is one, description.\<close>

type_synonym config_entry = "string \<times> string option \<times> string"

definition aws_entries :: "config_fields \<Rightarrow> aws_options \<Rightarrow> config_entry list" where
  "aws_entries cf o1 =
     [(''access_key_id'', access_key_id o1, []), (''secret_access_key'', secret_access_key o1, []),
      (''session_token'', session_token o1, []), (''region'', region o1, []),
      (''endpoint'', endpoint o1, []), (''allow_http'', map_option (show_bool cf) (allow_http o1), [])]"

definition gcp_set :: "config_fields \<Rightarrow> string \<Rightarrow> string \<Rightarrow> gcp_options \<Rightarrow> inner_error + gcp_options" where
  "gcp_set cf key val o1 =
     (case split_key key of (_, rem) \<Rightarrow>
        if rem = ''service_account_path''
        then map_ok (\<lambda>v. o1\<lparr>service_account_path := Some v\<rparr>) (set_string cf rem val)
        else if rem = ''service_account_key''
        then map_ok (\<lambda>v. o1\<lparr>service_account_key := Some v\<rparr>) (set_string cf rem val)
        else if rem = ''application_credentials_path''
        then map_ok (\<lambda>v. o1\<lparr>application_credentials_path := Some v\<rparr>) (set_string cf rem val)
        else config_err (''Config value \"'' @ rem @ ''\" not found on GcpOptions''))"

definition gcp_entries :: "gcp_options \<Rightarrow> config_entry list" where
  "gcp_entries o1 =
     [(''service_account_path'', service_account_path o1, []),
      (''service_account_key'', service_account_key o1, []),
      (''application_credentials_path'', application_credentials_path o1, [])]"

section \<open>Builders\<close>

record url =
  u_scheme :: string
  u_host :: "string option"
  u_text :: string
  u_origin :: string

definition get_bucket_name :: "url \<Rightarrow> inner_error + string" where
  "get_bucket_name u =
     ok_or (Inner_Execution (''Not able to parse bucket name from url: '' @ u_text u)) (u_host u)"

datatype s3_call =
    With_bucket_name string | With_access_key_id string | With_secret_access_key string
  | With_token string | With_region string | With_env_credentials | With_endpoint string
  | With_allow_http bool | With_virtual_hosted_style_request bool

type_synonym s3_builder = "s3_call list"

text \<open>What \<open>aws_config::defaults(..).load()\<close> finds: a region, and whether there is a credentials provider.\<close>

record aws_env =
  env_region :: "string option"
  env_credentials :: bool

definition s3_credentials :: "aws_env \<Rightarrow> aws_options \<Rightarrow> inner_error + s3_builder" where
  "s3_credentials env o1 =
     (case (access_key_id o1, secret_access_key o1) of
        (Some key, Some secret) \<Rightarrow>
          Inr ([With_access_key_id key, With_secret_access_key secret]
            @ (case session_token o1 of Some token \<Rightarrow> [With_token token] | None \<Rightarrow> []))
      | _ \<Rightarrow>
          if env_credentials env
          then Inr ((case env_region env of Some r \<Rightarrow> [With_region r] | None \<Rightarrow> []) @ [With_env_credentials])
          else Inl (Inner_ObjectStore ''Failed to get S3 credentials from the environment''))"

text \<open>
  The provider handed to the builder asks the AWS SDK every time; \<open>'e\<close> are the SDK's errors.
\<close>

record aws_credential =
  ac_key_id :: string
  ac_secret_key :: string
  ac_token :: "string option"

record sdk_credentials =
  access_key_id_of :: string
  secret_access_key_of :: string
  session_token_of :: "string option"

datatype 'e store_error = Store_Generic string 'e

definition get_credential :: "'e + sdk_credentials \<Rightarrow> 'e store_error + aws_credential" where
  "get_credential provided =
     map_ok (\<lambda>creds. \<lparr>ac_key_id = access_key_id_of creds, ac_secret_key = secret_access_key_of creds,
         ac_token = session_token_of creds\<rparr>)
       (map_err (Store_Generic ''S3'') provided)"

definition http_refused :: "(string \<Rightarrow> string option) \<Rightarrow> aws_options \<Rightarrow> string \<Rightarrow> bool" where
  "http_refused scheme_of o1 ep \<longleftrightarrow> scheme_of ep = Some ''http'' \<and> allow_http o1 \<noteq> Some True"

definition get_s3_object_store_builder ::
  "(string \<Rightarrow> string option) \<Rightarrow> aws_env \<Rightarrow> url \<Rightarrow> aws_options \<Rightarrow> inner_error + s3_builder" where
  "get_s3_object_store_builder scheme_of env u o1 =
     and_then (get_bucket_name u) (\<lambda>bucket.
     and_then (s3_credentials env o1) (\<lambda>creds.
     let b1 = [With_bucket_name bucket] @ creds
           @ (case region o1 of Some r \<Rightarrow> [With_region r] | None \<Rightarrow> []) in
     and_then
       (case endpoint o1 of
          None \<Rightarrow> Inr b1
        | Some ep \<Rightarrow>
            if http_refused scheme_of o1 ep
            then config_err (''Invalid endpoint: '' @ ep @ ''. HTTP is not allowed for S3 endpoints. ''
              @ ''To allow HTTP, set 'aws.allow_http' to true'')
            else Inr (b1 @ [With_endpoint ep])) (\<lambda>b2.
     Inr (b2 @ (case allow_http o1 of Some h \<Rightarrow> [With_allow_http h] | None \<Rightarrow> [])))))"

definition get_object_store_builder :: "url \<Rightarrow> aws_options \<Rightarrow> bool \<Rightarrow> inner_error + s3_builder" where
  "get_object_store_builder u o1 virtual_hosted =
     and_then (get_bucket_name u) (\<lambda>bucket.
     Inr ([With_virtual_hosted_style_request virtual_hosted, With_bucket_name bucket, With_region ''do_not_care'']
       @ (case (access_key_id o1, secret_access_key o1) of
            (Some key, Some secret) \<Rightarrow> [With_access_key_id key, With_secret_access_key secret]
          | _ \<Rightarrow> [])
       @ (case endpoint o1 of Some ep \<Rightarrow> [With_endpoint ep] | None \<Rightarrow> [])))"

definition get_oss_object_store_builder :: "url \<Rightarrow> aws_options \<Rightarrow> inner_error + s3_builder" where
  "get_oss_object_store_builder u o1 = get_object_store_builder u o1 True"

definition get_cos_object_store_builder :: "url \<Rightarrow> aws_options \<Rightarrow> inner_error + s3_builder" where
  "get_cos_object_store_builder u o1 = get_object_store_builder u o1 False"

datatype gcs_call =
    Gcs_bucket_name string | Gcs_service_account_path string | Gcs_service_account_key string
  | Gcs_application_credentials string

definition get_gcs_object_store_builder :: "url \<Rightarrow> gcp_options \<Rightarrow> inner_error + gcs_call list" where
  "get_gcs_object_store_builder u o1 =
     and_then (get_bucket_name u) (\<lambda>bucket.
     Inr ([Gcs_bucket_name bucket]
       @ (case service_account_path o1 of Some p \<Rightarrow> [Gcs_service_account_path p] | None \<Rightarrow> [])
       @ (case service_account_key o1 of Some k \<Rightarrow> [Gcs_service_account_key k] | None \<Rightarrow> [])
       @ (case application_credentials_path o1 of Some p \<Rightarrow> [Gcs_application_credentials p] | None \<Rightarrow> [])))"

section \<open>Choosing and registering a store\<close>

text \<open>The table options of a session: the extensions that matter here, and the config format.\<close>

record table_options =
  ext_aws :: "aws_options option"
  ext_gcp :: "gcp_options option"
  config_format :: "string option"

text \<open>
  What the other crates do: \<open>build()\<close> of the three builders, the key under which the registry files
  the store of a URL, the parsing of URLs, and the application of an options map.
\<close>

record 'st store_api =
  build_s3 :: "s3_builder \<Rightarrow> inner_error + 'st"
  build_gcs :: "gcs_call list \<Rightarrow> inner_error + 'st"
  build_http :: "string \<Rightarrow> inner_error + 'st"
  endpoint_scheme :: "string \<Rightarrow> string option"
  store_key :: "url \<Rightarrow> string"
  parse_location :: "string \<Rightarrow> inner_error + url"
  alter_options :: "(string \<times> string) list \<Rightarrow> table_options \<Rightarrow> inner_error + table_options"

record 'st session =
  default_table_options :: table_options
  store_registry :: "string \<Rightarrow> 'st option"

definition exec_err :: "string \<Rightarrow> inner_error + 'a" where
  "exec_err s = Inl (Inner_Execution s)"

definition get_object_store ::
  "'st store_api \<Rightarrow> aws_env \<Rightarrow> 'st session \<Rightarrow> string \<Rightarrow> url \<Rightarrow> table_options \<Rightarrow> inner_error + 'st" where
  "get_object_store sa env state scheme u opts =
     (if scheme = ''s3'' then
        (case ext_aws opts of
           None \<Rightarrow> exec_err ''Given table options incompatible with the 's3' scheme''
         | Some o1 \<Rightarrow> and_then (get_s3_object_store_builder (endpoint_scheme sa) env u o1) (build_s3 sa))
      else if scheme = ''oss'' then
        (case ext_aws opts of
           None \<Rightarrow> exec_err ''Given table options incompatible with the 'oss' scheme''
         | Some o1 \<Rightarrow> and_then (get_oss_object_store_builder u o1) (build_s3 sa))
      else if scheme = ''cos'' then
        (case ext_aws opts of
           None \<Rightarrow> exec_err ''Given table options incompatible with the 'cos' scheme''
         | Some o1 \<Rightarrow> and_then (get_cos_object_store_builder u o1) (build_s3 sa))
      else if scheme = ''gs'' \<or> scheme = ''gcs'' then
        (case ext_gcp opts of
           None \<Rightarrow> exec_err ''Given table options incompatible with the 'gs'/'gcs' scheme''
         | Some o1 \<Rightarrow> and_then (get_gcs_object_store_builder u o1) (build_gcs sa))
      else if scheme = ''http'' \<or> scheme = ''https'' then build_http sa (u_origin u)
      else ok_or (Inner_Execution (''Unsupported object store scheme: '' @ scheme)) (store_registry state (store_key sa u)))"

definition is_aws_scheme :: "string \<Rightarrow> bool" where
  "is_aws_scheme s \<longleftrightarrow> s = ''s3'' \<or> s = ''oss'' \<or> s = ''cos''"

definition is_gcp_scheme :: "string \<Rightarrow> bool" where
  "is_gcp_scheme s \<longleftrightarrow> s = ''gs'' \<or> s = ''gcs''"

text \<open>Registering an extension puts the default options into the session.\<close>

definition register_extension :: "string \<Rightarrow> 'st session \<Rightarrow> 'st session" where
  "register_extension scheme ctx =
     (if is_aws_scheme scheme
      then ctx\<lparr>default_table_options := (default_table_options ctx)\<lparr>ext_aws := Some default_aws_options\<rparr>\<rparr>
      else if is_gcp_scheme scheme
      then ctx\<lparr>default_table_options := (default_table_options ctx)\<lparr>ext_gcp := Some default_gcp_options\<rparr>\<rparr>
      else ctx)"

definition set_config_format :: "string option \<Rightarrow> table_options \<Rightarrow> table_options" where
  "set_config_format fmt o1 = (case fmt of Some f \<Rightarrow> o1\<lparr>config_format := Some f\<rparr> | None \<Rightarrow> o1)"

definition altered_options ::
  "'st store_api \<Rightarrow> string \<Rightarrow> (string \<times> string) list \<Rightarrow> table_options \<Rightarrow> inner_error + table_options" where
  "altered_options sa scheme options o1 =
     (if is_aws_scheme scheme \<or> is_gcp_scheme scheme then alter_options sa options o1 else Inr o1)"

definition register_object_store_and_config_extensions ::
  "'st store_api \<Rightarrow> aws_env \<Rightarrow> string \<Rightarrow> string option \<Rightarrow> (string \<times> string) list \<Rightarrow> 'st session \<Rightarrow>
   (inner_error + unit) \<times> 'st session" where
  "register_object_store_and_config_extensions sa env location fmt options ctx =
     (case parse_location sa location of
        Inl e \<Rightarrow> (Inl e, ctx)
      | Inr u \<Rightarrow>
          let scheme = u_scheme u;
              ctx1 = register_extension scheme ctx;
              opts = set_config_format fmt (default_table_options ctx1) in
          (case and_then (altered_options sa scheme options opts)
                  (get_object_store sa env ctx1 scheme u) of
             Inl e \<Rightarrow> (Inl e, ctx1)
           | Inr store \<Rightarrow>
               (Inr (), ctx1\<lparr>store_registry := (store_registry ctx1)(store_key sa u \<mapsto> store)\<rparr>)))"

section \<open>Options are what they were set to\<close>

text \<open>\<open>ConfigField::set\<close> on a string stores the text.\<close>

definition plain_strings :: "config_fields \<Rightarrow> bool" where
  "plain_strings cf \<longleftrightarrow> (\<forall>rem v. set_string cf rem v = Inr v)"

definition aws_string_keys :: "string list" where
  "aws_string_keys = [''access_key_id'', ''secret_access_key'', ''session_token'', ''region'', ''oss'', ''cos'', ''endpoint'']"

definition canonical_key :: "string \<Rightarrow> string" where
  "canonical_key k = (if k = ''oss'' \<or> k = ''cos'' then ''endpoint'' else k)"

definition gcp_keys :: "string list" where
  "gcp_keys = [''service_account_path'', ''service_account_key'', ''application_credentials_path'']"

lemma split_key_prefixed [simp]: "CHR ''.'' \<notin> set p \<Longrightarrow> split_key (p @ CHR ''.'' # k) = (p, k)"
  by (simp add: split_key_def)

lemma split_key_plain [simp]: "CHR ''.'' \<notin> set k \<Longrightarrow> split_key k = (k, [])"
  by (simp add: split_key_def split_once_None_iff [THEN iffD2])

lemma aws_key_split: "split_key (''aws.'' @ k) = (''aws'', k)" "split_key (''gcp.'' @ k) = (''gcp'', k)"
  using split_key_prefixed [of "''aws''" k] split_key_prefixed [of "''gcp''" k] by simp_all

text \<open>
  What is set on the options is what their entries show: after \<open>set("aws.<k>", v)\<close> or
  \<open>set("gcp.<k>", v)\<close> the entry of \<open><k>\<close> (\<open>oss\<close> and \<open>cos\<close> name the endpoint) is \<open>v\<close> and every other entry
  is as before.
\<close>

theorem options_set_entries:
  assumes "plain_strings cf"
  shows "(k \<in> set aws_string_keys \<longrightarrow>
      (\<exists>o2. aws_set cf (''aws.'' @ k) v o1 = Inr o2
        \<and> map_of (aws_entries cf o2) = (map_of (aws_entries cf o1))(canonical_key k \<mapsto> (Some v, []))))
    \<and> (k \<in> set gcp_keys \<longrightarrow>
      (\<exists>g2. gcp_set cf (''gcp.'' @ k) v g1 = Inr g2
        \<and> map_of (gcp_entries g2) = (map_of (gcp_entries g1))(k \<mapsto> (Some v, []))))"
proof (intro conjI impI)
  have s: "set_string cf rem v = Inr v" for rem using assms by (simp add: plain_strings_def)
  show "\<exists>o2. aws_set cf (''aws.'' @ k) v o1 = Inr o2
      \<and> map_of (aws_entries cf o2) = (map_of (aws_entries cf o1))(canonical_key k \<mapsto> (Some v, []))"
    if "k \<in> set aws_string_keys"
    using that unfolding aws_set_def aws_key_split aws_string_keys_def list.set insert_iff
    by (elim disjE; hypsubst?) (simp_all add: aws_entries_def canonical_key_def s fun_eq_iff)
  show "\<exists>g2. gcp_set cf (''gcp.'' @ k) v g1 = Inr g2
      \<and> map_of (gcp_entries g2) = (map_of (gcp_entries g1))(k \<mapsto> (Some v, []))"
    if "k \<in> set gcp_keys"
    using that unfolding gcp_set_def aws_key_split gcp_keys_def list.set insert_iff
    by (elim disjE; hypsubst?) (simp_all add: gcp_entries_def s fun_eq_iff)
qed

definition plain_fields :: config_fields where
  "plain_fields = \<lparr>set_string = (\<lambda>_ v. Inr v), set_bool = (\<lambda>_ v. Inr (v = ''true'')),
     show_bool = (\<lambda>b. if b then ''true'' else ''false'')\<rparr>"

theorem options_set_entries_witness:
  "\<exists>o2. aws_set plain_fields ''aws.cos'' ''x'' default_aws_options = Inr o2
     \<and> map_of (aws_entries plain_fields o2)
       = (map_of (aws_entries plain_fields default_aws_options))(''endpoint'' \<mapsto> (Some ''x'', []))"
proof -
  have "plain_strings plain_fields" by (simp add: plain_strings_def plain_fields_def)
  moreover have "''cos'' \<in> set aws_string_keys" "canonical_key ''cos'' = ''endpoint''" by code_simp+
  ultimately show ?thesis
    using options_set_entries [of plain_fields "''cos''" "''x''" default_aws_options] by simp
qed

text \<open>
  An unknown option is refused, but the AWS message does not name it: where the text should
  quote the key it quotes what follows a second dot, nothing for an ordinary key. The GCP
  message does quote the key.
\<close>

theorem unknown_option_message:
  assumes "CHR ''.'' \<notin> set k" "k \<notin> set aws_string_keys" "k \<noteq> ''allow_http''" "k \<notin> set gcp_keys"
  shows "aws_set cf (''aws.'' @ k) v o1 = Inl (Inner_Configuration ''Config value \"\" not found on AwsOptions'')
    \<and> gcp_set cf (''gcp.'' @ k) v g1
        = Inl (Inner_Configuration (''Config value \"'' @ k @ ''\" not found on GcpOptions''))"
  using assms unfolding aws_set_def gcp_set_def aws_key_split
  by (simp add: aws_string_keys_def gcp_keys_def config_err_def)

theorem unknown_option_message_witness:
  "aws_set plain_fields ''aws.foo'' ''v'' default_aws_options
     = Inl (Inner_Configuration ''Config value \"\" not found on AwsOptions'')"
  using unknown_option_message [of "''foo''" plain_fields "''v''" default_aws_options]
  by (simp add: aws_string_keys_def gcp_keys_def)

section \<open>The S3 builder\<close>

definition is_region_call :: "s3_call \<Rightarrow> bool" where
  "is_region_call c = (case c of With_region _ \<Rightarrow> True | _ \<Rightarrow> False)"

lemma s3_builder_parts:
  assumes "get_s3_object_store_builder scheme_of env u o1 = Inr b"
  obtains bucket creds where "u_host u = Some bucket" "s3_credentials env o1 = Inr creds"
    "\<And>ep. endpoint o1 = Some ep \<Longrightarrow> \<not> http_refused scheme_of o1 ep"
    "b = [With_bucket_name bucket] @ creds
       @ (case region o1 of Some r \<Rightarrow> [With_region r] | None \<Rightarrow> [])
       @ (case endpoint o1 of Some ep \<Rightarrow> [With_endpoint ep] | None \<Rightarrow> [])
       @ (case allow_http o1 of Some h \<Rightarrow> [With_allow_http h] | None \<Rightarrow> [])"
proof -
  from assms obtain bucket creds where *: "get_bucket_name u = Inr bucket" "s3_credentials env o1 = Inr creds"
    by (auto simp: get_s3_object_store_builder_def and_then_Inr_iff)
  from *(1) have "u_host u = Some bucket" by (cases "u_host u") (simp_all add: get_bucket_name_def)
  with * assms show thesis
    by (intro that [of bucket creds])
       (auto simp: get_s3_object_store_builder_def config_err_def split: option.splits if_splits)
qed

lemma s3_credentials_calls:
  assumes "s3_credentials env o1 = Inr creds"
  shows "(With_env_credentials \<in> set creds \<longleftrightarrow> access_key_id o1 = None \<or> secret_access_key o1 = None)
    \<and> (With_access_key_id k \<in> set creds \<longleftrightarrow> access_key_id o1 = Some k \<and> secret_access_key o1 \<noteq> None)
    \<and> With_endpoint ep \<notin> set creds \<and> With_allow_http h \<notin> set creds"
  using assms by (auto simp: s3_credentials_def split: option.splits if_splits)


definition demo_url :: url where
  "demo_url = \<lparr>u_scheme = ''s3'', u_host = Some ''bucket'', u_text = ''s3://bucket/k'', u_origin = ''s3://bucket''\<rparr>"

definition keyed_options :: aws_options where
  "keyed_options = default_aws_options\<lparr>access_key_id := Some ''k'', secret_access_key := Some ''s'', region := Some ''r''\<rparr>"

definition bare_env :: aws_env where "bare_env = \<lparr>env_region = Some ''e'', env_credentials = False\<rparr>"


section \<open>Registration\<close>

text \<open>
  C32: Registering a store changes the session only as intended. The caller's options, credentials
  among them, never enter the session's own table options: the extension is registered with its
  defaults and the rest is a copy. A failed registration leaves the store registry as it was; a
  successful one adds the one store of the location.
\<close>

theorem registration_keeps_options_private:
  assumes "register_object_store_and_config_extensions sa env location fmt options ctx = (result, ctx')"
  shows "ext_aws (default_table_options ctx') \<in> {ext_aws (default_table_options ctx), Some default_aws_options}
    \<and> ext_gcp (default_table_options ctx') \<in> {ext_gcp (default_table_options ctx), Some default_gcp_options}
    \<and> config_format (default_table_options ctx') = config_format (default_table_options ctx)
    \<and> (isl result \<longrightarrow> store_registry ctx' = store_registry ctx)
    \<and> (\<not> isl result \<longrightarrow> (\<exists>u store. parse_location sa location = Inr u
         \<and> store_registry ctx' = (store_registry ctx)(store_key sa u \<mapsto> store)))"
  using assms
  by (auto simp: register_object_store_and_config_extensions_def register_extension_def Let_def
    split: sum.splits if_splits)

definition demo_stores :: "nat store_api" where
  "demo_stores = \<lparr>build_s3 = (\<lambda>b. Inr (length b)), build_gcs = (\<lambda>b. Inr (length b)), build_http = (\<lambda>_. Inr 0),
     endpoint_scheme = (\<lambda>_. None), store_key = u_origin, parse_location = (\<lambda>_. Inr demo_url),
     alter_options = (\<lambda>_ o1. Inr (o1\<lparr>ext_aws := Some keyed_options\<rparr>))\<rparr>"

definition empty_session :: "nat session" where
  "empty_session = \<lparr>default_table_options = \<lparr>ext_aws = None, ext_gcp = None, config_format = None\<rparr>,
     store_registry = Map.empty\<rparr>"

definition demo_registration :: "(inner_error + unit) \<times> nat session" where
  "demo_registration = register_object_store_and_config_extensions demo_stores bare_env ''s3://bucket/k'' None
     [(''aws.access_key_id'', ''k'')] empty_session"

theorem registration_keeps_options_private_witness:
  "fst demo_registration = Inr ()
   \<and> ext_aws (default_table_options (snd demo_registration)) \<in> {None, Some default_aws_options}
   \<and> (\<exists>u store. store_registry (snd demo_registration) = Map.empty(store_key demo_stores u \<mapsto> store))"
proof -
  have r: "fst demo_registration = Inr ()" by code_simp
  moreover have "ext_aws (default_table_options empty_session) = None" "store_registry empty_session = Map.empty"
    by (simp_all add: empty_session_def)
  moreover have "register_object_store_and_config_extensions demo_stores bare_env ''s3://bucket/k'' None
     [(''aws.access_key_id'', ''k'')] empty_session = (fst demo_registration, snd demo_registration)"
    by (simp add: demo_registration_def)
  ultimately show ?thesis
    using registration_keeps_options_private [of demo_stores bare_env "''s3://bucket/k''" None
      "[(''aws.access_key_id'', ''k'')]" empty_session "fst demo_registration" "snd demo_registration"]
    by auto
qed

end
