(* ===== verification/Session_Context.thy ===== *)
theory Session_Context
  imports Table_Providers Object_Storage
begin

text \<open>
  \<open>src/context.rs\<close>: the session as Python sees it. What its operations check before they hand a table to
  DataFusion, in which order, and what a failure leaves behind.

  DataFusion's own parts are parameters: the registration of a table in the catalog, the
  resolution of paths and schemas of listing tables, the parsing of a compression name.
\<close>

section \<open>The session\<close>

text \<open>\<open>'t\<close> is DataFusion's \<open>Arc<dyn TableProvider>\<close>, \<open>'st\<close> its object stores.\<close>

record ('t, 'st) py_session =
  ps_session :: "'st session"
  ps_tables :: "string \<Rightarrow> 't option"
  ps_udfs :: "string list"
  ps_udafs :: "string list"
  ps_udwfs :: "string list"

text \<open>\<open>SessionContext::register_table\<close>: the new catalog, or an error that leaves it alone.\<close>

type_synonym 't registrar = "string \<Rightarrow> 't \<Rightarrow> (string \<Rightarrow> 't option) \<Rightarrow> inner_error + (string \<Rightarrow> 't option)"

datatype ctx_fault = Raise py_err | Ctx_Panic

definition register_in_catalog ::
  "renderers \<Rightarrow> 't registrar \<Rightarrow> string \<Rightarrow> 't \<Rightarrow> ('t, 'st) py_session \<Rightarrow> (ctx_fault + unit) \<times> ('t, 'st) py_session" where
  "register_in_catalog rd reg name table ctx =
     (case reg name table (ps_tables ctx) of
        Inl e \<Rightarrow> (Inl (Raise (from_datafusion_error rd e)), ctx)
      | Inr ts \<Rightarrow> (Inr (), ctx\<lparr>ps_tables := ts\<rparr>))"

text \<open>\<open>PySessionContext::new\<close>: an explicit state wins over a configuration; \<open>hash_int\<close> is always there.\<close>

datatype 'c config_choice = Given_State 'c | Given_Config 'c | Default_With_Information_Schema

definition choose_config :: "'c option \<Rightarrow> 'c option \<Rightarrow> 'c config_choice" where
  "choose_config session_state config =
     (case (session_state, config) of
        (Some s, _) \<Rightarrow> Given_State s
      | (None, Some c) \<Rightarrow> Given_Config c
      | (None, None) \<Rightarrow> Default_With_Information_Schema)"

definition PySessionContext_new ::
  "renderers \<Rightarrow> (inner_error + unit) \<Rightarrow> ('c config_choice \<Rightarrow> ('t, 'st) py_session) \<Rightarrow> 'c option \<Rightarrow> 'c option \<Rightarrow>
   py_err + ('t, 'st) py_session" where
  "PySessionContext_new rd build_runtime build session_state config =
     and_then (map_err (from_datafusion_error rd) build_runtime) (\<lambda>_.
     let ctx = build (choose_config session_state config) in
     Inr (ctx\<lparr>ps_udfs := ps_udfs ctx @ [''hash_int'']\<rparr>))"

section \<open>Tables from Python objects\<close>

text \<open>\<open>register_record_batches\<close> takes the schema of the first batch of the first partition, unchecked.\<close>

definition register_record_batches ::
  "renderers \<Rightarrow> 't registrar \<Rightarrow> (schema_ref \<Rightarrow> 'd batch list list \<Rightarrow> inner_error + 't) \<Rightarrow> string \<Rightarrow>
   'd batch list list \<Rightarrow> ('t, 'st) py_session \<Rightarrow> (ctx_fault + unit) \<times> ('t, 'st) py_session" where
  "register_record_batches rd reg mem_table name partitions ctx =
     (case partitions of
        (b # _) # _ \<Rightarrow>
          (case mem_table (b_schema b) partitions of
             Inl e \<Rightarrow> (Inl (Raise (from_datafusion_error rd e)), ctx)
           | Inr table \<Rightarrow> register_in_catalog rd reg name table ctx)
      | _ \<Rightarrow> (Inl Ctx_Panic, ctx))"

text \<open>The ordering declared for a reader: sort expressions.\<close>

fun reader_ordering :: "'q expr_text \<Rightarrow> field list \<Rightarrow> 'q sort_expr list \<Rightarrow> py_err + 'q sort_expr list" where
  "reader_ordering tx schema [] = Inr []"
| "reader_ordering tx schema (s # rest) =
     (case se_expr s of
        E_Column _ name \<Rightarrow>
          if name \<in> field_name ` set schema
          then map_ok (Cons s) (reader_ordering tx schema rest)
          else Inr []
      | e \<Rightarrow> Inl (new_err PyValueError (''Unsupported expr '' @ expr_debug tx e)))"

definition register_record_batch_reader ::
  "renderers \<Rightarrow> 'q expr_text \<Rightarrow> 't registrar \<Rightarrow> (schema_ref \<Rightarrow> 'q sort_expr list \<Rightarrow> inner_error + 't) \<Rightarrow> string \<Rightarrow>
   py_err + schema_ref \<Rightarrow> 'q sort_expr list option \<Rightarrow> ('t, 'st) py_session \<Rightarrow>
   (ctx_fault + unit) \<times> ('t, 'st) py_session" where
  "register_record_batch_reader rd tx reg provider name schema sort_order ctx =
     (case schema of
        Inl e \<Rightarrow> (Inl (Raise e), ctx)
      | Inr s \<Rightarrow>
          (case reader_ordering tx (sr_fields s) (case sort_order of Some so \<Rightarrow> so | None \<Rightarrow> []) of
             Inl e \<Rightarrow> (Inl (Raise e), ctx)
           | Inr sorts \<Rightarrow>
               (case provider s sorts of
                  Inl e \<Rightarrow> (Inl (Raise (from_datafusion_error rd e)), ctx)
                | Inr table \<Rightarrow> register_in_catalog rd reg name table ctx)))"

definition register_built ::
  "renderers \<Rightarrow> 't registrar \<Rightarrow> string \<Rightarrow> py_err + 't \<Rightarrow> ('t, 'st) py_session \<Rightarrow>
   (ctx_fault + unit) \<times> ('t, 'st) py_session" where
  "register_built rd reg name built ctx =
     (case built of
        Inl e \<Rightarrow> (Inl (Raise e), ctx)
      | Inr table \<Rightarrow> register_in_catalog rd reg name table ctx)"

definition register_ibis_table where
  "register_ibis_table rd reg wrap name obj ctx = register_built rd reg name (map_ok wrap (IbisTable_new obj)) ctx"

definition register_dataset where
  "register_dataset rd reg wrap name obj ctx = register_built rd reg name (map_ok wrap (Dataset_new obj)) ctx"

section \<open>Foreign providers\<close>

definition is_arity_error :: "string \<Rightarrow> bool" where
  "is_arity_error message \<longleftrightarrow>
     (str_contains message ''positional argument'' \<or> str_contains message ''takes no arguments'')
     \<and> str_contains message '' given''"

text \<open>What calling \<open>__datafusion_table_provider__\<close> gives: an exception and whether it has a traceback, or an object.\<close>

datatype 'f capsule = No_Capsule | Capsule string 'f

record raised_exc =
  exc :: py_err
  exc_has_traceback :: bool

definition runtime_handle :: "'h option \<Rightarrow> py_err + 'h" where
  "runtime_handle h = ok_or (new_err PyRuntimeError ''tokio runtime has been shut down'') h"

definition provider_call_error :: "(py_err \<Rightarrow> string) \<Rightarrow> raised_exc \<Rightarrow> py_err" where
  "provider_call_error text r =
     (if pe_class (exc r) = PyTypeError \<and> \<not> exc_has_traceback r \<and> is_arity_error (text (exc r))
      then new_err PyImportError
        (''Incompatible libraries. `__datafusion_table_provider__` must accept the SessionContext it is being ''
         @ ''installed on. Upgrade the library providing this table. ('' @ text (exc r) @ '')'')
      else exc r)"

definition import_ffi_table_provider ::
  "(py_err \<Rightarrow> string) \<Rightarrow> 'h option \<Rightarrow> raised_exc + 'f capsule \<Rightarrow> nat \<Rightarrow> ('f \<Rightarrow> nat) \<Rightarrow> ('f \<Rightarrow> 'h \<Rightarrow> 't) \<Rightarrow> py_err + 't" where
  "import_ffi_table_provider text runtime call ours version mk_host =
     and_then (runtime_handle runtime) (\<lambda>h.
     and_then (map_err (provider_call_error text) call) (\<lambda>capsule.
     (case capsule of
        No_Capsule \<Rightarrow> Inl (new_err PyTypeError ''__datafusion_table_provider__ must return a PyCapsule'')
      | Capsule name ffi \<Rightarrow>
          if name \<noteq> ''datafusion_table_provider''
          then Inl (new_err PyValueError
            ''__datafusion_table_provider__ must return a 'datafusion_table_provider' capsule'')
          else if ours \<noteq> version ffi
          then Inl (new_err PyValueError (''table provider was built against DataFusion '' @ show_nat (version ffi)
            @ '', but xorq-datafusion uses DataFusion '' @ show_nat ours))
          else Inr (mk_host ffi h))))"

definition register_py_table_provider ::
  "renderers \<Rightarrow> 't registrar \<Rightarrow> string \<Rightarrow> py_err + bool \<Rightarrow> py_err + 't \<Rightarrow> py_err + 't \<Rightarrow> ('t, 'st) py_session \<Rightarrow>
   (ctx_fault + unit) \<times> ('t, 'st) py_session" where
  "register_py_table_provider rd reg name has_ffi imported python_provider ctx =
     register_built rd reg name
       (and_then has_ffi (\<lambda>ffi. if ffi then imported else python_provider)) ctx"

section \<open>Files\<close>

record table_path =
  tp_text :: string
  tp_collection :: bool

text \<open>The parts of DataFusion a listing table is made with.\<close>

record 't listing_api =
  to_urls :: "string list \<Rightarrow> inner_error + table_path list"
  resolved_schema :: "table_path \<Rightarrow> inner_error + schema_ref"
  listing_table :: "table_path list \<Rightarrow> schema_ref \<Rightarrow> inner_error + 't"

definition quoted :: "string \<Rightarrow> string" where
  "quoted s = CHR 0x27 # s @ [CHR 0x27]"

fun check_extensions :: "string \<Rightarrow> table_path list \<Rightarrow> inner_error + unit" where
  "check_extensions ext [] = Inr ()"
| "check_extensions ext (p # ps) =
     (if \<not> ends_with (tp_text p) ext \<and> \<not> tp_collection p
      then exec_err (''File path '' @ quoted (tp_text p) @ '' does not match the expected extension '' @ quoted ext)
      else check_extensions ext ps)"

definition register_types ::
  "'t listing_api \<Rightarrow> 't registrar \<Rightarrow> string \<Rightarrow> string \<Rightarrow> string list \<Rightarrow> ('t, 'st) py_session \<Rightarrow>
   (inner_error + unit) \<times> ('t, 'st) py_session" where
  "register_types la reg name ext paths ctx =
     (case and_then (to_urls la paths) (\<lambda>urls.
        if urls = [] then exec_err ''No table paths were provided''
        else and_then (check_extensions ext urls) (\<lambda>_.
          and_then (resolved_schema la (hd urls)) (\<lambda>schema.
          and_then (listing_table la urls schema) (\<lambda>table.
          reg name table (ps_tables ctx))))) of
        Inl e \<Rightarrow> (Inl e, ctx)
      | Inr ts \<Rightarrow> (Inr (), ctx\<lparr>ps_tables := ts\<rparr>))"

text \<open>
  The store registrations of the paths run as tasks of a \<open>JoinSet\<close>; \<open>schedule\<close> lists the paths in the
  order in which they run. What they return is dropped by \<open>join_all\<close>.
\<close>

definition register_stores ::
  "'st store_api \<Rightarrow> aws_env \<Rightarrow> string \<Rightarrow> (string \<times> string) list \<Rightarrow> string list \<Rightarrow> ('t, 'st) py_session \<Rightarrow> ('t, 'st) py_session" where
  "register_stores sa env fmt options schedule ctx =
     foldl (\<lambda>c path. c\<lparr>ps_session := snd (register_object_store_and_config_extensions sa env path (Some fmt)
        options (ps_session c))\<rparr>) ctx schedule"

definition convert_table_partition_cols :: "(string \<times> string) list \<Rightarrow> py_err + (string \<times> data_type) list" where
  "convert_table_partition_cols cols =
     collect_ok (map (\<lambda>(name, ty).
        if ty = ''string'' then Inr (name, DT_Utf8)
        else Inl (new_err PyValueError (''Unsupported data type '' @ quoted ty @ '' for partition column''))) cols)"

definition parse_file_compression_type :: "(string \<Rightarrow> 'z option) \<Rightarrow> string option \<Rightarrow> py_err + 'z" where
  "parse_file_compression_type from_str t =
     ok_or (new_err PyValueError ''file_compression_type must one of: gzip, bz2, xz, zstd'')
       (from_str (case t of Some s \<Rightarrow> s | None \<Rightarrow> []))"

definition finish_register ::
  "renderers \<Rightarrow> (inner_error + unit) \<times> ('t, 'st) py_session \<Rightarrow> (ctx_fault + unit) \<times> ('t, 'st) py_session" where
  "finish_register rd r =
     (map_err (\<lambda>e. Raise (new_err PyValueError (inner_display rd e))) (fst r), snd r)"

definition register_csv_from_multiple_paths ::
  "'t listing_api \<Rightarrow> 't registrar \<Rightarrow> string \<Rightarrow> string list \<Rightarrow> string \<Rightarrow> ('t, 'st) py_session \<Rightarrow>
   (inner_error + unit) \<times> ('t, 'st) py_session" where
  "register_csv_from_multiple_paths la reg name paths ext ctx = register_types la reg name ext paths ctx"

definition register_parquet_from_multiple_paths ::
  "'t listing_api \<Rightarrow> 't registrar \<Rightarrow> string \<Rightarrow> string list \<Rightarrow> string \<Rightarrow> ('t, 'st) py_session \<Rightarrow>
   (inner_error + unit) \<times> ('t, 'st) py_session" where
  "register_parquet_from_multiple_paths la reg name paths ext ctx = register_types la reg name ext paths ctx"

definition register_parquet ::
  "renderers \<Rightarrow> 'st store_api \<Rightarrow> aws_env \<Rightarrow> 't listing_api \<Rightarrow> 't registrar \<Rightarrow> string \<Rightarrow> string list \<Rightarrow>
   (string \<times> string) list \<Rightarrow> string \<Rightarrow> (string \<times> string) list \<Rightarrow> string list \<Rightarrow> ('t, 'st) py_session \<Rightarrow>
   (ctx_fault + unit) \<times> ('t, 'st) py_session" where
  "register_parquet rd sa env la reg name paths partition_cols ext storage_options schedule ctx =
     (case convert_table_partition_cols partition_cols of
        Inl e \<Rightarrow> (Inl (Raise e), ctx)
      | Inr _ \<Rightarrow>
          finish_register rd (register_parquet_from_multiple_paths la reg name paths ext
            (register_stores sa env ''parquet'' storage_options schedule ctx)))"

definition register_csv ::
  "renderers \<Rightarrow> 'st store_api \<Rightarrow> aws_env \<Rightarrow> 't listing_api \<Rightarrow> 't registrar \<Rightarrow> (string \<Rightarrow> 'z option) \<Rightarrow> string \<Rightarrow>
   string list \<Rightarrow> string \<Rightarrow> string \<Rightarrow> string option \<Rightarrow> (string \<times> string) list \<Rightarrow> string list \<Rightarrow> ('t, 'st) py_session \<Rightarrow>
   (ctx_fault + unit) \<times> ('t, 'st) py_session" where
  "register_csv rd sa env la reg from_str name paths delimiter ext compression storage_options schedule ctx =
     (if length delimiter \<noteq> 1
      then (Inl (Raise (new_err PyValueError ''Delimiter must be a single character'')), ctx)
      else (case parse_file_compression_type from_str compression of
        Inl e \<Rightarrow> (Inl (Raise e), ctx)
      | Inr _ \<Rightarrow>
          finish_register rd (register_csv_from_multiple_paths la reg name paths ext
            (register_stores sa env ''csv'' storage_options schedule ctx))))"

section \<open>What the operations guarantee\<close>

lemma reader_ordering_prefix:
  "reader_ordering tx schema so = Inr r \<Longrightarrow>
     \<exists>rest. so = r @ rest
       \<and> (\<forall>s \<in> set r. \<exists>rel n. se_expr s = E_Column rel n \<and> n \<in> field_name ` set schema)
       \<and> (rest = [] \<or> (\<exists>rel n. se_expr (hd rest) = E_Column rel n \<and> n \<notin> field_name ` set schema))"
proof (induction so arbitrary: r)
  case (Cons s so)
  show ?case
  proof (cases "\<exists>rel n. se_expr s = E_Column rel n")
    case True
    then obtain rel n where e: "se_expr s = E_Column rel n" by blast
    show ?thesis
    proof (cases "n \<in> field_name ` set schema")
      case True
      with Cons.prems e obtain r' where "reader_ordering tx schema so = Inr r'" "r = s # r'"
        by (auto simp: map_ok_Inr_iff)
      with Cons.IH [of r'] e True show ?thesis by auto
    next
      case False
      with Cons.prems e show ?thesis by (intro exI [of _ "s # so"]) auto
    qed
  next
    case False
    with Cons.prems show ?thesis by (cases "se_expr s") auto
  qed
qed simp

lemma reader_ordering_error:
  "reader_ordering tx schema so = Inl e \<Longrightarrow> pe_class e = PyValueError
     \<and> (\<exists>pre s post. so = pre @ s # post \<and> (\<forall>rel n. se_expr s \<noteq> E_Column rel n)
          \<and> (\<forall>t \<in> set pre. \<exists>rel n. se_expr t = E_Column rel n \<and> n \<in> field_name ` set schema))"
proof (induction so)
  case (Cons s so)
  show ?case
  proof (cases "\<exists>rel n. se_expr s = E_Column rel n")
    case True
    then obtain rel n where s: "se_expr s = E_Column rel n" by blast
    with Cons.prems have n: "n \<in> field_name ` set schema" and r: "reader_ordering tx schema so = Inl e"
      by (auto simp: map_ok_Inl_iff split: if_splits)
    from Cons.IH [OF r] obtain pre t post where "so = pre @ t # post" "\<forall>rel n. se_expr t \<noteq> E_Column rel n"
      "\<forall>t \<in> set pre. \<exists>rel n. se_expr t = E_Column rel n \<and> n \<in> field_name ` set schema" "pe_class e = PyValueError"
      by blast
    with s n show ?thesis by (intro conjI exI [of _ "s # pre"] exI [of _ t] exI [of _ post]) auto
  next
    case False
    then have "pe_class e = PyValueError" using Cons.prems by (cases "se_expr s") auto
    with False show ?thesis by (intro conjI exI [of _ "[]"] exI [of _ s] exI [of _ so]) auto
  qed
qed simp

text \<open>
  The ordering a reader is registered with is sound: it is the longest run of declared sort
  columns that the schema has, a prefix of what was declared and never one with a gap. A sort
  expression that is not a column is refused with a \<open>ValueError\<close>, but only if the prefix reaches it.
\<close>

theorem reader_ordering_sound:
  "case reader_ordering tx schema so of
     Inr r \<Rightarrow> (\<exists>rest. so = r @ rest
       \<and> (\<forall>s \<in> set r. \<exists>rel n. se_expr s = E_Column rel n \<and> n \<in> field_name ` set schema)
       \<and> (rest = [] \<or> (\<exists>rel n. se_expr (hd rest) = E_Column rel n \<and> n \<notin> field_name ` set schema)))
   | Inl e \<Rightarrow> pe_class e = PyValueError
       \<and> (\<exists>pre s post. so = pre @ s # post \<and> (\<forall>rel n. se_expr s \<noteq> E_Column rel n)
          \<and> (\<forall>t \<in> set pre. \<exists>rel n. se_expr t = E_Column rel n \<and> n \<in> field_name ` set schema))"
  using reader_ordering_prefix reader_ordering_error by (fastforce split: sum.splits)

definition sort_a :: "unit sort_expr" where
  "sort_a = \<lparr>se_expr = col_a, se_asc = True, se_nulls_first = False\<rparr>"

definition sort_b :: "unit sort_expr" where
  "sort_b = sort_a\<lparr>se_expr := E_Column None ''b''\<rparr>"

theorem reader_ordering_sound_witness:
  "reader_ordering plain_text (sr_fields demo_schema) [sort_a, sort_b, sort_a] = Inr [sort_a]
   \<and> (\<exists>rest. [sort_a, sort_b, sort_a] = [sort_a] @ rest)"
proof
  show r: "reader_ordering plain_text (sr_fields demo_schema) [sort_a, sort_b, sort_a] = Inr [sort_a]"
    by (simp add: sort_a_def sort_b_def col_a_def demo_schema_def)
  show "\<exists>rest. [sort_a, sort_b, sort_a] = [sort_a] @ rest"
    using reader_ordering_sound [where tx = plain_text and schema = "sr_fields demo_schema"
      and so = "[sort_a, sort_b, sort_a]"] unfolding r by auto
qed

lemma check_extensions_ok:
  "check_extensions ext ps = Inr () \<longleftrightarrow> (\<forall>p \<in> set ps. ends_with (tp_text p) ext \<or> tp_collection p)"
  by (induction ps) (auto simp: exec_err_def)

text \<open>
  C33: A table of files is registered whole or not at all. Success means there was at least one
  path, every path is a directory or carries the extension, and the catalog is what registering
  this one table made of it; a failure leaves the catalog and the stores of the session as they
  were.
\<close>

theorem register_types_atomic:
  assumes "register_types la reg name ext paths ctx = (result, ctx')"
  shows "(isl result \<longrightarrow> ctx' = ctx)
    \<and> (\<not> isl result \<longrightarrow> (\<exists>urls schema table ts. to_urls la paths = Inr urls \<and> urls \<noteq> []
         \<and> (\<forall>p \<in> set urls. ends_with (tp_text p) ext \<or> tp_collection p)
         \<and> listing_table la urls schema = Inr table \<and> reg name table (ps_tables ctx) = Inr ts
         \<and> ctx' = ctx\<lparr>ps_tables := ts\<rparr>))"
proof (cases result)
  case (Inl e)
  with assms show ?thesis by (auto simp: register_types_def split: sum.splits)
next
  case (Inr u)
  with assms obtain ts where c: "ctx' = ctx\<lparr>ps_tables := ts\<rparr>" and r: "and_then (to_urls la paths) (\<lambda>urls.
      if urls = [] then exec_err ''No table paths were provided''
      else and_then (check_extensions ext urls) (\<lambda>_. and_then (resolved_schema la (hd urls)) (\<lambda>schema.
        and_then (listing_table la urls schema) (\<lambda>table. reg name table (ps_tables ctx))))) = Inr ts"
    by (auto simp: register_types_def split: sum.splits)
  from r obtain urls schema table where "to_urls la paths = Inr urls" "urls \<noteq> []"
    "check_extensions ext urls = Inr ()" "listing_table la urls schema = Inr table"
    "reg name table (ps_tables ctx) = Inr ts"
    by (auto simp: and_then_Inr_iff exec_err_def split: if_splits)
  with c Inr show ?thesis by (auto simp: check_extensions_ok)
qed

definition demo_listing :: "nat listing_api" where
  "demo_listing = \<lparr>to_urls = (\<lambda>ps. Inr (map (\<lambda>p. \<lparr>tp_text = p, tp_collection = False\<rparr>) ps)),
     resolved_schema = (\<lambda>_. Inr demo_schema), listing_table = (\<lambda>us _. Inr (length us))\<rparr>"

definition demo_registrar :: "nat registrar" where
  "demo_registrar name t ts = Inr (ts(name \<mapsto> t))"

definition demo_session :: "(nat, nat) py_session" where
  "demo_session = \<lparr>ps_session = empty_session, ps_tables = Map.empty, ps_udfs = [], ps_udafs = [], ps_udwfs = []\<rparr>"

theorem register_types_atomic_witness:
  "isl (fst (register_types demo_listing demo_registrar ''t'' ''.csv'' [''a.parquet''] demo_session))
   \<and> snd (register_types demo_listing demo_registrar ''t'' ''.csv'' [''a.parquet''] demo_session) = demo_session"
proof
  let ?r = "register_types demo_listing demo_registrar ''t'' ''.csv'' [''a.parquet''] demo_session"
  show l: "isl (fst ?r)"
    by (simp add: register_types_def demo_listing_def ends_with_def suffix_def exec_err_def)
  show "snd ?r = demo_session"
    using register_types_atomic [of demo_listing demo_registrar "''t''" "''.csv''" "[''a.parquet'']" demo_session
      "fst ?r" "snd ?r"] l by simp
qed

text \<open>
  The errors of the store registrations are lost: whatever they return, \<open>register_parquet\<close> goes
  on and answers with what the listing says. With a listing that works, it succeeds although no
  store could be registered.
\<close>

theorem store_errors_are_discarded:
  assumes "\<And>p c. p \<in> set schedule \<Longrightarrow>
      isl (fst (register_object_store_and_config_extensions sa env p (Some ''parquet'') options c))"
    and "convert_table_partition_cols cols = Inr cs"
    and "fst (register_types la reg name ext paths (register_stores sa env ''parquet'' options schedule ctx)) = Inr ()"
  shows "fst (register_parquet rd sa env la reg name paths cols ext options schedule ctx) = Inr ()
    \<and> store_registry (ps_session (register_stores sa env ''parquet'' options schedule ctx))
       = store_registry (ps_session ctx)"
proof
  show "fst (register_parquet rd sa env la reg name paths cols ext options schedule ctx) = Inr ()"
    using assms(2,3) by (simp add: register_parquet_def register_parquet_from_multiple_paths_def finish_register_def)
  have "store_registry (snd (register_object_store_and_config_extensions sa env p (Some ''parquet'') options c))
      = store_registry c" if "p \<in> set schedule" for p c
    using assms(1) [OF that, of c]
    by (auto simp: register_object_store_and_config_extensions_def register_extension_def Let_def
      split: sum.splits)
  then show "store_registry (ps_session (register_stores sa env ''parquet'' options schedule ctx))
       = store_registry (ps_session ctx)"
    unfolding register_stores_def by (induction schedule arbitrary: ctx) auto
qed

text \<open>
  C35: Importing a foreign provider: a handle means the runtime is up, the call gave the right
  capsule and the versions agree. Of the exceptions of the call only a \<open>TypeError\<close> about the number
  of arguments, raised at the call itself, is turned into an \<open>ImportError\<close>; every other one comes
  out as it was.
\<close>

theorem ffi_import_checked:
  "(import_ffi_table_provider err_text runtime call ours version mk_host = Inr t \<longrightarrow>
      (\<exists>h ffi. runtime = Some h \<and> call = Inr (Capsule ''datafusion_table_provider'' ffi)
         \<and> version ffi = ours \<and> t = mk_host ffi h))
   \<and> (runtime = Some h \<and> call = Inl r \<longrightarrow>
      import_ffi_table_provider err_text runtime call ours version mk_host = Inl (provider_call_error err_text r)
      \<and> (pe_class (provider_call_error err_text r) = PyImportError \<and> pe_class (exc r) \<noteq> PyImportError \<longrightarrow>
           pe_class (exc r) = PyTypeError \<and> \<not> exc_has_traceback r \<and> is_arity_error (err_text (exc r)))
      \<and> (provider_call_error err_text r \<noteq> exc r \<longrightarrow> pe_class (provider_call_error err_text r) = PyImportError))"
proof (intro conjI impI)
  assume i: "import_ffi_table_provider err_text runtime call ours version mk_host = Inr t"
  then obtain h cap where "runtime = Some h" "call = Inr cap"
    by (auto simp: import_ffi_table_provider_def runtime_handle_def and_then_Inr_iff ok_or_Inr_iff map_err_Inr_iff)
  with i show "\<exists>h ffi. runtime = Some h \<and> call = Inr (Capsule ''datafusion_table_provider'' ffi)
      \<and> version ffi = ours \<and> t = mk_host ffi h"
    by (cases cap) (auto simp: import_ffi_table_provider_def runtime_handle_def split: if_splits)
qed (auto simp: import_ffi_table_provider_def runtime_handle_def provider_call_error_def split: if_splits)

definition arity_exc :: raised_exc where
  "arity_exc = \<lparr>exc = new_err PyTypeError ''f() takes no arguments (1 given)'', exc_has_traceback = False\<rparr>"

theorem ffi_import_checked_witness:
  "pe_class (provider_call_error pe_msg arity_exc) = PyImportError
   \<and> import_ffi_table_provider pe_msg (Some ()) (Inl arity_exc :: raised_exc + nat capsule) 1 id (\<lambda>f h. f)
       = Inl (provider_call_error pe_msg arity_exc)"
proof
  show "pe_class (provider_call_error pe_msg arity_exc) = PyImportError"
    by (simp add: provider_call_error_def arity_exc_def is_arity_error_def str_contains_def) code_simp
  show "import_ffi_table_provider pe_msg (Some ()) (Inl arity_exc :: raised_exc + nat capsule) 1 id (\<lambda>f h. f)
       = Inl (provider_call_error pe_msg arity_exc)"
    using ffi_import_checked [where runtime = "Some ()" and h = "()" and call = "Inl arity_exc :: raised_exc + nat capsule"
      and r = arity_exc and err_text = pe_msg and ours = 1 and version = id and mk_host = "\<lambda>f h. f"] by blast
qed

definition plain_renderers :: renderers where
  "plain_renderers = \<lparr>inner_debug = (\<lambda>_. []), inner_display = (\<lambda>_. []), py_debug = (\<lambda>_. [])\<rparr>"

definition no_stores :: "nat store_api" where
  "no_stores = demo_stores\<lparr>parse_location := (\<lambda>_. Inl (Inner_Other ''bad url''))\<rparr>"

theorem store_errors_are_discarded_witness:
  "fst (register_parquet plain_renderers no_stores bare_env demo_listing demo_registrar ''t'' [''a.parquet''] [] ''.parquet'' []
      [''a.parquet''] demo_session) = Inr ()"
proof -
  have "isl (fst (register_object_store_and_config_extensions no_stores bare_env p (Some ''parquet'') [] c))" for p c
    by (simp add: register_object_store_and_config_extensions_def no_stores_def)
  moreover have "convert_table_partition_cols [] = Inr []" by (simp add: convert_table_partition_cols_def)
  moreover have "fst (register_types demo_listing demo_registrar ''t'' ''.parquet'' [''a.parquet'']
      (register_stores no_stores bare_env ''parquet'' [] [''a.parquet''] demo_session)) = Inr ()"
    by (simp add: register_types_def demo_listing_def demo_registrar_def ends_with_def suffix_def)
  ultimately show ?thesis by (rule store_errors_are_discarded [THEN conjunct1])
qed

end
