(* ===== verification/Ffi_Host.thy ===== *)
theory Ffi_Host
  imports Xorq_Prelude
begin

text \<open>
  \<open>src/ffi_table_provider.rs\<close>: tables imported from another library. The foreign side decodes filters
  with a codec that refers to its task context \<^emph>\<open>weakly\<close>; the host has to keep that task context alive
  without keeping the \<open>SessionContext\<close> alive, which owns the table through its catalog.

  Ownership is modelled as the standard library has it: \<open>Arc\<close> allocations are the cells of a heap
  with their strong counts, a \<open>Weak\<close> reference is an address, the last release of a cell drops its
  value and with it the strong references the value holds. \<open>'r\<close> is the task context (the function
  registry of a session at one moment), \<open>'x\<close> the extension codec of the foreign library, \<open>'c\<close> and \<open>'o\<close>
  the arguments and results of a call into a provider.
\<close>

section \<open>Cells\<close>

type_synonym addr = nat

record 'x codec =
  cd_codec :: 'x
  cd_runtime :: "nat option"
  cd_task_ctx :: addr

text \<open>
  \<open>FFI_TableProvider\<close>: the provider behind the interface, whether it is of this very library (then
  the conversion unwraps it and no codec is used), and its codec.
\<close>

record 'x ffi_provider =
  fp_id :: nat
  fp_local :: bool
  fp_codec :: "'x codec"

datatype 'x inner = Local_Table nat | Foreign_Table "'x ffi_provider"

record 'x hosted =
  ho_inner :: "'x inner"
  ho_extension_codec :: 'x
  ho_task_ctx :: addr
  ho_runtime :: "nat option"

datatype ('r, 'x) obj =
    Session_Obj 'r "(string \<times> addr) list"
  | Hosted_Table "'x hosted"
  | Host_Task_Context addr 'r
  | Session_Task_Context 'r

record ('r, 'x) cell =
  c_strong :: nat
  c_obj :: "('r, 'x) obj"

type_synonym ('r, 'x) arcs = "('r, 'x) cell list"

fun strong_refs :: "('r, 'x) obj \<Rightarrow> addr list" where
  "strong_refs (Session_Obj _ ts) = map snd ts"
| "strong_refs (Hosted_Table t) = [ho_task_ctx t]"
| "strong_refs (Host_Task_Context _ _) = []"
| "strong_refs (Session_Task_Context _) = []"

definition strong_at :: "('r, 'x) arcs \<Rightarrow> addr \<Rightarrow> nat" where
  "strong_at h a = (if a < length h then c_strong (h ! a) else 0)"

definition arc_new :: "('r, 'x) arcs \<Rightarrow> ('r, 'x) obj \<Rightarrow> addr \<times> ('r, 'x) arcs" where
  "arc_new h ob = (length h, h @ [\<lparr>c_strong = 1, c_obj = ob\<rparr>])"

definition arc_clone :: "('r, 'x) arcs \<Rightarrow> addr \<Rightarrow> ('r, 'x) arcs" where
  "arc_clone h a = h[a := (h ! a)\<lparr>c_strong := Suc (c_strong (h ! a))\<rparr>]"

definition set_obj :: "('r, 'x) arcs \<Rightarrow> addr \<Rightarrow> ('r, 'x) obj \<Rightarrow> ('r, 'x) arcs" where
  "set_obj h a ob = h[a := (h ! a)\<lparr>c_obj := ob\<rparr>]"

definition upgrade :: "('r, 'x) arcs \<Rightarrow> addr \<Rightarrow> ('r, 'x) obj option" where
  "upgrade h a = (if 0 < strong_at h a then Some (c_obj (h ! a)) else None)"

lemma sum_strong_update:
  assumes "a < length h"
  shows "sum_list (map c_strong (h[a := c])) + c_strong (h ! a) = sum_list (map c_strong h) + c_strong c"
  using sum_list_update_nat [of a "map c_strong h" "c_strong c"] assms by (simp add: map_update)

text \<open>Dropping strong references; the last one to a cell drops what its value owns.\<close>

function release :: "('r, 'x) arcs \<Rightarrow> addr list \<Rightarrow> ('r, 'x) arcs" where
  "release h [] = h"
| "release h (a # as) =
     (if strong_at h a = 0 then release h as
      else release (h[a := (h ! a)\<lparr>c_strong := c_strong (h ! a) - 1\<rparr>])
        ((if strong_at h a = 1 then strong_refs (c_obj (h ! a)) else []) @ as))"
  by pat_completeness auto

termination
proof (relation "measures [\<lambda>(h, as). sum_list (map c_strong h), \<lambda>(h, as). length as]", goal_cases)
  case (3 h a as)
  then have "a < length h" "0 < c_strong (h ! a)" by (auto simp: strong_at_def split: if_splits)
  then show ?case
    using sum_strong_update [of a h "(h ! a)\<lparr>c_strong := c_strong (h ! a) - 1\<rparr>"] by auto
qed auto

section \<open>Task contexts and the codec\<close>

definition remember :: "('r, 'x) arcs \<Rightarrow> addr \<Rightarrow> addr \<Rightarrow> 'r \<Rightarrow> ('r, 'x) arcs" where
  "remember h a session task_ctx = set_obj h a (Host_Task_Context session task_ctx)"

text \<open>\<open>HostTaskContext::task_ctx\<close>: the context of the live session, remembered, or the last remembered one.\<close>

definition host_task_ctx :: "('r, 'x) arcs \<Rightarrow> addr \<Rightarrow> addr \<Rightarrow> 'r \<Rightarrow> 'r \<times> ('r, 'x) arcs" where
  "host_task_ctx h a session fallback =
     (case upgrade h session of
        Some (Session_Obj r _) \<Rightarrow> (r, remember h a session r)
      | _ \<Rightarrow> (fallback, h))"

datatype ffi_error = Went_Out_Of_Scope

text \<open>What the foreign side does on every call that decodes expressions: upgrade, then ask.\<close>

definition codec_task_ctx :: "('r, 'x) arcs \<Rightarrow> 'x codec \<Rightarrow> (ffi_error + 'r) \<times> ('r, 'x) arcs" where
  "codec_task_ctx h cd =
     (case upgrade h (cd_task_ctx cd) of
        Some (Host_Task_Context session fallback) \<Rightarrow>
          (let (r, h') = host_task_ctx h (cd_task_ctx cd) session fallback in (Inr r, h'))
      | Some (Session_Task_Context r) \<Rightarrow> (Inr r, h)
      | Some (Session_Obj r _) \<Rightarrow> (Inr r, h)
      | _ \<Rightarrow> (Inl Went_Out_Of_Scope, h))"

definition codec_for :: "'x \<Rightarrow> addr \<Rightarrow> nat option \<Rightarrow> 'x codec" where
  "codec_for codec task_ctx runtime = \<lparr>cd_codec = codec, cd_runtime = runtime, cd_task_ctx = task_ctx\<rparr>"

definition into_provider :: "'x ffi_provider \<Rightarrow> 'x inner" where
  "into_provider ffi = (if fp_local ffi then Local_Table (fp_id ffi) else Foreign_Table ffi)"

text \<open>\<open>HostedFfiTableProvider::new\<close>, for the session \<open>ctx\<close> whose task context is now \<open>r\<close>.\<close>

definition HostedFfiTableProvider_new ::
  "('r, 'x) arcs \<Rightarrow> 'x ffi_provider \<Rightarrow> addr \<Rightarrow> 'r \<Rightarrow> nat option \<Rightarrow> 'x hosted \<times> ('r, 'x) arcs" where
  "HostedFfiTableProvider_new h ffi ctx r runtime =
     (let (task_ctx, h') = arc_new h (Host_Task_Context ctx r);
          extension_codec = cd_codec (fp_codec ffi);
          ffi' = ffi\<lparr>fp_codec := codec_for extension_codec task_ctx runtime\<rparr>
      in (\<lparr>ho_inner = into_provider ffi', ho_extension_codec = extension_codec,
           ho_task_ctx = task_ctx, ho_runtime = runtime\<rparr>, h'))"

definition bound_for :: "('r, 'x) arcs \<Rightarrow> 'x hosted \<Rightarrow> 'r \<Rightarrow> addr \<times> 'x inner \<times> ('r, 'x) arcs" where
  "bound_for h t session_ctx =
     (let (task_ctx, h') = arc_new h (Session_Task_Context session_ctx) in
      case ho_inner t of
        Local_Table n \<Rightarrow> (task_ctx, Local_Table n, h')
      | Foreign_Table ffi \<Rightarrow>
          (task_ctx, Foreign_Table (ffi\<lparr>fp_codec := codec_for (ho_extension_codec t) task_ctx (ho_runtime t)\<rparr>), h'))"

text \<open>The providers themselves are not of this crate: what they answer, given what their codec gave them.\<close>

record ('r, 'x, 'c, 'o) library =
  call_local :: "nat \<Rightarrow> 'c \<Rightarrow> 'o"
  call_foreign :: "nat \<Rightarrow> 'x \<Rightarrow> ffi_error + 'r \<Rightarrow> 'c \<Rightarrow> 'o"

definition provider_call ::
  "('r, 'x, 'c, 'o) library \<Rightarrow> ('r, 'x) arcs \<Rightarrow> 'x inner \<Rightarrow> 'c \<Rightarrow> 'o \<times> ('r, 'x) arcs" where
  "provider_call lib h p c =
     (case p of
        Local_Table n \<Rightarrow> (call_local lib n c, h)
      | Foreign_Table ffi \<Rightarrow>
          (let (ctx, h') = codec_task_ctx h (fp_codec ffi)
           in (call_foreign lib (fp_id ffi) (cd_codec (fp_codec ffi)) ctx c, h')))"

definition hosted_supports_filters_pushdown ::
  "('r, 'x, 'c, 'o) library \<Rightarrow> ('r, 'x) arcs \<Rightarrow> 'x hosted \<Rightarrow> 'c \<Rightarrow> 'o \<times> ('r, 'x) arcs" where
  "hosted_supports_filters_pushdown lib h t filters = provider_call lib h (ho_inner t) filters"

definition hosted_scan ::
  "('r, 'x, 'c, 'o) library \<Rightarrow> ('r, 'x) arcs \<Rightarrow> 'x hosted \<Rightarrow> 'r \<Rightarrow> 'c \<Rightarrow> 'o \<times> ('r, 'x) arcs" where
  "hosted_scan lib h t session_ctx c =
     (let (task_ctx, p, h1) = bound_for h t session_ctx;
          (plan, h2) = provider_call lib h1 p c
      in (plan, release h2 [task_ctx]))"

definition hosted_insert_into ::
  "('r, 'x, 'c, 'o) library \<Rightarrow> ('r, 'x) arcs \<Rightarrow> 'x hosted \<Rightarrow> 'r \<Rightarrow> 'c \<Rightarrow> 'o \<times> ('r, 'x) arcs" where
  "hosted_insert_into lib h t session_ctx c =
     (let (task_ctx, p, h1) = bound_for h t session_ctx;
          (plan, h2) = provider_call lib h1 p c
      in (plan, release h2 [task_ctx]))"

section \<open>The process\<close>

text \<open>
  The Python side holds strong references: one per \<open>SessionContext\<close> object and one per DataFrame whose
  plan holds a table. A session's catalog owns its tables; replacing or removing one releases it.
\<close>

record ('r, 'x) host_world =
  hw_heap :: "('r, 'x) arcs"
  hw_handles :: "addr list"

datatype ('r, 'x, 'c) host_act =
    New_Session 'r
  | Register_Function addr 'r
  | Import addr string "'x ffi_provider" "nat option"
  | Deregister addr string
  | Hold addr
  | Let_Go addr
  | Pushdown addr 'c
  | Scan addr 'r 'c
  | Insert addr 'r 'c

definition import_table ::
  "('r, 'x) arcs \<Rightarrow> addr \<Rightarrow> 'r \<Rightarrow> (string \<times> addr) list \<Rightarrow> string \<Rightarrow> 'x ffi_provider \<Rightarrow> nat option \<Rightarrow> ('r, 'x) arcs" where
  "import_table h s r ts name ffi runtime =
     (let (t, h1) = HostedFfiTableProvider_new h ffi s r runtime;
          (a, h2) = arc_new h1 (Hosted_Table t)
      in release (set_obj h2 s (Session_Obj r ((name, a) # filter (\<lambda>e. fst e \<noteq> name) ts)))
           (map snd (filter (\<lambda>e. fst e = name) ts)))"

definition on_table ::
  "('r, 'x) host_world \<Rightarrow> addr \<Rightarrow> ('x hosted \<Rightarrow> 'o \<times> ('r, 'x) arcs) \<Rightarrow> (('r, 'x) host_world \<times> 'o option) option" where
  "on_table w t f =
     (case upgrade (hw_heap w) t of
        Some (Hosted_Table table) \<Rightarrow> (let (out, h) = f table in Some (w\<lparr>hw_heap := h\<rparr>, Some out))
      | _ \<Rightarrow> None)"

definition on_session ::
  "('r, 'x) host_world \<Rightarrow> addr \<Rightarrow> ('r \<Rightarrow> (string \<times> addr) list \<Rightarrow> ('r, 'x) arcs) \<Rightarrow> (('r, 'x) host_world \<times> 'o option) option" where
  "on_session w s f =
     (if s \<in> set (hw_handles w) then
        (case upgrade (hw_heap w) s of
           Some (Session_Obj r ts) \<Rightarrow> Some (w\<lparr>hw_heap := f r ts\<rparr>, None)
         | _ \<Rightarrow> None)
      else None)"

fun host_step ::
  "('r, 'x, 'c, 'o) library \<Rightarrow> ('r, 'x, 'c) host_act \<Rightarrow> ('r, 'x) host_world \<Rightarrow> (('r, 'x) host_world \<times> 'o option) option" where
  "host_step lib (New_Session r) w =
     (let (a, h) = arc_new (hw_heap w) (Session_Obj r [])
      in Some (w\<lparr>hw_heap := h, hw_handles := a # hw_handles w\<rparr>, None))"
| "host_step lib (Register_Function s r') w =
     on_session w s (\<lambda>r ts. set_obj (hw_heap w) s (Session_Obj r' ts))"
| "host_step lib (Import s name ffi runtime) w =
     on_session w s (\<lambda>r ts. import_table (hw_heap w) s r ts name ffi runtime)"
| "host_step lib (Deregister s name) w =
     on_session w s (\<lambda>r ts.
       release (set_obj (hw_heap w) s (Session_Obj r (filter (\<lambda>e. fst e \<noteq> name) ts)))
         (map snd (filter (\<lambda>e. fst e = name) ts)))"
| "host_step lib (Hold t) w =
     (case upgrade (hw_heap w) t of
        Some (Hosted_Table _) \<Rightarrow>
          Some (w\<lparr>hw_heap := arc_clone (hw_heap w) t, hw_handles := t # hw_handles w\<rparr>, None)
      | _ \<Rightarrow> None)"
| "host_step lib (Let_Go a) w =
     (if a \<in> set (hw_handles w)
      then Some (w\<lparr>hw_heap := release (hw_heap w) [a], hw_handles := remove1 a (hw_handles w)\<rparr>, None)
      else None)"
| "host_step lib (Pushdown t c) w = on_table w t (\<lambda>table. hosted_supports_filters_pushdown lib (hw_heap w) table c)"
| "host_step lib (Scan t r c) w = on_table w t (\<lambda>table. hosted_scan lib (hw_heap w) table r c)"
| "host_step lib (Insert t r c) w = on_table w t (\<lambda>table. hosted_insert_into lib (hw_heap w) table r c)"

fun host_run ::
  "('r, 'x, 'c, 'o) library \<Rightarrow> ('r, 'x, 'c) host_act list \<Rightarrow> ('r, 'x) host_world \<Rightarrow> ('r, 'x) host_world option" where
  "host_run lib [] w = Some w"
| "host_run lib (a # as) w =
     (case host_step lib a w of None \<Rightarrow> None | Some (w', _) \<Rightarrow> host_run lib as w')"

definition empty_world :: "('r, 'x) host_world" where
  "empty_world = \<lparr>hw_heap = [], hw_handles = []\<rparr>"

definition host_reachable :: "('r, 'x, 'c, 'o) library \<Rightarrow> ('r, 'x) host_world \<Rightarrow> bool" where
  "host_reachable lib w \<longleftrightarrow> (\<exists>acts. host_run lib acts empty_world = Some w)"

section \<open>Strong counts\<close>

definition owned :: "('r, 'x) cell \<Rightarrow> addr list" where
  "owned c = (if 0 < c_strong c then strong_refs (c_obj c) else [])"

definition held :: "('r, 'x) arcs \<Rightarrow> addr \<Rightarrow> nat" where
  "held h a = sum_list (map (\<lambda>c. count_list (owned c) a) h)"

text \<open>Every strong count is the number of references from the roots and from the live cells.\<close>

definition counted :: "('r, 'x) arcs \<Rightarrow> addr list \<Rightarrow> bool" where
  "counted h roots \<longleftrightarrow> (\<forall>a. strong_at h a = count_list roots a + held h a)"

lemma strong_at_append [simp]:
  "strong_at (h @ [c]) a = (if a = length h then c_strong c else strong_at h a)"
  by (auto simp: strong_at_def nth_append)

lemma strong_at_update:
  "i < length h \<Longrightarrow> strong_at (h[i := c]) a = (if a = i then c_strong c else strong_at h a)"
  by (auto simp: strong_at_def)

lemma strong_at_pos: "0 < strong_at h a \<Longrightarrow> a < length h \<and> 0 < c_strong (h ! a) \<and> strong_at h a = c_strong (h ! a)"
  by (auto simp: strong_at_def split: if_splits)

lemma held_append [simp]: "held (h @ [c]) a = held h a + count_list (owned c) a"
  by (simp add: held_def)

lemma held_update:
  "i < length h \<Longrightarrow> held (h[i := c]) a + count_list (owned (h ! i)) a = held h a + count_list (owned c) a"
  using sum_list_update_nat [of i "map (\<lambda>c. count_list (owned c) a) h" "count_list (owned c) a"]
  by (simp add: held_def map_update)

lemma counted_fresh: "counted h roots \<Longrightarrow> count_list roots (length h) = 0 \<and> held h (length h) = 0"
  by (drule counted_def [THEN iffD1, THEN spec [of _ "length h"]]) (simp add: strong_at_def)

lemma counted_root: "counted h roots \<Longrightarrow> a \<in> set roots \<Longrightarrow> 0 < strong_at h a"
  by (auto simp: counted_def count_list_0_iff neq0_conv [symmetric])

lemma held_mem:
  assumes "c \<in> set h" "a \<in> set (owned c)"
  shows "0 < held h a"
proof -
  have "0 < count_list (owned c) a" using assms(2) by (simp add: count_list_0_iff neq0_conv [symmetric])
  moreover have "count_list (owned c) a \<le> held h a"
    unfolding held_def using assms(1) by (intro member_le_sum_list) auto
  ultimately show ?thesis by linarith
qed

lemma counted_owned: "counted h roots \<Longrightarrow> c \<in> set h \<Longrightarrow> a \<in> set (owned c) \<Longrightarrow> 0 < strong_at h a"
  using held_mem [of c h a] by (auto simp: counted_def)

lemma counted_new:
  assumes "counted h (strong_refs ob @ roots)"
  shows "counted (h @ [\<lparr>c_strong = 1, c_obj = ob\<rparr>]) (length h # roots)"
  using assms counted_fresh [OF assms]
  by (auto simp: counted_def owned_def)

lemma counted_update:
  assumes "counted h roots" "i < length h"
    and "\<And>a. count_list roots' a + count_list (owned c) a + (if a = i then c_strong (h ! i) else 0)
            = count_list roots a + count_list (owned (h ! i)) a + (if a = i then c_strong c else 0)"
  shows "counted (h[i := c]) roots'"
  unfolding counted_def
proof
  fix a
  have "strong_at h a = count_list roots a + held h a" using assms(1) by (simp add: counted_def)
  moreover have "strong_at (h[i := c]) a + (if a = i then c_strong (h ! i) else 0)
      = strong_at h a + (if a = i then c_strong c else 0)"
    using assms(2) by (simp add: strong_at_update) (simp add: strong_at_def)
  ultimately show "strong_at (h[i := c]) a = count_list roots' a + held (h[i := c]) a"
    using held_update [OF assms(2), of c a] assms(3) [of a] by linarith
qed

lemma counted_set_obj:
  assumes "counted h roots" "0 < strong_at h i"
    and "\<And>a. count_list roots' a + count_list (strong_refs ob) a
            = count_list roots a + count_list (strong_refs (c_obj (h ! i))) a"
  shows "counted (set_obj h i ob) roots'"
  unfolding set_obj_def
  using strong_at_pos [OF assms(2)] assms(3) by (intro counted_update [OF assms(1)]) (auto simp: owned_def)

lemma counted_clone: "counted h roots \<Longrightarrow> 0 < strong_at h a \<Longrightarrow> counted (arc_clone h a) (a # roots)"
  unfolding arc_clone_def
  by (drule strong_at_pos, rule counted_update) (auto simp: owned_def)

lemma release_counted: "counted h (as @ roots) \<Longrightarrow> counted (release h as) roots"
proof (induction h as rule: release.induct)
  case (2 h a as)
  have "0 < strong_at h a" using 2(3) by (rule counted_root) simp
  note live = strong_at_pos [OF this]
  have "counted (h[a := (h ! a)\<lparr>c_strong := c_strong (h ! a) - 1\<rparr>])
      (((if strong_at h a = 1 then strong_refs (c_obj (h ! a)) else []) @ as) @ roots)"
    using live by (intro counted_update [OF 2(3)]) (auto simp: owned_def)
  then have "counted (release (h[a := (h ! a)\<lparr>c_strong := c_strong (h ! a) - 1\<rparr>])
      ((if strong_at h a = 1 then strong_refs (c_obj (h ! a)) else []) @ as)) roots"
    using live by (intro 2(2)) auto
  then show ?case using live by (simp del: append_assoc)
qed simp

lemma release_objs [simp]: "map c_obj (release h as) = map c_obj h"
proof (induction h as rule: release.induct)
  case (2 h a as)
  then show ?case
    by (cases "strong_at h a = 0") (simp_all add: map_update list_update_same_conv strong_at_def split: if_splits)
qed simp

section \<open>Kinds of cells\<close>

datatype kind = A_Session | A_Table | A_Host_Context | A_Call_Context

primrec kind_of :: "('r, 'x) obj \<Rightarrow> kind" where
  "kind_of (Session_Obj _ _) = A_Session"
| "kind_of (Hosted_Table _) = A_Table"
| "kind_of (Host_Task_Context _ _) = A_Host_Context"
| "kind_of (Session_Task_Context _) = A_Call_Context"

definition kind_at :: "('r, 'x) arcs \<Rightarrow> addr \<Rightarrow> kind option" where
  "kind_at h a = (if a < length h then Some (kind_of (c_obj (h ! a))) else None)"

fun obj_ok :: "(addr \<Rightarrow> kind option) \<Rightarrow> ('r, 'x) obj \<Rightarrow> bool" where
  "obj_ok k (Session_Obj _ ts) \<longleftrightarrow> (\<forall>a \<in> snd ` set ts. k a = Some A_Table)"
| "obj_ok k (Hosted_Table t) \<longleftrightarrow> k (ho_task_ctx t) = Some A_Host_Context
     \<and> (\<forall>ffi. ho_inner t = Foreign_Table ffi \<longrightarrow>
          cd_task_ctx (fp_codec ffi) = ho_task_ctx t \<and> cd_codec (fp_codec ffi) = ho_extension_codec t)"
| "obj_ok k (Host_Task_Context s _) \<longleftrightarrow> k s = Some A_Session"
| "obj_ok k (Session_Task_Context _) \<longleftrightarrow> True"

definition kinded :: "('r, 'x) arcs \<Rightarrow> bool" where
  "kinded h \<longleftrightarrow> (\<forall>ob \<in> set (map c_obj h). obj_ok (kind_at h) ob)"

definition grows :: "('r, 'x) arcs \<Rightarrow> ('r, 'x) arcs \<Rightarrow> bool" where
  "grows h h' \<longleftrightarrow> (\<forall>a k. kind_at h a = Some k \<longrightarrow> kind_at h' a = Some k)"

lemma grows_refl [simp]: "grows h h" and grows_trans: "grows h h' \<Longrightarrow> grows h' h'' \<Longrightarrow> grows h h''"
  by (auto simp: grows_def)

lemma obj_ok_grows: "obj_ok (kind_at h) ob \<Longrightarrow> grows h h' \<Longrightarrow> obj_ok (kind_at h') ob"
  by (cases "(kind_at h, ob)" rule: obj_ok.cases) (auto simp: grows_def)

lemma kind_at_objs: "map c_obj h = map c_obj h' \<Longrightarrow> kind_at h = kind_at h'"
  by (auto simp: kind_at_def fun_eq_iff dest: map_eq_imp_length_eq) (metis length_map nth_map)+

lemma same_objs: "map c_obj h' = map c_obj h \<Longrightarrow> kinded h \<Longrightarrow> kinded h' \<and> grows h h'"
  using kind_at_objs [of h' h] by (simp add: kinded_def grows_def)

lemma release_kinded: "kinded h \<Longrightarrow> kinded (release h as) \<and> grows h (release h as)"
  by (rule same_objs) simp

lemma clone_kinded: "kinded h \<Longrightarrow> a < length h \<Longrightarrow> kinded (arc_clone h a) \<and> grows h (arc_clone h a)"
  by (rule same_objs) (simp_all add: arc_clone_def map_update list_update_same_conv)

lemma new_kinded:
  assumes "kinded h" "obj_ok (kind_at h) ob"
  shows "kinded (snd (arc_new h ob)) \<and> grows h (snd (arc_new h ob))
    \<and> kind_at (snd (arc_new h ob)) (fst (arc_new h ob)) = Some (kind_of ob)"
proof -
  have "grows h (snd (arc_new h ob))"
    by (auto simp: grows_def kind_at_def arc_new_def nth_append)
  then show ?thesis
    using assms by (auto simp: kinded_def arc_new_def kind_at_def intro: obj_ok_grows)
qed

lemma set_obj_kinded:
  assumes "kinded h" "kind_at h a = Some (kind_of ob)" "obj_ok (kind_at h) ob"
  shows "kinded (set_obj h a ob) \<and> grows h (set_obj h a ob)"
proof -
  have a: "a < length h" using assms(2) by (auto simp: kind_at_def split: if_splits)
  have "kind_at (set_obj h a ob) = kind_at h"
    using assms(2) by (auto simp: kind_at_def set_obj_def fun_eq_iff nth_list_update split: if_splits)
  moreover have "set (map c_obj (set_obj h a ob)) \<subseteq> insert ob (set (map c_obj h))"
    by (auto simp: set_obj_def dest!: set_update_subset_insert [THEN subsetD])
  ultimately show ?thesis using assms by (auto simp: kinded_def grows_def)
qed

lemma upgrade_SomeD:
  "upgrade h a = Some ob \<Longrightarrow>
     a < length h \<and> 0 < strong_at h a \<and> c_obj (h ! a) = ob \<and> kind_at h a = Some (kind_of ob) \<and> ob \<in> set (map c_obj h)"
  using strong_at_pos [of h a] by (auto simp: upgrade_def kind_at_def split: if_splits)

lemma upgrade_append: "upgrade h a = Some ob \<Longrightarrow> upgrade (h @ cs) a = Some ob"
  by (auto simp: upgrade_def strong_at_def nth_append split: if_splits)

lemma upgrade_ok: "kinded h \<Longrightarrow> upgrade h a = Some ob \<Longrightarrow> obj_ok (kind_at h) ob"
  unfolding kinded_def using upgrade_SomeD by blast

lemma upgrade_live: "0 < strong_at h a \<Longrightarrow> kind_at h a = Some k \<Longrightarrow> \<exists>ob. upgrade h a = Some ob \<and> kind_of ob = k"
  using strong_at_pos [of h a] by (auto simp: upgrade_def kind_at_def split: if_splits)

lemma kind_of_simps:
  "kind_of ob = A_Session \<longleftrightarrow> (\<exists>r ts. ob = Session_Obj r ts)"
  "kind_of ob = A_Table \<longleftrightarrow> (\<exists>t. ob = Hosted_Table t)"
  "kind_of ob = A_Host_Context \<longleftrightarrow> (\<exists>s r. ob = Host_Task_Context s r)"
  "kind_of ob = A_Call_Context \<longleftrightarrow> (\<exists>r. ob = Session_Task_Context r)"
  by (cases ob; simp)+

section \<open>The invariant\<close>

definition host_inv :: "('r, 'x) host_world \<Rightarrow> bool" where
  "host_inv w \<longleftrightarrow> counted (hw_heap w) (hw_handles w) \<and> kinded (hw_heap w)
     \<and> (\<forall>a \<in> set (hw_handles w). kind_at (hw_heap w) a \<in> {Some A_Session, Some A_Table})"

lemma host_invI:
  assumes "host_inv w" "counted h' (hw_handles w)" "kinded h' \<and> grows (hw_heap w) h'"
  shows "host_inv (w\<lparr>hw_heap := h'\<rparr>)"
  using assms by (fastforce simp: host_inv_def grows_def)

text \<open>The task context behind a live table is alive: the upgrade succeeds, and what is served.\<close>

definition current_ctx :: "('r, 'x) arcs \<Rightarrow> addr \<Rightarrow> 'r option" where
  "current_ctx h a =
     (case upgrade h a of
        Some (Host_Task_Context s fb) \<Rightarrow> Some (case upgrade h s of Some (Session_Obj r _) \<Rightarrow> r | _ \<Rightarrow> fb)
      | _ \<Rightarrow> None)"

lemma table_ctx:
  assumes "host_inv w" "upgrade (hw_heap w) t = Some (Hosted_Table tb)"
  shows "\<exists>s fb. upgrade (hw_heap w) (ho_task_ctx tb) = Some (Host_Task_Context s fb)"
proof -
  let ?h = "hw_heap w"
  note up = upgrade_SomeD [OF assms(2)]
  have "obj_ok (kind_at ?h) (Hosted_Table tb)"
    using upgrade_ok [OF _ assms(2)] assms(1) by (simp add: host_inv_def)
  then have k: "kind_at ?h (ho_task_ctx tb) = Some A_Host_Context" by simp
  have "ho_task_ctx tb \<in> set (owned (?h ! t))"
    using up strong_at_pos [of ?h t] by (simp add: owned_def)
  then have "0 < strong_at ?h (ho_task_ctx tb)"
    using assms(1) up by (auto simp: host_inv_def dest: counted_owned [OF _ nth_mem])
  from upgrade_live [OF this k] show ?thesis by (auto simp: kind_of_simps)
qed

lemma host_task_ctx_kept:
  assumes "host_inv w" "upgrade (hw_heap w) a = Some (Host_Task_Context s fb)"
    and "host_task_ctx (hw_heap w) a s fb = (r, h')"
  shows "counted h' (hw_handles w) \<and> kinded h' \<and> grows (hw_heap w) h'"
proof -
  let ?h = "hw_heap w"
  note up = upgrade_SomeD [OF assms(2)]
  have c: "counted ?h (hw_handles w)" and k: "kinded ?h" using assms(1) by (auto simp: host_inv_def)
  have ok: "obj_ok (kind_at ?h) (Host_Task_Context s r)"
    using upgrade_ok [OF k assms(2)] by simp
  have "counted (remember ?h a s r) (hw_handles w)"
    unfolding remember_def using up by (intro counted_set_obj [OF c]) auto
  moreover have "kinded (remember ?h a s r) \<and> grows ?h (remember ?h a s r)"
    unfolding remember_def using up ok by (intro set_obj_kinded [OF k]) auto
  ultimately show ?thesis
    using assms(3) c k by (auto simp: host_task_ctx_def split: option.splits obj.splits)
qed

lemma pushdown_kept:
  assumes "host_inv w" "upgrade (hw_heap w) t = Some (Hosted_Table tb)"
    and "hosted_supports_filters_pushdown lib (hw_heap w) tb c = (out, h')"
  shows "host_inv (w\<lparr>hw_heap := h'\<rparr>)"
proof (cases "ho_inner tb")
  case (Local_Table n)
  then show ?thesis using assms(1,3) by (auto simp: hosted_supports_filters_pushdown_def provider_call_def)
next
  case (Foreign_Table ffi)
  obtain s fb where up: "upgrade (hw_heap w) (ho_task_ctx tb) = Some (Host_Task_Context s fb)"
    using table_ctx [OF assms(1,2)] by blast
  have "cd_task_ctx (fp_codec ffi) = ho_task_ctx tb"
    using assms(1,2) Foreign_Table by (auto simp: host_inv_def dest: upgrade_ok)
  then obtain r where "host_task_ctx (hw_heap w) (ho_task_ctx tb) s fb = (r, h')"
    using assms(3) up Foreign_Table
    by (auto simp: hosted_supports_filters_pushdown_def provider_call_def codec_task_ctx_def split: prod.splits)
  then show ?thesis using host_task_ctx_kept [OF assms(1) up] by (intro host_invI [OF assms(1)]) auto
qed

text \<open>A call for a planning session: the codec is bound to a cell that lives exactly for the call.\<close>

lemma session_codec:
  "codec_task_ctx (h @ [\<lparr>c_strong = 1, c_obj = Session_Task_Context r\<rparr>]) (codec_for x (length h) rt)
     = (Inr r, h @ [\<lparr>c_strong = 1, c_obj = Session_Task_Context r\<rparr>])"
  by (simp add: codec_task_ctx_def codec_for_def upgrade_def)

lemma hosted_scan_result:
  "hosted_scan lib h tb r c =
     ((case ho_inner tb of
         Local_Table n \<Rightarrow> call_local lib n c
       | Foreign_Table ffi \<Rightarrow> call_foreign lib (fp_id ffi) (ho_extension_codec tb) (Inr r) c),
      release (snd (arc_new h (Session_Task_Context r))) [length h])"
  by (simp add: hosted_scan_def bound_for_def arc_new_def provider_call_def session_codec del: release.simps One_nat_def
      split: inner.split)
    (simp add: codec_for_def)

lemma insert_as_scan: "hosted_insert_into = hosted_scan"
  by (simp add: fun_eq_iff hosted_insert_into_def hosted_scan_def)

lemma call_ctx_kept:
  assumes "host_inv w"
  shows "host_inv (w\<lparr>hw_heap := release (snd (arc_new (hw_heap w) (Session_Task_Context r))) [length (hw_heap w)]\<rparr>)"
proof (rule host_invI [OF assms])
  let ?h = "hw_heap w"
  have "counted (snd (arc_new ?h (Session_Task_Context r))) ([length ?h] @ hw_handles w)"
    using assms counted_new [of ?h "Session_Task_Context r" "hw_handles w"] by (simp add: host_inv_def arc_new_def)
  then show "counted (release (snd (arc_new ?h (Session_Task_Context r))) [length ?h]) (hw_handles w)"
    by (rule release_counted)
  show "kinded (release (snd (arc_new ?h (Session_Task_Context r))) [length ?h])
      \<and> grows ?h (release (snd (arc_new ?h (Session_Task_Context r))) [length ?h])"
    using assms new_kinded [of ?h "Session_Task_Context r"]
      release_kinded [of "snd (arc_new ?h (Session_Task_Context r))" "[length ?h]"]
      grows_trans [of ?h "snd (arc_new ?h (Session_Task_Context r))"]
    unfolding host_inv_def by simp
qed

lemma count_list_parts:
  "count_list (map snd (filter P ts)) a + count_list (map snd (filter (\<lambda>e. \<not> P e) ts)) a = count_list (map snd ts) a"
  by (induction ts) auto

text \<open>Changing the catalog of a session: the entries taken out are released, one may be put in.\<close>

lemma catalog_kept:
  assumes w: "host_inv w" "upgrade (hw_heap w) s = Some (Session_Obj r ts)"
    and h: "counted h (new @ hw_handles w)" "kinded h" "grows (hw_heap w) h"
      "upgrade h s = Some (Session_Obj r ts)" "\<forall>a \<in> set new. kind_at h a = Some A_Table" "map snd ts' = new"
  shows "host_inv (w\<lparr>hw_heap := release (set_obj h s (Session_Obj r' (ts' @ filter (\<lambda>e. fst e \<noteq> name) ts)))
      (map snd (filter (\<lambda>e. fst e = name) ts))\<rparr>)" (is "host_inv (w\<lparr>hw_heap := release ?h' ?old\<rparr>)")
proof (rule host_invI [OF w(1)])
  note up = upgrade_SomeD [OF h(4)]
  have "counted ?h' (?old @ hw_handles w)"
    using up count_list_parts [where P = "\<lambda>e. fst e = name" and ts = ts] h(6)
    by (intro counted_set_obj [OF h(1)]) (auto simp: algebra_simps)
  then show "counted (release ?h' ?old) (hw_handles w)" by (rule release_counted)
  have "\<forall>a \<in> snd ` set ts'. kind_at h a = Some A_Table" using h(5,6) by force
  moreover have "\<forall>a \<in> snd ` set ts. kind_at h a = Some A_Table" using upgrade_ok [OF h(2,4)] by simp
  ultimately have "kinded ?h' \<and> grows h ?h'"
    using up by (intro set_obj_kinded [OF h(2)]) auto
  then show "kinded (release ?h' ?old) \<and> grows (hw_heap w) (release ?h' ?old)"
    using release_kinded [of ?h'] h(3) grows_trans by blast
qed

lemma import_kept:
  assumes w: "host_inv w" and s: "upgrade (hw_heap w) s = Some (Session_Obj r ts)"
  shows "host_inv (w\<lparr>hw_heap := import_table (hw_heap w) s r ts name ffi runtime\<rparr>)"
proof -
  let ?h = "hw_heap w"
  define h1 where "h1 = ?h @ [\<lparr>c_strong = 1, c_obj = Host_Task_Context s r\<rparr>]"
  define tb where "tb = fst (HostedFfiTableProvider_new ?h ffi s r runtime)"
  define h2 where "h2 = h1 @ [\<lparr>c_strong = 1, c_obj = Hosted_Table tb\<rparr>]"
  have new: "HostedFfiTableProvider_new ?h ffi s r runtime = (tb, h1)"
    by (simp add: tb_def h1_def HostedFfiTableProvider_new_def arc_new_def Let_def)
  have tb: "ho_task_ctx tb = length ?h"
    "\<And>f. ho_inner tb = Foreign_Table f \<Longrightarrow>
       cd_task_ctx (fp_codec f) = length ?h \<and> cd_codec (fp_codec f) = ho_extension_codec tb"
    by (auto simp: tb_def HostedFfiTableProvider_new_def arc_new_def Let_def into_provider_def codec_for_def split: if_splits)
  have "counted ?h (hw_handles w)" and k: "kinded ?h" using w by (auto simp: host_inv_def)
  then have "counted h1 (length ?h # hw_handles w)"
    unfolding h1_def by (intro counted_new) simp
  then have c2: "counted h2 ([length h1] @ hw_handles w)"
    unfolding h2_def using counted_new [of h1 "Hosted_Table tb" "hw_handles w"] by (simp add: tb(1))
  have k1: "kinded h1 \<and> grows ?h h1 \<and> kind_at h1 (length ?h) = Some A_Host_Context"
    using new_kinded [OF k, of "Host_Task_Context s r"] upgrade_SomeD [OF s] by (simp add: h1_def arc_new_def)
  then have k2: "kinded h2 \<and> grows h1 h2 \<and> kind_at h2 (length h1) = Some A_Table"
    using new_kinded [of h1 "Hosted_Table tb"] tb by (simp add: h2_def arc_new_def)
  have s2: "upgrade h2 s = Some (Session_Obj r ts)"
    using s by (simp add: h2_def h1_def upgrade_append)
  have "import_table ?h s r ts name ffi runtime =
      release (set_obj h2 s (Session_Obj r ([(name, length h1)] @ filter (\<lambda>e. fst e \<noteq> name) ts)))
        (map snd (filter (\<lambda>e. fst e = name) ts))"
    unfolding import_table_def new by (simp add: arc_new_def h2_def)
  then show ?thesis
    using catalog_kept [OF w s c2 _ _ s2, of "[(name, length h1)]" r name] k1 k2 grows_trans [of ?h h1 h2] by simp
qed

lemma on_session_SomeD:
  "on_session w s f = Some (w', out) \<Longrightarrow>
     \<exists>r ts. s \<in> set (hw_handles w) \<and> upgrade (hw_heap w) s = Some (Session_Obj r ts) \<and> w' = w\<lparr>hw_heap := f r ts\<rparr>"
  by (auto simp: on_session_def split: if_splits option.splits obj.splits)

lemma on_table_SomeD:
  "on_table w t f = Some (w', out) \<Longrightarrow>
     \<exists>tb o' h'. upgrade (hw_heap w) t = Some (Hosted_Table tb) \<and> f tb = (o', h') \<and> w' = w\<lparr>hw_heap := h'\<rparr> \<and> out = Some o'"
  by (auto simp: on_table_def split: option.splits obj.splits prod.splits)

lemma handles_kept:
  assumes "host_inv w" "counted h' hs'" "kinded h' \<and> grows (hw_heap w) h'"
    and "set hs' \<subseteq> insert a (set (hw_handles w))"
    and "a \<in> set hs' \<Longrightarrow> kind_at h' a \<in> {Some A_Session, Some A_Table}"
  shows "host_inv (w\<lparr>hw_heap := h', hw_handles := hs'\<rparr>)"
proof -
  have "kind_at h' b \<in> {Some A_Session, Some A_Table}" if "b \<in> set hs'" for b
  proof (cases "b = a")
    case False
    then have "b \<in> set (hw_handles w)" using that assms(4) by auto
    then show ?thesis using assms(1,3) by (auto simp: host_inv_def grows_def)
  qed (use that assms(5) in simp)
  then show ?thesis using assms(2,3) by (simp add: host_inv_def)
qed

lemma new_session_kept:
  assumes "host_inv w"
  shows "host_inv (w\<lparr>hw_heap := hw_heap w @ [\<lparr>c_strong = 1, c_obj = Session_Obj r []\<rparr>],
    hw_handles := length (hw_heap w) # hw_handles w\<rparr>)"
proof -
  have "counted (hw_heap w @ [\<lparr>c_strong = 1, c_obj = Session_Obj r []\<rparr>]) (length (hw_heap w) # hw_handles w)"
    using assms by (intro counted_new) (simp add: host_inv_def)
  moreover have "kinded (hw_heap w)" using assms by (simp add: host_inv_def)
  note new_kinded [OF this, of "Session_Obj r []"]
  ultimately show ?thesis
    using handles_kept [OF assms, of _ _ "length (hw_heap w)"] by (auto simp: arc_new_def)
qed

lemma register_function_kept:
  assumes "host_inv w" "upgrade (hw_heap w) s = Some (Session_Obj r ts)"
  shows "host_inv (w\<lparr>hw_heap := set_obj (hw_heap w) s (Session_Obj r' ts)\<rparr>)"
proof -
  have c: "counted (hw_heap w) (hw_handles w)" and k: "kinded (hw_heap w)" using assms(1) by (auto simp: host_inv_def)
  show ?thesis
    using upgrade_SomeD [OF assms(2)] upgrade_ok [OF k assms(2)]
    by (intro host_invI [OF assms(1)] counted_set_obj [OF c] set_obj_kinded [OF k]) auto
qed

lemma hold_kept:
  assumes "host_inv w" "upgrade (hw_heap w) t = Some (Hosted_Table tb)"
  shows "host_inv (w\<lparr>hw_heap := arc_clone (hw_heap w) t, hw_handles := t # hw_handles w\<rparr>)"
proof -
  note up = upgrade_SomeD [OF assms(2)]
  have "counted (arc_clone (hw_heap w) t) (t # hw_handles w)"
    and k: "kinded (arc_clone (hw_heap w) t) \<and> grows (hw_heap w) (arc_clone (hw_heap w) t)"
    using assms(1) up by (auto simp: host_inv_def intro: counted_clone dest: clone_kinded)
  moreover have "kind_at (arc_clone (hw_heap w) t) t = Some A_Table" using up k by (auto simp: grows_def)
  ultimately show ?thesis by (intro handles_kept [OF assms(1), of _ _ t]) auto
qed

lemma count_list_remove1:
  "a \<in> set xs \<Longrightarrow> count_list xs b = (if a = b then 1 else 0) + count_list (remove1 a xs) b"
  by (induction xs) auto

lemma let_go_kept:
  assumes "host_inv w" "a \<in> set (hw_handles w)"
  shows "host_inv (w\<lparr>hw_heap := release (hw_heap w) [a], hw_handles := remove1 a (hw_handles w)\<rparr>)"
proof -
  have "count_list ([a] @ remove1 a (hw_handles w)) b = count_list (hw_handles w) b" for b
    using count_list_remove1 [OF assms(2), of b] by (cases "a = b") simp_all
  then have "counted (hw_heap w) ([a] @ remove1 a (hw_handles w))"
    using assms(1) unfolding host_inv_def counted_def by metis
  note c = release_counted [OF this]
  have k: "kinded (release (hw_heap w) [a]) \<and> grows (hw_heap w) (release (hw_heap w) [a])"
    using assms(1) by (intro release_kinded) (simp add: host_inv_def)
  show ?thesis
    using assms k by (intro handles_kept [OF assms(1) c k, of a]) (auto simp: host_inv_def grows_def dest: notin_set_remove1)
qed

lemmas host_kept = new_session_kept register_function_kept import_kept hold_kept let_go_kept pushdown_kept call_ctx_kept

lemma host_step_inv:
  assumes inv: "host_inv w" and step: "host_step lib act w = Some (w', out)"
  shows "host_inv w'"
proof (cases act)
  case (Deregister s name)
  then obtain r ts where "upgrade (hw_heap w) s = Some (Session_Obj r ts)"
    and "w' = w\<lparr>hw_heap := release (set_obj (hw_heap w) s (Session_Obj r (filter (\<lambda>e. fst e \<noteq> name) ts)))
         (map snd (filter (\<lambda>e. fst e = name) ts))\<rparr>"
    using step by (auto dest!: on_session_SomeD)
  then show ?thesis
    using catalog_kept [OF inv, where new = "[]" and ts' = "[]" and h = "hw_heap w" and r = r and r' = r] inv
    unfolding host_inv_def [of w] by simp
next
  case (Hold t)
  then show ?thesis using step inv by (auto split: option.splits obj.splits intro: hold_kept)
next
  case (Let_Go a)
  then show ?thesis using step inv by (auto split: if_splits intro: let_go_kept simp del: release.simps)
qed (use step inv in \<open>auto simp: arc_new_def insert_as_scan hosted_scan_result simp del: release.simps
    dest!: on_session_SomeD on_table_SomeD intro: host_kept host_kept [unfolded arc_new_def snd_conv One_nat_def]\<close>)

definition host_moves :: "('r, 'x, 'c, 'o) library \<Rightarrow> ('r, 'x) host_world \<Rightarrow> ('r, 'x) host_world \<Rightarrow> bool" where
  "host_moves lib w w' \<longleftrightarrow> (\<exists>act out. host_step lib act w = Some (w', out))"

interpretation host: step_invariant "\<lambda>w. w = empty_world" "host_moves lib" host_inv
  for lib :: "('r, 'x, 'c, 'o) library"
proof unfold_locales
  show "host_inv w" if "w = empty_world" for w :: "('r, 'x) host_world"
    using that by (simp add: host_inv_def empty_world_def counted_def kinded_def strong_at_def held_def)
  show "host_inv w'" if "host_inv w" "host_moves lib w w'" for w w'
    using that by (auto simp: host_moves_def intro: host_step_inv)
qed

lemma host_run_moves: "host_run lib acts w = Some w' \<Longrightarrow> (host_moves lib)\<^sup>*\<^sup>* w w'"
proof (induction acts arbitrary: w)
  case (Cons a acts)
  then obtain w1 out where "host_step lib a w = Some (w1, out)" "host_run lib acts w1 = Some w'"
    by (auto split: option.splits)
  moreover from this have "host_moves lib w w1" by (auto simp: host_moves_def)
  ultimately show ?case using Cons.IH by (blast intro: converse_rtranclp_into_rtranclp)
qed simp

lemma host_reachable_inv: "host_reachable lib w \<Longrightarrow> host_inv w"
  unfolding host_reachable_def by (blast intro: host.reached_invar [OF refl host_run_moves])

lemma host_run_inv: "host_run lib acts w = Some w' \<Longrightarrow> host_inv w \<Longrightarrow> host_inv w'"
  by (rule host.steps_invar [OF host_run_moves])

section \<open>What the foreign side is served\<close>

lemma pushdown_result:
  assumes inv: "host_inv w" and t: "upgrade (hw_heap w) t = Some (Hosted_Table tb)"
    and f: "ho_inner tb = Foreign_Table ffi"
    and a: "upgrade (hw_heap w) (ho_task_ctx tb) = Some (Host_Task_Context s fb)"
  shows "hosted_supports_filters_pushdown lib (hw_heap w) tb c =
    (let (r, h') = host_task_ctx (hw_heap w) (ho_task_ctx tb) s fb
     in (call_foreign lib (fp_id ffi) (ho_extension_codec tb) (Inr r) c, h'))"
proof -
  have "cd_task_ctx (fp_codec ffi) = ho_task_ctx tb \<and> cd_codec (fp_codec ffi) = ho_extension_codec tb"
    using inv t f by (auto simp: host_inv_def dest: upgrade_ok)
  then show ?thesis
    using f a by (simp add: hosted_supports_filters_pushdown_def provider_call_def codec_task_ctx_def split: prod.split)
qed

definition obj_at :: "('r, 'x) arcs \<Rightarrow> addr \<Rightarrow> ('r, 'x) obj option" where
  "obj_at h a = (if a < length h then Some (c_obj (h ! a)) else None)"

lemma obj_at_objs: "obj_at h a = (if a < length (map c_obj h) then Some (map c_obj h ! a) else None)"
  by (simp add: obj_at_def)

lemma obj_at_release [simp]: "obj_at (release h as) a = obj_at h a"
  by (simp only: obj_at_objs release_objs)

lemma obj_at_clone [simp]: "obj_at (arc_clone h b) a = obj_at h a"
  by (cases "a = b") (auto simp: obj_at_def arc_clone_def)

lemma obj_at_new: "obj_at h a = Some ob \<Longrightarrow> obj_at (h @ cs) a = Some ob"
  by (auto simp: obj_at_def nth_append split: if_splits)

lemma obj_at_set [simp]: "obj_at (set_obj h b ob) a = (if a = b \<and> a < length h then Some ob else obj_at h a)"
  by (auto simp: obj_at_def set_obj_def nth_list_update)

lemma upgrade_obj: "upgrade h a = Some ob \<longleftrightarrow> 0 < strong_at h a \<and> obj_at h a = Some ob"
  by (auto simp: upgrade_def obj_at_def strong_at_def)

primrec is_pushdown :: "('r, 'x, 'c) host_act \<Rightarrow> bool" where
  "is_pushdown (New_Session r) \<longleftrightarrow> False"
| "is_pushdown (Register_Function s r) \<longleftrightarrow> False"
| "is_pushdown (Import s n f rt) \<longleftrightarrow> False"
| "is_pushdown (Deregister s n) \<longleftrightarrow> False"
| "is_pushdown (Hold t) \<longleftrightarrow> False"
| "is_pushdown (Let_Go t) \<longleftrightarrow> False"
| "is_pushdown (Pushdown t c) \<longleftrightarrow> True"
| "is_pushdown (Scan t r c) \<longleftrightarrow> False"
| "is_pushdown (Insert t r c) \<longleftrightarrow> False"

text \<open>Only a pushdown check writes a task context; tables are never written.\<close>

lemma obj_kept:
  assumes "host_step lib act w = Some (w', out)" "\<not> is_pushdown act"
    and "obj_at (hw_heap w) a = Some ob" "kind_of ob \<noteq> A_Session"
  shows "obj_at (hw_heap w') a = Some ob"
proof -
  have ne: "a \<noteq> s" if "upgrade (hw_heap w) s = Some (Session_Obj r ts)" for s r ts
    using that assms(3,4) by (auto simp: upgrade_obj)
  show ?thesis
    using assms ne by (cases act)
      (auto simp: arc_new_def import_table_def HostedFfiTableProvider_new_def insert_as_scan hosted_scan_result Let_def
        simp del: release.simps dest!: on_session_SomeD on_table_SomeD intro!: obj_at_new split: option.splits obj.splits if_splits)
qed

lemma obj_kept_run:
  assumes "host_run lib acts w = Some w'" "\<forall>act \<in> set acts. \<not> is_pushdown act"
    and "obj_at (hw_heap w) a = Some ob" "kind_of ob \<noteq> A_Session"
  shows "obj_at (hw_heap w') a = Some ob"
  using assms
  by (induction acts arbitrary: w) (auto split: option.splits dest: obj_kept)

lemma owner_live:
  assumes "held h a \<noteq> 0"
  shows "\<exists>b ob. upgrade h b = Some ob \<and> a \<in> set (strong_refs ob)"
proof -
  from assms obtain c where "c \<in> set h" "count_list (owned c) a \<noteq> 0"
    by (auto simp: held_def sum_list_eq_0_iff)
  then obtain b where "b < length h" "a \<in> set (owned (h ! b))"
    by (auto simp: in_set_conv_nth count_list_0_iff)
  then show ?thesis by (auto simp: owned_def upgrade_def strong_at_def split: if_splits intro!: exI [of _ b])
qed

lemma owner_kind:
  assumes "kinded h" "held h a \<noteq> 0"
  shows "\<exists>b. 0 < strong_at h b \<and> (kind_at h a = Some A_Table \<and> kind_at h b = Some A_Session
      \<or> kind_at h a = Some A_Host_Context \<and> kind_at h b = Some A_Table)"
proof -
  obtain b ob where b: "upgrade h b = Some ob" "a \<in> set (strong_refs ob)" using owner_live [OF assms(2)] by blast
  with upgrade_ok [OF assms(1) b(1)] upgrade_SomeD [OF b(1)] show ?thesis by (cases ob) auto
qed

section \<open>Properties\<close>

text \<open>
  C18: In every reachable process, as long as an imported table is alive, whoever holds it, the codec
  its foreign side decodes filters with is usable: a pushdown check is served the task context of the
  session it was imported into while that session is alive, and the remembered one afterwards; a scan
  and an insert are served the task context of the session that plans them. No call ever sees
  ``went out of scope''.
\<close>

theorem foreign_codec_in_scope:
  assumes "host_reachable lib w" "upgrade (hw_heap w) t = Some (Hosted_Table tb)"
    and "ho_inner tb = Foreign_Table ffi"
  shows "\<exists>s fb. upgrade (hw_heap w) (ho_task_ctx tb) = Some (Host_Task_Context s fb)
    \<and> fst (hosted_supports_filters_pushdown lib (hw_heap w) tb c) =
        call_foreign lib (fp_id ffi) (ho_extension_codec tb)
          (Inr (case upgrade (hw_heap w) s of Some (Session_Obj r' _) \<Rightarrow> r' | _ \<Rightarrow> fb)) c
    \<and> fst (hosted_scan lib (hw_heap w) tb r c) = call_foreign lib (fp_id ffi) (ho_extension_codec tb) (Inr r) c
    \<and> fst (hosted_insert_into lib (hw_heap w) tb r c) = call_foreign lib (fp_id ffi) (ho_extension_codec tb) (Inr r) c"
proof -
  note inv = host_reachable_inv [OF assms(1)]
  obtain s fb where up: "upgrade (hw_heap w) (ho_task_ctx tb) = Some (Host_Task_Context s fb)"
    using table_ctx [OF inv assms(2)] by blast
  have "fst (host_task_ctx (hw_heap w) (ho_task_ctx tb) s fb) =
      (case upgrade (hw_heap w) s of Some (Session_Obj r' _) \<Rightarrow> r' | _ \<Rightarrow> fb)"
    by (simp add: host_task_ctx_def split: option.split obj.split)
  then show ?thesis
    using up assms(3) pushdown_result [OF inv assms(2,3) up, of lib c]
    by (auto simp: insert_as_scan hosted_scan_result split: prod.splits)
qed

text \<open>
  C19: Importing a table does not keep the session alive, and nothing leaks: the strong count of a
  session is the number of Python objects that hold it, whatever tables were imported into it; and
  when Python holds nothing any more, every session, table and task context has been dropped.
\<close>

theorem imported_tables_retain_no_session:
  assumes "host_reachable lib w"
  shows "(kind_at (hw_heap w) s = Some A_Session \<longrightarrow> strong_at (hw_heap w) s = count_list (hw_handles w) s)
    \<and> (hw_handles w = [] \<longrightarrow> (\<forall>a. strong_at (hw_heap w) a = 0))"
proof -
  let ?h = "hw_heap w"
  have c: "strong_at ?h a = count_list (hw_handles w) a + held ?h a" and k: "kinded ?h" for a
    using host_reachable_inv [OF assms] by (simp_all add: host_inv_def counted_def)
  have session: "held ?h a = 0" if "kind_at ?h a = Some A_Session" for a
    using owner_kind [OF k, of a] that by auto
  have "strong_at ?h a = 0" if none: "hw_handles w = []" for a
  proof -
    have held: "strong_at ?h b = held ?h b" for b using c [of b] none by simp
    have dead: "strong_at ?h b = 0" if "kind_at ?h b = Some A_Session" for b using held session that by simp
    have gone: "strong_at ?h b = 0" if "kind_at ?h b = Some A_Table" for b
      using held [of b] owner_kind [OF k, of b] that dead by (cases "held ?h b = 0") auto
    show ?thesis using held [of a] owner_kind [OF k, of a] dead gone by (cases "held ?h a = 0") auto
  qed
  then show ?thesis using session c [of s] by simp
qed

text \<open>
  Once the session a table was imported into is gone, a pushdown check on the table is served the
  task context of the last check made while the session was alive: whatever happened in between
  (scans, inserts, functions registered, tables replaced, handles dropped) does not change it.
\<close>

theorem pushdown_after_session_gone:
  assumes "host_reachable lib w" "upgrade (hw_heap w) t = Some (Hosted_Table tb)" "ho_inner tb = Foreign_Table ffi"
    and "upgrade (hw_heap w) (ho_task_ctx tb) = Some (Host_Task_Context s fb)"
    and "upgrade (hw_heap w) s = Some (Session_Obj r ts)"
    and "host_step lib (Pushdown t c) w = Some (w1, out)"
    and "host_run lib acts w1 = Some w2" "\<forall>act \<in> set acts. \<not> is_pushdown act"
    and "upgrade (hw_heap w2) t \<noteq> None" "upgrade (hw_heap w2) s = None"
  shows "out = Some (call_foreign lib (fp_id ffi) (ho_extension_codec tb) (Inr r) c)
    \<and> map_option snd (host_step lib (Pushdown t c') w2)
        = Some (Some (call_foreign lib (fp_id ffi) (ho_extension_codec tb) (Inr r) c'))"
proof -
  let ?a = "ho_task_ctx tb"
  note inv = host_reachable_inv [OF assms(1)]
  have push: "hosted_supports_filters_pushdown lib (hw_heap w) tb c =
      (call_foreign lib (fp_id ffi) (ho_extension_codec tb) (Inr r) c, remember (hw_heap w) ?a s r)"
    using pushdown_result [OF inv assms(2-4)] assms(5) by (simp add: host_task_ctx_def)
  then have out: "out = Some (call_foreign lib (fp_id ffi) (ho_extension_codec tb) (Inr r) c)"
    and w1: "hw_heap w1 = remember (hw_heap w) ?a s r"
    using assms(2,6) by (auto simp: on_table_def)
  have "obj_at (hw_heap w1) ?a = Some (Host_Task_Context s r)"
    and "obj_at (hw_heap w1) t = Some (Hosted_Table tb)"
    using assms(2,4) conjunct1 [OF upgrade_SomeD [OF assms(4)]] by (auto simp: w1 remember_def upgrade_obj)
  then have objs: "obj_at (hw_heap w2) ?a = Some (Host_Task_Context s r)" "obj_at (hw_heap w2) t = Some (Hosted_Table tb)"
    using assms(7,8) by (simp_all add: obj_kept_run)
  have inv2: "host_inv w2" using host_run_inv assms(7) host_step_inv [OF inv assms(6)] by blast
  have t2: "upgrade (hw_heap w2) t = Some (Hosted_Table tb)"
    using assms(9) objs(2) by (auto simp: upgrade_def obj_at_def split: if_splits)
  have a2: "upgrade (hw_heap w2) ?a = Some (Host_Task_Context s r)"
    using table_ctx [OF inv2 t2] objs(1) by (auto simp: upgrade_obj)
  show ?thesis
    using out t2 pushdown_result [OF inv2 t2 assms(3) a2, of lib c'] assms(10)
    by (simp add: on_table_def host_task_ctx_def)
qed

text \<open>
  A run: a session, a table imported into it, a DataFrame over the table, a function registered
  afterwards; then the session object is dropped while the DataFrame is kept.
\<close>

definition echo_library :: "(nat, unit, unit, ffi_error + nat) library" where
  "echo_library = \<lparr>call_local = (\<lambda>_ _. Inl Went_Out_Of_Scope), call_foreign = (\<lambda>_ _ ctx _. ctx)\<rparr>"

definition demo_ffi :: "unit ffi_provider" where
  "demo_ffi = \<lparr>fp_id = 0, fp_local = False, fp_codec = codec_for () 0 None\<rparr>"

definition demo_acts :: "(nat, unit, unit) host_act list" where
  "demo_acts = [New_Session 5, Import 0 ''t'' demo_ffi None, Hold 2, Register_Function 0 7]"

definition demo_host :: "(nat, unit) host_world" where
  "demo_host = the (host_run echo_library demo_acts empty_world)"

definition demo_table :: "unit hosted" where
  "demo_table = \<lparr>ho_inner = Foreign_Table (demo_ffi\<lparr>fp_codec := codec_for () 1 None\<rparr>),
     ho_extension_codec = (), ho_task_ctx = 1, ho_runtime = None\<rparr>"

lemma demo_host_reachable: "host_reachable echo_library demo_host"
proof -
  have "host_run echo_library demo_acts empty_world \<noteq> None" by code_simp
  then show ?thesis by (auto simp: host_reachable_def demo_host_def)
qed

lemma demo_host_heap:
  "hw_heap demo_host = [\<lparr>c_strong = 1, c_obj = Session_Obj 7 [(''t'', 2)]\<rparr>,
     \<lparr>c_strong = 1, c_obj = Host_Task_Context 0 5\<rparr>, \<lparr>c_strong = 2, c_obj = Hosted_Table demo_table\<rparr>]"
  by code_simp

lemma demo_host_up:
  "upgrade (hw_heap demo_host) 0 = Some (Session_Obj 7 [(''t'', 2)])"
  "upgrade (hw_heap demo_host) 1 = Some (Host_Task_Context 0 5)"
  "upgrade (hw_heap demo_host) 2 = Some (Hosted_Table demo_table)"
  by (simp_all add: upgrade_def strong_at_def demo_host_heap)

theorem foreign_codec_in_scope_witness:
  "fst (hosted_supports_filters_pushdown echo_library (hw_heap demo_host) demo_table ()) = Inr 7
   \<and> fst (hosted_scan echo_library (hw_heap demo_host) demo_table 9 ()) = Inr 9"
  using foreign_codec_in_scope [OF demo_host_reachable demo_host_up(3), of "demo_ffi\<lparr>fp_codec := codec_for () 1 None\<rparr>" "()" 9]
    demo_host_up(1,2)
  by (auto simp: demo_table_def echo_library_def)

theorem imported_tables_retain_no_session_witness:
  "strong_at (hw_heap demo_host) 0 = count_list (hw_handles demo_host) 0"
  using imported_tables_retain_no_session [OF demo_host_reachable, of 0]
  by (simp add: demo_host_heap kind_at_def)

definition demo_pushed :: "(nat, unit) host_world" where
  "demo_pushed = fst (the (host_step echo_library (Pushdown 2 ()) demo_host))"

definition demo_orphan :: "(nat, unit) host_world" where
  "demo_orphan = the (host_run echo_library [Register_Function 0 8, Let_Go 0] demo_pushed)"

lemma demo_orphan_runs:
  "host_step echo_library (Pushdown 2 ()) demo_host = Some (demo_pushed, Some (Inr 7))"
  "host_run echo_library [Register_Function 0 8, Let_Go 0] demo_pushed = Some demo_orphan"
  "upgrade (hw_heap demo_orphan) 2 \<noteq> None" "upgrade (hw_heap demo_orphan) 0 = None"
  by code_simp+

theorem pushdown_after_session_gone_witness:
  "map_option snd (host_step echo_library (Pushdown 2 ()) demo_orphan) = Some (Some (Inr 7))"
proof -
  have "ho_inner demo_table = Foreign_Table (demo_ffi\<lparr>fp_codec := codec_for () 1 None\<rparr>)"
    and "upgrade (hw_heap demo_host) (ho_task_ctx demo_table) = Some (Host_Task_Context 0 5)"
    using demo_host_up(2) by (simp_all add: demo_table_def)
  from pushdown_after_session_gone [OF demo_host_reachable demo_host_up(3) this demo_host_up(1) demo_orphan_runs(1,2) _ demo_orphan_runs(3,4)]
  show ?thesis by (simp add: echo_library_def demo_table_def)
qed

end
