(* ===== verification/Ffi_Session.thy ===== *)
theory Ffi_Session
  imports Session_Context Ffi_Host
begin

text \<open>
  The session's side of the FFI (\<open>src/context.rs\<close>) on the heap of \<open>Ffi_Host\<close>: the codec a session exports
  to foreign providers, the import of a provider into a hosted table, and what a hosted table answers
  without its codec (\<open>src/ffi_table_provider.rs\<close>).
\<close>

section \<open>The exported codec\<close>

text \<open>\<open>default_codec\<close> is DataFusion's \<open>DefaultLogicalExtensionCodec\<close>, \<open>new_capsule\<close> Python's constructor of capsules.\<close>

definition ffi_logical_extension_codec :: "'x \<Rightarrow> nat option \<Rightarrow> addr \<Rightarrow> py_err + 'x codec" where
  "ffi_logical_extension_codec default_codec runtime ctx =
     map_ok (\<lambda>h. codec_for default_codec ctx (Some h)) (runtime_handle runtime)"

definition datafusion_logical_extension_codec ::
  "'x \<Rightarrow> (string \<Rightarrow> 'x codec \<Rightarrow> py_err + 'x codec capsule) \<Rightarrow> nat option \<Rightarrow> addr \<Rightarrow> py_err + 'x codec capsule" where
  "datafusion_logical_extension_codec default_codec new_capsule runtime ctx =
     and_then (ffi_logical_extension_codec default_codec runtime ctx)
       (\<lambda>cd. new_capsule ''datafusion_logical_extension_codec'' cd)"

section \<open>Import\<close>

text \<open>
  \<open>import_ffi_table_provider\<close> of the session at address \<open>ctx\<close>, with the table it makes: the checks come
  first, and only a provider that passes them allocates anything.
\<close>

definition import_hosted ::
  "(py_err \<Rightarrow> string) \<Rightarrow> nat option \<Rightarrow> raised_exc + 'x ffi_provider capsule \<Rightarrow> nat \<Rightarrow> ('x ffi_provider \<Rightarrow> nat) \<Rightarrow>
   addr \<Rightarrow> 'r \<Rightarrow> ('r, 'x) arcs \<Rightarrow> (py_err + 'x hosted) \<times> ('r, 'x) arcs" where
  "import_hosted tx runtime call ours version ctx r h =
     (case import_ffi_table_provider tx runtime call ours version
             (\<lambda>ffi handle. HostedFfiTableProvider_new h ffi ctx r (Some handle)) of
        Inl e \<Rightarrow> (Inl e, h)
      | Inr (t, h') \<Rightarrow> (Inr t, h'))"

text \<open>What the wrapped provider answers itself.\<close>

record ('s, 'st) provider_facts =
  pf_schema :: 's
  pf_table_type :: nat
  pf_statistics :: "'st option"

definition hosted_schema :: "('x inner \<Rightarrow> ('s, 'st) provider_facts) \<Rightarrow> 'x hosted \<Rightarrow> 's" where
  "hosted_schema facts t = pf_schema (facts (ho_inner t))"

definition hosted_table_type :: "('x inner \<Rightarrow> ('s, 'st) provider_facts) \<Rightarrow> 'x hosted \<Rightarrow> nat" where
  "hosted_table_type facts t = pf_table_type (facts (ho_inner t))"

definition hosted_statistics :: "('x inner \<Rightarrow> ('s, 'st) provider_facts) \<Rightarrow> 'x hosted \<Rightarrow> 'st option" where
  "hosted_statistics facts t = pf_statistics (facts (ho_inner t))"

section \<open>Lemmas\<close>

lemma exported_codec_is:
  "ffi_logical_extension_codec d runtime ctx = Inr cd \<Longrightarrow> cd_task_ctx cd = ctx \<and> cd_codec cd = d \<and> cd_runtime cd = runtime"
  by (auto simp: ffi_logical_extension_codec_def map_ok_Inr_iff runtime_handle_def ok_or_Inr_iff codec_for_def)

text \<open>A refused provider allocates nothing; an accepted one gets a task context of its own.\<close>

lemma import_made:
  "import_ffi_table_provider tx runtime call ours version mk_host = Inr x \<Longrightarrow> \<exists>ffi handle. runtime = Some handle \<and> x = mk_host ffi handle"
  by (cases runtime; cases "map_err (provider_call_error tx) call")
    (auto simp: import_ffi_table_provider_def runtime_handle_def split: capsule.splits if_splits)

lemma hosted_new_fresh:
  "HostedFfiTableProvider_new h ffi ctx r runtime = (t, h') \<Longrightarrow>
     h' = h @ [\<lparr>c_strong = 1, c_obj = Host_Task_Context ctx r\<rparr>] \<and> ho_task_ctx t = length h \<and> ho_runtime t = runtime"
  by (auto simp: HostedFfiTableProvider_new_def arc_new_def Let_def)

lemma import_hosted_refused: "import_hosted tx runtime call ours version ctx r h = (Inl e, h') \<Longrightarrow> h' = h"
  by (simp add: import_hosted_def split: sum.splits prod.splits)

lemma import_hosted_made:
  assumes "import_hosted tx runtime call ours version ctx r h = (Inr t, h')"
  shows "h' = h @ [\<lparr>c_strong = 1, c_obj = Host_Task_Context ctx r\<rparr>] \<and> ho_task_ctx t = length h
     \<and> ho_runtime t = runtime \<and> runtime \<noteq> None"
proof -
  have "import_ffi_table_provider tx runtime call ours version
      (\<lambda>ffi handle. HostedFfiTableProvider_new h ffi ctx r (Some handle)) = Inr (t, h')"
    using assms by (simp add: import_hosted_def split: sum.splits prod.splits)
  from import_made [OF this] obtain ffi handle where "runtime = Some handle"
    and "HostedFfiTableProvider_new h ffi ctx r (Some handle) = (t, h')" by auto
  with hosted_new_fresh [of h ffi ctx r "Some handle" t h'] show ?thesis by simp
qed

text \<open>
  C20: The codec a session exports works as long as its session is alive, with the functions the session has at the call; it
  keeps no session alive, so after the last Python object is gone it answers with an error.
\<close>

theorem exported_codec_lives_as_session:
  assumes "host_reachable lib w" "ffi_logical_extension_codec d runtime s = Inr cd"
    and "kind_at (hw_heap w) s = Some A_Session"
  shows "if s \<in> set (hw_handles w)
    then \<exists>r ts. upgrade (hw_heap w) s = Some (Session_Obj r ts) \<and> codec_task_ctx (hw_heap w) cd = (Inr r, hw_heap w)
    else codec_task_ctx (hw_heap w) cd = (Inl Went_Out_Of_Scope, hw_heap w)"
proof -
  note inv = host_reachable_inv [OF assms(1)]
  have strong: "strong_at (hw_heap w) s = count_list (hw_handles w) s"
  proof -
    have "counted (hw_heap w) (hw_handles w)" "kinded (hw_heap w)" using inv by (simp_all add: host_inv_def)
    moreover have "held (hw_heap w) s = 0" using owner_kind [OF \<open>kinded (hw_heap w)\<close>, of s] assms(3) by auto
    ultimately show ?thesis by (simp add: counted_def)
  qed
  show ?thesis
  proof (cases "s \<in> set (hw_handles w)")
    case True
    then have "0 < strong_at (hw_heap w) s" using strong by (simp add: count_list_0_iff neq0_conv [symmetric])
    from upgrade_live [OF this assms(3)] obtain r ts where "upgrade (hw_heap w) s = Some (Session_Obj r ts)"
      by (auto simp: kind_of_simps)
    then show ?thesis using True exported_codec_is [OF assms(2)] by (simp add: codec_task_ctx_def)
  next
    case False
    then have "upgrade (hw_heap w) s = None" using strong by (simp add: upgrade_def count_list_0_iff)
    then show ?thesis using False exported_codec_is [OF assms(2)] by (simp add: codec_task_ctx_def)
  qed
qed

lemma demo_orphan_reachable: "host_reachable echo_library demo_orphan"
proof -
  have "host_run echo_library (demo_acts @ [Pushdown 2 (), Register_Function 0 8, Let_Go 0]) empty_world = Some demo_orphan"
    by code_simp
  then show ?thesis unfolding host_reachable_def by blast
qed

theorem exported_codec_lives_as_session_witness:
  "codec_task_ctx (hw_heap demo_host) (codec_for () 0 (Some 3)) = (Inr 7, hw_heap demo_host)
   \<and> codec_task_ctx (hw_heap demo_orphan) (codec_for () 0 (Some 3)) = (Inl Went_Out_Of_Scope, hw_heap demo_orphan)"
proof -
  have cd: "ffi_logical_extension_codec () (Some 3) 0 = Inr (codec_for () 0 (Some 3))"
    by (simp add: ffi_logical_extension_codec_def runtime_handle_def)
  have "kind_at (hw_heap demo_host) 0 = Some A_Session" "0 \<in> set (hw_handles demo_host)"
    "kind_at (hw_heap demo_orphan) 0 = Some A_Session" "0 \<notin> set (hw_handles demo_orphan)"
    by code_simp+
  with exported_codec_lives_as_session [OF demo_host_reachable cd] exported_codec_lives_as_session [OF demo_orphan_reachable cd]
  show ?thesis using demo_host_up(1) by simp
qed

end
