(* ===== verification/Udfs.thy ===== *)
theory Udfs
  imports Data_Types
begin

text \<open>
  User-defined functions written in Python: \<open>src/udf.rs\<close>, \<open>src/udaf.rs\<close>, \<open>src/udwf.rs\<close> and
  \<open>make_scalar_function\<close>, \<open>parse_volatility\<close> of \<open>src/utils.rs\<close>.

  A Python object is its state \<open>'p\<close>; calling a method gives a value \<open>'o\<close> or an exception and a new state.
  \<open>'a\<close> are Python arguments, \<open>'v\<close> scalar values; an Arrow array is the list of its values. The
  conversions of pyo3 and pyarrow are the functions of \<open>py_side\<close>, those of the arrow and datafusion
  crates the functions of \<open>arrow_side\<close>.
\<close>

section \<open>Calling Python\<close>

record ('p, 'a, 'o, 'v) py_side =
  call_method :: "string \<Rightarrow> 'a list \<Rightarrow> 'p \<Rightarrow> (py_err + 'o) \<times> 'p"
  to_pyarrow :: "'v list \<Rightarrow> py_err + 'a"
  from_pyarrow :: "'o \<Rightarrow> py_err + 'v list"
  extract_scalar_value :: "'o \<Rightarrow> py_err + 'v"
  extract_scalar_values :: "'o \<Rightarrow> py_err + 'v list"
  extract_bool :: "'o \<Rightarrow> py_err + bool"
  extract_tuple :: "'o \<Rightarrow> py_err + 'o list"
  extract_usize :: "'o \<Rightarrow> py_err + nat"
  py_int :: "nat \<Rightarrow> 'a"
  py_list :: "'a list \<Rightarrow> 'a"
  py_tuple :: "'a list \<Rightarrow> 'a"

datatype udf_fault = Udf_Err inner_error | Udf_Panic

definition external_err :: "py_err + 'b \<Rightarrow> udf_fault + 'b" where
  "external_err r = map_err (\<lambda>e. Udf_Err (to_external_err e)) r"

definition unwrapped :: "py_err + 'b \<Rightarrow> udf_fault + 'b" where
  "unwrapped r = map_err (\<lambda>_. Udf_Panic) r"

text \<open>\<open>values.iter().map(|arg| arg.into_data().to_pyarrow(py).unwrap())\<close>\<close>

definition py_arrays :: "('p, 'a, 'o, 'v) py_side \<Rightarrow> 'v list list \<Rightarrow> udf_fault + 'a list" where
  "py_arrays ps values = collect_ok (map (\<lambda>v. unwrapped (to_pyarrow ps v)) values)"

definition py_call ::
  "('p, 'a, 'o, 'v) py_side \<Rightarrow> string \<Rightarrow> udf_fault + 'a list \<Rightarrow> ('o \<Rightarrow> udf_fault + 'b) \<Rightarrow> 'p \<Rightarrow> (udf_fault + 'b) \<times> 'p" where
  "py_call ps name args k p =
     (case args of
        Inl f \<Rightarrow> (Inl f, p)
      | Inr as \<Rightarrow> (let (r, p') = call_method ps name as p in (and_then (external_err r) k, p')))"

text \<open>A flag asked of Python: any exception and any value that is not a bool count as \<open>false\<close>.\<close>

definition py_flag :: "('p, 'a, 'o, 'v) py_side \<Rightarrow> string \<Rightarrow> 'p \<Rightarrow> bool \<times> 'p" where
  "py_flag ps name p =
     (let (r, p') = call_method ps name [] p
      in (case and_then r (extract_bool ps) of Inl _ \<Rightarrow> False | Inr b \<Rightarrow> b, p'))"

lemma py_arrays_ok: "collect_ok (map (to_pyarrow ps) values) = Inr args \<Longrightarrow> py_arrays ps values = Inr args"
  by (auto simp: py_arrays_def collect_ok_map_Inr_iff unwrapped_def map_err_Inr_iff)

section \<open>Scalar functions\<close>

datatype 'v columnar_value = CV_Scalar 'v | CV_Array "'v list"

record 'v arrow_side =
  array_of_size :: "'v \<Rightarrow> nat \<Rightarrow> inner_error + 'v list"
  value_at :: "'v list \<Rightarrow> nat \<Rightarrow> inner_error + 'v"

definition into_array :: "'v arrow_side \<Rightarrow> nat \<Rightarrow> 'v columnar_value \<Rightarrow> udf_fault + 'v list" where
  "into_array ar n arg =
     (case arg of CV_Array a \<Rightarrow> Inr a | CV_Scalar v \<Rightarrow> map_err Udf_Err (array_of_size ar v n))"

definition array_len :: "'v columnar_value list \<Rightarrow> nat option" where
  "array_len args = fold (\<lambda>arg acc. case arg of CV_Scalar _ \<Rightarrow> acc | CV_Array a \<Rightarrow> Some (length a)) args None"

definition make_scalar_function ::
  "'v arrow_side \<Rightarrow> ('v list list \<Rightarrow> udf_fault + 'v list) \<Rightarrow> 'v columnar_value list \<Rightarrow> udf_fault + 'v columnar_value" where
  "make_scalar_function ar inner args =
     (let len = array_len args;
          is_scalar = (len = None);
          inferred_length = (case len of None \<Rightarrow> 1 | Some n \<Rightarrow> n)
      in and_then (collect_ok (map (into_array ar inferred_length) args)) (\<lambda>arrays.
           let result = inner arrays in
           if is_scalar
           then map_ok CV_Scalar (and_then result (\<lambda>arr. map_err Udf_Err (value_at ar arr 0)))
           else map_ok CV_Array result))"

definition to_rust_function ::
  "('p, 'a, 'o, 'v) py_side \<Rightarrow> 'v arrow_side \<Rightarrow> ('a list \<Rightarrow> py_err + 'o) \<Rightarrow> 'v columnar_value list \<Rightarrow> udf_fault + 'v columnar_value" where
  "to_rust_function ps ar func =
     make_scalar_function ar (\<lambda>args.
       and_then (py_arrays ps args) (\<lambda>py_args.
       and_then (external_err (func py_args)) (\<lambda>value. unwrapped (from_pyarrow ps value))))"

section \<open>Accumulators\<close>

definition update_batch :: "('p, 'a, 'o, 'v) py_side \<Rightarrow> 'v list list \<Rightarrow> 'p \<Rightarrow> (udf_fault + unit) \<times> 'p" where
  "update_batch ps values = py_call ps ''update'' (py_arrays ps values) (\<lambda>_. Inr ())"

definition accumulator_evaluate :: "('p, 'a, 'o, 'v) py_side \<Rightarrow> 'p \<Rightarrow> (udf_fault + 'v) \<times> 'p" where
  "accumulator_evaluate ps = py_call ps ''evaluate'' (Inr []) (\<lambda>v. external_err (extract_scalar_value ps v))"

definition accumulator_state :: "('p, 'a, 'o, 'v) py_side \<Rightarrow> 'p \<Rightarrow> (udf_fault + 'v list) \<times> 'p" where
  "accumulator_state ps = py_call ps ''state'' (Inr []) (\<lambda>v. external_err (extract_scalar_values ps v))"

definition merge_batch :: "('p, 'a, 'o, 'v) py_side \<Rightarrow> 'v list list \<Rightarrow> 'p \<Rightarrow> (udf_fault + unit) \<times> 'p" where
  "merge_batch ps states =
     (case states of
        [] \<Rightarrow> (\<lambda>p. (Inl Udf_Panic, p))
      | state # _ \<Rightarrow> py_call ps ''merge'' (map_ok (\<lambda>a. [a]) (external_err (to_pyarrow ps state))) (\<lambda>_. Inr ()))"

lemma merge_uses_first_state: "merge_batch ps (state # others) = merge_batch ps [state]"
  by (simp add: merge_batch_def)

definition retract_batch :: "('p, 'a, 'o, 'v) py_side \<Rightarrow> 'v list list \<Rightarrow> 'p \<Rightarrow> (udf_fault + unit) \<times> 'p" where
  "retract_batch ps values = py_call ps ''retract_batch'' (py_arrays ps values) (\<lambda>_. Inr ())"

definition supports_retract_batch :: "('p, 'a, 'o, 'v) py_side \<Rightarrow> 'p \<Rightarrow> bool \<times> 'p" where
  "supports_retract_batch ps = py_flag ps ''supports_retract_batch''"

text \<open>
  \<open>to_rust_accumulator\<close>: what Python registered is a class; calling it makes a new object (\<open>init\<close> is
  the state of one, or the exception of the constructor). The Python objects alive are a list.
\<close>

definition to_rust_accumulator :: "py_err + 'p \<Rightarrow> 'p list \<Rightarrow> (udf_fault + nat) \<times> 'p list" where
  "to_rust_accumulator init objs =
     (case external_err init of Inl f \<Rightarrow> (Inl f, objs) | Inr p \<Rightarrow> (Inr (length objs), objs @ [p]))"

datatype 'v acc_op = Update "'v list list" | Merge "'v list list" | Retract "'v list list" | Evaluate | State | Supports_Retract

datatype 'v acc_reply =
    Unit_Reply "udf_fault + unit" | Value_Reply "udf_fault + 'v" | Values_Reply "udf_fault + 'v list" | Flag_Reply bool

fun accumulator_call :: "('p, 'a, 'o, 'v) py_side \<Rightarrow> 'v acc_op \<Rightarrow> 'p \<Rightarrow> 'v acc_reply \<times> 'p" where
  "accumulator_call ps (Update values) p = map_prod Unit_Reply id (update_batch ps values p)"
| "accumulator_call ps (Merge states) p = map_prod Unit_Reply id (merge_batch ps states p)"
| "accumulator_call ps (Retract values) p = map_prod Unit_Reply id (retract_batch ps values p)"
| "accumulator_call ps Evaluate p = map_prod Value_Reply id (accumulator_evaluate ps p)"
| "accumulator_call ps State p = map_prod Values_Reply id (accumulator_state ps p)"
| "accumulator_call ps Supports_Retract p = map_prod Flag_Reply id (supports_retract_batch ps p)"

section \<open>Partition evaluators\<close>

definition memoize :: "('p, 'a, 'o, 'v) py_side \<Rightarrow> 'p \<Rightarrow> (udf_fault + unit) \<times> 'p" where
  "memoize ps = py_call ps ''memoize'' (Inr []) (\<lambda>_. Inr ())"

definition range_of_tuple :: "('p, 'a, 'o, 'v) py_side \<Rightarrow> 'o \<Rightarrow> py_err + nat \<times> nat" where
  "range_of_tuple ps v =
     and_then (extract_tuple ps v) (\<lambda>t.
       if length t \<noteq> 2
       then Inl (new_err PyValueError
         (''Expected get_range to return tuple of length 2. Received length '' @ show_nat (length t)))
       else and_then (extract_usize ps (t ! 0)) (\<lambda>start.
            and_then (extract_usize ps (t ! 1)) (\<lambda>end'. Inr (start, end'))))"

definition get_range :: "('p, 'a, 'o, 'v) py_side \<Rightarrow> nat \<Rightarrow> nat \<Rightarrow> 'p \<Rightarrow> (udf_fault + nat \<times> nat) \<times> 'p" where
  "get_range ps idx n_rows =
     py_call ps ''get_range'' (Inr [py_int ps idx, py_int ps n_rows]) (\<lambda>v. external_err (range_of_tuple ps v))"

definition evaluate_all :: "('p, 'a, 'o, 'v) py_side \<Rightarrow> 'v list list \<Rightarrow> nat \<Rightarrow> 'p \<Rightarrow> (udf_fault + 'v list) \<times> 'p" where
  "evaluate_all ps values num_rows =
     py_call ps ''evaluate_all''
       (map_ok (\<lambda>py_values. [py_list ps py_values, py_int ps num_rows]) (py_arrays ps values))
       (\<lambda>v. unwrapped (from_pyarrow ps v))"

definition py_range :: "('p, 'a, 'o, 'v) py_side \<Rightarrow> nat \<times> nat \<Rightarrow> 'a" where
  "py_range ps r = py_tuple ps [py_int ps (fst r), py_int ps (snd r)]"

definition evaluator_evaluate ::
  "('p, 'a, 'o, 'v) py_side \<Rightarrow> 'v list list \<Rightarrow> nat \<times> nat \<Rightarrow> 'p \<Rightarrow> (udf_fault + 'v) \<times> 'p" where
  "evaluator_evaluate ps values rng =
     py_call ps ''evaluate''
       (map_ok (\<lambda>py_values. [py_list ps py_values, py_range ps rng]) (py_arrays ps values))
       (\<lambda>v. external_err (extract_scalar_value ps v))"

definition evaluate_all_with_rank ::
  "('p, 'a, 'o, 'v) py_side \<Rightarrow> nat \<Rightarrow> (nat \<times> nat) list \<Rightarrow> 'p \<Rightarrow> (udf_fault + 'v list) \<times> 'p" where
  "evaluate_all_with_rank ps num_rows ranks =
     py_call ps ''evaluate_all_with_rank''
       (Inr [py_int ps num_rows, py_list ps (map (py_range ps) ranks)])
       (\<lambda>v. unwrapped (from_pyarrow ps v))"

text \<open>\<open>to_rust_partition_evaluator\<close>: every evaluator is one more reference to the object registered.\<close>

definition to_rust_partition_evaluator :: "nat \<Rightarrow> 'p list \<Rightarrow> (udf_fault + nat) \<times> 'p list" where
  "to_rust_partition_evaluator evaluator objs = (Inr evaluator, objs)"

datatype 'v win_op =
    Memoize | Get_Range nat nat | Evaluate_All "'v list list" nat | Evaluate_Range "'v list list" "nat \<times> nat"
  | Evaluate_All_With_Rank nat "(nat \<times> nat) list"
  | Is_Causal | Supports_Bounded_Execution | Uses_Window_Frame | Include_Rank

datatype 'v win_reply =
    W_Unit "udf_fault + unit" | W_Range "udf_fault + nat \<times> nat" | W_Array "udf_fault + 'v list"
  | W_Value "udf_fault + 'v" | W_Flag bool

fun evaluator_call :: "('p, 'a, 'o, 'v) py_side \<Rightarrow> 'v win_op \<Rightarrow> 'p \<Rightarrow> 'v win_reply \<times> 'p" where
  "evaluator_call ps Memoize p = map_prod W_Unit id (memoize ps p)"
| "evaluator_call ps (Get_Range i n) p = map_prod W_Range id (get_range ps i n p)"
| "evaluator_call ps (Evaluate_All vs n) p = map_prod W_Array id (evaluate_all ps vs n p)"
| "evaluator_call ps (Evaluate_Range vs r) p = map_prod W_Value id (evaluator_evaluate ps vs r p)"
| "evaluator_call ps (Evaluate_All_With_Rank n rs) p = map_prod W_Array id (evaluate_all_with_rank ps n rs p)"
| "evaluator_call ps Is_Causal p = map_prod W_Flag id (py_flag ps ''is_causal'' p)"
| "evaluator_call ps Supports_Bounded_Execution p = map_prod W_Flag id (py_flag ps ''supports_bounded_execution'' p)"
| "evaluator_call ps Uses_Window_Frame p = map_prod W_Flag id (py_flag ps ''uses_window_frame'' p)"
| "evaluator_call ps Include_Rank p = map_prod W_Flag id (py_flag ps ''include_rank'' p)"

section \<open>Registration\<close>

datatype volatility = Immutable | Stable | Volatile

definition parse_volatility :: "string \<Rightarrow> datafusion_error + volatility" where
  "parse_volatility value =
     (if value = ''immutable'' then Inr Immutable
      else if value = ''stable'' then Inr Stable
      else if value = ''volatile'' then Inr Volatile
      else Inl (Common (''Unsupported volatility type: `'' @ value
        @ ''`, supported values are: immutable, stable and volatile.'')))"

record 'f udf =
  udf_name :: string
  udf_input_types :: "data_type list"
  udf_return_type :: data_type
  udf_state_types :: "data_type list"
  udf_volatility :: volatility
  udf_implementation :: 'f

definition PyScalarUDF_new ::
  "renderers \<Rightarrow> string \<Rightarrow> 'f \<Rightarrow> data_type list \<Rightarrow> data_type \<Rightarrow> string \<Rightarrow> py_err + 'f udf" where
  "PyScalarUDF_new rd name func input_types return_type vol =
     map_ok (\<lambda>v. \<lparr>udf_name = name, udf_input_types = input_types, udf_return_type = return_type,
                   udf_state_types = [], udf_volatility = v, udf_implementation = func\<rparr>)
       (map_err (into_py_err rd) (parse_volatility vol))"

definition PyAggregateUDF_new ::
  "renderers \<Rightarrow> string \<Rightarrow> 'f \<Rightarrow> data_type list \<Rightarrow> data_type \<Rightarrow> data_type list \<Rightarrow> string \<Rightarrow> py_err + 'f udf" where
  "PyAggregateUDF_new rd name accumulator input_types return_type state_types vol =
     map_ok (\<lambda>v. \<lparr>udf_name = name, udf_input_types = input_types, udf_return_type = return_type,
                   udf_state_types = state_types, udf_volatility = v, udf_implementation = accumulator\<rparr>)
       (map_err (into_py_err rd) (parse_volatility vol))"

definition MultiColumnWindowUDF_new ::
  "string \<Rightarrow> data_type list \<Rightarrow> data_type \<Rightarrow> volatility \<Rightarrow> 'f \<Rightarrow> 'f udf" where
  "MultiColumnWindowUDF_new name input_types return_type v factory =
     \<lparr>udf_name = name, udf_input_types = input_types, udf_return_type = return_type,
      udf_state_types = [], udf_volatility = v, udf_implementation = factory\<rparr>"

definition PyWindowUDF_new ::
  "renderers \<Rightarrow> string \<Rightarrow> 'f \<Rightarrow> data_type list \<Rightarrow> data_type \<Rightarrow> string \<Rightarrow> py_err + 'f udf" where
  "PyWindowUDF_new rd name evaluator input_types return_type vol =
     map_ok (\<lambda>v. MultiColumnWindowUDF_new name input_types return_type v evaluator)
       (map_err (into_py_err rd) (parse_volatility vol))"

definition window_udf_name :: "'f udf \<Rightarrow> string" where
  "window_udf_name u = udf_name u"

definition window_udf_signature :: "'f udf \<Rightarrow> data_type list \<times> volatility" where
  "window_udf_signature u = (udf_input_types u, udf_volatility u)"

text \<open>The arguments of the call are not used: every partition gets the one evaluator object.\<close>

definition window_partition_evaluator :: "nat udf \<Rightarrow> 'a \<Rightarrow> 'p list \<Rightarrow> (udf_fault + nat) \<times> 'p list" where
  "window_partition_evaluator u partition_evaluator_args objs =
     to_rust_partition_evaluator (udf_implementation u) objs"

definition window_udf_field :: "'f udf \<Rightarrow> string \<Rightarrow> field" where
  "window_udf_field u name = Field name (udf_return_type u) True"

definition udf_repr :: "string \<Rightarrow> 'f udf \<Rightarrow> string" where
  "udf_repr kind u = kind @ ''('' @ udf_name u @ '')''"

definition PyScalarUDF_repr :: "'f udf \<Rightarrow> py_err + string" where
  "PyScalarUDF_repr u = Inr (udf_repr ''ScalarUDF'' u)"

definition PyAggregateUDF_repr :: "'f udf \<Rightarrow> py_err + string" where
  "PyAggregateUDF_repr u = Inr (udf_repr ''AggregateUDF'' u)"

definition PyWindowUDF_repr :: "'f udf \<Rightarrow> py_err + string" where
  "PyWindowUDF_repr u = Inr (udf_repr ''WindowUDF'' u)"

text \<open>\<open>__call__\<close>: the expression DataFusion makes of a call; \<open>'e\<close> are expressions.\<close>

definition PyAggregateUDF_call :: "('f udf \<Rightarrow> 'e list \<Rightarrow> 'e) \<Rightarrow> 'f udf \<Rightarrow> 'e list \<Rightarrow> py_err + 'e" where
  "PyAggregateUDF_call udaf_call u args = Inr (udaf_call u (map (\<lambda>e. e) args))"

definition PyWindowUDF_call :: "('f udf \<Rightarrow> 'e list \<Rightarrow> 'e) \<Rightarrow> 'f udf \<Rightarrow> 'e list \<Rightarrow> py_err + 'e" where
  "PyWindowUDF_call udwf_call u args = Inr (udwf_call u (map (\<lambda>e. e) args))"

section \<open>Objects per group and per partition\<close>

text \<open>
  The engine makes one accumulator per group (one evaluator per partition) with the factory and then
  calls them in whatever order the batches arrive. A run of such events, with the reply to each.
\<close>

datatype ('g, 'op) event = Open_Key (event_key: 'g) | Call_Key (event_key: 'g) 'op

datatype 'r answer = Made "udf_fault option" | Got 'r | No_Object

fun drive_step ::
  "('p list \<Rightarrow> (udf_fault + nat) \<times> 'p list) \<Rightarrow> ('op \<Rightarrow> 'p \<Rightarrow> 'r \<times> 'p) \<Rightarrow> ('g, 'op) event \<Rightarrow>
   ('g \<Rightarrow> nat option) \<times> 'p list \<Rightarrow> 'r answer \<times> ('g \<Rightarrow> nat option) \<times> 'p list" where
  "drive_step mk call (Open_Key g) (m, objs) =
     (case mk objs of
        (Inl f, objs') \<Rightarrow> (Made (Some f), m, objs')
      | (Inr a, objs') \<Rightarrow> (Made None, m(g \<mapsto> a), objs'))"
| "drive_step mk call (Call_Key g op) (m, objs) =
     (case m g of
        None \<Rightarrow> (No_Object, m, objs)
      | Some a \<Rightarrow> (let (r, p) = call op (objs ! a) in (Got r, m, objs[a := p])))"

fun drive ::
  "('p list \<Rightarrow> (udf_fault + nat) \<times> 'p list) \<Rightarrow> ('op \<Rightarrow> 'p \<Rightarrow> 'r \<times> 'p) \<Rightarrow> ('g, 'op) event list \<Rightarrow>
   ('g \<Rightarrow> nat option) \<times> 'p list \<Rightarrow> ('g \<times> 'r answer) list" where
  "drive mk call [] s = []"
| "drive mk call (ev # evs) s =
     (let (r, s') = drive_step mk call ev s in (event_key ev, r) # drive mk call evs s')"

text \<open>A factory that makes a new object every time keeps the keys apart.\<close>

definition agree_on :: "'g \<Rightarrow> ('g \<Rightarrow> nat option) \<times> 'p list \<Rightarrow> ('g \<Rightarrow> nat option) \<times> 'p list \<Rightarrow> bool" where
  "agree_on g s s' \<longleftrightarrow>
     (\<forall>k a. fst s k = Some a \<longrightarrow> a < length (snd s)) \<and> (\<forall>k a. fst s' k = Some a \<longrightarrow> a < length (snd s'))
     \<and> (\<forall>k. k \<noteq> g \<longrightarrow> fst s g \<noteq> None \<longrightarrow> fst s k \<noteq> fst s g)
     \<and> rel_option (\<lambda>a a'. snd s ! a = snd s' ! a') (fst s g) (fst s' g)"

locale fresh_factory =
  fixes mk :: "'p list \<Rightarrow> (udf_fault + nat) \<times> 'p list" and first :: "udf_fault + 'p"
  assumes mk_fails: "first = Inl f \<Longrightarrow> mk objs = (Inl f, objs)"
    and mk_fresh: "first = Inr p \<Longrightarrow> mk objs = (Inr (length objs), objs @ [p])"
begin

lemma own_step:
  assumes "agree_on g s s'" "event_key ev = g"
  shows "fst (drive_step mk call ev s) = fst (drive_step mk call ev s')
    \<and> agree_on g (snd (drive_step mk call ev s)) (snd (drive_step mk call ev s'))"
proof -
  obtain m objs m' objs' where [simp]: "s = (m, objs)" "s' = (m', objs')" by (cases s; cases s') auto
  note ag = assms(1) [unfolded agree_on_def, simplified]
  show ?thesis
  proof (cases ev)
    case (Open_Key k)
    then show ?thesis using ag assms(2)
      by (cases first) (auto simp: mk_fails mk_fresh agree_on_def nth_append less_SucI split: if_splits)
  next
    case (Call_Key k op)
    then show ?thesis using ag assms(2)
      by (cases "m g"; cases "m' g")
        (auto simp: agree_on_def nth_list_update split: prod.splits)
  qed
qed

lemma other_step:
  assumes "agree_on g s s'" "event_key ev \<noteq> g"
  shows "agree_on g (snd (drive_step mk call ev s)) s'"
proof -
  obtain m objs m' objs' where [simp]: "s = (m, objs)" "s' = (m', objs')" by (cases s; cases s') auto
  note ag = assms(1) [unfolded agree_on_def, simplified]
  show ?thesis
  proof (cases ev)
    case (Open_Key k)
    have "m g \<noteq> Some (length objs)" using ag by auto
    then show ?thesis using Open_Key ag assms(2)
      by (cases first; cases "m g"; cases "m' g")
        (auto simp: mk_fails mk_fresh agree_on_def nth_append less_SucI split: if_splits)
  next
    case (Call_Key k op)
    then show ?thesis using ag assms(2)
      by (cases "m g"; cases "m' g"; cases "m k")
        (auto simp: agree_on_def nth_list_update split: prod.splits)
  qed
qed

theorem keys_isolated:
  "agree_on g s s' \<Longrightarrow>
     filter (\<lambda>(k, _). k = g) (drive mk call evs s) = drive mk call (filter (\<lambda>ev. event_key ev = g) evs) s'"
proof (induction evs arbitrary: s s')
  case (Cons ev evs)
  show ?case
  proof (cases "event_key ev = g")
    case True
    then show ?thesis using own_step [OF Cons.prems True, of call] Cons.IH by (simp add: case_prod_unfold Let_def)
  next
    case False
    then show ?thesis using other_step [OF Cons.prems False, of call] Cons.IH by (simp add: case_prod_unfold Let_def)
  qed
qed simp

end

text \<open>A factory that hands out one and the same object joins them.\<close>

fun one_object :: "('op \<Rightarrow> 'p \<Rightarrow> 'r \<times> 'p) \<Rightarrow> 'op list \<Rightarrow> 'p \<Rightarrow> 'r list" where
  "one_object call [] p = []"
| "one_object call (op # ops) p = (let (r, p') = call op p in r # one_object call ops p')"

fun opened_calls :: "'g list \<Rightarrow> ('g, 'op) event list \<Rightarrow> 'op list" where
  "opened_calls ks [] = []"
| "opened_calls ks (Open_Key g # evs) = opened_calls (g # ks) evs"
| "opened_calls ks (Call_Key g op # evs) =
     (if g \<in> set ks then op # opened_calls ks evs else opened_calls ks evs)"

fun got :: "'r answer \<Rightarrow> 'r list" where
  "got (Got r) = [r]"
| "got (Made f) = []"
| "got No_Object = []"

locale shared_factory =
  fixes mk :: "'p list \<Rightarrow> (udf_fault + nat) \<times> 'p list" and obj :: nat
  assumes mk_shared: "mk objs = (Inr obj, objs)"
begin

lemma keys_joined:
  assumes "obj < length objs" "\<And>k. m k = (if k \<in> set ks then Some obj else None)"
  shows "concat (map (\<lambda>(_, r). got r) (drive mk call evs (m, objs))) = one_object call (opened_calls ks evs) (objs ! obj)"
  using assms
proof (induction ks evs arbitrary: m objs rule: opened_calls.induct)
  case (2 ks g evs)
  have "(m(g \<mapsto> obj)) k = (if k \<in> set (g # ks) then Some obj else None)" for k using 2(3) by simp
  from 2(1) [OF 2(2) this] show ?case by (simp add: mk_shared fun_upd_def)
next
  case (3 ks g op evs)
  then show ?case by (simp add: case_prod_unfold Let_def)
qed simp

end

interpretation accumulators: fresh_factory "to_rust_accumulator init" "external_err init"
  for init :: "py_err + 'p"
  by unfold_locales (simp_all add: to_rust_accumulator_def)

interpretation evaluators: shared_factory "to_rust_partition_evaluator obj" obj
  for obj
  by unfold_locales (simp add: to_rust_partition_evaluator_def)

section \<open>Broadcasting\<close>

primrec arg_at :: "nat \<Rightarrow> 'v columnar_value \<Rightarrow> 'v" where
  "arg_at i (CV_Scalar v) = v"
| "arg_at i (CV_Array a) = a ! i"

definition is_array :: "'v columnar_value \<Rightarrow> bool" where
  "is_array arg = (case arg of CV_Array _ \<Rightarrow> True | CV_Scalar _ \<Rightarrow> False)"

text \<open>What the arrow crates document of the two conversions.\<close>

locale arrow_values =
  fixes ar :: "'v arrow_side"
  assumes array_of_size: "array_of_size ar v n = Inr (replicate n v)"
    and value_at: "i < length xs \<Longrightarrow> value_at ar xs i = Inr (xs ! i)"
begin

lemma array_len_uniform:
  assumes "\<forall>a. CV_Array a \<in> set args \<longrightarrow> length a = n"
  shows "array_len args = (if \<exists>arg \<in> set args. is_array arg then Some n else None)"
  using assms unfolding array_len_def
  by (induction args rule: rev_induct) (auto simp: is_array_def split: columnar_value.splits)

lemma broadcast:
  assumes "\<forall>a. CV_Array a \<in> set args \<longrightarrow> length a = n"
  shows "\<exists>arrays. collect_ok (map (into_array ar n) args) = Inr arrays
    \<and> (\<forall>a \<in> set arrays. length a = n) \<and> length arrays = length args
    \<and> (\<forall>i < n. map (\<lambda>a. a ! i) arrays = map (arg_at i) args)"
proof -
  define arr where "arr arg = (case arg of CV_Array a \<Rightarrow> a | CV_Scalar v \<Rightarrow> replicate n v)" for arg :: "'v columnar_value"
  have "into_array ar n = (\<lambda>arg. Inr (arr arg))"
    by (auto simp: fun_eq_iff into_array_def arr_def array_of_size split: columnar_value.split)
  moreover have "length (arr arg) = n" "i < n \<Longrightarrow> arr arg ! i = arg_at i arg" if "arg \<in> set args" for arg i
    using assms that by (cases arg; simp add: arr_def)+
  ultimately show ?thesis by (intro exI [of _ "map arr args"]) (auto simp: comp_def)
qed

text \<open>An elementwise function is applied row by row, scalars taking part in every row.\<close>

lemma broadcast_rows:
  assumes rows: "\<And>arrays n. arrays \<noteq> [] \<Longrightarrow> \<forall>a \<in> set arrays. length a = n \<Longrightarrow>
      inner arrays = Inr (map (\<lambda>i. f (map (\<lambda>a. a ! i) arrays)) [0..<n])"
    and args: "args \<noteq> []" "\<forall>a. CV_Array a \<in> set args \<longrightarrow> length a = n"
  shows "make_scalar_function ar inner args =
    (if \<exists>arg \<in> set args. is_array arg
     then Inr (CV_Array (map (\<lambda>i. f (map (arg_at i) args)) [0..<n]))
     else Inr (CV_Scalar (f (map (arg_at 0) args))))"
proof (cases "\<exists>arg \<in> set args. is_array arg")
  case True
  obtain arrays where arrays: "collect_ok (map (into_array ar n) args) = Inr arrays" "length arrays = length args"
      "\<forall>a \<in> set arrays. length a = n" "\<forall>i < n. map (\<lambda>a. a ! i) arrays = map (arg_at i) args"
    using broadcast [OF args(2)] by blast
  then have "inner arrays = Inr (map (\<lambda>i. f (map (arg_at i) args)) [0..<n])"
    using rows [of arrays n] args(1) by (cases arrays) (simp_all del: list.map)
  then show ?thesis
    using True arrays(1) array_len_uniform [OF args(2)] by (simp add: make_scalar_function_def)
next
  case False
  then have args1: "\<forall>a. CV_Array a \<in> set args \<longrightarrow> length a = 1" by (auto simp: is_array_def)
  obtain arrays where arrays: "collect_ok (map (into_array ar 1) args) = Inr arrays" "length arrays = length args"
      "\<forall>a \<in> set arrays. length a = 1" "map (\<lambda>a. a ! 0) arrays = map (arg_at 0) args"
    using broadcast [OF args1] by auto
  then have "inner arrays = Inr [f (map (arg_at 0) args)]"
    using rows [of arrays 1] args(1) by (cases arrays) simp_all
  then show ?thesis
    using False arrays(1) array_len_uniform [OF args1] by (simp add: make_scalar_function_def value_at)
qed

end

definition list_arrow :: "'v arrow_side" where
  "list_arrow = \<lparr>array_of_size = (\<lambda>v n. Inr (replicate n v)),
     value_at = (\<lambda>xs i. if i < length xs then Inr (xs ! i) else Inl (Inner_Arrow ''index out of bounds''))\<rparr>"

interpretation list_arrays: arrow_values list_arrow
  by unfold_locales (simp_all add: list_arrow_def)

section \<open>Properties\<close>

text \<open>
  C22: A scalar UDF whose Python function works elementwise is applied row by row: with at least one
  array among the arguments the result is the array of the rows, a scalar argument taking part in every
  row; with scalars only, the result is the scalar of the single row.
\<close>

theorem scalar_udf_broadcasts:
  fixes ps :: "('p, 'a, 'o, 'v) py_side"
  assumes ar: "\<And>v n. array_of_size ar v n = Inr (replicate n v)"
      "\<And>xs i. i < length xs \<Longrightarrow> value_at ar xs i = Inr (xs ! i)"
    and rows: "\<And>arrays n. arrays \<noteq> [] \<Longrightarrow> \<forall>a \<in> set arrays. length a = n \<Longrightarrow>
      \<exists>py out. collect_ok (map (to_pyarrow ps) arrays) = Inr py \<and> func py = Inr out
        \<and> from_pyarrow ps out = Inr (map (\<lambda>i. f (map (\<lambda>a. a ! i) arrays)) [0..<n])"
    and args: "args \<noteq> []" "\<forall>a. CV_Array a \<in> set args \<longrightarrow> length a = n"
  shows "to_rust_function ps ar func args =
    (if \<exists>arg \<in> set args. is_array arg
     then Inr (CV_Array (map (\<lambda>i. f (map (arg_at i) args)) [0..<n]))
     else Inr (CV_Scalar (f (map (arg_at 0) args))))"
  unfolding to_rust_function_def
proof (rule arrow_values.broadcast_rows [OF _ _ args])
  show "arrow_values ar" using ar by unfold_locales
  fix arrays :: "'v list list" and k
  assume "arrays \<noteq> []" "\<forall>a \<in> set arrays. length a = k"
  then obtain py out where "collect_ok (map (to_pyarrow ps) arrays) = Inr py" "func py = Inr out"
      "from_pyarrow ps out = Inr (map (\<lambda>i. f (map (\<lambda>a. a ! i) arrays)) [0..<k])"
    using rows by blast
  then show "and_then (py_arrays ps arrays) (\<lambda>py_args. and_then (external_err (func py_args))
      (\<lambda>value. unwrapped (from_pyarrow ps value))) = Inr (map (\<lambda>i. f (map (\<lambda>a. a ! i) arrays)) [0..<k])"
    by (simp add: py_arrays_ok external_err_def unwrapped_def)
qed

text \<open>
  C21: The accumulators of different groups never see each other: in every interleaving of updates,
  merges, retractions and evaluations over any number of groups, the replies a group gets are those
  it would get if it were the only group, from a Python object of its own.
\<close>

theorem groups_are_isolated:
  "filter (\<lambda>(k, _). k = g) (drive (to_rust_accumulator init) (accumulator_call ps) evs (\<lambda>_. None, objs))
     = drive (to_rust_accumulator init) (accumulator_call ps) (filter (\<lambda>ev. event_key ev = g) evs) (\<lambda>_. None, [])"
  by (rule accumulators.keys_isolated) (simp add: agree_on_def)

text \<open>
  The evaluators of different partitions are one Python object: the replies of a run are those of
  a single object that gets the calls of all partitions in the order they happen, starting in the
  state the previous query left it in. State kept by \<open>memoize\<close> is shared between partitions.
\<close>

theorem partitions_share_one_evaluator:
  assumes "evaluator < length objs"
  shows "concat (map (\<lambda>(_, r). got r)
      (drive (to_rust_partition_evaluator evaluator) (evaluator_call ps) evs (\<lambda>_. None, objs)))
    = one_object (evaluator_call ps) (opened_calls [] evs) (objs ! evaluator)"
  using assms by (intro evaluators.keys_joined) simp_all

text \<open>Python objects that count their calls and answer with the count; arrays go over unchanged.\<close>

definition counting_py :: "(nat, nat list, nat list, nat) py_side" where
  "counting_py = \<lparr>call_method = (\<lambda>_ _ p. (Inr [Suc p], Suc p)), to_pyarrow = Inr, from_pyarrow = Inr,
     extract_scalar_value = (\<lambda>xs. Inr (hd xs)), extract_scalar_values = Inr, extract_bool = (\<lambda>_. Inr True),
     extract_tuple = (\<lambda>xs. Inr (map (\<lambda>x. [x]) xs)), extract_usize = (\<lambda>xs. Inr (hd xs)),
     py_int = (\<lambda>n. [n]), py_list = concat, py_tuple = concat\<rparr>"

definition py_add :: "nat list list \<Rightarrow> py_err + nat list" where
  "py_add arrays = Inr (map (\<lambda>i. sum_list (map (\<lambda>a. a ! i) arrays)) [0..<length (hd arrays)])"

theorem scalar_udf_broadcasts_witness:
  "to_rust_function counting_py list_arrow py_add [CV_Array [1, 2, 3], CV_Scalar 10] = Inr (CV_Array [11, 12, 13])"
proof -
  have "to_rust_function counting_py list_arrow py_add [CV_Array [1, 2, 3], CV_Scalar 10] =
      (if \<exists>arg \<in> set [CV_Array [1, 2, 3], CV_Scalar (10 :: nat)]. is_array arg
       then Inr (CV_Array (map (\<lambda>i. sum_list (map (arg_at i) [CV_Array [1, 2, 3], CV_Scalar 10])) [0..<3]))
       else Inr (CV_Scalar (sum_list (map (arg_at 0) [CV_Array [1, 2, 3], CV_Scalar 10]))))"
  proof (rule scalar_udf_broadcasts)
    fix arrays :: "nat list list" and n
    assume "arrays \<noteq> []" "\<forall>a \<in> set arrays. length a = n"
    then show "\<exists>py out. collect_ok (map (to_pyarrow counting_py) arrays) = Inr py \<and> py_add py = Inr out
        \<and> from_pyarrow counting_py out = Inr (map (\<lambda>i. sum_list (map (\<lambda>a. a ! i) arrays)) [0..<n])"
      by (cases arrays) (simp_all add: counting_py_def py_add_def del: list.map)
  qed (auto simp: list_arrow_def)
  then show ?thesis by (simp add: is_array_def upt_rec)
qed

theorem partitions_share_one_evaluator_witness:
  "concat (map (\<lambda>(_, r). got r)
      (drive (to_rust_partition_evaluator 0) (evaluator_call counting_py)
        [Open_Key ''a'', Call_Key ''a'' (Evaluate_Range [] (0, 1)), Open_Key ''b'', Call_Key ''b'' (Evaluate_Range [] (0, 1))]
        (\<lambda>_. None, [0])))
    = [W_Value (Inr 1), W_Value (Inr 2)]"
  by (subst partitions_share_one_evaluator)
    (simp_all add: evaluator_evaluate_def py_call_def py_arrays_def external_err_def counting_py_def)

end
