(* ===== verification/Expr_Variants.thy ===== *)
theory Expr_Variants
  imports Expr_Model
begin

text \<open>
  The objects \<open>to_variant\<close> hands to Python (\<open>src/expr/alias.rs\<close>, \<open>column.rs\<close>, \<open>scalar_variable.rs\<close>, \<open>like.rs\<close>,
  \<open>binary_expr.rs\<close>, \<open>bool_expr.rs\<close>, \<open>cast.rs\<close>, \<open>case.rs\<close>, \<open>wildcard.rs\<close>, \<open>aggregate_expr.rs\<close>): their class and
  what each of their methods answers, texts included. Literals have the typed accessors of \<open>Expr_Nodes\<close>. With them the
  sort expressions and the CASE builder Python makes expressions with (\<open>ordered.rs\<close>,
  \<open>conditional_expr.rs\<close>).
\<close>

section \<open>Methods of the objects\<close>

datatype 'q answer =
    A_Expr "'q expr" | A_Opt_Expr "'q expr option" | A_Exprs "'q expr list" | A_Pairs "('q expr \<times> 'q expr) list"
  | A_Str string | A_Opt_Str "string option" | A_Strs "string list"
  | A_Bool bool | A_Opt_Char "char option" | A_Type data_type
  | A_Opt_Type "data_type option" | A_Subquery 'q

type_synonym 'q methods = "(string \<times> 'q answer) list"

text \<open>A line break and the twelve blanks of a format string that goes on; \<open>{:?}\<close> of a \<open>PyExpr\<close> and of an \<open>Ok\<close>.\<close>

definition below :: string where
  "below = CHR 0x0A # replicate 12 CHR 0x20"

definition py_expr_debug :: "'q expr_text \<Rightarrow> 'q expr \<Rightarrow> string" where
  "py_expr_debug tx x = ''PyExpr { expr: '' @ expr_debug tx x @ '' }''"

definition ok_debug :: "string \<Rightarrow> string" where
  "ok_debug s = ''Ok('' @ s @ '')''"

definition alias_fmt :: "'q expr_text \<Rightarrow> 'q expr \<Rightarrow> string \<Rightarrow> string" where
  "alias_fmt tx x alias_name =
     ''Alias'' @ below @ [CHR 0x0A] @ ''Expr: `'' @ py_expr_debug tx x @ ''`'' @
     below @ [CHR 0x0A] @ ''Alias Name: `'' @ alias_name @ ''`''"

definition alias_methods :: "'q expr_text \<Rightarrow> 'q expr \<Rightarrow> string \<Rightarrow> 'q methods" where
  "alias_methods tx x alias_name =
     [(''alias'', A_Str alias_name), (''expr'', A_Expr x), (''__repr__'', A_Str (alias_fmt tx x alias_name))]"

text \<open>\<open>flat_name\<close> is the qualified name of a column as DataFusion writes it.\<close>

definition column_methods :: "(string option \<Rightarrow> string \<Rightarrow> string) \<Rightarrow> string option \<Rightarrow> string \<Rightarrow> 'q methods" where
  "column_methods flat_name rel name =
     [(''name'', A_Str name), (''relation'', A_Opt_Str rel), (''qualified_name'', A_Str (flat_name rel name)),
      (''__repr__'', A_Str (flat_name rel name))]"

definition scalar_variable_methods :: "'q expr_text \<Rightarrow> data_type \<Rightarrow> string list \<Rightarrow> 'q methods" where
  "scalar_variable_methods tx t variables =
     [(''data_type'', A_Type t), (''variables'', A_Strs variables),
      (''__repr__'', A_Str (type_display tx t @ strings_debug tx variables))]"

text \<open>The text of a LIKE shows the results of its own methods, each an \<open>Ok\<close>.\<close>

definition like_fmt :: "'q expr_text \<Rightarrow> like_opts \<Rightarrow> 'q expr \<Rightarrow> 'q expr \<Rightarrow> string" where
  "like_fmt tx v x p =
     ''Like'' @ below @ ''Negated: '' @ ok_debug (if like_negated v then ''true'' else ''false'') @
     below @ ''Expr: '' @ ok_debug (py_expr_debug tx x) @ below @ ''Pattern: '' @ ok_debug (py_expr_debug tx p) @
     below @ ''Escape_Char: '' @ ok_debug (opt_char_debug tx (like_escape_char v))"

definition like_methods :: "'q expr_text \<Rightarrow> like_opts \<Rightarrow> 'q expr \<Rightarrow> 'q expr \<Rightarrow> 'q methods" where
  "like_methods tx v x p =
     [(''negated'', A_Bool (like_negated v)), (''expr'', A_Expr x), (''pattern'', A_Expr p),
      (''escape_char'', A_Opt_Char (like_escape_char v)), (''__repr__'', A_Str (''Like('' @ like_fmt tx v x p @ '')''))]"

text \<open>Its text is that of the expression.\<close>

definition binary_methods :: "'q expr_text \<Rightarrow> 'q expr \<Rightarrow> operator \<Rightarrow> 'q expr \<Rightarrow> 'q methods" where
  "binary_methods tx l op r =
     [(''left'', A_Expr l), (''right'', A_Expr r), (''op'', A_Str (op_display tx op)),
      (''__repr__'', A_Str (expr_display tx (E_BinaryExpr l op r)))]"

text \<open>\<open>PyNot\<close>, the \<open>PyIs..\<close> classes and \<open>PyNegative\<close> have the one method, and a Display text each.\<close>

definition unary_methods :: "'q expr \<Rightarrow> 'q methods" where
  "unary_methods x = [(''expr'', A_Expr x)]"

definition unary_fmt :: "'q expr_text \<Rightarrow> string \<Rightarrow> 'q expr \<Rightarrow> string" where
  "unary_fmt tx name x = name @ below @ ''Expr: '' @ expr_display tx x"

text \<open>The ten classes one by one: the methods and the Display text of an object around \<open>x\<close>.\<close>

definition PyNot_object :: "'q expr_text \<Rightarrow> 'q expr \<Rightarrow> 'q methods \<times> string" where
  "PyNot_object tx x = (unary_methods x, unary_fmt tx ''Not'' x)"

definition PyIsNotNull_object :: "'q expr_text \<Rightarrow> 'q expr \<Rightarrow> 'q methods \<times> string" where
  "PyIsNotNull_object tx x = (unary_methods x, unary_fmt tx ''IsNotNull'' x)"

definition PyIsNull_object :: "'q expr_text \<Rightarrow> 'q expr \<Rightarrow> 'q methods \<times> string" where
  "PyIsNull_object tx x = (unary_methods x, unary_fmt tx ''IsNull'' x)"

definition PyIsTrue_object :: "'q expr_text \<Rightarrow> 'q expr \<Rightarrow> 'q methods \<times> string" where
  "PyIsTrue_object tx x = (unary_methods x, unary_fmt tx ''IsTrue'' x)"

definition PyIsFalse_object :: "'q expr_text \<Rightarrow> 'q expr \<Rightarrow> 'q methods \<times> string" where
  "PyIsFalse_object tx x = (unary_methods x, unary_fmt tx ''IsFalse'' x)"

definition PyIsUnknown_object :: "'q expr_text \<Rightarrow> 'q expr \<Rightarrow> 'q methods \<times> string" where
  "PyIsUnknown_object tx x = (unary_methods x, unary_fmt tx ''IsUnknown'' x)"

definition PyIsNotTrue_object :: "'q expr_text \<Rightarrow> 'q expr \<Rightarrow> 'q methods \<times> string" where
  "PyIsNotTrue_object tx x = (unary_methods x, unary_fmt tx ''IsNotTrue'' x)"

definition PyIsNotFalse_object :: "'q expr_text \<Rightarrow> 'q expr \<Rightarrow> 'q methods \<times> string" where
  "PyIsNotFalse_object tx x = (unary_methods x, unary_fmt tx ''IsNotFalse'' x)"

definition PyIsNotUnknown_object :: "'q expr_text \<Rightarrow> 'q expr \<Rightarrow> 'q methods \<times> string" where
  "PyIsNotUnknown_object tx x = (unary_methods x, unary_fmt tx ''IsNotUnknown'' x)"

definition PyNegative_object :: "'q expr_text \<Rightarrow> 'q expr \<Rightarrow> 'q methods \<times> string" where
  "PyNegative_object tx x = (unary_methods x, unary_fmt tx ''Negative'' x)"

definition cast_methods :: "'q expr_text \<Rightarrow> 'q expr \<Rightarrow> data_type \<Rightarrow> 'q methods" where
  "cast_methods tx x t =
     [(''expr'', A_Expr x), (''data_type'', A_Type t), (''__repr__'', A_Str (''CAST('' @ cast_debug tx x t @ '')''))]"

definition case_methods :: "'q expr option \<Rightarrow> ('q expr \<times> 'q expr) list \<Rightarrow> 'q expr option \<Rightarrow> 'q methods" where
  "case_methods x when_then el =
     [(''expr'', A_Opt_Expr x), (''when_then_expr'', A_Pairs when_then), (''else_expr'', A_Opt_Expr el)]"

definition wildcard_methods :: "string option \<Rightarrow> 'q methods" where
  "wildcard_methods qualifier = [(''qualifier'', A_Opt_Str qualifier)]"

definition aggregate_fmt :: "'q expr_text \<Rightarrow> string \<Rightarrow> 'q expr list \<Rightarrow> string" where
  "aggregate_fmt tx name args = name @ ''('' @ join_str '', '' (map (expr_display tx) args) @ '')''"

definition aggregate_methods :: "'q expr_text \<Rightarrow> string \<Rightarrow> 'q expr list \<Rightarrow> bool \<Rightarrow> 'q methods" where
  "aggregate_methods tx name args dist =
     [(''aggregate_type'', A_Str name), (''is_distinct'', A_Bool dist), (''args'', A_Exprs args),
      (''__repr__'', A_Str (aggregate_fmt tx name args))]"

text \<open>What Python reads off an object: its class and the answers of its methods.\<close>

definition reading :: "'q expr_text \<Rightarrow> (string option \<Rightarrow> string \<Rightarrow> string) \<Rightarrow> 'q variant \<Rightarrow> string \<times> 'q methods" where
  "reading tx flat_name v = (case v of
     PyAlias x name \<Rightarrow> (''Alias'', alias_methods tx x name)
   | PyColumn rel name \<Rightarrow> (''Column'', column_methods flat_name rel name)
   | PyScalarVariable t variables \<Rightarrow> (''ScalarVariable'', scalar_variable_methods tx t variables)
   | PyLike opts x p \<Rightarrow> (''Like'', like_methods tx opts x p)
   | PyLiteral _ _ \<Rightarrow> (''Literal'', [])
   | PyBinaryExpr l op r \<Rightarrow> (''BinaryExpr'', binary_methods tx l op r)
   | PyNot x \<Rightarrow> (''Not'', unary_methods x)
   | PyIsNotNull x \<Rightarrow> (''IsNotNull'', unary_methods x)
   | PyIsNull x \<Rightarrow> (''IsNull'', unary_methods x)
   | PyIsTrue x \<Rightarrow> (''IsTrue'', unary_methods x)
   | PyIsFalse x \<Rightarrow> (''IsFalse'', unary_methods x)
   | PyIsUnknown x \<Rightarrow> (''IsUnknown'', unary_methods x)
   | PyIsNotTrue x \<Rightarrow> (''IsNotTrue'', unary_methods x)
   | PyIsNotFalse x \<Rightarrow> (''IsNotFalse'', unary_methods x)
   | PyIsNotUnknown x \<Rightarrow> (''IsNotUnknown'', unary_methods x)
   | PyNegative x \<Rightarrow> (''Negative'', unary_methods x)
   | PyCast x t \<Rightarrow> (''Cast'', cast_methods tx x t)
   | PyCase x wt el \<Rightarrow> (''Case'', case_methods x wt el)
   | PyWildcard qualifier \<Rightarrow> (''Wildcard'', wildcard_methods qualifier)
   | PyAggregateFunction name args dist \<Rightarrow> (''AggregateFunction'', aggregate_methods tx name args dist))"

lemmas methods_defs = alias_methods_def column_methods_def scalar_variable_methods_def like_methods_def
  binary_methods_def unary_methods_def cast_methods_def case_methods_def wildcard_methods_def aggregate_methods_def

section \<open>Sort expressions and CASE\<close>

record 'q py_ordered =
  po_expr :: "'q expr"
  po_asc :: bool
  po_nulls_first :: bool

definition PyOrdered_new :: "'q expr \<Rightarrow> bool \<Rightarrow> bool \<Rightarrow> 'q py_ordered" where
  "PyOrdered_new x asc nulls_first = \<lparr>po_expr = x, po_asc = asc, po_nulls_first = nulls_first\<rparr>"

text \<open>DataFusion's CASE builder as the object it is: a call changes it and returns a builder.\<close>

record ('c, 'q) case_api =
  cb_when :: "'q expr \<Rightarrow> 'q expr \<Rightarrow> 'c \<Rightarrow> 'c \<times> 'c"
  cb_otherwise :: "'q expr \<Rightarrow> 'c \<Rightarrow> (inner_error + 'q expr) \<times> 'c"
  cb_end :: "'c \<Rightarrow> inner_error + 'q expr"

definition case_when :: "('c, 'q) case_api \<Rightarrow> 'q expr \<Rightarrow> 'q expr \<Rightarrow> 'c \<Rightarrow> 'c \<times> 'c" where
  "case_when ca w t c = cb_when ca w t c"

definition case_otherwise :: "renderers \<Rightarrow> ('c, 'q) case_api \<Rightarrow> 'q expr \<Rightarrow> 'c \<Rightarrow> (py_err + 'q expr) \<times> 'c" where
  "case_otherwise rd ca x c =
     (let (r, c') = cb_otherwise ca x c in (map_err (from_datafusion_error rd) r, c'))"

definition case_end :: "renderers \<Rightarrow> ('c, 'q) case_api \<Rightarrow> 'c \<Rightarrow> py_err + 'q expr" where
  "case_end rd ca c = map_err (from_datafusion_error rd) (cb_end ca c)"

section \<open>What a reading tells\<close>

text \<open>
  The part of an expression Python can see: without the relation of an alias, the name and nullability
  of a variable's field, and whether a LIKE ignores case.
\<close>

definition shown :: "'q expr \<Rightarrow> 'q expr" where
  "shown e = (case e of
     E_Alias x _ name \<Rightarrow> E_Alias x None name
   | E_ScalarVariable f variables \<Rightarrow> E_ScalarVariable (Field [] (field_data_type f) False) variables
   | E_Like opts x p \<Rightarrow> E_Like (opts\<lparr>like_case_insensitive := False\<rparr>) x p
   | _ \<Rightarrow> e)"

fun of_variant :: "'q variant \<Rightarrow> 'q expr" where
  "of_variant (PyAlias x name) = E_Alias x None name"
| "of_variant (PyColumn rel name) = E_Column rel name"
| "of_variant (PyScalarVariable t variables) = E_ScalarVariable (Field [] t False) variables"
| "of_variant (PyLike opts x p) = E_Like (opts\<lparr>like_case_insensitive := False\<rparr>) x p"
| "of_variant (PyLiteral v md) = E_Literal v md"
| "of_variant (PyBinaryExpr l op r) = E_BinaryExpr l op r"
| "of_variant (PyNot x) = E_Not x"
| "of_variant (PyIsNotNull x) = E_IsNotNull x"
| "of_variant (PyIsNull x) = E_IsNull x"
| "of_variant (PyIsTrue x) = E_IsTrue x"
| "of_variant (PyIsFalse x) = E_IsFalse x"
| "of_variant (PyIsUnknown x) = E_IsUnknown x"
| "of_variant (PyIsNotTrue x) = E_IsNotTrue x"
| "of_variant (PyIsNotFalse x) = E_IsNotFalse x"
| "of_variant (PyIsNotUnknown x) = E_IsNotUnknown x"
| "of_variant (PyNegative x) = E_Negative x"
| "of_variant (PyCast x t) = E_Cast x t"
| "of_variant (PyCase x wt el) = E_Case x wt el"
| "of_variant (PyWildcard qualifier) = E_Wildcard qualifier"
| "of_variant (PyAggregateFunction name args dist) = E_AggregateFunction name args dist"

lemma shown_of_variant: "to_variant tx e = Inr v \<Longrightarrow> shown e = of_variant v"
  by (cases e) (auto simp: to_variant_def shown_def)

lemma like_opts_shown:
  "(opts :: like_opts)\<lparr>like_case_insensitive := False\<rparr> = opts'\<lparr>like_case_insensitive := False\<rparr> \<longleftrightarrow>
     like_negated opts = like_negated opts' \<and> like_escape_char opts = like_escape_char opts'"
  by (cases opts; cases opts') simp

lemma reading_of_variant:
  assumes "inj (op_display tx)" "\<And>x md. v \<noteq> PyLiteral x md"
  shows "reading tx flat_name v = reading tx flat_name v' \<longleftrightarrow> of_variant v = of_variant v'"
  using assms
  by (cases v; cases v') (auto simp: reading_def methods_defs like_fmt_def inj_eq like_opts_shown)


definition op_number :: "operator \<Rightarrow> nat" where
  "op_number op = (case op of
     Op_Eq \<Rightarrow> 0 | Op_NotEq \<Rightarrow> 1 | Op_Lt \<Rightarrow> 2 | Op_LtEq \<Rightarrow> 3 | Op_Gt \<Rightarrow> 4 | Op_GtEq \<Rightarrow> 5 | Op_And \<Rightarrow> 6 | Op_Or \<Rightarrow> 7
   | Op_IsDistinctFrom \<Rightarrow> 8 | Op_IsNotDistinctFrom \<Rightarrow> 9 | Op_RegexMatch \<Rightarrow> 10 | Op_RegexIMatch \<Rightarrow> 11
   | Op_RegexNotMatch \<Rightarrow> 12 | Op_RegexNotIMatch \<Rightarrow> 13 | Op_LikeMatch \<Rightarrow> 14 | Op_ILikeMatch \<Rightarrow> 15
   | Op_NotLikeMatch \<Rightarrow> 16 | Op_NotILikeMatch \<Rightarrow> 17 | Op_Plus \<Rightarrow> 18 | Op_Minus \<Rightarrow> 19 | Op_Multiply \<Rightarrow> 20
   | Op_Modulo \<Rightarrow> 21 | Op_Divide \<Rightarrow> 22 | Op_StringConcat \<Rightarrow> 23 | Op_BitwiseShiftLeft \<Rightarrow> 24
   | Op_BitwiseShiftRight \<Rightarrow> 25 | Op_BitwiseXor \<Rightarrow> 26 | Op_BitwiseAnd \<Rightarrow> 27 | Op_BitwiseOr \<Rightarrow> 28
   | Op_AtArrow \<Rightarrow> 29 | Op_ArrowAt \<Rightarrow> 30 | Op_Arrow \<Rightarrow> 31 | Op_LongArrow \<Rightarrow> 32 | Op_HashArrow \<Rightarrow> 33
   | Op_HashLongArrow \<Rightarrow> 34 | Op_AtAt \<Rightarrow> 35 | Op_IntegerDivide \<Rightarrow> 36 | Op_HashMinus \<Rightarrow> 37 | Op_AtQuestion \<Rightarrow> 38
   | Op_Question \<Rightarrow> 39 | Op_QuestionAnd \<Rightarrow> 40 | Op_QuestionPipe \<Rightarrow> 41 | Op_Colon \<Rightarrow> 42)"

lemma op_number_inj: "inj op_number"
  by (rule injI, case_tac x; case_tac y; simp add: op_number_def)

definition numbered_text :: "unit expr_text" where
  "numbered_text = plain_text\<lparr>op_display := (\<lambda>op. replicate (op_number op) CHR ''x'')\<rparr>"

lemma numbered_text_inj: "inj (op_display numbered_text)"
  using op_number_inj by (auto simp: inj_def numbered_text_def)

definition like_a :: "bool \<Rightarrow> unit expr" where
  "like_a ci = E_Like \<lparr>like_negated = False, like_escape_char = None, like_case_insensitive = ci\<rparr>
     (E_Column None ''a'') (E_Column None ''p'')"


end
