(* ===== verification/Expr_Operators.thy ===== *)
theory Expr_Operators
  imports Filter_Expr Expr_Variants
begin

text \<open>
  The methods with which Python makes and prints expressions (\<open>src/expr.rs\<close>, \<open>src/expr/sort_expr.rs\<close>): the
  comparison and arithmetic operators, \<open>&\<close>, \<open>|\<close>, \<open>~\<close>, indexing, the constructors. Each is a call of a
  builder of DataFusion's \<open>Expr\<close>; the builders are the functions of a record, and what their
  documentation says of them is a locale, interpreted on the constructors of expressions.
\<close>

section \<open>The methods\<close>

record 'q builders =
  b_lt :: "'q expr \<Rightarrow> 'q expr \<Rightarrow> 'q expr"
  b_lt_eq :: "'q expr \<Rightarrow> 'q expr \<Rightarrow> 'q expr"
  b_eq :: "'q expr \<Rightarrow> 'q expr \<Rightarrow> 'q expr"
  b_not_eq :: "'q expr \<Rightarrow> 'q expr \<Rightarrow> 'q expr"
  b_gt :: "'q expr \<Rightarrow> 'q expr \<Rightarrow> 'q expr"
  b_gt_eq :: "'q expr \<Rightarrow> 'q expr \<Rightarrow> 'q expr"
  b_add :: "'q expr \<Rightarrow> 'q expr \<Rightarrow> 'q expr"
  b_sub :: "'q expr \<Rightarrow> 'q expr \<Rightarrow> 'q expr"
  b_div :: "'q expr \<Rightarrow> 'q expr \<Rightarrow> 'q expr"
  b_mul :: "'q expr \<Rightarrow> 'q expr \<Rightarrow> 'q expr"
  b_rem :: "'q expr \<Rightarrow> 'q expr \<Rightarrow> 'q expr"
  b_and :: "'q expr \<Rightarrow> 'q expr \<Rightarrow> 'q expr"
  b_or :: "'q expr \<Rightarrow> 'q expr \<Rightarrow> 'q expr"
  b_not :: "'q expr \<Rightarrow> 'q expr"
  b_is_null :: "'q expr \<Rightarrow> 'q expr"
  b_field :: "'q expr \<Rightarrow> string \<Rightarrow> 'q expr"
  b_alias :: "'q expr \<Rightarrow> string \<Rightarrow> 'q expr"
  b_sort :: "'q expr \<Rightarrow> bool \<Rightarrow> bool \<Rightarrow> 'q sort_expr"
  b_lit :: "scalar_value \<Rightarrow> 'q expr"
  b_col :: "string \<Rightarrow> 'q expr"

text \<open>pyo3's \<open>CompareOp\<close>.\<close>

datatype compare_op = Py_Lt | Py_Le | Py_Eq | Py_Ne | Py_Gt | Py_Ge

definition PyExpr_richcmp :: "'q builders \<Rightarrow> 'q expr \<Rightarrow> 'q expr \<Rightarrow> compare_op \<Rightarrow> 'q expr" where
  "PyExpr_richcmp b self other op = (case op of
     Py_Lt \<Rightarrow> b_lt b self other
   | Py_Le \<Rightarrow> b_lt_eq b self other
   | Py_Eq \<Rightarrow> b_eq b self other
   | Py_Ne \<Rightarrow> b_not_eq b self other
   | Py_Gt \<Rightarrow> b_gt b self other
   | Py_Ge \<Rightarrow> b_gt_eq b self other)"

definition PyExpr_add :: "'q builders \<Rightarrow> 'q expr \<Rightarrow> 'q expr \<Rightarrow> py_err + 'q expr" where
  "PyExpr_add b self rhs = Inr (b_add b self rhs)"

definition PyExpr_sub :: "'q builders \<Rightarrow> 'q expr \<Rightarrow> 'q expr \<Rightarrow> py_err + 'q expr" where
  "PyExpr_sub b self rhs = Inr (b_sub b self rhs)"

definition PyExpr_truediv :: "'q builders \<Rightarrow> 'q expr \<Rightarrow> 'q expr \<Rightarrow> py_err + 'q expr" where
  "PyExpr_truediv b self rhs = Inr (b_div b self rhs)"

definition PyExpr_mul :: "'q builders \<Rightarrow> 'q expr \<Rightarrow> 'q expr \<Rightarrow> py_err + 'q expr" where
  "PyExpr_mul b self rhs = Inr (b_mul b self rhs)"

definition PyExpr_mod :: "'q builders \<Rightarrow> 'q expr \<Rightarrow> 'q expr \<Rightarrow> py_err + 'q expr" where
  "PyExpr_mod b self rhs = Inr (b_rem b self rhs)"

definition PyExpr_and :: "'q builders \<Rightarrow> 'q expr \<Rightarrow> 'q expr \<Rightarrow> py_err + 'q expr" where
  "PyExpr_and b self rhs = Inr (b_and b self rhs)"

definition PyExpr_or :: "'q builders \<Rightarrow> 'q expr \<Rightarrow> 'q expr \<Rightarrow> py_err + 'q expr" where
  "PyExpr_or b self rhs = Inr (b_or b self rhs)"

definition PyExpr_invert :: "'q builders \<Rightarrow> 'q expr \<Rightarrow> py_err + 'q expr" where
  "PyExpr_invert b self = Inr (b_not b self)"

definition PyExpr_getitem :: "'q builders \<Rightarrow> 'q expr \<Rightarrow> string \<Rightarrow> py_err + 'q expr" where
  "PyExpr_getitem b self key = Inr (b_field b self key)"

definition PyExpr_literal :: "'q builders \<Rightarrow> scalar_value \<Rightarrow> 'q expr" where
  "PyExpr_literal b v = b_lit b v"

definition PyExpr_column :: "'q builders \<Rightarrow> string \<Rightarrow> 'q expr" where
  "PyExpr_column b name = b_col b name"

definition PyExpr_alias :: "'q builders \<Rightarrow> 'q expr \<Rightarrow> string \<Rightarrow> 'q expr" where
  "PyExpr_alias b self name = b_alias b self name"

text \<open>\<open>sort(ascending=True, nulls_first=True)\<close>: an argument that is not given is \<^term>\<open>None\<close>.\<close>

definition PyExpr_sort :: "'q builders \<Rightarrow> 'q expr \<Rightarrow> bool option \<Rightarrow> bool option \<Rightarrow> 'q sort_expr" where
  "PyExpr_sort b self ascending nulls_first =
     b_sort b self (case ascending of None \<Rightarrow> True | Some a \<Rightarrow> a) (case nulls_first of None \<Rightarrow> True | Some n \<Rightarrow> n)"

definition PyExpr_is_null :: "'q builders \<Rightarrow> 'q expr \<Rightarrow> 'q expr" where
  "PyExpr_is_null b self = b_is_null b self"

definition PyExpr_cast :: "'q expr \<Rightarrow> data_type \<Rightarrow> 'q expr" where
  "PyExpr_cast self t = E_Cast self t"

text \<open>The names of an expression: DataFusion's texts.\<close>

definition PyExpr_schema_name :: "('q expr \<Rightarrow> string) \<Rightarrow> 'q expr \<Rightarrow> py_err + string" where
  "PyExpr_schema_name schema_name e = Inr (schema_name e)"

definition PyExpr_canonical_name :: "'q expr_text \<Rightarrow> 'q expr \<Rightarrow> py_err + string" where
  "PyExpr_canonical_name tx e = Inr (expr_display tx e)"

definition PyExpr_variant_name :: "('q expr \<Rightarrow> string) \<Rightarrow> 'q expr \<Rightarrow> py_err + string" where
  "PyExpr_variant_name variant_name e = Inr (variant_name e)"

definition PyExpr_repr :: "'q expr_text \<Rightarrow> 'q expr \<Rightarrow> py_err + string" where
  "PyExpr_repr tx e = Inr (''Expr('' @ expr_display tx e @ '')'')"

text \<open>\<open>PySortExpr\<close>: the three fields and the text, with the Debug text of the expression.\<close>

definition PySortExpr_new :: "'q expr \<Rightarrow> bool \<Rightarrow> bool \<Rightarrow> 'q sort_expr" where
  "PySortExpr_new x asc nulls_first = \<lparr>se_expr = x, se_asc = asc, se_nulls_first = nulls_first\<rparr>"

definition PySortExpr_methods :: "'q expr_text \<Rightarrow> 'q sort_expr \<Rightarrow> 'q methods" where
  "PySortExpr_methods tx s =
     [(''expr'', A_Expr (se_expr s)), (''ascending'', A_Bool (se_asc s)), (''nulls_first'', A_Bool (se_nulls_first s)),
      (''__repr__'', A_Str (''Sort'' @ below @ ''Expr: '' @ expr_debug tx (se_expr s) @
         below @ ''Asc: '' @ (if se_asc s then ''true'' else ''false'') @
         below @ ''NullsFirst: '' @ (if se_nulls_first s then ''true'' else ''false'')))]"

definition to_sort_expressions :: "'q sort_expr list \<Rightarrow> 'q sort_expr list" where
  "to_sort_expressions order_by = map (\<lambda>e. e) order_by"

section \<open>What the builders build\<close>

text \<open>
  DataFusion's \<open>!\<close> turns the flag of the expressions that have one. \<open>col\<close> parses its argument: a name of
  lower-case letters is that column.
\<close>

fun negation :: "'q expr \<Rightarrow> 'q expr" where
  "negation (E_InList x xs negated) = E_InList x xs (\<not> negated)"
| "negation (E_Between x negated low high) = E_Between x (\<not> negated) low high"
| "negation (E_Like v x p) = E_Like (v\<lparr>like_negated := \<not> like_negated v\<rparr>) x p"
| "negation (E_SimilarTo v x p) = E_SimilarTo (v\<lparr>like_negated := \<not> like_negated v\<rparr>) x p"
| "negation e = E_Not e"

definition plain_name :: "string \<Rightarrow> bool" where
  "plain_name n \<longleftrightarrow> n \<noteq> [] \<and> list_all (\<lambda>c. of_char c \<ge> (97 :: nat) \<and> of_char c \<le> (122 :: nat)) n"

locale expr_builders =
  fixes b :: "'q builders"
  assumes compares: "b_lt b x y = E_BinaryExpr x Op_Lt y" "b_lt_eq b x y = E_BinaryExpr x Op_LtEq y"
      "b_eq b x y = E_BinaryExpr x Op_Eq y" "b_not_eq b x y = E_BinaryExpr x Op_NotEq y"
      "b_gt b x y = E_BinaryExpr x Op_Gt y" "b_gt_eq b x y = E_BinaryExpr x Op_GtEq y"
    and computes: "b_add b x y = E_BinaryExpr x Op_Plus y" "b_sub b x y = E_BinaryExpr x Op_Minus y"
      "b_div b x y = E_BinaryExpr x Op_Divide y" "b_mul b x y = E_BinaryExpr x Op_Multiply y"
      "b_rem b x y = E_BinaryExpr x Op_Modulo y"
    and connects: "b_and b x y = E_BinaryExpr x Op_And y" "b_or b x y = E_BinaryExpr x Op_Or y"
    and negates: "b_not b x = negation x"
    and tests: "b_is_null b x = E_IsNull x" "b_alias b x n = E_Alias x None n"
    and literal_of: "b_lit b v = E_Literal v None"
    and column_of: "plain_name n \<Longrightarrow> b_col b n = E_Column None n"
    and sorts: "b_sort b x asc nulls_first = \<lparr>se_expr = x, se_asc = asc, se_nulls_first = nulls_first\<rparr>"

definition constructors :: "'q builders" where
  "constructors = \<lparr>b_lt = (\<lambda>x. E_BinaryExpr x Op_Lt), b_lt_eq = (\<lambda>x. E_BinaryExpr x Op_LtEq),
     b_eq = (\<lambda>x. E_BinaryExpr x Op_Eq), b_not_eq = (\<lambda>x. E_BinaryExpr x Op_NotEq), b_gt = (\<lambda>x. E_BinaryExpr x Op_Gt),
     b_gt_eq = (\<lambda>x. E_BinaryExpr x Op_GtEq), b_add = (\<lambda>x. E_BinaryExpr x Op_Plus), b_sub = (\<lambda>x. E_BinaryExpr x Op_Minus),
     b_div = (\<lambda>x. E_BinaryExpr x Op_Divide), b_mul = (\<lambda>x. E_BinaryExpr x Op_Multiply), b_rem = (\<lambda>x. E_BinaryExpr x Op_Modulo),
     b_and = (\<lambda>x. E_BinaryExpr x Op_And), b_or = (\<lambda>x. E_BinaryExpr x Op_Or), b_not = negation, b_is_null = E_IsNull,
     b_field = (\<lambda>x key. E_ScalarFunction ''get_field'' [x, E_Literal (SV_Utf8 (Some key)) None]),
     b_alias = (\<lambda>x. E_Alias x None),
     b_sort = (\<lambda>x asc nulls_first. \<lparr>se_expr = x, se_asc = asc, se_nulls_first = nulls_first\<rparr>),
     b_lit = (\<lambda>v. E_Literal v None), b_col = E_Column None\<rparr>"

interpretation constructors: expr_builders constructors
  by unfold_locales (simp_all add: constructors_def)

section \<open>Filters written in Python\<close>

text \<open>A filter as a Python program writes it, and what running the program does.\<close>

datatype py_code =
    Code_Column string | Code_Literal scalar_value | Code_Compare compare_op py_code py_code
  | Code_And py_code py_code | Code_Or py_code py_code | Code_Not py_code | Code_Is_Null py_code

fun run_code :: "'q builders \<Rightarrow> py_code \<Rightarrow> py_err + 'q expr" where
  "run_code b (Code_Column n) = Inr (PyExpr_column b n)"
| "run_code b (Code_Literal v) = Inr (PyExpr_literal b v)"
| "run_code b (Code_Compare op x y) =
     and_then (run_code b x) (\<lambda>e. and_then (run_code b y) (\<lambda>f. Inr (PyExpr_richcmp b e f op)))"
| "run_code b (Code_And x y) = and_then (run_code b x) (\<lambda>e. and_then (run_code b y) (PyExpr_and b e))"
| "run_code b (Code_Or x y) = and_then (run_code b x) (\<lambda>e. and_then (run_code b y) (PyExpr_or b e))"
| "run_code b (Code_Not x) = and_then (run_code b x) (PyExpr_invert b)"
| "run_code b (Code_Is_Null x) = and_then (run_code b x) (\<lambda>e. Inr (PyExpr_is_null b e))"

text \<open>The names and literals the translators take.\<close>

fun plain_code :: "py_code \<Rightarrow> bool" where
  "plain_code (Code_Column n) = plain_name n"
| "plain_code (Code_Literal v) = (scalar_to_py v \<noteq> None)"
| "plain_code (Code_Compare op x y) = (plain_code x \<and> plain_code y)"
| "plain_code (Code_And x y) = (plain_code x \<and> plain_code y)"
| "plain_code (Code_Or x y) = (plain_code x \<and> plain_code y)"
| "plain_code (Code_Not x) = plain_code x"
| "plain_code (Code_Is_Null x) = plain_code x"

text \<open>The name of an operator in Python's \<open>operator\<close> module, and the program as calls of that module.\<close>

fun dunder :: "compare_op \<Rightarrow> string" where
  "dunder Py_Lt = ''lt''" | "dunder Py_Le = ''le''" | "dunder Py_Eq = ''eq''"
| "dunder Py_Ne = ''ne''" | "dunder Py_Gt = ''gt''" | "dunder Py_Ge = ''ge''"

fun code_calls :: "string \<Rightarrow> py_code \<Rightarrow> call_tree" where
  "code_calls null_method (Code_Column n) = T_Column n"
| "code_calls null_method (Code_Literal v) = T_Literal (the (scalar_to_py v))"
| "code_calls null_method (Code_Compare op x y) = T_Operator (dunder op) (code_calls null_method x) (code_calls null_method y)"
| "code_calls null_method (Code_And x y) = T_Operator ''and_'' (code_calls null_method x) (code_calls null_method y)"
| "code_calls null_method (Code_Or x y) = T_Operator ''or_'' (code_calls null_method x) (code_calls null_method y)"
| "code_calls null_method (Code_Not x) = T_Invert (code_calls null_method x)"
| "code_calls null_method (Code_Is_Null x) = T_Method null_method (code_calls null_method x)"

fun negated_flag :: "'q expr \<Rightarrow> bool" where
  "negated_flag (E_InList _ _ _) = True"
| "negated_flag (E_Between _ _ _ _) = True"
| "negated_flag (E_Like _ _ _) = True"
| "negated_flag (E_SimilarTo _ _ _) = True"
| "negated_flag _ = False"

lemma negation_plain: "\<not> negated_flag e \<Longrightarrow> negation e = E_Not e"
  by (cases e) simp_all

text \<open>Whatever it is applied to, \<open>~\<close> has the value of SQL's \<open>NOT\<close>.\<close>

lemma k_not_twice [simp]: "k_not (k_not (member3 cmp v vs)) = member3 cmp v vs" "k_not (k_not (k_and u v)) = k_and u v"
  by (auto simp: k_not_def member3_def k_and_def bool3_def split: option.splits)

lemma negation_value: "sql_eval cmp row (negation e) = k_not (sql_eval cmp row e)"
proof -
  have "k_not None = None" by (simp add: k_not_def bool3_def)
  then show ?thesis by (cases e) (simp_all add: Let_def)
qed

context expr_builders
begin

lemma compare_builds:
  "\<exists>o'. py_op_name o' = Some (dunder op) \<and> PyExpr_richcmp b x y op = E_BinaryExpr x o' y"
  by (cases op) (simp_all add: PyExpr_richcmp_def compares)

lemma code_builds:
  "plain_code code \<Longrightarrow> \<exists>e. run_code b code = Inr e \<and> \<not> negated_flag e \<and> no_in_list e
     \<and> pyarrow_try_from tx tree_api e = Inr (code_calls ''is_null'' code)
     \<and> ibis_try_from tx tree_api e = Inr (code_calls ''isnull'' code)"
proof (induction code)
  case (Code_Compare op x y)
  then obtain e f where "run_code b x = Inr e" "run_code b y = Inr f" "no_in_list e" "no_in_list f"
    "pyarrow_try_from tx tree_api e = Inr (code_calls ''is_null'' x)" "ibis_try_from tx tree_api e = Inr (code_calls ''isnull'' x)"
    "pyarrow_try_from tx tree_api f = Inr (code_calls ''is_null'' y)" "ibis_try_from tx tree_api f = Inr (code_calls ''isnull'' y)"
    by auto
  moreover obtain o' where "py_op_name o' = Some (dunder op)" "PyExpr_richcmp b e f op = E_BinaryExpr e o' f"
    using compare_builds by blast
  ultimately show ?case by (simp add: operator_to_py_def lift_py_def tree_api_def)
qed (auto simp: PyExpr_column_def PyExpr_literal_def PyExpr_and_def PyExpr_or_def PyExpr_invert_def PyExpr_is_null_def
    connects negates negation_plain tests literal_of column_of operator_to_py_def lift_py_def tree_api_def)

end


text \<open>\<open>(column("a") <= literal(1)) & ~column("b").is_null()\<close>\<close>

definition demo_code :: py_code where
  "demo_code = Code_And (Code_Compare Py_Le (Code_Column ''a'') (Code_Literal (SV_Int64 (Some 1))))
     (Code_Not (Code_Is_Null (Code_Column ''b'')))"


text \<open>A sort expression made in Python keeps its flags; without arguments it is ascending, NULLs first.\<close>

lemma python_sort:
  assumes "expr_builders b"
  shows "PyExpr_sort b e asc nulls_first =
     PySortExpr_new e (case asc of None \<Rightarrow> True | Some a \<Rightarrow> a) (case nulls_first of None \<Rightarrow> True | Some n \<Rightarrow> n)"
  by (simp add: PyExpr_sort_def PySortExpr_new_def expr_builders.sorts [OF assms])

end
