(* ===== verification/Expr_Unmade.thy ===== *)
theory Expr_Unmade
  imports Expr_Variants
begin

text \<open>
  The expression classes of \<open>src/expr/\<close> that are registered with Python but that \<open>to_variant\<close> makes no
  object of: \<open>ILike\<close> and \<open>SimilarTo\<close> (\<open>like.rs\<close>), \<open>TryCast\<close> (\<open>cast.rs\<close>), \<open>Between\<close>, \<open>Exists\<close>, \<open>InList\<close>,
  \<open>InSubquery\<close>, \<open>Placeholder\<close>, \<open>ScalarSubquery\<close> and the classes without methods \<open>GroupingSet\<close> and
  \<open>Signature\<close>: what their methods answer, and that they would hide nothing of an expression.
\<close>

section \<open>Methods of the objects\<close>

definition bool_debug :: "bool \<Rightarrow> string" where
  "bool_debug b = (if b then ''true'' else ''false'')"

text \<open>The three classes of LIKE have the same methods and call themselves \<open>Like\<close> in their texts.\<close>

definition pattern_fmt :: "string \<Rightarrow> 'q expr_text \<Rightarrow> like_opts \<Rightarrow> 'q expr \<Rightarrow> 'q expr \<Rightarrow> string" where
  "pattern_fmt name tx v x p =
     name @ below @ ''Negated: '' @ ok_debug (bool_debug (like_negated v)) @
     below @ ''Expr: '' @ ok_debug (py_expr_debug tx x) @ below @ ''Pattern: '' @ ok_debug (py_expr_debug tx p) @
     below @ ''Escape_Char: '' @ ok_debug (opt_char_debug tx (like_escape_char v))"

lemma like_fmt_pattern: "like_fmt tx v x p = pattern_fmt ''Like'' tx v x p"
  by (simp add: like_fmt_def pattern_fmt_def bool_debug_def)

definition ilike_fmt :: "'q expr_text \<Rightarrow> like_opts \<Rightarrow> 'q expr \<Rightarrow> 'q expr \<Rightarrow> string" where
  "ilike_fmt tx v x p = pattern_fmt ''ILike'' tx v x p"

definition ilike_methods :: "'q expr_text \<Rightarrow> like_opts \<Rightarrow> 'q expr \<Rightarrow> 'q expr \<Rightarrow> 'q methods" where
  "ilike_methods tx v x p =
     [(''negated'', A_Bool (like_negated v)), (''expr'', A_Expr x), (''pattern'', A_Expr p),
      (''escape_char'', A_Opt_Char (like_escape_char v)), (''__repr__'', A_Str (''Like('' @ ilike_fmt tx v x p @ '')''))]"

definition similar_to_fmt :: "'q expr_text \<Rightarrow> like_opts \<Rightarrow> 'q expr \<Rightarrow> 'q expr \<Rightarrow> string" where
  "similar_to_fmt tx v x p = pattern_fmt ''SimilarTo'' tx v x p"

definition similar_to_methods :: "'q expr_text \<Rightarrow> like_opts \<Rightarrow> 'q expr \<Rightarrow> 'q expr \<Rightarrow> 'q methods" where
  "similar_to_methods tx v x p =
     [(''negated'', A_Bool (like_negated v)), (''expr'', A_Expr x), (''pattern'', A_Expr p),
      (''escape_char'', A_Opt_Char (like_escape_char v)), (''__repr__'', A_Str (''Like('' @ similar_to_fmt tx v x p @ '')''))]"

definition try_cast_methods :: "'q expr \<Rightarrow> data_type \<Rightarrow> 'q methods" where
  "try_cast_methods x t = [(''expr'', A_Expr x), (''data_type'', A_Type t)]"

definition between_fmt :: "'q expr_text \<Rightarrow> 'q expr \<Rightarrow> bool \<Rightarrow> 'q expr \<Rightarrow> 'q expr \<Rightarrow> string" where
  "between_fmt tx x neg low high =
     ''Between'' @ below @ ''Expr: '' @ expr_debug tx x @ below @ ''Negated: '' @ bool_debug neg @
     below @ ''Low: '' @ expr_debug tx low @ below @ ''High: '' @ expr_debug tx high"

definition between_methods :: "'q expr_text \<Rightarrow> 'q expr \<Rightarrow> bool \<Rightarrow> 'q expr \<Rightarrow> 'q expr \<Rightarrow> 'q methods" where
  "between_methods tx x neg low high =
     [(''expr'', A_Expr x), (''negated'', A_Bool neg), (''low'', A_Expr low), (''high'', A_Expr high),
      (''__repr__'', A_Str (between_fmt tx x neg low high))]"

definition exists_methods :: "'q \<Rightarrow> bool \<Rightarrow> 'q methods" where
  "exists_methods subquery neg = [(''subquery'', A_Subquery subquery), (''negated'', A_Bool neg)]"

definition in_list_methods :: "'q expr \<Rightarrow> 'q expr list \<Rightarrow> bool \<Rightarrow> 'q methods" where
  "in_list_methods x es neg = [(''expr'', A_Expr x), (''list'', A_Exprs es), (''negated'', A_Bool neg)]"

definition in_subquery_methods :: "'q expr \<Rightarrow> 'q \<Rightarrow> bool \<Rightarrow> 'q methods" where
  "in_subquery_methods x subquery neg = [(''expr'', A_Expr x), (''subquery'', A_Subquery subquery), (''negated'', A_Bool neg)]"

definition scalar_subquery_methods :: "'q \<Rightarrow> 'q methods" where
  "scalar_subquery_methods subquery = [(''subquery'', A_Subquery subquery)]"

text \<open>A \<open>PyPlaceholder\<close> stores an optional type, but its constructor wants one.\<close>

record py_placeholder =
  ph_id :: string
  ph_data_type :: "data_type option"

definition PyPlaceholder_new :: "string \<Rightarrow> data_type \<Rightarrow> py_placeholder" where
  "PyPlaceholder_new i t = \<lparr>ph_id = i, ph_data_type = Some t\<rparr>"

definition placeholder_methods :: "py_placeholder \<Rightarrow> 'q methods" where
  "placeholder_methods p = [(''id'', A_Str (ph_id p)), (''data_type'', A_Opt_Type (ph_data_type p))]"

definition grouping_set_methods :: "'q expr list \<Rightarrow> 'q methods" where
  "grouping_set_methods es = []"

text \<open>\<open>'s\<close> is a type signature and \<open>'v\<close> a volatility of DataFusion.\<close>

record ('s, 'v) py_signature =
  sg_type_signature :: 's
  sg_volatility :: 'v

definition PySignature_new :: "'s \<Rightarrow> 'v \<Rightarrow> ('s, 'v) py_signature" where
  "PySignature_new type_signature vol = \<lparr>sg_type_signature = type_signature, sg_volatility = vol\<rparr>"

section \<open>What they would tell\<close>

text \<open>The object each class would make of its expression: the name of the class and the answers.\<close>

definition unmade_reading :: "'q expr_text \<Rightarrow> 'q expr \<Rightarrow> (string \<times> 'q methods) option" where
  "unmade_reading tx e = (case e of
     E_Like v x p \<Rightarrow> if like_case_insensitive v then Some (''ILike'', ilike_methods tx v x p) else None
   | E_SimilarTo v x p \<Rightarrow> Some (''SimilarTo'', similar_to_methods tx v x p)
   | E_TryCast x t \<Rightarrow> Some (''TryCast'', try_cast_methods x t)
   | E_Between x neg low high \<Rightarrow> Some (''Between'', between_methods tx x neg low high)
   | E_InList x es neg \<Rightarrow> Some (''InList'', in_list_methods x es neg)
   | E_Exists q neg \<Rightarrow> Some (''Exists'', exists_methods q neg)
   | E_InSubquery x q neg \<Rightarrow> Some (''InSubquery'', in_subquery_methods x q neg)
   | E_ScalarSubquery q \<Rightarrow> Some (''ScalarSubquery'', scalar_subquery_methods q)
   | _ \<Rightarrow> None)"

lemmas unmade_defs = ilike_methods_def similar_to_methods_def try_cast_methods_def between_methods_def
  in_list_methods_def exists_methods_def in_subquery_methods_def scalar_subquery_methods_def

text \<open>The expression a reading is of; the case of a LIKE is in the class.\<close>

definition unmade_expr :: "string \<times> 'q methods \<Rightarrow> 'q expr" where
  "unmade_expr r = (case r of
     (c, (_, A_Bool neg) # (_, A_Expr x) # (_, A_Expr p) # (_, A_Opt_Char esc) # _) \<Rightarrow>
       (let v = \<lparr>like_negated = neg, like_escape_char = esc, like_case_insensitive = (c = ''ILike'')\<rparr>
        in if c = ''ILike'' then E_Like v x p else E_SimilarTo v x p)
   | (_, [(_, A_Expr x), (_, A_Type t)]) \<Rightarrow> E_TryCast x t
   | (_, (_, A_Expr x) # (_, A_Bool neg) # (_, A_Expr low) # (_, A_Expr high) # _) \<Rightarrow> E_Between x neg low high
   | (_, [(_, A_Expr x), (_, A_Exprs es), (_, A_Bool neg)]) \<Rightarrow> E_InList x es neg
   | (_, [(_, A_Subquery q), (_, A_Bool neg)]) \<Rightarrow> E_Exists q neg
   | (_, [(_, A_Expr x), (_, A_Subquery q), (_, A_Bool neg)]) \<Rightarrow> E_InSubquery x q neg
   | (_, [(_, A_Subquery q)]) \<Rightarrow> E_ScalarSubquery q)"

text \<open>
  \<open>to_variant\<close> refuses every one of these expressions but the LIKE, of which it makes an object that
  does not tell the case; the classes that are never used would tell the whole expression (of a SIMILAR
  TO all but the case sensitivity, which SQL does not have).
\<close>

theorem unmade_classes_tell_all:
  assumes "unmade_reading tx e = Some r"
  shows "(isl (to_variant tx e) \<longleftrightarrow> (\<nexists>v x p. e = E_Like v x p))
    \<and> unmade_expr r = (case e of E_SimilarTo v x p \<Rightarrow> E_SimilarTo (v\<lparr>like_case_insensitive := False\<rparr>) x p | _ \<Rightarrow> e)"
  using assms by (cases e) (auto simp: unmade_reading_def unmade_defs unmade_expr_def to_variant_def split: if_splits)

end
