(* ===== verification/Logical_Plan.thy ===== *)
theory Logical_Plan
  imports Expr_Model
begin

text \<open>
  \<open>src/sql/logical.rs\<close> and the plan nodes under \<open>src/expr/\<close>: how Python walks a logical plan. A plan is
  turned into the Python object of its operator with \<open>to_variant\<close>; the object hands out its fields and,
  through the trait \<open>LogicalNode\<close>, its input plans.

  \<open>LogicalPlan\<close> is an enum of the datafusion crate; the datatype has the operators the source names,
  each with the fields the source reads. \<open>'s\<close> is a schema, \<open>'q\<close> what a subquery expression holds.
\<close>

section \<open>Plans\<close>

datatype join_type = Inner | Left | Right | Full | LeftSemi | RightSemi | LeftAnti | RightAnti | LeftMark | RightMark

datatype join_constraint = On | Using

datatype null_equality = NullEqualsNothing | NullEqualsNull

datatype 'q partitioning = RoundRobinBatch nat | HashPartitioning "'q expr list" nat | DistributeBy "'q expr list"

datatype table_reference = Bare string | Partial string string | Full_Reference string string string

record ('q, 's) table_scan =
  ts_table_name :: table_reference
  ts_source_fields :: "field list"
  ts_projection :: "nat list option"
  ts_projected_schema :: 's
  ts_filters :: "'q expr list"
  ts_fetch :: "nat option"

datatype ('q, 's) plan =
    L_Projection "'q expr list" "('q, 's) plan" 's
  | L_Filter "'q expr" "('q, 's) plan"
  | L_Window "'q expr list" "('q, 's) plan" 's
  | L_Aggregate "'q expr list" "'q expr list" "('q, 's) plan" 's
  | L_Sort "'q sort_expr list" "('q, 's) plan" "nat option"
  | L_Join "('q, 's) plan" "('q, 's) plan" "('q expr \<times> 'q expr) list" "'q expr option" join_type join_constraint 's null_equality
  | L_Repartition "('q, 's) plan" "'q partitioning"
  | L_Union "('q, 's) plan list" 's
  | L_TableScan "('q, 's) table_scan"
  | L_EmptyRelation bool 's
  | L_Subquery "('q, 's) plan" "'q expr list"
  | L_SubqueryAlias "('q, 's) plan" string 's
  | L_Limit "'q expr option" "'q expr option" "('q, 's) plan"
  | L_Distinct_All "('q, 's) plan"
  | L_Distinct_On "'q expr list" "('q, 's) plan"
  | L_Explain bool "('q, 's) plan" "string list" 's bool
  | L_Analyze bool "('q, 's) plan" 's
  | L_Extension string "('q, 's) plan list"
  | L_CreateView string "('q, 's) plan" bool "string option"
  | L_CreateMemoryTable string "('q, 's) plan" bool bool
  | L_DropTable string bool 's
  | L_Other string "('q, 's) plan list"

section \<open>The Python object of an operator\<close>

datatype node_class =
    N_Aggregate | N_Analyze | N_Distinct | N_EmptyRelation | N_Explain | N_Extension | N_Filter | N_Join
  | N_Limit | N_Projection | N_Sort | N_TableScan | N_Subquery | N_SubqueryAlias | N_Window
  | N_Repartition | N_Union | N_CreateView | N_CreateMemoryTable | N_DropTable

datatype ('q, 's) node = Node (class_of: node_class) (plan_of: "('q, 's) plan")

definition plan_to_variant :: "(('q, 's) plan \<Rightarrow> string) \<Rightarrow> ('q, 's) plan \<Rightarrow> py_err + ('q, 's) node" where
  "plan_to_variant debug plan = (case plan of
     L_Aggregate _ _ _ _ \<Rightarrow> Inr (Node N_Aggregate plan)
   | L_Analyze _ _ _ \<Rightarrow> Inr (Node N_Analyze plan)
   | L_Distinct_All _ \<Rightarrow> Inr (Node N_Distinct plan)
   | L_Distinct_On _ _ \<Rightarrow> Inr (Node N_Distinct plan)
   | L_EmptyRelation _ _ \<Rightarrow> Inr (Node N_EmptyRelation plan)
   | L_Explain _ _ _ _ _ \<Rightarrow> Inr (Node N_Explain plan)
   | L_Extension _ _ \<Rightarrow> Inr (Node N_Extension plan)
   | L_Filter _ _ \<Rightarrow> Inr (Node N_Filter plan)
   | L_Join _ _ _ _ _ _ _ _ \<Rightarrow> Inr (Node N_Join plan)
   | L_Limit _ _ _ \<Rightarrow> Inr (Node N_Limit plan)
   | L_Projection _ _ _ \<Rightarrow> Inr (Node N_Projection plan)
   | L_Sort _ _ _ \<Rightarrow> Inr (Node N_Sort plan)
   | L_TableScan _ \<Rightarrow> Inr (Node N_TableScan plan)
   | L_Subquery _ _ \<Rightarrow> Inr (Node N_Subquery plan)
   | L_SubqueryAlias _ _ _ \<Rightarrow> Inr (Node N_SubqueryAlias plan)
   | L_Window _ _ _ \<Rightarrow> Inr (Node N_Window plan)
   | other \<Rightarrow> Inl (py_unsupported_variant_err (''Cannot convert this plan to a LogicalNode: '' @ debug other)))"

text \<open>\<open>LogicalNode::inputs\<close> of every node class, on the plan-valued fields of its operator.\<close>

definition aggregate_inputs :: "('q, 's) plan \<Rightarrow> ('q, 's) plan list" where
  "aggregate_inputs input = [input]"

definition analyze_inputs :: "('q, 's) plan \<Rightarrow> ('q, 's) plan list" where
  "analyze_inputs input = [input]"

definition distinct_inputs :: "('q, 's) plan \<Rightarrow> ('q, 's) plan list" where
  "distinct_inputs p = (case p of L_Distinct_All input \<Rightarrow> [input] | L_Distinct_On _ input \<Rightarrow> [input] | _ \<Rightarrow> [])"

definition empty_relation_inputs :: "('q, 's) plan list" where
  "empty_relation_inputs = []"

definition explain_inputs :: "('q, 's) plan \<Rightarrow> ('q, 's) plan list" where
  "explain_inputs _ = []"

definition extension_inputs :: "('q, 's) plan list \<Rightarrow> ('q, 's) plan list" where
  "extension_inputs _ = []"

definition filter_inputs :: "('q, 's) plan \<Rightarrow> ('q, 's) plan list" where
  "filter_inputs input = [input]"

definition join_inputs :: "('q, 's) plan \<Rightarrow> ('q, 's) plan \<Rightarrow> ('q, 's) plan list" where
  "join_inputs left right = [left, right]"

definition limit_inputs :: "('q, 's) plan \<Rightarrow> ('q, 's) plan list" where
  "limit_inputs input = [input]"

definition projection_inputs :: "('q, 's) plan \<Rightarrow> ('q, 's) plan list" where
  "projection_inputs input = [input]"

definition sort_inputs :: "('q, 's) plan \<Rightarrow> ('q, 's) plan list" where
  "sort_inputs input = [input]"

definition table_scan_inputs :: "('q, 's) table_scan \<Rightarrow> ('q, 's) plan list" where
  "table_scan_inputs _ = []"

definition subquery_inputs :: "('q, 's) plan \<Rightarrow> ('q, 's) plan list" where
  "subquery_inputs _ = []"

definition subquery_alias_inputs :: "('q, 's) plan \<Rightarrow> ('q, 's) plan list" where
  "subquery_alias_inputs input = [input]"

definition window_inputs :: "('q, 's) plan \<Rightarrow> ('q, 's) plan list" where
  "window_inputs input = [input]"

definition repartition_inputs :: "('q, 's) plan \<Rightarrow> ('q, 's) plan list" where
  "repartition_inputs input = [input]"

definition union_inputs :: "('q, 's) plan list \<Rightarrow> ('q, 's) plan list" where
  "union_inputs inputs = inputs"

definition create_view_inputs :: "('q, 's) plan \<Rightarrow> ('q, 's) plan list" where
  "create_view_inputs input = [input]"

definition create_memory_table_inputs :: "('q, 's) plan \<Rightarrow> ('q, 's) plan list" where
  "create_memory_table_inputs input = [input]"

definition drop_table_inputs :: "('q, 's) plan list" where
  "drop_table_inputs = []"

lemmas inputs_defs =
  aggregate_inputs_def analyze_inputs_def distinct_inputs_def empty_relation_inputs_def explain_inputs_def
  extension_inputs_def filter_inputs_def join_inputs_def limit_inputs_def projection_inputs_def
  sort_inputs_def table_scan_inputs_def subquery_inputs_def subquery_alias_inputs_def window_inputs_def
  repartition_inputs_def union_inputs_def create_view_inputs_def create_memory_table_inputs_def drop_table_inputs_def

definition node_inputs :: "('q, 's) node \<Rightarrow> ('q, 's) plan list" where
  "node_inputs n = (case plan_of n of
     L_Aggregate _ _ input _ \<Rightarrow> aggregate_inputs input
   | L_Analyze _ input _ \<Rightarrow> analyze_inputs input
   | L_Distinct_All input \<Rightarrow> distinct_inputs (L_Distinct_All input)
   | L_Distinct_On es input \<Rightarrow> distinct_inputs (L_Distinct_On es input)
   | L_EmptyRelation _ _ \<Rightarrow> empty_relation_inputs
   | L_Explain _ plan _ _ _ \<Rightarrow> explain_inputs plan
   | L_Extension _ inputs \<Rightarrow> extension_inputs inputs
   | L_Filter _ input \<Rightarrow> filter_inputs input
   | L_Join left right _ _ _ _ _ _ \<Rightarrow> join_inputs left right
   | L_Limit _ _ input \<Rightarrow> limit_inputs input
   | L_Projection _ input _ \<Rightarrow> projection_inputs input
   | L_Sort _ input _ \<Rightarrow> sort_inputs input
   | L_TableScan ts \<Rightarrow> table_scan_inputs ts
   | L_Subquery subquery _ \<Rightarrow> subquery_inputs subquery
   | L_SubqueryAlias input _ _ \<Rightarrow> subquery_alias_inputs input
   | L_Window _ input _ \<Rightarrow> window_inputs input
   | L_Repartition input _ \<Rightarrow> repartition_inputs input
   | L_Union inputs _ \<Rightarrow> union_inputs inputs
   | L_CreateView _ input _ _ \<Rightarrow> create_view_inputs input
   | L_CreateMemoryTable _ input _ _ \<Rightarrow> create_memory_table_inputs input
   | L_DropTable _ _ _ \<Rightarrow> drop_table_inputs
   | L_Other _ _ \<Rightarrow> [])"

text \<open>The conversions \<open>TryFrom<LogicalPlan>\<close> of the two classes that have one.\<close>

definition explain_try_from :: "('q, 's) plan \<Rightarrow> py_err + ('q, 's) node" where
  "explain_try_from plan = (case plan of
     L_Explain _ _ _ _ _ \<Rightarrow> Inr (Node N_Explain plan) | _ \<Rightarrow> Inl (py_type_err ''unexpected plan''))"

definition create_view_try_from :: "('q, 's) plan \<Rightarrow> py_err + ('q, 's) node" where
  "create_view_try_from plan = (case plan of
     L_CreateView _ _ _ _ \<Rightarrow> Inr (Node N_CreateView plan) | _ \<Rightarrow> Inl (py_type_err ''unexpected plan''))"

section \<open>Fields of the nodes\<close>

text \<open>Where an accessor can panic the result is a fault.\<close>

datatype node_fault = Node_Err py_err | Node_Panic string

definition limit_skip :: "'q expr option \<Rightarrow> node_fault + nat" where
  "limit_skip skip = (case skip of
     Some (E_Literal (SV_Int64 s) _) \<Rightarrow>
       (let s = (case s of None \<Rightarrow> 0 | Some n \<Rightarrow> n) in
        if 0 \<le> sint s then Inr (unat s)
        else Inl (Node_Panic (''OFFSET must be >=0, '' @ [CHR 0x27] @ ''-'' @ show_nat (nat (- sint s)) @ [CHR 0x27] @ '' was provided'')))
   | Some _ \<Rightarrow> Inl (Node_Panic ''Unsupported Expr for OFFSET'')
   | None \<Rightarrow> Inr 0)"

definition limit_fetch :: "'q expr option \<Rightarrow> nat option" where
  "limit_fetch fetch = (case fetch of
     Some (E_Literal (SV_Int64 (Some s)) _) \<Rightarrow> (if 0 \<le> sint s then Some (unat s) else None)
   | _ \<Rightarrow> None)"

definition distribute_list :: "'q partitioning \<Rightarrow> py_err + 'q expr list" where
  "distribute_list scheme = (case scheme of
     DistributeBy es \<Rightarrow> Inr es | _ \<Rightarrow> Inl (py_type_err ''unexpected repartition strategy''))"

definition column_name_or_panic :: "'q expr \<Rightarrow> node_fault + string" where
  "column_name_or_panic e = (case e of
     E_Column _ name \<Rightarrow> Inr name | _ \<Rightarrow> Inl (Node_Panic ''Encountered a type other than Expr::Column''))"

definition distribute_columns :: "'q partitioning \<Rightarrow> node_fault + string" where
  "distribute_columns scheme = (case scheme of
     DistributeBy es \<Rightarrow> map_ok concat (collect_ok (map column_name_or_panic es))
   | _ \<Rightarrow> Inl (Node_Err (py_type_err ''unexpected repartition strategy'')))"

definition fqn :: "table_reference \<Rightarrow> string option \<times> string option \<times> string" where
  "fqn r = (case r of
     Bare t \<Rightarrow> (None, None, t)
   | Partial s t \<Rightarrow> (None, Some s, t)
   | Full_Reference c s t \<Rightarrow> (Some c, Some s, t))"

definition py_projections :: "('q, 's) table_scan \<Rightarrow> node_fault + (nat \<times> string) list" where
  "py_projections ts = (case ts_projection ts of
     Some indices \<Rightarrow>
       collect_ok (map (\<lambda>i. if i < length (ts_source_fields ts)
           then Inr (i, field_name (ts_source_fields ts ! i))
           else Inl (Node_Panic ''index out of bounds'')) indices)
   | None \<Rightarrow> Inr [])"

definition join_constraint_repr :: "join_constraint \<Rightarrow> string" where
  "join_constraint_repr c = (case c of On \<Rightarrow> ''On'' | Using \<Rightarrow> ''Using'')"

definition null_equals_null :: "null_equality \<Rightarrow> bool" where
  "null_equals_null e = (case e of NullEqualsNothing \<Rightarrow> False | NullEqualsNull \<Rightarrow> True)"

section \<open>Walking a plan\<close>

text \<open>The plans a node contains: all of its plan-valued fields.\<close>

definition direct_inputs :: "('q, 's) plan \<Rightarrow> ('q, 's) plan list" where
  "direct_inputs p = (case p of
     L_Projection _ i _ \<Rightarrow> [i] | L_Filter _ i \<Rightarrow> [i] | L_Window _ i _ \<Rightarrow> [i] | L_Aggregate _ _ i _ \<Rightarrow> [i]
   | L_Sort _ i _ \<Rightarrow> [i] | L_Join l r _ _ _ _ _ _ \<Rightarrow> [l, r] | L_Repartition i _ \<Rightarrow> [i] | L_Union is _ \<Rightarrow> is
   | L_TableScan _ \<Rightarrow> [] | L_EmptyRelation _ _ \<Rightarrow> [] | L_Subquery i _ \<Rightarrow> [i] | L_SubqueryAlias i _ _ \<Rightarrow> [i]
   | L_Limit _ _ i \<Rightarrow> [i] | L_Distinct_All i \<Rightarrow> [i] | L_Distinct_On _ i \<Rightarrow> [i] | L_Explain _ i _ _ _ \<Rightarrow> [i]
   | L_Analyze _ i _ \<Rightarrow> [i] | L_Extension _ is \<Rightarrow> is | L_CreateView _ i _ _ \<Rightarrow> [i]
   | L_CreateMemoryTable _ i _ _ \<Rightarrow> [i] | L_DropTable _ _ _ \<Rightarrow> [] | L_Other _ is \<Rightarrow> is)"

lemma direct_inputs_size: "q \<in> set (direct_inputs p) \<Longrightarrow> size q < size p"
  by (cases p) (auto simp: direct_inputs_def less_Suc_eq_le dest: size_list_estimation' [OF _ order_refl])

lemma node_inputs_direct: "set (node_inputs n) \<subseteq> set (direct_inputs (plan_of n))"
  by (cases "plan_of n") (simp_all add: node_inputs_def inputs_defs direct_inputs_def)

lemma plan_to_variant_plan [simp]: "plan_to_variant debug p = Inr n \<Longrightarrow> plan_of n = p"
  by (cases p) (auto simp: plan_to_variant_def)

text \<open>All plans in a plan, outermost first.\<close>

function subplans :: "('q, 's) plan \<Rightarrow> ('q, 's) plan list" where
  "subplans p = p # concat (map subplans (direct_inputs p))"
  by pat_completeness auto
termination by (relation "measure size") (auto dest: direct_inputs_size)

text \<open>What a Python visitor sees that converts every plan to its node and goes on with the node's inputs.\<close>

function walk :: "(('q, 's) plan \<Rightarrow> string) \<Rightarrow> ('q, 's) plan \<Rightarrow> py_err + ('q, 's) plan list" where
  "walk debug p =
     and_then (plan_to_variant debug p) (\<lambda>n.
     map_ok (\<lambda>vs. p # concat vs) (collect_ok (map (walk debug) (node_inputs n))))"
  by pat_completeness auto
termination
  by (relation "measure (\<lambda>(debug, p). size p)")
    (auto dest!: plan_to_variant_plan subsetD [OF node_inputs_direct] dest: direct_inputs_size)

declare walk.simps [simp del] subplans.simps [simp del]

text \<open>The operators \<open>to_variant\<close> has a class for, and those whose node hides the plans it contains.\<close>

definition convertible :: "('q, 's) plan \<Rightarrow> bool" where
  "convertible p = (case p of
     L_Repartition _ _ \<Rightarrow> False | L_Union _ _ \<Rightarrow> False | L_CreateView _ _ _ _ \<Rightarrow> False
   | L_CreateMemoryTable _ _ _ _ \<Rightarrow> False | L_DropTable _ _ _ \<Rightarrow> False | L_Other _ _ \<Rightarrow> False | _ \<Rightarrow> True)"

definition hides_inputs :: "('q, 's) plan \<Rightarrow> bool" where
  "hides_inputs p = (case p of
     L_Subquery _ _ \<Rightarrow> True | L_Extension _ _ \<Rightarrow> True | L_Explain _ _ _ _ _ \<Rightarrow> True | _ \<Rightarrow> False)"

function visible :: "('q, 's) plan \<Rightarrow> ('q, 's) plan list" where
  "visible p = p # concat (map visible (if hides_inputs p then [] else direct_inputs p))"
  by pat_completeness auto
termination by (relation "measure size") (auto dest: direct_inputs_size split: if_splits)

declare visible.simps [simp del]

lemma variant_convertible:
  "plan_to_variant debug p = (if convertible p then Inr (Node (class_of (projr (plan_to_variant debug p))) p)
     else Inl (py_unsupported_variant_err (''Cannot convert this plan to a LogicalNode: '' @ debug p)))"
  by (cases p) (simp_all add: plan_to_variant_def convertible_def)

lemma variant_inputs:
  "convertible p \<Longrightarrow> node_inputs (Node c p) = (if hides_inputs p then [] else direct_inputs p)"
  by (cases p) (simp_all add: node_inputs_def inputs_defs direct_inputs_def hides_inputs_def convertible_def)

lemma walk_step:
  "walk debug p = (if convertible p
     then map_ok (\<lambda>vs. p # concat vs) (collect_ok (map (walk debug) (if hides_inputs p then [] else direct_inputs p)))
     else Inl (py_unsupported_variant_err (''Cannot convert this plan to a LogicalNode: '' @ debug p)))"
  by (subst walk.simps, subst variant_convertible) (simp add: variant_inputs)

lemma walk_ok: "\<forall>q \<in> set (visible p). convertible q \<Longrightarrow> walk debug p = Inr (visible p)"
proof (induction p rule: visible.induct)
  case (1 p)
  let ?is = "if hides_inputs p then [] else direct_inputs p"
  have "convertible p" "\<forall>i \<in> set ?is. \<forall>q \<in> set (visible i). convertible q"
    using 1(2) by (simp_all add: visible.simps [of p])
  moreover from this(2) have "map (walk debug) ?is = map (\<lambda>i. Inr (visible i)) ?is"
    using 1(1) by (intro map_cong [OF refl]) auto
  then have "collect_ok (map (walk debug) ?is) = Inr (map visible ?is)" by (simp only: map_map_Inr_collect)
  ultimately show ?case by (simp only: walk_step [of debug p] visible.simps [of p] if_True map_ok.simps)
qed

lemma walk_err:
  "\<exists>q \<in> set (visible p). \<not> convertible q \<Longrightarrow> \<exists>e. walk debug p = Inl e \<and> pe_class e = PyValueError"
proof (induction p rule: visible.induct)
  case (1 p)
  let ?is = "if hides_inputs p then [] else direct_inputs p"
  show ?case
  proof (cases "convertible p")
    case True
    then obtain i where i: "i \<in> set ?is" "\<exists>q \<in> set (visible i). \<not> convertible q"
      using 1(2) by (auto simp: visible.simps [of p] split: if_splits)
    have kind: "pe_class e = PyValueError" if "Inl e \<in> set (map (walk debug) ?is)" for e
    proof -
      from that obtain j where j: "j \<in> set ?is" "walk debug j = Inl e" by auto
      then have "\<exists>q \<in> set (visible j). \<not> convertible q" using walk_ok [of j debug] by fastforce
      then show ?thesis using 1(1) [OF j(1)] j(2) by auto
    qed
    have "isl (collect_ok (map (walk debug) ?is))" using 1(1) [OF i] i(1) unfolding collect_ok_isl by (metis image_eqI isl_def list.set_map)
    then obtain e where e: "collect_ok (map (walk debug) ?is) = Inl e" by (auto simp: isl_def)
    have "pe_class e = PyValueError" by (rule kind [OF collect_ok_InlD [OF e]])
    then show ?thesis using e True by (simp add: walk_step [of debug p])
  qed (simp add: walk_step [of debug p] py_unsupported_variant_err_def)
qed

lemma visible_all: "\<forall>q \<in> set (subplans p). \<not> hides_inputs q \<Longrightarrow> visible p = subplans p"
proof (induction p rule: subplans.induct)
  case (1 p)
  then have "\<not> hides_inputs p" "\<forall>i \<in> set (direct_inputs p). visible i = subplans i"
    by (auto simp: subplans.simps [of p])
  then show ?case by (simp add: visible.simps [of p] subplans.simps [of p] cong: map_cong)
qed

text \<open>
  C38: A visitor that converts every plan to its node and goes on with what \<open>LogicalNode::inputs\<close> of the
  node reports (Python reads the same list by \<open>input()\<close>, which only the window object lacks) ends, and sees exactly the plans that are not below a subquery, an extension or an explain node, outermost
  first; in a plan without those nodes it sees every operator. It fails, with ValueError, exactly when
  one of the plans it meets has no node class (union, repartition, create view, create memory table,
  drop table, statements).
\<close>

theorem plan_walk:
  "(walk debug p = Inr vs \<longleftrightarrow> (\<forall>q \<in> set (visible p). convertible q) \<and> vs = visible p)
   \<and> (\<forall>e. walk debug p = Inl e \<longrightarrow> pe_class e = PyValueError)
   \<and> ((\<forall>q \<in> set (subplans p). \<not> hides_inputs q) \<longrightarrow> visible p = subplans p)"
proof (cases "\<forall>q \<in> set (visible p). convertible q")
  case True
  then show ?thesis using walk_ok [OF True, of debug] visible_all [of p] by auto
next
  case False
  then obtain e where "walk debug p = Inl e" "pe_class e = PyValueError" using walk_err [of p debug] by blast
  then show ?thesis using False visible_all [of p] by auto
qed

definition demo_scan :: "(unit, unit) plan" where
  "demo_scan = L_TableScan \<lparr>ts_table_name = Bare ''t'', ts_source_fields = [], ts_projection = None,
     ts_projected_schema = (), ts_filters = [], ts_fetch = None\<rparr>"

definition demo_plan :: "(unit, unit) plan" where
  "demo_plan = L_Limit None None (L_Join demo_scan (L_Subquery demo_scan []) [] None Inner On () NullEqualsNothing)"

theorem plan_walk_witness:
  "walk (\<lambda>_. []) demo_plan = Inr (visible demo_plan)"
proof -
  have "\<forall>q \<in> set (visible demo_plan). convertible q" by code_simp
  then show ?thesis using plan_walk [of "\<lambda>_. []" demo_plan "visible demo_plan"] by blast
qed

text \<open>The table below the subquery of this plan is there and is not seen.\<close>

lemma subquery_table_unseen: "length (visible demo_plan) = 4 \<and> length (subplans demo_plan) = 5"
  by code_simp

text \<open>
  The limits Python reads: a negative or computed offset panics, a negative or computed fetch reads as
  none; a literal offset that is not negative is read exactly.
\<close>

lemma limit_values:
  assumes "0 \<le> sint n"
  shows "limit_skip (Some (E_Literal (SV_Int64 (Some n)) md)) = Inr (nat (sint n))"
    and "limit_fetch (Some (E_Literal (SV_Int64 (Some n)) md)) = Some (nat (sint n))"
proof -
  have "unat n = nat (sint n)" using assms uint_sint [of n] sint_lt [of n] by (simp add: unat_eq_nat_uint take_bit_eq_mod)
  then show "limit_skip (Some (E_Literal (SV_Int64 (Some n)) md)) = Inr (nat (sint n))"
    and "limit_fetch (Some (E_Literal (SV_Int64 (Some n)) md)) = Some (nat (sint n))"
    using assms by (simp_all add: limit_skip_def limit_fetch_def)
qed

end
