(* ===== verification/Expr_Nodes.thy ===== *)
theory Expr_Nodes
  imports Expr_Model
begin

text \<open>
  The classes Python gets for single expressions, where they do more than hand out a field:
  \<open>src/expr/literal.rs\<close> (typed access to a literal's value), \<open>src/expr/window.rs\<close> (window frames and their
  bounds) and the accessors for aggregate and window calls of \<open>src/expr/aggregate.rs\<close> and
  \<open>src/expr/window.rs\<close>. The texts of scalars and the null test of a scalar are code of the datafusion
  crate and parameters here.
\<close>

section \<open>Literals\<close>

type_synonym scalar_text = "scalar_value \<Rightarrow> string"

definition unexpected_literal_value :: "scalar_text \<Rightarrow> scalar_value \<Rightarrow> py_err" where
  "unexpected_literal_value display value = new_err PyValueError (''getValue<T>() - Unexpected value: '' @ display value)"

definition value_f32 :: "scalar_text \<Rightarrow> scalar_value \<Rightarrow> py_err + u32 option" where
  "value_f32 display value = (case value of SV_Float32 v \<Rightarrow> Inr v | other \<Rightarrow> Inl (unexpected_literal_value display other))"

definition value_f64 :: "scalar_text \<Rightarrow> scalar_value \<Rightarrow> py_err + u64 option" where
  "value_f64 display value = (case value of SV_Float64 v \<Rightarrow> Inr v | other \<Rightarrow> Inl (unexpected_literal_value display other))"

definition value_decimal128 :: "scalar_text \<Rightarrow> scalar_value \<Rightarrow> py_err + i128 option \<times> u8 \<times> i8" where
  "value_decimal128 display value = (case value of SV_Decimal128 v precision scale \<Rightarrow> Inr (v, precision, scale) | other \<Rightarrow> Inl (unexpected_literal_value display other))"

definition value_i8 :: "scalar_text \<Rightarrow> scalar_value \<Rightarrow> py_err + i8 option" where
  "value_i8 display value = (case value of SV_Int8 v \<Rightarrow> Inr v | other \<Rightarrow> Inl (unexpected_literal_value display other))"

definition value_i16 :: "scalar_text \<Rightarrow> scalar_value \<Rightarrow> py_err + i16 option" where
  "value_i16 display value = (case value of SV_Int16 v \<Rightarrow> Inr v | other \<Rightarrow> Inl (unexpected_literal_value display other))"

definition value_i32 :: "scalar_text \<Rightarrow> scalar_value \<Rightarrow> py_err + i32 option" where
  "value_i32 display value = (case value of SV_Int32 v \<Rightarrow> Inr v | other \<Rightarrow> Inl (unexpected_literal_value display other))"

definition value_i64 :: "scalar_text \<Rightarrow> scalar_value \<Rightarrow> py_err + i64 option" where
  "value_i64 display value = (case value of SV_Int64 v \<Rightarrow> Inr v | other \<Rightarrow> Inl (unexpected_literal_value display other))"

definition value_u8 :: "scalar_text \<Rightarrow> scalar_value \<Rightarrow> py_err + u8 option" where
  "value_u8 display value = (case value of SV_UInt8 v \<Rightarrow> Inr v | other \<Rightarrow> Inl (unexpected_literal_value display other))"

definition value_u16 :: "scalar_text \<Rightarrow> scalar_value \<Rightarrow> py_err + u16 option" where
  "value_u16 display value = (case value of SV_UInt16 v \<Rightarrow> Inr v | other \<Rightarrow> Inl (unexpected_literal_value display other))"

definition value_u32 :: "scalar_text \<Rightarrow> scalar_value \<Rightarrow> py_err + u32 option" where
  "value_u32 display value = (case value of SV_UInt32 v \<Rightarrow> Inr v | other \<Rightarrow> Inl (unexpected_literal_value display other))"

definition value_u64 :: "scalar_text \<Rightarrow> scalar_value \<Rightarrow> py_err + u64 option" where
  "value_u64 display value = (case value of SV_UInt64 v \<Rightarrow> Inr v | other \<Rightarrow> Inl (unexpected_literal_value display other))"

definition value_date32 :: "scalar_text \<Rightarrow> scalar_value \<Rightarrow> py_err + i32 option" where
  "value_date32 display value = (case value of SV_Date32 v \<Rightarrow> Inr v | other \<Rightarrow> Inl (unexpected_literal_value display other))"

definition value_date64 :: "scalar_text \<Rightarrow> scalar_value \<Rightarrow> py_err + i64 option" where
  "value_date64 display value = (case value of SV_Date64 v \<Rightarrow> Inr v | other \<Rightarrow> Inl (unexpected_literal_value display other))"

definition value_time64 :: "scalar_text \<Rightarrow> scalar_value \<Rightarrow> py_err + i64 option" where
  "value_time64 display value = (case value of SV_Time64Nanosecond v \<Rightarrow> Inr v | other \<Rightarrow> Inl (unexpected_literal_value display other))"

definition value_timestamp :: "scalar_text \<Rightarrow> scalar_value \<Rightarrow> py_err + i64 option \<times> string option" where
  "value_timestamp display value = (case value of
       SV_TimestampNanosecond iv tz \<Rightarrow> Inr (iv, tz)
     | SV_TimestampMicrosecond iv tz \<Rightarrow> Inr (iv, tz)
     | SV_TimestampMillisecond iv tz \<Rightarrow> Inr (iv, tz)
     | SV_TimestampSecond iv tz \<Rightarrow> Inr (iv, tz)
     | other \<Rightarrow> Inl (unexpected_literal_value display other))"

definition value_bool :: "scalar_text \<Rightarrow> scalar_value \<Rightarrow> py_err + bool option" where
  "value_bool display value = (case value of SV_Boolean v \<Rightarrow> Inr v | other \<Rightarrow> Inl (unexpected_literal_value display other))"

definition value_string :: "scalar_text \<Rightarrow> scalar_value \<Rightarrow> py_err + string option" where
  "value_string display value = (case value of SV_Utf8 v \<Rightarrow> Inr v | other \<Rightarrow> Inl (unexpected_literal_value display other))"

definition value_interval_day_time :: "scalar_text \<Rightarrow> scalar_value \<Rightarrow> py_err + (i32 \<times> i32) option" where
  "value_interval_day_time display value = (case value of SV_IntervalDayTime v \<Rightarrow> Inr v | other \<Rightarrow> Inl (unexpected_literal_value display other))"

text \<open>\<open>data_type\<close>, \<open>__repr__\<close> and \<open>into_type\<close>, which hands out the object itself.\<close>

definition literal_data_type :: "'q expr_text \<Rightarrow> (scalar_value \<Rightarrow> data_type) \<Rightarrow> scalar_value \<Rightarrow> string" where
  "literal_data_type tx scalar_data_type value = type_display tx (scalar_data_type value)"

definition literal_repr :: "scalar_text \<Rightarrow> scalar_value \<Rightarrow> py_err + string" where
  "literal_repr display value = Inr (display value)"

definition literal_into_type :: "('l \<Rightarrow> py_err + 'o) \<Rightarrow> 'l \<Rightarrow> py_err + 'o" where
  "literal_into_type into_pyobject lit = into_pyobject lit"

lemmas value_defs =
  value_f32_def value_f64_def value_decimal128_def value_i8_def value_i16_def value_i32_def value_i64_def value_u8_def value_u16_def
  value_u32_def value_u64_def value_date32_def value_date64_def value_time64_def value_timestamp_def value_bool_def value_string_def value_interval_day_time_def

text \<open>Which accessors of a literal answer, by name.\<close>

definition answered :: "scalar_text \<Rightarrow> scalar_value \<Rightarrow> string list" where
  "answered display value = map fst (filter snd
    [(''value_f32'', \<not> isl (value_f32 display value)),
     (''value_f64'', \<not> isl (value_f64 display value)),
     (''value_decimal128'', \<not> isl (value_decimal128 display value)),
     (''value_i8'', \<not> isl (value_i8 display value)),
     (''value_i16'', \<not> isl (value_i16 display value)),
     (''value_i32'', \<not> isl (value_i32 display value)),
     (''value_i64'', \<not> isl (value_i64 display value)),
     (''value_u8'', \<not> isl (value_u8 display value)),
     (''value_u16'', \<not> isl (value_u16 display value)),
     (''value_u32'', \<not> isl (value_u32 display value)),
     (''value_u64'', \<not> isl (value_u64 display value)),
     (''value_date32'', \<not> isl (value_date32 display value)),
     (''value_date64'', \<not> isl (value_date64 display value)),
     (''value_time64'', \<not> isl (value_time64 display value)),
     (''value_timestamp'', \<not> isl (value_timestamp display value)),
     (''value_bool'', \<not> isl (value_bool display value)),
     (''value_string'', \<not> isl (value_string display value)),
     (''value_interval_day_time'', \<not> isl (value_interval_day_time display value))])"

section \<open>Window frames\<close>

text \<open>The unit of a frame, case-insensitively; \<open>str_debug\<close> is the Debug text of a Rust string.\<close>

definition frame_units_of :: "(string \<Rightarrow> string) \<Rightarrow> string \<Rightarrow> py_err + frame_units" where
  "frame_units_of str_debug unit_name =
     (let units = to_ascii_lowercase unit_name in
      if units = ''rows'' then Inr Rows
      else if units = ''range'' then Inr Range
      else if units = ''groups'' then Inr Groups
      else Inl (new_err PyNotImplementedError (str_debug units)))"

definition frame_bound_of ::
  "(scalar_value \<Rightarrow> frame_bound) \<Rightarrow> frame_units \<Rightarrow> u64 option \<Rightarrow> py_err + frame_bound" where
  "frame_bound_of side units bound =
     (case bound of
        Some n \<Rightarrow> Inr (side (SV_UInt64 (Some n)))
      | None \<Rightarrow>
          (case units of
             Rows \<Rightarrow> Inr (side (SV_UInt64 None))
           | Range \<Rightarrow> Inr (side (SV_UInt64 None))
           | Groups \<Rightarrow> Inl (new_err PyNotImplementedError ''Groups'')))"

definition PyWindowFrame_new ::
  "(string \<Rightarrow> string) \<Rightarrow> string \<Rightarrow> u64 option \<Rightarrow> u64 option \<Rightarrow> py_err + window_frame" where
  "PyWindowFrame_new str_debug unit_name start_bound end_bound =
     and_then (frame_units_of str_debug unit_name) (\<lambda>units.
     and_then (frame_bound_of Preceding units start_bound) (\<lambda>lower.
     and_then (frame_bound_of Following units end_bound) (\<lambda>upper.
     Inr \<lparr>wf_units = units, wf_start = lower, wf_end = upper\<rparr>)))"

text \<open>The parts of a frame and its text; the texts of units and bounds are DataFusion's.\<close>

definition get_frame_units :: "(frame_units \<Rightarrow> string) \<Rightarrow> window_frame \<Rightarrow> py_err + string" where
  "get_frame_units units_display f = Inr (units_display (wf_units f))"

definition get_lower_bound :: "window_frame \<Rightarrow> py_err + frame_bound" where
  "get_lower_bound f = Inr (wf_start f)"

definition get_upper_bound :: "window_frame \<Rightarrow> py_err + frame_bound" where
  "get_upper_bound f = Inr (wf_end f)"

definition PyWindowFrame_fmt :: "(frame_units \<Rightarrow> string) \<Rightarrow> (frame_bound \<Rightarrow> string) \<Rightarrow> window_frame \<Rightarrow> string" where
  "PyWindowFrame_fmt units_display bound_display f =
     ''OVER ('' @ units_display (wf_units f) @ '' BETWEEN '' @ bound_display (wf_start f)
       @ '' AND '' @ bound_display (wf_end f) @ '')''"

definition is_current_row :: "frame_bound \<Rightarrow> bool" where
  "is_current_row b = (case b of Current_Row \<Rightarrow> True | _ \<Rightarrow> False)"

definition is_preceding :: "frame_bound \<Rightarrow> bool" where
  "is_preceding b = (case b of Preceding _ \<Rightarrow> True | _ \<Rightarrow> False)"

definition is_following :: "frame_bound \<Rightarrow> bool" where
  "is_following b = (case b of Following _ \<Rightarrow> True | _ \<Rightarrow> False)"

text \<open>\<open>str::parse::<u64>\<close>: an optional \<open>+\<close>, at least one digit, nothing else, no overflow.\<close>

definition digit_value :: "char \<Rightarrow> nat option" where
  "digit_value c = (let n = of_char c :: nat in if 48 \<le> n \<and> n \<le> 57 then Some (n - 48) else None)"

fun digits_value :: "nat \<Rightarrow> string \<Rightarrow> nat option" where
  "digits_value acc [] = Some acc"
| "digits_value acc (c # cs) =
     (case digit_value c of None \<Rightarrow> None | Some d \<Rightarrow> digits_value (10 * acc + d) cs)"

definition parse_u64 :: "string \<Rightarrow> u64 option" where
  "parse_u64 s =
     (let digits = (case s of c # cs \<Rightarrow> (if c = CHR ''+'' then cs else s) | [] \<Rightarrow> s) in
      if digits = [] then None
      else case digits_value 0 digits of
        None \<Rightarrow> None
      | Some n \<Rightarrow> if n < 2 ^ 64 then Some (of_nat n) else None)"

text \<open>The value behind a bound; \<open>n as u64\<close> keeps the bits of the \<open>i64\<close>.\<close>

definition bound_offset ::
  "(scalar_value \<Rightarrow> bool) \<Rightarrow> (scalar_value \<Rightarrow> string) \<Rightarrow> scalar_value \<Rightarrow> py_err + u64 option" where
  "bound_offset is_null display v =
     (if is_null v then Inr None
      else case v of
        SV_UInt64 n \<Rightarrow> Inr n
      | SV_Int64 n \<Rightarrow> Inr n
      | SV_Utf8 (Some s) \<Rightarrow>
          (case parse_u64 s of
             Some n \<Rightarrow> Inr (Some n)
           | None \<Rightarrow> Inl (new_err PyValueError (''Unable to parse u64 from Utf8 value '' @ [CHR 0x27] @ s @ [CHR 0x27])))
      | x \<Rightarrow> Inl (new_err PyValueError (''Unexpected window frame bound: '' @ display x)))"

definition get_offset ::
  "(scalar_value \<Rightarrow> bool) \<Rightarrow> (scalar_value \<Rightarrow> string) \<Rightarrow> frame_bound \<Rightarrow> py_err + u64 option" where
  "get_offset is_null display b =
     (case b of
        Preceding v \<Rightarrow> bound_offset is_null display v
      | Following v \<Rightarrow> bound_offset is_null display v
      | Current_Row \<Rightarrow> Inr None)"

definition is_unbounded :: "(scalar_value \<Rightarrow> bool) \<Rightarrow> frame_bound \<Rightarrow> bool" where
  "is_unbounded is_null b =
     (case b of Preceding v \<Rightarrow> is_null v | Following v \<Rightarrow> is_null v | Current_Row \<Rightarrow> False)"

section \<open>Aggregate and window calls\<close>

fun aggregation_arguments :: "'q expr \<Rightarrow> py_err + 'q expr list" where
  "aggregation_arguments e = (case e of
     E_Alias x _ _ \<Rightarrow> aggregation_arguments x
   | E_AggregateFunction _ args _ \<Rightarrow> Inr args
   | _ \<Rightarrow> Inl (py_type_err ''Encountered a non Aggregate type in aggregation_arguments''))"

fun agg_func_name :: "'q expr \<Rightarrow> py_err + string" where
  "agg_func_name e = (case e of
     E_Alias x _ _ \<Rightarrow> agg_func_name x
   | E_AggregateFunction name _ _ \<Rightarrow> Inr name
   | _ \<Rightarrow> Inl (py_type_err ''Encountered a non Aggregate type in agg_func_name''))"

declare aggregation_arguments.simps [simp del] agg_func_name.simps [simp del]

definition not_window_function_err :: "('q expr \<Rightarrow> string) \<Rightarrow> 'q expr_text \<Rightarrow> 'q expr \<Rightarrow> py_err" where
  "not_window_function_err variant_name tx e =
     py_type_err (''Provided '' @ variant_name e @ '' Expr '' @ expr_debug tx e @ '' is not a WindowFunction type'')"

definition get_args ::
  "('q expr \<Rightarrow> 'q expr) \<Rightarrow> ('q expr \<Rightarrow> string) \<Rightarrow> 'q expr_text \<Rightarrow> 'q expr \<Rightarrow> py_err + 'q expr list" where
  "get_args unalias variant_name tx e =
     (case unalias e of
        E_WindowFunction _ args _ _ _ \<Rightarrow> Inr args
      | other \<Rightarrow> Inl (not_window_function_err variant_name tx other))"

definition window_func_name ::
  "('q expr \<Rightarrow> 'q expr) \<Rightarrow> ('q expr \<Rightarrow> string) \<Rightarrow> 'q expr_text \<Rightarrow> 'q expr \<Rightarrow> py_err + string" where
  "window_func_name unalias variant_name tx e =
     (case unalias e of
        E_WindowFunction name _ _ _ _ \<Rightarrow> Inr name
      | other \<Rightarrow> Inl (not_window_function_err variant_name tx other))"

definition get_partition_exprs ::
  "('q expr \<Rightarrow> 'q expr) \<Rightarrow> ('q expr \<Rightarrow> string) \<Rightarrow> 'q expr_text \<Rightarrow> 'q expr \<Rightarrow> py_err + 'q expr list" where
  "get_partition_exprs unalias variant_name tx e =
     (case unalias e of
        E_WindowFunction _ _ partition_by _ _ \<Rightarrow> Inr partition_by
      | other \<Rightarrow> Inl (not_window_function_err variant_name tx other))"

definition get_sort_exprs ::
  "('q expr \<Rightarrow> 'q expr) \<Rightarrow> ('q expr \<Rightarrow> string) \<Rightarrow> 'q expr_text \<Rightarrow> 'q expr \<Rightarrow> py_err + 'q sort_expr list" where
  "get_sort_exprs unalias variant_name tx e =
     (case unalias e of
        E_WindowFunction _ _ _ order_by _ \<Rightarrow>
          Inr (map (\<lambda>(x, asc, nulls_first). \<lparr>se_expr = x, se_asc = asc, se_nulls_first = nulls_first\<rparr>) order_by)
      | other \<Rightarrow> Inl (not_window_function_err variant_name tx other))"

definition get_frame :: "('q expr \<Rightarrow> 'q expr) \<Rightarrow> 'q expr \<Rightarrow> window_frame option" where
  "get_frame unalias e = (case unalias e of E_WindowFunction _ _ _ _ frame \<Rightarrow> Some frame | _ \<Rightarrow> None)"

text \<open>\<open>PyProjection::projected_expressions\<close>: the expression under its aliases, as the only element.\<close>

fun projected_expressions :: "'q expr \<Rightarrow> 'q expr list" where
  "projected_expressions e = (case e of E_Alias x _ _ \<Rightarrow> projected_expressions x | _ \<Rightarrow> [e])"

declare projected_expressions.simps [simp del]

lemma aggregate_accessors_agree:
  "isl (aggregation_arguments e) \<longleftrightarrow> isl (agg_func_name e)"
  "projected_expressions e = [x] \<Longrightarrow> aggregation_arguments e = aggregation_arguments x \<and> agg_func_name e = agg_func_name x"
proof (induction e rule: projected_expressions.induct)
  case (1 e)
  {
    case 1
    show ?case
      unfolding aggregation_arguments.simps [of e] agg_func_name.simps [of e]
      using "1.IH"(1) by (cases e) simp_all
  next
    case 2
    then show ?case
      unfolding aggregation_arguments.simps [of e] agg_func_name.simps [of e] projected_expressions.simps [of e]
      using "1.IH"(2) by (cases e) (auto simp: aggregation_arguments.simps agg_func_name.simps)
  }
qed

section \<open>Properties\<close>

text \<open>The accessor an Arrow type has, if any.\<close>

fun accessor_names :: "data_type \<Rightarrow> string list" where
  "accessor_names DT_Float32 = [''value_f32'']"
| "accessor_names DT_Float64 = [''value_f64'']"
| "accessor_names (DT_Decimal128 _ _) = [''value_decimal128'']"
| "accessor_names DT_Int8 = [''value_i8'']"
| "accessor_names DT_Int16 = [''value_i16'']"
| "accessor_names DT_Int32 = [''value_i32'']"
| "accessor_names DT_Int64 = [''value_i64'']"
| "accessor_names DT_UInt8 = [''value_u8'']"
| "accessor_names DT_UInt16 = [''value_u16'']"
| "accessor_names DT_UInt32 = [''value_u32'']"
| "accessor_names DT_UInt64 = [''value_u64'']"
| "accessor_names DT_Date32 = [''value_date32'']"
| "accessor_names DT_Date64 = [''value_date64'']"
| "accessor_names (DT_Time64 Nanosecond) = [''value_time64'']"
| "accessor_names (DT_Timestamp _ _) = [''value_timestamp'']"
| "accessor_names DT_Boolean = [''value_bool'']"
| "accessor_names DT_Utf8 = [''value_string'']"
| "accessor_names (DT_Interval DayTime) = [''value_interval_day_time'']"
| "accessor_names _ = []"

text \<open>
  The typed accessors of a literal follow its Arrow type: exactly the accessor of that type answers,
  every other raises, and a type without an accessor gets no answer from any of them.
\<close>

theorem literal_accessors_typed:
  assumes "map_from_scalar_to_arrow sv = Inr t" "\<And>dt. sv = SV_List dt \<Longrightarrow> \<exists>f. dt = DT_List f"
  shows "answered display sv = accessor_names t"
  using assms by (cases sv) (auto simp: answered_def value_defs split: sum.splits)

theorem literal_accessors_typed_witness:
  "answered (\<lambda>_. []) (SV_Date32 (Some 7)) = [''value_date32'']"
  using literal_accessors_typed [of "SV_Date32 (Some 7)" DT_Date32] by simp

lemma uint_of_i64: "uint (k :: i64) = (if sint k < 0 then sint k + 2 ^ 64 else sint k)"
proof -
  have u: "uint k = sint k mod 2 ^ 64" using uint_sint [of k] by (simp add: take_bit_eq_mod)
  have b: "- (2 ^ 63) \<le> sint k" "sint k < 2 ^ 63" using sint_ge [of k] sint_lt [of k] by simp_all
  show ?thesis
  proof (cases "sint k < 0")
    case True
    then have "(sint k + 2 ^ 64) mod 2 ^ 64 = sint k + 2 ^ 64" using b by (intro mod_pos_pos_trivial) simp_all
    then show ?thesis using True u by (simp only: mod_add_self2 if_True)
  next
    case False
    then show ?thesis using u b by simp
  qed
qed

lemma frame_bound_of_Inr: "frame_bound_of side units b = Inr x \<Longrightarrow> x = side (SV_UInt64 b)"
  by (cases units; cases b) (auto simp: frame_bound_of_def)

text \<open>
  C37: A frame built from bounds gives those bounds back, the lower one as preceding, the upper one as
  following, unbounded exactly where none was given; it is refused with NotImplementedError exactly
  when the unit is unknown or a bound of a groups frame is missing. An \<open>Int64\<close> offset is read back modulo
  2^64: a negative one comes out as a huge unsigned one.
\<close>

theorem window_frame_bounds:
  assumes null: "\<And>n. is_null (SV_UInt64 n) = (n = None)" "\<And>n. is_null (SV_Int64 n) = (n = None)"
  shows "(PyWindowFrame_new dbg unit_name lo hi = Inr fr \<longrightarrow>
      get_offset is_null display (wf_start fr) = Inr lo \<and> get_offset is_null display (wf_end fr) = Inr hi
      \<and> is_preceding (wf_start fr) \<and> is_following (wf_end fr)
      \<and> (is_unbounded is_null (wf_start fr) \<longleftrightarrow> lo = None) \<and> (is_unbounded is_null (wf_end fr) \<longleftrightarrow> hi = None))
    \<and> (isl (PyWindowFrame_new dbg unit_name lo hi) \<longleftrightarrow>
        to_ascii_lowercase unit_name \<notin> {''rows'', ''range'', ''groups''}
        \<or> to_ascii_lowercase unit_name = ''groups'' \<and> (lo = None \<or> hi = None))
    \<and> (PyWindowFrame_new dbg unit_name lo hi = Inl e \<longrightarrow> pe_class e = PyNotImplementedError)
    \<and> (\<exists>n. get_offset is_null display (Preceding (SV_Int64 (Some k))) = Inr (Some n)
        \<and> uint n = (if sint k < 0 then sint k + 2 ^ 64 else sint k))"
proof -
  have "uint k = (if sint k < 0 then sint k + 2 ^ 64 else sint k)" by (rule uint_of_i64)
  moreover have "PyWindowFrame_new dbg unit_name lo hi = Inr fr \<longrightarrow>
      get_offset is_null display (wf_start fr) = Inr lo \<and> get_offset is_null display (wf_end fr) = Inr hi
      \<and> is_preceding (wf_start fr) \<and> is_following (wf_end fr)
      \<and> (is_unbounded is_null (wf_start fr) \<longleftrightarrow> lo = None) \<and> (is_unbounded is_null (wf_end fr) \<longleftrightarrow> hi = None)"
    by (auto simp: PyWindowFrame_new_def and_then_Inr_iff get_offset_def bound_offset_def null
        is_preceding_def is_following_def is_unbounded_def dest!: frame_bound_of_Inr)
  ultimately show ?thesis
    by (cases lo; cases hi)
      (auto simp: PyWindowFrame_new_def frame_bound_of_def frame_units_of_def Let_def get_offset_def bound_offset_def null
        split: if_splits)
qed

definition null_scalar :: "scalar_value \<Rightarrow> bool" where
  "null_scalar v = (case v of SV_Null \<Rightarrow> True | SV_UInt64 n \<Rightarrow> n = None | SV_Int64 n \<Rightarrow> n = None | SV_Utf8 s \<Rightarrow> s = None | _ \<Rightarrow> False)"

definition demo_frame :: window_frame where
  "demo_frame = \<lparr>wf_units = Rows, wf_start = Preceding (SV_UInt64 (Some 3)), wf_end = Following (SV_UInt64 None)\<rparr>"

theorem window_frame_bounds_witness:
  "PyWindowFrame_new id ''ROWS'' (Some 3) None = Inr demo_frame
   \<and> get_offset null_scalar (\<lambda>_. []) (wf_start demo_frame) = Inr (Some 3) \<and> is_unbounded null_scalar (wf_end demo_frame)"
proof -
  have frame: "PyWindowFrame_new id ''ROWS'' (Some 3) None = Inr demo_frame"
    by code_simp
  have "null_scalar (SV_UInt64 n) = (n = None)" "null_scalar (SV_Int64 n) = (n = None)" for n
    by (simp_all add: null_scalar_def)
  from window_frame_bounds [of null_scalar id "''ROWS''" "Some 3" None demo_frame "\<lambda>_. []", OF this] frame
  show ?thesis by auto
qed

end
