(* ===== verification/Plan_Nodes.thy ===== *)
theory Plan_Nodes
  imports Logical_Plan Expr_Nodes Expr_Variants
begin

text \<open>
  The Python objects of plan operators (\<open>src/expr/projection.rs\<close>, \<open>filter.rs\<close>, \<open>sort.rs\<close>, \<open>aggregate.rs\<close>,
  \<open>join.rs\<close>, \<open>limit.rs\<close>, \<open>distinct.rs\<close>, \<open>table_scan.rs\<close> and the other node files; \<open>PyLogicalPlan\<close> of
  \<open>src/sql/logical.rs\<close>): what each of their methods answers, texts included, and what of a plan can be
  recovered from the answers.

  The Debug and Display texts of DataFusion's types and the schema DataFusion computes for a plan are
  functions of the record \<open>node_texts\<close>.
\<close>

section \<open>Answers and texts\<close>

datatype ('q, 's) node_field =
    F_Expr (f_expr: "'q expr") | F_Opt_Expr (f_opt_expr: "'q expr option") | F_Exprs (f_exprs: "'q expr list")
  | F_Pairs (f_pairs: "('q expr \<times> 'q expr) list") | F_Sorts "'q sort_expr list" | F_Ordered (f_ordered: "'q py_ordered list")
  | F_Plan (f_plan: "('q, 's) plan") | F_Plans (f_plans: "('q, 's) plan list") | F_Schema (f_schema: 's) | F_Arrow "field list"
  | F_Str (f_str: string) | F_Opt_Str "string option" | F_Strs (f_strs: "string list") | F_Bool (f_bool: bool) | F_Nat nat
  | F_Opt_Nat (f_opt_nat: "nat option") | F_Join_Type (f_join_type: join_type) | F_Constraint (f_constraint: join_constraint)
  | F_Nulls null_equality | F_Scheme "'q partitioning" | F_Fqn "string option \<times> string option \<times> string"
  | F_Columns "(nat \<times> string) list"

record ('q, 's) node_texts =
  field_debug :: "('q, 's) node_field \<Rightarrow> string"
  plan_schema :: "('q, 's) plan \<Rightarrow> 's"
  as_arrow :: "'s \<Rightarrow> field list"
  join_type_display :: "join_type \<Rightarrow> string"
  join_type_outer :: "join_type \<Rightarrow> bool"
  table_display :: "table_reference \<Rightarrow> string"

type_synonym ('q, 's) node_answers = "(string \<times> (node_fault + ('q, 's) node_field)) list"

text \<open>A line of a text: the label at the indentation of the source, and the Debug text of a field.\<close>

definition line_of :: "('q, 's) node_texts \<Rightarrow> string \<Rightarrow> ('q, 's) node_field \<Rightarrow> string" where
  "line_of tx label f = below @ label @ '': '' @ field_debug tx f"

definition gap_line :: "('q, 's) node_texts \<Rightarrow> string \<Rightarrow> ('q, 's) node_field \<Rightarrow> string" where
  "gap_line tx label f = below @ [CHR 0x0A] @ label @ '': '' @ field_debug tx f"

definition repr_of :: "string \<Rightarrow> string \<Rightarrow> string \<times> (node_fault + ('q, 's) node_field)" where
  "repr_of name s = (''__repr__'', Inr (F_Str (name @ ''('' @ s @ '')'')))"

definition name_of :: "string \<Rightarrow> string \<times> (node_fault + ('q, 's) node_field)" where
  "name_of name = (''__name__'', Inr (F_Str name))"

text \<open>\<open>From<SortExpr> for PyOrdered\<close> and back.\<close>

definition ordered_from :: "'q sort_expr \<Rightarrow> 'q py_ordered" where
  "ordered_from s = \<lparr>po_expr = se_expr s, po_asc = se_asc s, po_nulls_first = se_nulls_first s\<rparr>"

definition sort_from :: "'q py_ordered \<Rightarrow> 'q sort_expr" where
  "sort_from p = \<lparr>se_expr = po_expr p, se_asc = po_asc p, se_nulls_first = po_nulls_first p\<rparr>"

lemma sort_from_ordered [simp]: "sort_from (ordered_from s) = s" "ordered_from (sort_from p) = p"
  by (simp_all add: sort_from_def ordered_from_def)

lemma map_ordered_inj [simp]: "map ordered_from xs = map ordered_from ys \<longleftrightarrow> xs = ys"
  by (metis inj_on_def list.inj_map_strong sort_from_ordered(1))

section \<open>The methods of the nodes\<close>

definition projection_node ::
  "('q, 's) node_texts \<Rightarrow> 'q expr list \<Rightarrow> ('q, 's) plan \<Rightarrow> 's \<Rightarrow> ('q, 's) node_answers" where
  "projection_node tx es input schema =
     [(''projections'', Inr (F_Exprs es)), (''input'', Inr (F_Plans (projection_inputs input))),
      (''schema'', Inr (F_Schema schema)),
      repr_of ''Projection'' (''Projection'' @ gap_line tx ''Expr(s)'' (F_Exprs es) @ gap_line tx ''Input'' (F_Plan input)
        @ gap_line tx ''Projected Schema'' (F_Schema schema)),
      name_of ''Projection'']"

definition filter_node :: "('q, 's) node_texts \<Rightarrow> 'q expr \<Rightarrow> ('q, 's) plan \<Rightarrow> ('q, 's) node_answers" where
  "filter_node tx predicate input =
     [(''predicate'', Inr (F_Expr predicate)), (''input'', Inr (F_Plans (filter_inputs input))),
      (''schema'', Inr (F_Schema (plan_schema tx input))),
      repr_of ''Filter'' (''Filter'' @ line_of tx ''Predicate'' (F_Expr predicate) @ line_of tx ''Input'' (F_Plan input))]"

definition sort_node :: "('q, 's) node_texts \<Rightarrow> 'q sort_expr list \<Rightarrow> ('q, 's) plan \<Rightarrow> nat option \<Rightarrow> ('q, 's) node_answers" where
  "sort_node tx es input fetch =
     [(''sort_exprs'', Inr (F_Ordered (map ordered_from es))), (''get_fetch_val'', Inr (F_Opt_Nat fetch)),
      (''input'', Inr (F_Plans (sort_inputs input))), (''schema'', Inr (F_Schema (plan_schema tx input))),
      repr_of ''Sort'' (''Sort'' @ gap_line tx ''Expr(s)'' (F_Sorts es) @ gap_line tx ''Input'' (F_Plan input)
        @ gap_line tx ''Schema'' (F_Schema (plan_schema tx input)))]"

definition aggregate_node ::
  "('q, 's) node_texts \<Rightarrow> 'q expr list \<Rightarrow> 'q expr list \<Rightarrow> ('q, 's) plan \<Rightarrow> 's \<Rightarrow> ('q, 's) node_answers" where
  "aggregate_node tx group_expr aggr_expr input schema =
     [(''group_by_exprs'', Inr (F_Exprs group_expr)), (''aggregate_exprs'', Inr (F_Exprs aggr_expr)),
      (''agg_expressions'', Inr (F_Exprs aggr_expr)), (''input'', Inr (F_Plans (aggregate_inputs input))),
      (''schema'', Inr (F_Schema schema)),
      repr_of ''Aggregate'' (''Aggregate'' @ gap_line tx ''GroupBy(s)'' (F_Exprs group_expr)
        @ gap_line tx ''Aggregates(s)'' (F_Exprs aggr_expr) @ gap_line tx ''Input'' (F_Plan input)
        @ gap_line tx ''Projected Schema'' (F_Schema schema))]"

text \<open>The explain node has no text for Python.\<close>

definition explain_node ::
  "bool \<Rightarrow> ('q, 's) plan \<Rightarrow> string list \<Rightarrow> 's \<Rightarrow> bool \<Rightarrow> ('q, 's) node_answers" where
  "explain_node verbose plan stringified_plans schema succeeded =
     [(''explain_string'', Inr (F_Strs stringified_plans)), (''verbose'', Inr (F_Bool verbose)),
      (''plan'', Inr (F_Plan plan)), (''schema'', Inr (F_Schema schema)),
      (''logical_optimization_succceeded'', Inr (F_Bool succeeded))]"

definition analyze_node :: "bool \<Rightarrow> ('q, 's) plan \<Rightarrow> 's \<Rightarrow> ('q, 's) node_answers" where
  "analyze_node verbose input schema =
     [(''verbose'', Inr (F_Bool verbose)), (''input'', Inr (F_Plans (analyze_inputs input))),
      (''schema'', Inr (F_Schema schema)), repr_of ''Analyze'' ''Analyze Table'']"

definition empty_relation_node :: "('q, 's) node_texts \<Rightarrow> bool \<Rightarrow> 's \<Rightarrow> ('q, 's) node_answers" where
  "empty_relation_node tx produce_one_row schema =
     [(''produce_one_row'', Inr (F_Bool produce_one_row)), (''schema'', Inr (F_Schema schema)),
      (''arrow_schema'', Inr (F_Arrow (as_arrow tx schema))),
      (''__repr__'', Inr (F_Str (''Empty Relation'' @ line_of tx ''Produce One Row'' (F_Bool produce_one_row)
        @ line_of tx ''Schema'' (F_Schema schema)))),
      name_of ''EmptyRelation'']"

definition extension_node :: "string \<Rightarrow> ('q, 's) node_answers" where
  "extension_node name = [(''name'', Inr (F_Str name))]"

definition distinct_node :: "('q, 's) node_texts \<Rightarrow> bool \<Rightarrow> ('q, 's) plan \<Rightarrow> ('q, 's) plan list \<Rightarrow> ('q, 's) node_answers" where
  "distinct_node tx on input inputs =
     [(''input'', Inr (F_Plans inputs)),
      repr_of ''Distinct'' ((if on then ''Distinct ON'' else ''Distinct ALL'') @ gap_line tx ''Input'' (F_Plan input)),
      name_of ''Distinct'']"

definition limit_node ::
  "('q, 's) node_texts \<Rightarrow> 'q expr option \<Rightarrow> 'q expr option \<Rightarrow> ('q, 's) plan \<Rightarrow> ('q, 's) node_answers" where
  "limit_node tx skip fetch input =
     [(''skip'', map_ok F_Nat (limit_skip skip)), (''fetch'', Inr (F_Opt_Nat (limit_fetch fetch))),
      (''input'', Inr (F_Plans (limit_inputs input))), (''schema'', Inr (F_Schema (plan_schema tx input))),
      repr_of ''Limit'' (''Limit'' @ line_of tx ''Skip'' (F_Opt_Expr skip) @ line_of tx ''Fetch'' (F_Opt_Expr fetch)
        @ line_of tx ''Input'' (F_Plan input))]"

definition subquery_node :: "('q, 's) node_texts \<Rightarrow> ('q, 's) plan \<Rightarrow> 'q expr list \<Rightarrow> ('q, 's) node_answers" where
  "subquery_node tx subquery outer_ref_columns =
     [(''input'', Inr (F_Plans (subquery_inputs subquery))),
      repr_of ''Subquery'' (''Subquery'' @ line_of tx ''Subquery'' (F_Plan subquery)
        @ line_of tx ''outer_ref_columns'' (F_Exprs outer_ref_columns)),
      name_of ''Subquery'']"

definition subquery_alias_node ::
  "('q, 's) node_texts \<Rightarrow> ('q, 's) plan \<Rightarrow> string \<Rightarrow> 's \<Rightarrow> ('q, 's) node_answers" where
  "subquery_alias_node tx input alias_name schema =
     [(''input'', Inr (F_Plans (subquery_alias_inputs input))), (''schema'', Inr (F_Schema schema)),
      (''alias'', Inr (F_Str alias_name)),
      repr_of ''SubqueryAlias'' (''SubqueryAlias'' @ line_of tx ''Inputs(s)'' (F_Plan input)
        @ line_of tx ''Alias'' (F_Str alias_name) @ line_of tx ''Schema'' (F_Schema schema)),
      name_of ''SubqueryAlias'']"

definition union_node :: "('q, 's) node_texts \<Rightarrow> ('q, 's) plan list \<Rightarrow> 's \<Rightarrow> ('q, 's) node_answers" where
  "union_node tx inputs schema =
     [(''input'', Inr (F_Plans (union_inputs inputs))), (''schema'', Inr (F_Schema schema)),
      repr_of ''Union'' (''Union'' @ line_of tx ''Inputs'' (F_Plans inputs) @ line_of tx ''Schema'' (F_Schema schema)),
      name_of ''Union'']"

definition create_view_node ::
  "('q, 's) node_texts \<Rightarrow> string \<Rightarrow> ('q, 's) plan \<Rightarrow> bool \<Rightarrow> string option \<Rightarrow> ('q, 's) node_answers" where
  "create_view_node tx name input or_replace view_definition =
     [(''name'', Inr (F_Str name)), (''input'', Inr (F_Plans (create_view_inputs input))),
      (''or_replace'', Inr (F_Bool or_replace)), (''definition'', Inr (F_Opt_Str view_definition)),
      repr_of ''CreateView'' (''CreateView'' @ line_of tx ''name'' (F_Str name) @ line_of tx ''input'' (F_Plan input)
        @ line_of tx ''or_replace'' (F_Bool or_replace) @ line_of tx ''definition'' (F_Opt_Str view_definition)),
      name_of ''CreateView'']"

definition create_memory_table_node ::
  "('q, 's) node_texts \<Rightarrow> string \<Rightarrow> ('q, 's) plan \<Rightarrow> bool \<Rightarrow> bool \<Rightarrow> ('q, 's) node_answers" where
  "create_memory_table_node tx name input if_not_exists or_replace =
     [(''name'', Inr (F_Str name)), (''input'', Inr (F_Plans (create_memory_table_inputs input))),
      (''if_not_exists'', Inr (F_Bool if_not_exists)), (''or_replace'', Inr (F_Bool or_replace)),
      repr_of ''CreateMemoryTable'' (''CreateMemoryTable'' @ line_of tx ''Name'' (F_Str name) @ line_of tx ''Input'' (F_Plan input)
        @ line_of tx ''if_not_exists'' (F_Bool if_not_exists) @ line_of tx ''or_replace'' (F_Bool or_replace)),
      name_of ''CreateMemoryTable'']"

definition drop_table_node :: "('q, 's) node_texts \<Rightarrow> string \<Rightarrow> bool \<Rightarrow> 's \<Rightarrow> ('q, 's) node_answers" where
  "drop_table_node tx name if_exists schema =
     [(''name'', Inr (F_Str name)), (''input'', Inr (F_Plans drop_table_inputs)), (''if_exists'', Inr (F_Bool if_exists)),
      repr_of ''DropTable'' (''DropTable'' @ line_of tx ''name'' (F_Str name) @ line_of tx ''if_exists'' (F_Bool if_exists)
        @ line_of tx ''schema'' (F_Schema schema)),
      name_of ''DropTable'']"

definition join_fmt ::
  "('q, 's) node_texts \<Rightarrow> ('q, 's) plan \<Rightarrow> ('q, 's) plan \<Rightarrow> ('q expr \<times> 'q expr) list \<Rightarrow> 'q expr option \<Rightarrow> join_type \<Rightarrow>
   join_constraint \<Rightarrow> 's \<Rightarrow> null_equality \<Rightarrow> string" where
  "join_fmt tx left right on flt join_type constraint schema nulls =
     ''Join'' @ line_of tx ''Left'' (F_Plan left) @ line_of tx ''Right'' (F_Plan right) @ line_of tx ''On'' (F_Pairs on)
       @ line_of tx ''Filter'' (F_Opt_Expr flt) @ line_of tx ''JoinType'' (F_Join_Type join_type)
       @ line_of tx ''JoinConstraint'' (F_Constraint constraint) @ line_of tx ''Schema'' (F_Schema schema)
       @ line_of tx ''NullEquality'' (F_Nulls nulls)"

definition join_node ::
  "('q, 's) node_texts \<Rightarrow> ('q, 's) plan \<Rightarrow> ('q, 's) plan \<Rightarrow> ('q expr \<times> 'q expr) list \<Rightarrow> 'q expr option \<Rightarrow> join_type \<Rightarrow>
   join_constraint \<Rightarrow> 's \<Rightarrow> null_equality \<Rightarrow> ('q, 's) node_answers" where
  "join_node tx left right on flt join_type constraint schema nulls =
     [(''left'', Inr (F_Plan left)), (''right'', Inr (F_Plan right)), (''on'', Inr (F_Pairs on)),
      (''filter'', Inr (F_Opt_Expr flt)), (''join_type'', Inr (F_Join_Type join_type)),
      (''join_constraint'', Inr (F_Constraint constraint)), (''schema'', Inr (F_Schema schema)),
      (''null_equals_null'', Inr (F_Bool (null_equals_null nulls))),
      repr_of ''Join'' (join_fmt tx left right on flt join_type constraint schema nulls), name_of ''Join'']"

text \<open>\<open>PyJoinType\<close>: \<open>is_outer\<close> and the text are DataFusion's.\<close>

definition join_type_methods :: "('q, 's) node_texts \<Rightarrow> join_type \<Rightarrow> ('q, 's) node_answers" where
  "join_type_methods tx t =
     [(''is_outer'', Inr (F_Bool (join_type_outer tx t))), (''__repr__'', Inr (F_Str (join_type_display tx t)))]"

definition repartition_node ::
  "('q, 's) node_texts \<Rightarrow> ('q, 's) plan \<Rightarrow> 'q partitioning \<Rightarrow> ('q, 's) node_answers" where
  "repartition_node tx input scheme =
     [(''input'', Inr (F_Plans (repartition_inputs input))), (''partitioning_scheme'', Inr (F_Scheme scheme)),
      (''distribute_list'', map_err Node_Err (map_ok F_Exprs (distribute_list scheme))),
      (''distribute_columns'', map_ok F_Str (distribute_columns scheme)),
      repr_of ''Repartition'' (''Repartition'' @ line_of tx ''input'' (F_Plan input)
        @ line_of tx ''partitioning_scheme'' (F_Scheme scheme)),
      name_of ''Repartition'']"

text \<open>The text of a scan shows the results of its own methods, so it panics where \<open>projection()\<close> does.\<close>

definition table_scan_fmt :: "('q, 's) node_texts \<Rightarrow> ('q, 's) table_scan \<Rightarrow> node_fault + string" where
  "table_scan_fmt tx ts = map_ok (\<lambda>columns.
     ''TableScan'' @ [CHR 0x0A] @ ''Table Name: '' @ table_display tx (ts_table_name ts)
       @ below @ ''Projections: '' @ ok_debug (field_debug tx (F_Columns columns))
       @ below @ ''Projected Schema: '' @ ok_debug (''PyDFSchema { schema: '' @ field_debug tx (F_Schema (ts_projected_schema ts)) @ '' }'')
       @ below @ ''Filters: '' @ ok_debug (''['' @ join_str '', '' (map (\<lambda>e. ''PyExpr { expr: '' @ field_debug tx (F_Expr e) @ '' }'') (ts_filters ts)) @ '']''))
     (py_projections ts)"

definition table_scan_node :: "('q, 's) node_texts \<Rightarrow> ('q, 's) table_scan \<Rightarrow> ('q, 's) node_answers" where
  "table_scan_node tx ts =
     [(''table_name'', Inr (F_Str (table_display tx (ts_table_name ts)))), (''fqn'', Inr (F_Fqn (fqn (ts_table_name ts)))),
      (''projection'', map_ok F_Columns (py_projections ts)), (''schema'', Inr (F_Schema (ts_projected_schema ts))),
      (''filters'', Inr (F_Exprs (ts_filters ts))), (''fetch'', Inr (F_Opt_Nat (ts_fetch ts))),
      (''__repr__'', map_ok (\<lambda>s. F_Str (''TableScan('' @ s @ '')'')) (table_scan_fmt tx ts))]"

text \<open>The window node has no method for its input; its methods on a window call are in \<open>Expr_Nodes\<close>.\<close>

definition window_node :: "'q expr list \<Rightarrow> 's \<Rightarrow> ('q, 's) node_answers" where
  "window_node es schema = [(''schema'', Inr (F_Schema schema)), (''get_window_expr'', Inr (F_Exprs es))]"

text \<open>\<open>PyLogicalPlan\<close> itself: the inputs DataFusion lists for a plan, and its texts.\<close>

record ('q, 's) plan_texts =
  plan_inputs :: "('q, 's) plan \<Rightarrow> ('q, 's) plan list"
  plan_debug :: "('q, 's) plan \<Rightarrow> string"
  plan_display :: "('q, 's) plan \<Rightarrow> string"
  plan_indent :: "('q, 's) plan \<Rightarrow> string"
  plan_indent_schema :: "('q, 's) plan \<Rightarrow> string"
  plan_graphviz :: "('q, 's) plan \<Rightarrow> string"

definition PyLogicalPlan_methods :: "('q, 's) plan_texts \<Rightarrow> ('q, 's) plan \<Rightarrow> ('q, 's) node_answers" where
  "PyLogicalPlan_methods tx plan =
     [(''inputs'', Inr (F_Plans (plan_inputs tx plan))), (''__repr__'', Inr (F_Str (plan_debug tx plan))),
      (''display'', Inr (F_Str (plan_display tx plan))), (''display_indent'', Inr (F_Str (plan_indent tx plan))),
      (''display_indent_schema'', Inr (F_Str (plan_indent_schema tx plan))),
      (''display_graphviz'', Inr (F_Str (plan_graphviz tx plan)))]"

text \<open>\<open>PyDFSchema\<close>, the object of a schema (\<open>src/common/df_schema.rs\<close>).\<close>

definition PyDFSchema_empty :: "'s \<Rightarrow> py_err + 's" where
  "PyDFSchema_empty empty_schema = Inr empty_schema"

definition PyDFSchema_field_names :: "('s \<Rightarrow> string list) \<Rightarrow> 's \<Rightarrow> py_err + string list" where
  "PyDFSchema_field_names field_names schema = Inr (field_names schema)"

section \<open>What the objects tell\<close>

definition answers_of :: "('q, 's) node_texts \<Rightarrow> ('q, 's) plan \<Rightarrow> ('q, 's) node_answers" where
  "answers_of tx p = (case p of
     L_Projection es input schema \<Rightarrow> projection_node tx es input schema
   | L_Filter predicate input \<Rightarrow> filter_node tx predicate input
   | L_Window es _ schema \<Rightarrow> window_node es schema
   | L_Aggregate gs as input schema \<Rightarrow> aggregate_node tx gs as input schema
   | L_Sort es input fetch \<Rightarrow> sort_node tx es input fetch
   | L_Join l r on flt t c schema nulls \<Rightarrow> join_node tx l r on flt t c schema nulls
   | L_Repartition input scheme \<Rightarrow> repartition_node tx input scheme
   | L_Union inputs schema \<Rightarrow> union_node tx inputs schema
   | L_TableScan ts \<Rightarrow> table_scan_node tx ts
   | L_EmptyRelation one_row schema \<Rightarrow> empty_relation_node tx one_row schema
   | L_Subquery subquery outer \<Rightarrow> subquery_node tx subquery outer
   | L_SubqueryAlias input name schema \<Rightarrow> subquery_alias_node tx input name schema
   | L_Limit skip fetch input \<Rightarrow> limit_node tx skip fetch input
   | L_Distinct_All input \<Rightarrow> distinct_node tx False input (distinct_inputs p)
   | L_Distinct_On _ input \<Rightarrow> distinct_node tx True input (distinct_inputs p)
   | L_Explain verbose plan texts schema succeeded \<Rightarrow> explain_node verbose plan texts schema succeeded
   | L_Analyze verbose input schema \<Rightarrow> analyze_node verbose input schema
   | L_Extension name _ \<Rightarrow> extension_node name
   | L_CreateView name input or_replace d \<Rightarrow> create_view_node tx name input or_replace d
   | L_CreateMemoryTable name input if_not_exists or_replace \<Rightarrow> create_memory_table_node tx name input if_not_exists or_replace
   | L_DropTable name if_exists schema \<Rightarrow> drop_table_node tx name if_exists schema
   | L_Other _ _ \<Rightarrow> [])"

lemmas node_defs = projection_node_def filter_node_def window_node_def aggregate_node_def sort_node_def join_node_def
  repartition_node_def union_node_def table_scan_node_def empty_relation_node_def subquery_node_def
  subquery_alias_node_def limit_node_def distinct_node_def explain_node_def analyze_node_def extension_node_def
  create_view_node_def create_memory_table_node_def drop_table_node_def repr_of_def name_of_def

text \<open>The class of a node and the answers of its methods other than the text.\<close>

definition told :: "('q, 's) node_texts \<Rightarrow> ('q, 's) node \<Rightarrow> node_class \<times> ('q, 's) node_answers" where
  "told tx n = (class_of n, filter (\<lambda>(m, _). m \<noteq> ''__repr__'') (answers_of tx (plan_of n)))"

text \<open>
  The part of a plan its object shows: the expressions of a DISTINCT ON, the plan and columns of a
  subquery, the inputs of an extension and the input of a window are left out.
\<close>

definition kept :: "('q, 's) plan \<Rightarrow> ('q, 's) plan" where
  "kept p = (case p of
     L_Distinct_On _ input \<Rightarrow> L_Distinct_All input
   | L_Subquery _ _ \<Rightarrow> L_Subquery (L_Other [] []) []
   | L_Extension name _ \<Rightarrow> L_Extension name []
   | L_Window es _ schema \<Rightarrow> L_Window es (L_Other [] []) schema
   | _ \<Rightarrow> p)"

text \<open>What a Python program can build again from an object, by asking its methods.\<close>

definition ask :: "node_class \<times> ('q, 's) node_answers \<Rightarrow> string \<Rightarrow> ('q, 's) node_field" where
  "ask r m = projr (the (map_of (snd r) m))"

definition the_input :: "node_class \<times> ('q, 's) node_answers \<Rightarrow> ('q, 's) plan" where
  "the_input r = hd (f_plans (ask r ''input''))"

definition rebuild :: "node_class \<times> ('q, 's) node_answers \<Rightarrow> ('q, 's) plan" where
  "rebuild r = (case fst r of
     N_Projection \<Rightarrow> L_Projection (f_exprs (ask r ''projections'')) (the_input r) (f_schema (ask r ''schema''))
   | N_Filter \<Rightarrow> L_Filter (f_expr (ask r ''predicate'')) (the_input r)
   | N_Window \<Rightarrow> L_Window (f_exprs (ask r ''get_window_expr'')) (L_Other [] []) (f_schema (ask r ''schema''))
   | N_Aggregate \<Rightarrow> L_Aggregate (f_exprs (ask r ''group_by_exprs'')) (f_exprs (ask r ''aggregate_exprs'')) (the_input r)
       (f_schema (ask r ''schema''))
   | N_Sort \<Rightarrow> L_Sort (map sort_from (f_ordered (ask r ''sort_exprs''))) (the_input r) (f_opt_nat (ask r ''get_fetch_val''))
   | N_Join \<Rightarrow> L_Join (f_plan (ask r ''left'')) (f_plan (ask r ''right'')) (f_pairs (ask r ''on'')) (f_opt_expr (ask r ''filter''))
       (f_join_type (ask r ''join_type'')) (f_constraint (ask r ''join_constraint'')) (f_schema (ask r ''schema''))
       (if f_bool (ask r ''null_equals_null'') then NullEqualsNull else NullEqualsNothing)
   | N_EmptyRelation \<Rightarrow> L_EmptyRelation (f_bool (ask r ''produce_one_row'')) (f_schema (ask r ''schema''))
   | N_Subquery \<Rightarrow> L_Subquery (L_Other [] []) []
   | N_SubqueryAlias \<Rightarrow> L_SubqueryAlias (the_input r) (f_str (ask r ''alias'')) (f_schema (ask r ''schema''))
   | N_Distinct \<Rightarrow> L_Distinct_All (the_input r)
   | N_Explain \<Rightarrow> L_Explain (f_bool (ask r ''verbose'')) (f_plan (ask r ''plan'')) (f_strs (ask r ''explain_string''))
       (f_schema (ask r ''schema'')) (f_bool (ask r ''logical_optimization_succceeded''))
   | N_Analyze \<Rightarrow> L_Analyze (f_bool (ask r ''verbose'')) (the_input r) (f_schema (ask r ''schema''))
   | N_Extension \<Rightarrow> L_Extension (f_str (ask r ''name'')) []
   | _ \<Rightarrow> L_Other [] [])"

lemmas told_simps = told_def answers_of_def node_defs inputs_defs

lemma map_sort_from_ordered [simp]: "map (sort_from \<circ> ordered_from) es = es"
  by (simp add: map_idI)

lemma rebuild_told:
  assumes "plan_to_variant debug p = Inr n" "\<And>skip fetch i. p \<noteq> L_Limit skip fetch i" "\<And>ts. p \<noteq> L_TableScan ts"
  shows "rebuild (told tx n) = kept p"
  using assms
  by (cases p) (auto simp: plan_to_variant_def told_simps kept_def rebuild_def ask_def the_input_def null_equals_null_def
    split: null_equality.splits)

lemma told_kept:
  "plan_to_variant debug p = Inr n \<Longrightarrow> plan_to_variant debug (kept p) = Inr (Node (class_of n) (kept p))
     \<and> told tx (Node (class_of n) (kept p)) = told tx n"
  by (cases p) (auto simp: plan_to_variant_def told_simps kept_def)

lemma input_is_inputs:
  "map_of (answers_of tx p) ''input'' \<in> {None, Some (Inr (F_Plans (node_inputs (Node c p))))}"
  by (cases p) (simp_all add: answers_of_def node_defs node_inputs_def)


definition demo_texts :: "(unit, unit) node_texts" where
  "demo_texts = \<lparr>field_debug = (\<lambda>_. []), plan_schema = (\<lambda>_. ()), as_arrow = (\<lambda>_. []),
     join_type_display = (\<lambda>_. []), join_type_outer = (\<lambda>_. False), table_display = (\<lambda>_. [])\<rparr>"

definition demo_distinct :: "string \<Rightarrow> (unit, unit) plan" where
  "demo_distinct c = L_Distinct_On [E_Column None c] demo_scan"


text \<open>
  A scan of no column (as \<open>count(*)\<close> makes it) and one of all columns have the same object, although the
  comment of \<open>projection()\<close> says that an empty list means all of them.
\<close>

lemma scan_of_no_column:
  "told tx (Node N_TableScan (L_TableScan (ts\<lparr>ts_projection := Some []\<rparr>)))
     = told tx (Node N_TableScan (L_TableScan (ts\<lparr>ts_projection := None\<rparr>)))"
  by (simp add: told_simps py_projections_def)

text \<open>The text of a scan panics exactly where its \<open>projection()\<close> does.\<close>

lemma table_scan_fmt_panics: "isl (table_scan_fmt tx ts) \<longleftrightarrow> isl (py_projections ts)"
  by (simp add: table_scan_fmt_def)

end
