(* ===== verification/Session_Objects.thy ===== *)
theory Session_Objects
  imports Session_Context Data_Frames "HOL-Library.List_Lexorder" "HOL-Library.Char_ord" "HOL-Library.Multiset"
begin

text \<open>
  The rest of \<open>src/context.rs\<close> (configurations, states, queries, metadata of objects, texts), with the
  tools around plans: Python optimizer rules (\<open>src/optimizer.rs\<close>), the plan builder
  (\<open>src/sql/builder.rs\<close>) and scalars exchanged with pyarrow (\<open>src/pyarrow_util.rs\<close>).

  A \<open>SessionConfig\<close> of DataFusion is the sequence of calls made on \<open>SessionConfig::new()\<close>. The planner,
  the catalog, the optimizer and the object stores are parameters.
\<close>

section \<open>Configurations\<close>

datatype config_call =
    Cfg_set string string | Cfg_set_str string string
  | Cfg_create_default_catalog_and_schema bool | Cfg_default_catalog_and_schema string string
  | Cfg_information_schema bool | Cfg_batch_size nat | Cfg_target_partitions nat
  | Cfg_repartition_aggregations bool | Cfg_repartition_joins bool | Cfg_repartition_windows bool
  | Cfg_repartition_sorts bool | Cfg_repartition_file_scans bool | Cfg_repartition_file_min_size nat
  | Cfg_parquet_pruning bool

type_synonym session_config = "config_call list"

text \<open>The entries of the map in iteration order.\<close>

definition PySessionConfig_new :: "(string \<times> string) list option \<Rightarrow> session_config" where
  "PySessionConfig_new config_options =
     (case config_options of
        Some hash_map \<Rightarrow> foldl (\<lambda>config (k, v). config @ [Cfg_set k v]) [] hash_map
      | None \<Rightarrow> [])"

definition with_create_default_catalog_and_schema :: "bool \<Rightarrow> session_config \<Rightarrow> session_config" where
  "with_create_default_catalog_and_schema enabled c = c @ [Cfg_create_default_catalog_and_schema enabled]"

definition with_default_catalog_and_schema :: "string \<Rightarrow> string \<Rightarrow> session_config \<Rightarrow> session_config" where
  "with_default_catalog_and_schema catalog schema c = c @ [Cfg_default_catalog_and_schema catalog schema]"

definition with_information_schema :: "bool \<Rightarrow> session_config \<Rightarrow> session_config" where
  "with_information_schema enabled c = c @ [Cfg_information_schema enabled]"

definition with_batch_size :: "nat \<Rightarrow> session_config \<Rightarrow> session_config" where
  "with_batch_size batch_size c = c @ [Cfg_batch_size batch_size]"

definition with_target_partitions :: "nat \<Rightarrow> session_config \<Rightarrow> session_config" where
  "with_target_partitions target_partitions c = c @ [Cfg_target_partitions target_partitions]"

definition with_repartition_aggregations :: "bool \<Rightarrow> session_config \<Rightarrow> session_config" where
  "with_repartition_aggregations enabled c = c @ [Cfg_repartition_aggregations enabled]"

definition with_repartition_joins :: "bool \<Rightarrow> session_config \<Rightarrow> session_config" where
  "with_repartition_joins enabled c = c @ [Cfg_repartition_joins enabled]"

definition with_repartition_windows :: "bool \<Rightarrow> session_config \<Rightarrow> session_config" where
  "with_repartition_windows enabled c = c @ [Cfg_repartition_windows enabled]"

definition with_repartition_sorts :: "bool \<Rightarrow> session_config \<Rightarrow> session_config" where
  "with_repartition_sorts enabled c = c @ [Cfg_repartition_sorts enabled]"

definition with_repartition_file_scans :: "bool \<Rightarrow> session_config \<Rightarrow> session_config" where
  "with_repartition_file_scans enabled c = c @ [Cfg_repartition_file_scans enabled]"

definition with_repartition_file_min_size :: "nat \<Rightarrow> session_config \<Rightarrow> session_config" where
  "with_repartition_file_min_size min_size c = c @ [Cfg_repartition_file_min_size min_size]"

definition with_parquet_pruning :: "bool \<Rightarrow> session_config \<Rightarrow> session_config" where
  "with_parquet_pruning enabled c = c @ [Cfg_parquet_pruning enabled]"

definition config_set :: "string \<Rightarrow> string \<Rightarrow> session_config \<Rightarrow> session_config" where
  "config_set key v c = c @ [Cfg_set_str key v]"

text \<open>A session state: its configuration and the Python rules added behind the default ones.\<close>

record 'r session_state =
  st_config :: session_config
  st_rules :: "'r list"

definition PySessionState_new :: "inner_error + unit \<Rightarrow> session_config option \<Rightarrow> ctx_fault + 'r session_state" where
  "PySessionState_new build_runtime config =
     (let c = (case config of Some c \<Rightarrow> c | None \<Rightarrow> with_information_schema True []) in
      and_then (map_err (\<lambda>_. Ctx_Panic) build_runtime) (\<lambda>_. Inr \<lparr>st_config = c, st_rules = []\<rparr>))"

definition add_optimizer_rule :: "'r \<Rightarrow> 'r session_state \<Rightarrow> 'r session_state" where
  "add_optimizer_rule rule s = s\<lparr>st_rules := st_rules s @ [rule]\<rparr>"

section \<open>Queries and catalog\<close>

definition session_sql :: "renderers \<Rightarrow> (string \<Rightarrow> inner_error + 'f) \<Rightarrow> string \<Rightarrow> py_err + 'f" where
  "session_sql rd ctx_sql query = lift_df rd (ctx_sql query)"

text \<open>What DataFusion's \<open>deregister_table\<close> makes of the catalog.\<close>

definition deregister_table ::
  "renderers \<Rightarrow> (string \<Rightarrow> (string \<Rightarrow> 't option) \<Rightarrow> inner_error + (string \<Rightarrow> 't option)) \<Rightarrow> string \<Rightarrow>
   ('t, 'st) py_session \<Rightarrow> (ctx_fault + unit) \<times> ('t, 'st) py_session" where
  "deregister_table rd dereg name ctx =
     (case dereg name (ps_tables ctx) of
        Inl e \<Rightarrow> (Inl (Raise (from_datafusion_error rd e)), ctx)
      | Inr ts \<Rightarrow> (Inr (), ctx\<lparr>ps_tables := ts\<rparr>))"

definition register_dataframe ::
  "renderers \<Rightarrow> 't registrar \<Rightarrow> ('f \<Rightarrow> 't) \<Rightarrow> string \<Rightarrow> 'f \<Rightarrow> ('t, 'st) py_session \<Rightarrow>
   (ctx_fault + unit) \<times> ('t, 'st) py_session" where
  "register_dataframe rd reg into_view name df ctx = register_in_catalog rd reg name (into_view df) ctx"

text \<open>\<open>tables\<close>: the names of the fixed schema \<open>datafusion.public\<close>; both lookups are unwrapped.\<close>

definition session_tables :: "(string \<Rightarrow> (string \<Rightarrow> string list option) option) \<Rightarrow> ctx_fault + string set" where
  "session_tables ctx_catalog =
     and_then (ok_or Ctx_Panic (ctx_catalog ''datafusion'')) (\<lambda>schema.
     map_ok set (ok_or Ctx_Panic (schema ''public'')))"

text \<open>\<open>_table\<close> is for callers inside the crate; \<open>table\<close> waits for the same future.\<close>

definition ctx_table_of :: "(string \<Rightarrow> inner_error + 'f) \<Rightarrow> string \<Rightarrow> inner_error + 'f" where
  "ctx_table_of ctx_table name = ctx_table name"

definition session_table :: "renderers \<Rightarrow> (string \<Rightarrow> inner_error + 'f) \<Rightarrow> string \<Rightarrow> py_err + 'f" where
  "session_table rd ctx_table name = lift_df rd (ctx_table name)"

definition table_exist :: "renderers \<Rightarrow> (string \<Rightarrow> inner_error + bool) \<Rightarrow> string \<Rightarrow> py_err + bool" where
  "table_exist rd ctx_table_exist name = lift_df rd (ctx_table_exist name)"

definition empty_table :: "renderers \<Rightarrow> inner_error + 'f \<Rightarrow> py_err + 'f" where
  "empty_table rd read_empty = lift_df rd read_empty"

definition register_udf :: "string \<Rightarrow> ('t, 'st) py_session \<Rightarrow> (ctx_fault + unit) \<times> ('t, 'st) py_session" where
  "register_udf udf_name ctx = (Inr (), ctx\<lparr>ps_udfs := ps_udfs ctx @ [udf_name]\<rparr>)"

definition register_udaf :: "string \<Rightarrow> ('t, 'st) py_session \<Rightarrow> (ctx_fault + unit) \<times> ('t, 'st) py_session" where
  "register_udaf udaf_name ctx = (Inr (), ctx\<lparr>ps_udafs := ps_udafs ctx @ [udaf_name]\<rparr>)"

definition register_udwf :: "string \<Rightarrow> ('t, 'st) py_session \<Rightarrow> (ctx_fault + unit) \<times> ('t, 'st) py_session" where
  "register_udwf udwf_name ctx = (Inr (), ctx\<lparr>ps_udwfs := ps_udwfs ctx @ [udwf_name]\<rparr>)"

definition session_id_of :: "(('t, 'st) py_session \<Rightarrow> string) \<Rightarrow> ('t, 'st) py_session \<Rightarrow> string" where
  "session_id_of ctx_session_id ctx = ctx_session_id ctx"

definition session_catalog :: "(string \<Rightarrow> 'c option) \<Rightarrow> string \<Rightarrow> py_err + 'c" where
  "session_catalog ctx_catalog name =
     ok_or (new_err PyKeyError (''Catalog with name '' @ name @ '' doesn'' @ [CHR 0x27] @ ''t exist.'')) (ctx_catalog name)"

text \<open>\<open>__repr__\<close>: the options that have a value, sorted as texts.\<close>

definition config_lines :: "(string \<times> string option) list \<Rightarrow> string list" where
  "config_lines entries = map (\<lambda>(k, v). k @ '' = '' @ the v) (filter (\<lambda>(k, v). v \<noteq> None) entries)"

definition session_repr :: "string \<Rightarrow> (string \<times> string option) list \<Rightarrow> string" where
  "session_repr session_id entries =
     ''SessionContext: id='' @ session_id @ ''; configs=['' @ [CHR 0x0A, CHR 0x09]
       @ join_str [CHR 0x0A, CHR 0x09] (sort (config_lines entries)) @ '']''"

lemma session_repr_order: "mset entries = mset entries' \<Longrightarrow> session_repr i entries = session_repr i entries'"
proof -
  assume "mset entries = mset entries'"
  then have "mset (config_lines entries) = mset (config_lines entries')" by (simp add: config_lines_def)
  then have "sort (config_lines entries) = sort (config_lines entries')" by (metis properties_for_sort mset_sort sorted_sort)
  then show ?thesis by (simp add: session_repr_def)
qed

section \<open>Metadata of an object\<close>

record object_meta =
  om_location :: string
  om_last_modified :: string
  om_size :: u64
  om_e_tag :: "string option"
  om_version :: "string option"

datatype py_item = Py_Str string | Py_Int u64

definition metadata_to_pydict :: "object_meta \<Rightarrow> string \<Rightarrow> py_item option" where
  "metadata_to_pydict metadata =
     (let dict = [''location'' \<mapsto> Py_Str (om_location metadata), ''last_modified'' \<mapsto> Py_Str (om_last_modified metadata),
        ''size'' \<mapsto> Py_Int (om_size metadata),
        ''e_tag'' \<mapsto> Py_Str (case om_e_tag metadata of Some t \<Rightarrow> t | None \<Rightarrow> [])] in
      (case om_version metadata of Some version \<Rightarrow> dict(''version'' \<mapsto> Py_Str version) | None \<Rightarrow> dict))"

definition metadata_format :: "string \<Rightarrow> string option" where
  "metadata_format file_format =
     (if file_format = ''csv'' \<or> file_format = ''json'' \<or> file_format = ''parquet'' then Some file_format else None)"

text \<open>
  The calls on the object store: the path of the object in its store, the head request, and the text
  of \<open>Error::Generic\<close>. Errors of that crate are their Display texts.
\<close>

record ('st, 'p) head_api =
  object_path :: "url \<Rightarrow> string + 'p"
  get_head :: "'st \<Rightarrow> 'p \<Rightarrow> string + object_meta"
  generic_text :: "string \<Rightarrow> string \<Rightarrow> string"

definition head_of :: "('st, 'p) head_api \<Rightarrow> url \<Rightarrow> 'st \<Rightarrow> string + object_meta" where
  "head_of ha u store = and_then (object_path ha u) (\<lambda>p. get_head ha store p)"

text \<open>\<open>path\<close> is \<open>None\<close> when it is not text; \<open>extracted\<close> is what reading \<open>storage_options\<close> from the keywords gave.\<close>

definition get_object_metadata ::
  "renderers \<Rightarrow> 'st store_api \<Rightarrow> aws_env \<Rightarrow> ('st, 'p) head_api \<Rightarrow> string option \<Rightarrow> string \<Rightarrow>
   py_err + (string \<times> string) list \<Rightarrow> 'st session \<Rightarrow> (py_err + (string \<Rightarrow> py_item option)) \<times> 'st session" where
  "get_object_metadata rd sa env ha path file_format extracted ctx =
     (case path of
        None \<Rightarrow> (Inl (new_err PyValueError ''Unable to convert path to a string''), ctx)
      | Some location \<Rightarrow>
          let storage_options = (case extracted of Inr kvs \<Rightarrow> kvs | Inl _ \<Rightarrow> []) in
          (case parse_location sa location of
             Inl e \<Rightarrow> (Inl (from_datafusion_error rd e), ctx)
           | Inr u \<Rightarrow>
               let scheme = u_scheme u;
                   ctx1 = register_extension scheme ctx;
                   opts = set_config_format (metadata_format file_format) (default_table_options ctx1) in
               (and_then (map_err (from_datafusion_error rd) (altered_options sa scheme storage_options opts)) (\<lambda>opts'.
                  map_ok metadata_to_pydict (map_err (\<lambda>e. new_err PyValueError (''Err: '' @ e))
                    (and_then (map_err (\<lambda>e. generic_text ha ''Config'' (''Source: '' @ inner_display rd e))
                        (get_object_store sa env ctx1 scheme u opts'))
                      (head_of ha u)))),
                ctx1)))"

section \<open>Optimizer rules\<close>

datatype rule_fault = Rule_Err inner_error | Rule_Panic

text \<open>\<open>PyOptimizerRule::rewrite\<close>: the rewritten plan, always reported as transformed.\<close>

definition rule_name :: string where
  "rule_name = ''python rule''"

definition rule_supports_rewrite :: bool where
  "rule_supports_rewrite = True"

definition rule_rewrite :: "('p \<Rightarrow> py_err + 'o) \<Rightarrow> ('o \<Rightarrow> 'p option) \<Rightarrow> 'p \<Rightarrow> rule_fault + 'p \<times> bool" where
  "rule_rewrite try_optimize extract plan =
     and_then (map_err (\<lambda>e. Rule_Err (to_external_err e)) (try_optimize plan)) (\<lambda>obj.
     and_then (ok_or Rule_Panic (extract obj)) (\<lambda>p. Inr (p, True)))"

definition optimize_plan :: "('p \<Rightarrow> inner_error + 'p) \<Rightarrow> 'p \<Rightarrow> rule_fault + 'p" where
  "optimize_plan optimize plan = map_err (\<lambda>_. Rule_Panic) (optimize plan)"

lemma rule_rewrite_exception:
  "rule_rewrite try_optimize extract plan = Inl (Rule_Err err) \<longleftrightarrow>
     (\<exists>e. try_optimize plan = Inl e \<and> err = to_external_err e \<and> from_datafusion_error rd err = e)"
  by (cases "try_optimize plan") (auto simp: rule_rewrite_def to_external_err_def and_then_Inl_iff elim: ok_or.elims)

section \<open>The plan builder\<close>

text \<open>A Python builder keeps a builder of DataFusion and unwraps what its methods return.\<close>

record ('b, 'e, 's, 'p) builder_api =
  b_filter :: "'e \<Rightarrow> 'b \<Rightarrow> inner_error + 'b"
  b_project :: "'e list \<Rightarrow> 'b \<Rightarrow> inner_error + 'b"
  b_sort :: "'s list \<Rightarrow> 'b \<Rightarrow> inner_error + 'b"
  b_build :: "'b \<Rightarrow> inner_error + 'p"
  b_scan :: "string \<Rightarrow> schema_ref \<Rightarrow> nat list option \<Rightarrow> inner_error + 'b"
  b_scan_with_filters :: "string \<Rightarrow> schema_ref \<Rightarrow> nat list option \<Rightarrow> 'e list \<Rightarrow> inner_error + 'b"

definition unwrap_plan :: "inner_error + 'a \<Rightarrow> ctx_fault + 'a" where
  "unwrap_plan r = map_err (\<lambda>_. Ctx_Panic) r"

definition builder_build :: "('b, 'e, 's, 'p) builder_api \<Rightarrow> 'b \<Rightarrow> ctx_fault + 'p" where
  "builder_build ba b = unwrap_plan (b_build ba b)"

definition builder_filter :: "('b, 'e, 's, 'p) builder_api \<Rightarrow> 'e \<Rightarrow> 'b \<Rightarrow> ctx_fault + 'b" where
  "builder_filter ba e b = unwrap_plan (b_filter ba e b)"

definition builder_project :: "('b, 'e, 's, 'p) builder_api \<Rightarrow> 'e list \<Rightarrow> 'b \<Rightarrow> ctx_fault + 'b" where
  "builder_project ba es b = unwrap_plan (b_project ba es b)"

definition builder_sort :: "('b, 'e, 's, 'p) builder_api \<Rightarrow> ('o \<Rightarrow> 's) \<Rightarrow> 'o list \<Rightarrow> 'b \<Rightarrow> ctx_fault + 'b" where
  "builder_sort ba to_sort es b = unwrap_plan (b_sort ba (map to_sort es) b)"

definition py_table_scan :: "('b, 'e, 's, 'p) builder_api \<Rightarrow> string \<Rightarrow> schema_ref \<Rightarrow> nat list option \<Rightarrow> ctx_fault + 'b" where
  "py_table_scan ba name table_schema projections = unwrap_plan (b_scan ba name table_schema projections)"

definition py_table_scan_with_filters ::
  "('b, 'e, 's, 'p) builder_api \<Rightarrow> string \<Rightarrow> schema_ref \<Rightarrow> 'e list \<Rightarrow> nat list option \<Rightarrow> ctx_fault + 'b" where
  "py_table_scan_with_filters ba name table_schema filters projections =
     unwrap_plan (b_scan_with_filters ba name table_schema projections filters)"

lemma unwrap_plan_never_raises: "unwrap_plan r \<noteq> Inl (Raise e)"
  by (cases r) (simp_all add: unwrap_plan_def)

section \<open>Scalars through pyarrow\<close>

text \<open>\<open>'o\<close> is a Python object, \<open>'a\<close> an arrow array, \<open>'s\<close> a scalar.\<close>

record ('o, 'a, 's) pyarrow_api =
  pa_type :: "'o \<Rightarrow> py_err + 'o"
  pa_as_py :: "'o \<Rightarrow> py_err + 'o"
  pa_array :: "'o list \<Rightarrow> 'o \<Rightarrow> py_err + 'o"
  pa_getitem :: "'o \<Rightarrow> nat \<Rightarrow> py_err + 'o"
  from_pyarrow :: "'o \<Rightarrow> py_err + 'a"
  to_pyarrow :: "'a \<Rightarrow> py_err + 'o"
  scalar_from_array :: "'a \<Rightarrow> nat \<Rightarrow> inner_error + 's"
  scalar_to_array :: "'s \<Rightarrow> inner_error + 'a"

definition scalar_from_pyarrow :: "renderers \<Rightarrow> ('o, 'a, 's) pyarrow_api \<Rightarrow> 'o \<Rightarrow> py_err + 's" where
  "scalar_from_pyarrow rd pa v =
     and_then (pa_type pa v) (\<lambda>typ.
     and_then (pa_as_py pa v) (\<lambda>val.
     and_then (pa_array pa [val] typ) (\<lambda>pyarray.
     and_then (from_pyarrow pa pyarray) (\<lambda>array.
     map_err (\<lambda>e. into_py_err rd (from_inner_error e)) (scalar_from_array pa array 0)))))"

definition scalar_to_pyarrow :: "renderers \<Rightarrow> ('o, 'a, 's) pyarrow_api \<Rightarrow> 's \<Rightarrow> py_err + 'o" where
  "scalar_to_pyarrow rd pa scalar =
     and_then (map_err (\<lambda>e. into_py_err rd (from_inner_error e)) (scalar_to_array pa scalar)) (\<lambda>array.
     and_then (to_pyarrow pa array) (\<lambda>pyarray.
     pa_getitem pa pyarray 0))"

section \<open>Properties\<close>

text \<open>
  C30: The metadata of an object is asked of the very store that registering its location would file:
  when registration with the same options and format succeeds, the answer is that store's answer to a
  head request, and nothing is filed; when registration fails, so does the request for metadata, and
  both leave the same session behind. Storage options that cannot be read count as none.
\<close>

theorem metadata_asks_the_registered_store:
  assumes "parse_location sa location = Inr u"
    and reg: "register_object_store_and_config_extensions sa env location (metadata_format ff) options ctx = (res, ctx')"
    and meta: "get_object_metadata rd sa env ha (Some location) ff (Inr options) ctx = (got, ctx'')"
  shows "ctx'' = ctx'\<lparr>store_registry := store_registry ctx\<rparr>
    \<and> (res = Inr () \<longrightarrow> got = map_ok metadata_to_pydict (map_err (\<lambda>e. new_err PyValueError (''Err: '' @ e))
         (head_of ha u (the (store_registry ctx' (store_key sa u))))))
    \<and> (isl res \<longrightarrow> isl got)
    \<and> get_object_metadata rd sa env ha (Some location) ff (Inl e) ctx
        = get_object_metadata rd sa env ha (Some location) ff (Inr []) ctx"
proof -
  let ?ctx = "register_extension (u_scheme u) ctx"
  let ?opts = "altered_options sa (u_scheme u) options
    (set_config_format (metadata_format ff) (default_table_options ?ctx))"
  have r: "store_registry ?ctx = store_registry ctx" by (simp add: register_extension_def)
  have e: "get_object_metadata rd sa env ha (Some location) ff (Inl e) ctx
      = get_object_metadata rd sa env ha (Some location) ff (Inr []) ctx"
    by (simp add: get_object_metadata_def)
  show ?thesis
  proof (cases "and_then ?opts (get_object_store sa env ?ctx (u_scheme u) u)")
    case (Inl err)
    then have "isl got" using meta assms(1)
      by (cases ?opts) (auto simp: get_object_metadata_def Let_def)
    moreover from Inl reg meta assms(1) have "res = Inl err" "ctx' = ?ctx" "ctx'' = ?ctx"
      by (simp_all add: register_object_store_and_config_extensions_def get_object_metadata_def Let_def)
    ultimately show ?thesis using e r by simp
  next
    case (Inr store)
    then obtain opts where o: "?opts = Inr opts" "get_object_store sa env ?ctx (u_scheme u) u opts = Inr store"
      by (auto simp: and_then_Inr_iff)
    from Inr reg assms(1) have "res = Inr ()" "ctx' = ?ctx\<lparr>store_registry := (store_registry ?ctx)(store_key sa u \<mapsto> store)\<rparr>"
      by (simp_all add: register_object_store_and_config_extensions_def Let_def)
    moreover from o meta assms(1) have "ctx'' = ?ctx"
      "got = map_ok metadata_to_pydict (map_err (\<lambda>e. new_err PyValueError (''Err: '' @ e)) (head_of ha u store))"
      by (simp_all add: get_object_metadata_def Let_def)
    ultimately show ?thesis using e r by simp
  qed
qed

definition web_stores :: "string store_api" where
  "web_stores = \<lparr>build_s3 = (\<lambda>_. Inl (Inner_Other [])), build_gcs = (\<lambda>_. Inl (Inner_Other [])), build_http = Inr,
     endpoint_scheme = (\<lambda>_. None), store_key = u_origin,
     parse_location = (\<lambda>l. Inr \<lparr>u_scheme = ''https'', u_host = Some ''h'', u_text = l, u_origin = ''https://h''\<rparr>),
     alter_options = (\<lambda>_ o1. Inr o1)\<rparr>"

definition web_heads :: "(string, string) head_api" where
  "web_heads = \<lparr>object_path = (\<lambda>u. Inr (u_text u)),
     get_head = (\<lambda>store p. Inr \<lparr>om_location = p, om_last_modified = store, om_size = 5, om_e_tag = None, om_version = None\<rparr>),
     generic_text = (\<lambda>a b. a @ b)\<rparr>"

definition web_session :: "string session" where
  "web_session = \<lparr>default_table_options = \<lparr>ext_aws = None, ext_gcp = None, config_format = None\<rparr>, store_registry = (\<lambda>_. None)\<rparr>"

definition no_aws :: aws_env where
  "no_aws = \<lparr>env_region = None, env_credentials = False\<rparr>"

theorem metadata_asks_the_registered_store_witness:
  "case fst (get_object_metadata plain_renderers web_stores no_aws web_heads (Some ''x'') ''csv'' (Inr []) web_session) of
     Inr dict \<Rightarrow> dict ''last_modified'' = Some (Py_Str ''https://h'') \<and> dict ''size'' = Some (Py_Int 5) | Inl _ \<Rightarrow> False"
proof -
  obtain res ctx' where r: "register_object_store_and_config_extensions web_stores no_aws ''x'' (metadata_format ''csv'') []
    web_session = (res, ctx')" by fastforce
  then have c: "res = Inr ()" "store_registry ctx' ''https://h'' = Some ''https://h''"
    by (auto simp: register_object_store_and_config_extensions_def web_stores_def web_session_def register_extension_def
        is_aws_scheme_def is_gcp_scheme_def altered_options_def get_object_store_def Let_def)
  obtain got ctx'' where m: "get_object_metadata plain_renderers web_stores no_aws web_heads (Some ''x'') ''csv'' (Inr [])
    web_session = (got, ctx'')" by fastforce
  have p: "parse_location web_stores ''x'' = Inr \<lparr>u_scheme = ''https'', u_host = Some ''h'', u_text = ''x'', u_origin = ''https://h''\<rparr>"
    by (simp add: web_stores_def)
  from metadata_asks_the_registered_store [OF p r m, of "new_err PyTypeError ''''"] c m show ?thesis
    by (auto simp: web_stores_def web_heads_def head_of_def metadata_to_pydict_def)
qed

end
