(* ===== verification/Sql_Objects.thy ===== *)
theory Sql_Objects
  imports Table_Providers Data_Frames Udfs
begin

text \<open>
  The SQL-side objects of the crate: the schema with its tables (\<open>src/common/schema.rs\<close>), functions with
  their type mappings (\<open>src/common/function.rs\<close>), the context provider and \<open>parse_sql\<close>
  (\<open>src/sql/parser.rs\<close>) and the function \<open>hash_int\<close> (\<open>src/functions/hash_int.rs\<close>). The SQL parser and
  planner, \<open>split_conjunction\<close>, \<open>flattened_fields\<close> and the hasher are parameters. A row count is the bit
  pattern of an \<open>f64\<close>.
\<close>

section \<open>Schemas\<close>

record sql_statistics =
  ss_row_count :: u64

record sql_table =
  st_name :: string
  st_columns :: "(string \<times> data_type_map) list"
  st_primary_key :: "string option"
  st_foreign_keys :: "string list"
  st_indexes :: "string list"
  st_constraints :: "string list"
  st_statistics :: sql_statistics
  st_filepaths :: "string list option"

definition SqlTable_new :: "string \<Rightarrow> (string \<times> data_type_map) list \<Rightarrow> u64 \<Rightarrow> string list option \<Rightarrow> sql_table" where
  "SqlTable_new table_name columns row_count filepaths =
     \<lparr>st_name = table_name, st_columns = columns, st_primary_key = None, st_foreign_keys = [], st_indexes = [],
      st_constraints = [], st_statistics = \<lparr>ss_row_count = row_count\<rparr>, st_filepaths = filepaths\<rparr>"

record sql_view =
  sv_name :: string
  sv_definition :: string

text \<open>\<open>SqlFunction\<close>: the return type by input types.\<close>

record sql_function =
  sf_name :: string
  sf_return_types :: "data_type list \<Rightarrow> data_type option"
  sf_aggregation :: bool

definition add_type_mapping :: "data_type list \<Rightarrow> data_type \<Rightarrow> sql_function \<Rightarrow> sql_function" where
  "add_type_mapping input_types return_type f = f\<lparr>sf_return_types := (sf_return_types f)(input_types \<mapsto> return_type)\<rparr>"

definition SqlFunction_new :: "string \<Rightarrow> data_type list \<Rightarrow> data_type \<Rightarrow> bool \<Rightarrow> sql_function" where
  "SqlFunction_new name input_types return_type aggregation =
     add_type_mapping input_types return_type
       \<lparr>sf_name = name, sf_return_types = (\<lambda>_. None), sf_aggregation = aggregation\<rparr>"

record sql_schema =
  sc_name :: string
  sc_tables :: "sql_table list"
  sc_views :: "sql_view list"
  sc_functions :: "sql_function list"

definition SqlSchema_new :: "string \<Rightarrow> sql_schema" where
  "SqlSchema_new schema_name = \<lparr>sc_name = schema_name, sc_tables = [], sc_views = [], sc_functions = []\<rparr>"

fun first_named :: "string \<Rightarrow> sql_table list \<Rightarrow> sql_table option" where
  "first_named n [] = None"
| "first_named n (t # ts) = (if st_name t = n then Some t else first_named n ts)"

definition table_by_name :: "sql_schema \<Rightarrow> string \<Rightarrow> sql_table option" where
  "table_by_name s n = first_named n (sc_tables s)"

definition add_table :: "sql_table \<Rightarrow> sql_schema \<Rightarrow> sql_schema" where
  "add_table t s = s\<lparr>sc_tables := sc_tables s @ [t]\<rparr>"

definition drop_table :: "string \<Rightarrow> sql_schema \<Rightarrow> sql_schema" where
  "drop_table n s = s\<lparr>sc_tables := filter (\<lambda>x. st_name x \<noteq> n) (sc_tables s)\<rparr>"

datatype schema_op = Add_Table sql_table | Drop_Table string

fun schema_do :: "schema_op \<Rightarrow> sql_schema \<Rightarrow> sql_schema" where
  "schema_do (Add_Table t) s = add_table t s"
| "schema_do (Drop_Table n) s = drop_table n s"

text \<open>What a schema promises: a partial map of names in which the first table of a name stays.\<close>

fun spec_do :: "schema_op \<Rightarrow> (string \<Rightarrow> sql_table option) \<Rightarrow> string \<Rightarrow> sql_table option" where
  "spec_do (Add_Table t) m = (if m (st_name t) = None then m(st_name t \<mapsto> t) else m)"
| "spec_do (Drop_Table n) m = m(n := None)"

lemma first_named_append:
  "first_named n (ts @ us) = (case first_named n ts of None \<Rightarrow> first_named n us | Some t \<Rightarrow> Some t)"
  by (induction ts) auto

lemma first_named_filter:
  "first_named n (filter (\<lambda>x. st_name x \<noteq> k) ts) = (if n = k then None else first_named n ts)"
  by (induction ts) auto

lemma schema_do_spec: "table_by_name (schema_do op s) = spec_do op (table_by_name s)"
  by (cases op)
    (auto simp: fun_eq_iff table_by_name_def add_table_def drop_table_def first_named_append first_named_filter
      split: option.splits)

lemma first_named_name: "first_named n ts = Some t \<Longrightarrow> st_name t = n \<and> t \<in> set ts"
  by (induction ts) (auto split: if_splits)

section \<open>Table sources\<close>

record sql_table_source =
  src_schema :: schema_ref
  src_statistics :: "sql_statistics option"
  src_filepaths :: "string list option"

definition SqlTableSource_new :: "schema_ref \<Rightarrow> sql_statistics option \<Rightarrow> string list option \<Rightarrow> sql_table_source" where
  "SqlTableSource_new schema statistics filepaths =
     \<lparr>src_schema = schema, src_statistics = statistics, src_filepaths = filepaths\<rparr>"

definition source_table_type :: "sql_table_source \<Rightarrow> table_type" where
  "source_table_type src = Base"

definition source_logical_plan :: "sql_table_source \<Rightarrow> 'p option" where
  "source_logical_plan src = None"

definition is_supported_push_down_expr :: "'q expr \<Rightarrow> bool" where
  "is_supported_push_down_expr e = True"

definition source_pushdown :: "('q expr \<Rightarrow> 'q expr list) \<Rightarrow> 'q expr list \<Rightarrow> pushdown list" where
  "source_pushdown split_conjunction filters =
     map (\<lambda>f. let parts = split_conjunction f in
        if list_all is_supported_push_down_expr parts then Exact
        else if list_ex is_supported_push_down_expr parts then Inexact
        else Unsupported) filters"

lemma source_pushdown_exact: "source_pushdown split_conjunction filters = replicate (length filters) Exact"
  by (induction filters) (simp_all add: source_pushdown_def is_supported_push_down_expr_def list_all_iff)

section \<open>Parsing SQL\<close>

datatype parse_fault = Parse_Panic

text \<open>\<open>'c\<close> is a \<open>ConfigOptions\<close>, \<open>set_one\<close> its \<open>set\<close>; the tables and options are listed in iteration order.\<close>

record 'c context_provider =
  cp_options :: 'c
  cp_tables :: "string \<Rightarrow> field list option"

definition unwrap_parse :: "'e + 'a \<Rightarrow> parse_fault + 'a" where
  "unwrap_parse r = map_err (\<lambda>_. Parse_Panic) r"

text \<open>The columns of a table source: every field of the flattened schema, rebuilt without metadata.\<close>

fun insert_sources ::
  "(field list \<Rightarrow> field list) \<Rightarrow> (string \<times> (py_err + field list)) list \<Rightarrow> (string \<Rightarrow> field list option) \<Rightarrow>
   parse_fault + (string \<Rightarrow> field list option)" where
  "insert_sources flattened [] m = Inr m"
| "insert_sources flattened ((name, schema) # ts) m =
     and_then (unwrap_parse schema) (\<lambda>fields.
       insert_sources flattened ts (m(name \<mapsto> map (\<lambda>f. Field (field_name f) (field_data_type f) (field_nullable f)) (flattened fields))))"

fun set_options :: "(string \<Rightarrow> string \<Rightarrow> 'c \<Rightarrow> inner_error + 'c) \<Rightarrow> (string \<times> string) list \<Rightarrow> 'c \<Rightarrow> parse_fault + 'c" where
  "set_options set_one [] config = Inr config"
| "set_options set_one ((k, v) # kvs) config =
     and_then (unwrap_parse (set_one k v config)) (\<lambda>config'. set_options set_one kvs config')"

definition PyContextProvider_new ::
  "(field list \<Rightarrow> field list) \<Rightarrow> 'c \<Rightarrow> (string \<Rightarrow> string \<Rightarrow> 'c \<Rightarrow> inner_error + 'c) \<Rightarrow>
   (string \<times> (py_err + field list)) list \<Rightarrow> (string \<times> string) list option \<Rightarrow> parse_fault + 'c context_provider" where
  "PyContextProvider_new flattened new_config set_one tables config_options =
     and_then (insert_sources flattened tables (\<lambda>_. None)) (\<lambda>sources.
     and_then (case config_options of Some kvs \<Rightarrow> set_options set_one kvs new_config | None \<Rightarrow> Inr new_config) (\<lambda>config.
     Inr \<lparr>cp_options = config, cp_tables = sources\<rparr>))"

definition get_table_source :: "'c context_provider \<Rightarrow> string \<Rightarrow> inner_error + field list" where
  "get_table_source cp table = ok_or (Inner_Plan (''Table not found: '' @ table)) (cp_tables cp table)"

text \<open>
  What the planner asks of the provider besides tables: no function of any kind and no variable is
  known, whatever the name.
\<close>

datatype planner_question =
    Function_Meta string | Higher_Order_Meta string | Aggregate_Meta string | Window_Meta string
  | Variable_Type "string list"

definition provider_answer :: "'c context_provider \<Rightarrow> planner_question \<Rightarrow> 'm option" where
  "provider_answer cp q = (case q of
     Function_Meta _ \<Rightarrow> None | Higher_Order_Meta _ \<Rightarrow> None | Aggregate_Meta _ \<Rightarrow> None | Window_Meta _ \<Rightarrow> None
   | Variable_Type _ \<Rightarrow> None)"

datatype function_kind = Scalar_Functions | Higher_Order_Functions | Aggregate_Functions | Window_Functions

definition provider_names :: "'c context_provider \<Rightarrow> function_kind \<Rightarrow> string list" where
  "provider_names cp k = (case k of
     Scalar_Functions \<Rightarrow> [] | Higher_Order_Functions \<Rightarrow> [] | Aggregate_Functions \<Rightarrow> [] | Window_Functions \<Rightarrow> [])"

definition provider_options :: "'c context_provider \<Rightarrow> 'c" where
  "provider_options cp = cp_options cp"

text \<open>\<open>parse_sql\<close>: every failure is a panic; of several statements only the first is planned.\<close>

definition parse_sql ::
  "(string \<Rightarrow> 'd option) \<Rightarrow> ('d \<Rightarrow> string \<Rightarrow> string + 'a list) \<Rightarrow> ('c context_provider \<Rightarrow> 'a \<Rightarrow> inner_error + 'p) \<Rightarrow>
   string \<Rightarrow> 'c context_provider \<Rightarrow> string option \<Rightarrow> parse_fault + 'p" where
  "parse_sql dialect_from_str parser to_plan sql cp dialect =
     and_then (ok_or Parse_Panic (dialect_from_str (case dialect of Some d \<Rightarrow> d | None \<Rightarrow> ''generic''))) (\<lambda>d.
     and_then (unwrap_parse (parser d sql)) (\<lambda>ast.
     case ast of [] \<Rightarrow> Inl Parse_Panic | statement # _ \<Rightarrow> unwrap_parse (to_plan cp statement)))"

lemma parse_sql_first_statement:
  assumes "dialect_from_str (case dialect of Some d \<Rightarrow> d | None \<Rightarrow> ''generic'') = Some d" "parser d sql = Inr (a # as)"
  shows "parse_sql dialect_from_str parser to_plan sql cp dialect = unwrap_parse (to_plan cp a)"
  using assms by (simp add: parse_sql_def unwrap_parse_def)

section \<open>The function hash_int\<close>

text \<open>\<open>Signature::string(n, volatility)\<close>: that many strings of any encoding.\<close>

datatype string_signature = String_Signature nat volatility

definition hash_int_signature :: string_signature where
  "hash_int_signature = String_Signature 1 Immutable"

definition hash_int_name :: string where
  "hash_int_name = ''hash_int''"

definition hash_int_return_type :: "data_type list \<Rightarrow> inner_error + data_type" where
  "hash_int_return_type arg_types = Inr DT_Int64"

datatype string_array =
    Utf8_Array "string option list" | LargeUtf8_Array "string option list" | Utf8View_Array "string option list"
  | Other_Array nat

text \<open>\<open>to_array\<close> turns an argument into an array; \<open>finish\<close> is what a new \<open>DefaultHasher\<close> gives for one \<open>Option<&str>\<close>; \<open>as i64\<close> keeps the bits.\<close>

definition hash_all :: "(string option \<Rightarrow> u64) \<Rightarrow> string option list \<Rightarrow> i64 list" where
  "hash_all finish vals = map (\<lambda>v. finish v) vals"

definition hash_int :: "('v \<Rightarrow> inner_error + string_array) \<Rightarrow> (string option \<Rightarrow> u64) \<Rightarrow> 'v list \<Rightarrow> inner_error + i64 list" where
  "hash_int to_array finish input =
     (case input of
        [v] \<Rightarrow> and_then (to_array v) (\<lambda>array.
          case array of
             Utf8_Array vals \<Rightarrow> Inr (hash_all finish vals)
           | LargeUtf8_Array vals \<Rightarrow> Inr (hash_all finish vals)
           | Utf8View_Array vals \<Rightarrow> Inr (hash_all finish vals)
           | Other_Array _ \<Rightarrow> Inl (Inner_Execution ''Unexpected Datatype''))
      | _ \<Rightarrow> Inl (Inner_Execution (show_nat (length input)
          @ '' args were supplied but encode takes exactly two arguments'')))"

text \<open>The three string encodings hash alike; there is one number per row, also for a missing value.\<close>

lemma hash_int_encodings:
  assumes "to_array v \<in> {Inr (Utf8_Array vals), Inr (LargeUtf8_Array vals), Inr (Utf8View_Array vals)}"
  shows "hash_int to_array finish [v] = Inr (hash_all finish vals)" "length (hash_all finish vals) = length vals"
  using assms by (auto simp: hash_int_def hash_all_def)

section \<open>Properties\<close>

text \<open>
  The tables of a schema behave as a map in which the first table of a name stays: after any sequence
  of additions and removals the lookup by name is what that map gives; in particular adding a table
  under a name that is taken changes no lookup until the name is dropped, and dropping a name removes
  every table of that name.
\<close>

theorem sql_schema_refines_map:
  "table_by_name (fold schema_do ops s) = fold spec_do ops (table_by_name s)
   \<and> (table_by_name s n = Some t \<longrightarrow> st_name t = n \<and> table_by_name (add_table t' s) n = Some t)
   \<and> table_by_name (add_table (SqlTable_new n cols rows files) (drop_table n s)) n = Some (SqlTable_new n cols rows files)"
proof -
  have "table_by_name (fold schema_do ops s) = fold spec_do ops (table_by_name s)"
    by (induction ops arbitrary: s) (simp_all add: schema_do_spec)
  then show ?thesis
    by (auto simp: table_by_name_def add_table_def drop_table_def first_named_append first_named_filter SqlTable_new_def
        dest: first_named_name)
qed

theorem sql_schema_refines_map_witness:
  "table_by_name (add_table (SqlTable_new ''t'' [] 2 None) (add_table (SqlTable_new ''t'' [] 1 None) (SqlSchema_new ''s''))) ''t''
     = Some (SqlTable_new ''t'' [] 1 None)"
proof -
  have "table_by_name (add_table (SqlTable_new ''t'' [] 1 None) (SqlSchema_new ''s'')) ''t'' = Some (SqlTable_new ''t'' [] 1 None)"
    by (simp add: table_by_name_def add_table_def SqlSchema_new_def SqlTable_new_def)
  then show ?thesis
    using sql_schema_refines_map [of "[]" "add_table (SqlTable_new ''t'' [] 1 None) (SqlSchema_new ''s'')" "''t''"
      "SqlTable_new ''t'' [] 1 None" "SqlTable_new ''t'' [] 2 None" "[]" 0 None] by blast
qed

end
