(* ===== verification/Module_Entry.thy ===== *)
theory Module_Entry
  imports Plan_Nodes Data_Frames "HOL-Library.AList"
begin

text \<open>
  The Python module the crate is (\<open>src/lib.rs\<close>) with its submodules \<open>common\<close> (\<open>src/common.rs\<close>), \<open>expr\<close>
  (\<open>src/expr.rs\<close>), \<open>parser\<close> (\<open>src/sql/parser.rs\<close>), \<open>optimizer\<close> (\<open>src/optimizer.rs\<close>) and \<open>builder\<close>
  (\<open>src/sql/builder.rs\<close>): which names Python finds, and that the classes of all objects \<open>to_variant\<close> makes
  are among them. A module is the list of its attributes; adding sets an attribute.
\<close>

section \<open>Modules\<close>

text \<open>A class by its name in Rust and the name of its \<open>pyclass\<close> attribute.\<close>

datatype py_class = Py_Class (rust_name: string) (py_name: string)

datatype member = Class string | Instance string | Function string | Submodule "(string \<times> member) list"

type_synonym py_module = "(string \<times> member) list"

definition add_class :: "py_class \<Rightarrow> py_module \<Rightarrow> py_module" where
  "add_class c m = AList.update (py_name c) (Class (rust_name c)) m"

definition add_function :: "string \<Rightarrow> py_module \<Rightarrow> py_module" where
  "add_function name m = AList.update name (Function name) m"

definition add_submodule :: "string \<Rightarrow> py_module \<Rightarrow> py_module \<Rightarrow> py_module" where
  "add_submodule name sub m = AList.update name (Submodule sub) m"

definition add_classes :: "py_class list \<Rightarrow> py_module \<Rightarrow> py_module" where
  "add_classes cs m = fold add_class cs m"

section \<open>What is registered\<close>

definition common_classes :: "py_class list" where
  "common_classes =
    [Py_Class ''PyDFSchema'' ''DFSchema'', Py_Class ''PyDataType'' ''DataType'',
     Py_Class ''DataTypeMap'' ''DataTypeMap'', Py_Class ''PythonType'' ''PythonType'',
     Py_Class ''SqlType'' ''SqlType'', Py_Class ''SqlTable'' ''SqlTable'',
     Py_Class ''SqlSchema'' ''SqlSchema'', Py_Class ''SqlView'' ''SqlView'',
     Py_Class ''SqlStatistics'' ''SqlStatistics'', Py_Class ''SqlFunction'' ''SqlFunction'']"

definition common_module :: "py_module \<Rightarrow> py_module" where
  "common_module = add_classes common_classes"

definition expr_classes :: "py_class list" where
  "expr_classes =
    [Py_Class ''PyExpr'' ''Expr'', Py_Class ''PyColumn'' ''Column'', Py_Class ''PyLiteral'' ''Literal'',
     Py_Class ''PyBinaryExpr'' ''BinaryExpr'', Py_Class ''PyLiteral'' ''Literal'',
     Py_Class ''PyAggregateFunction'' ''AggregateFunction'', Py_Class ''PyNot'' ''Not'',
     Py_Class ''PyIsNotNull'' ''IsNotNull'', Py_Class ''PyIsNull'' ''IsNull'',
     Py_Class ''PyIsTrue'' ''IsTrue'', Py_Class ''PyIsFalse'' ''IsFalse'',
     Py_Class ''PyIsUnknown'' ''IsUnknown'', Py_Class ''PyIsNotTrue'' ''IsNotTrue'',
     Py_Class ''PyIsNotFalse'' ''IsNotFalse'', Py_Class ''PyIsNotUnknown'' ''IsNotUnknown'',
     Py_Class ''PyNegative'' ''Negative'', Py_Class ''PyLike'' ''Like'', Py_Class ''PyILike'' ''ILike'',
     Py_Class ''PySimilarTo'' ''SimilarTo'', Py_Class ''PyScalarVariable'' ''ScalarVariable'',
     Py_Class ''PyAlias'' ''Alias'', Py_Class ''PyInList'' ''InList'', Py_Class ''PyExists'' ''Exists'',
     Py_Class ''PySubquery'' ''Subquery'', Py_Class ''PyInSubquery'' ''InSubquery'',
     Py_Class ''PyScalarSubquery'' ''ScalarSubquery'', Py_Class ''PyPlaceholder'' ''Placeholder'',
     Py_Class ''PyGroupingSet'' ''GroupingSet'', Py_Class ''PyCase'' ''Case'', Py_Class ''PyCast'' ''Cast'',
     Py_Class ''PyTryCast'' ''TryCast'', Py_Class ''PyBetween'' ''Between'',
     Py_Class ''PyExplain'' ''Explain'', Py_Class ''PyLimit'' ''Limit'',
     Py_Class ''PyAggregate'' ''Aggregate'', Py_Class ''PySort'' ''Sort'', Py_Class ''PyAnalyze'' ''Analyze'',
     Py_Class ''PyEmptyRelation'' ''EmptyRelation'', Py_Class ''PyJoin'' ''Join'',
     Py_Class ''PyJoinType'' ''JoinType'', Py_Class ''PyJoinConstraint'' ''JoinConstraint'',
     Py_Class ''PyUnion'' ''Union'', Py_Class ''PyExtension'' ''Extension'', Py_Class ''PyFilter'' ''Filter'',
     Py_Class ''PyProjection'' ''Projection'', Py_Class ''PyTableScan'' ''TableScan'',
     Py_Class ''PyCreateMemoryTable'' ''CreateMemoryTable'', Py_Class ''PyCreateView'' ''CreateView'',
     Py_Class ''PyDistinct'' ''Distinct'', Py_Class ''PySubqueryAlias'' ''SubqueryAlias'',
     Py_Class ''PyDropTable'' ''DropTable'', Py_Class ''PyPartitioning'' ''Partitioning'',
     Py_Class ''PyRepartition'' ''Repartition'', Py_Class ''PyWindow'' ''WindowExpr'',
     Py_Class ''PyWindowFrame'' ''WindowFrame'', Py_Class ''PyWindowFrameBound'' ''WindowFrameBound'',
     Py_Class ''PyOrdered'' ''Ordered'', Py_Class ''PySortExpr'' ''SortExpr'',
     Py_Class ''PyWildcard'' ''Wildcard'']"

definition expr_module :: "py_module \<Rightarrow> py_module" where
  "expr_module = add_classes expr_classes"

definition parser_module :: "py_module \<Rightarrow> py_module" where
  "parser_module = add_function ''parse_sql''"

definition optimizer_module :: "py_module \<Rightarrow> py_module" where
  "optimizer_module = add_function ''optimize_plan''"

definition builder_module :: "py_module \<Rightarrow> py_module" where
  "builder_module = add_function ''table_scan_with_filters'' \<circ> add_function ''table_scan''"

definition internal_classes :: "py_class list" where
  "internal_classes =
    [Py_Class ''PySessionConfig'' ''SessionConfig'', Py_Class ''PySessionContext'' ''SessionContext'',
     Py_Class ''PySessionState'' ''SessionState'', Py_Class ''PyDataFrame'' ''DataFrame'',
     Py_Class ''PyScalarUDF'' ''ScalarUDF'', Py_Class ''PyAggregateUDF'' ''AggregateUDF'',
     Py_Class ''PyWindowUDF'' ''WindowUDF'', Py_Class ''PyLogicalPlan'' ''LogicalPlan'',
     Py_Class ''PyExecutionPlan'' ''ExecutionPlan'', Py_Class ''PyContextProvider'' ''ContextProvider'',
     Py_Class ''PyLogicalPlanBuilder'' ''LogicalPlanBuilder'',
     Py_Class ''PyOptimizerContext'' ''OptimizerContext'', Py_Class ''PyOptimizerRule'' ''OptimizerRule'',
     Py_Class ''PyTableProvider'' ''TableProvider'', Py_Class ''PyTable'' ''Table'']"

definition internal_module :: "py_module \<Rightarrow> py_module" where
  "internal_module m =
     add_submodule ''builder'' (builder_module [])
    (add_submodule ''optimizer'' (optimizer_module [])
    (add_submodule ''parser'' (parser_module [])
    (add_submodule ''expr'' (expr_module [])
    (add_submodule ''common'' (common_module [])
    (add_classes internal_classes
    (AList.update ''runtime'' (Instance ''TokioRuntime'')
    (add_class (Py_Class ''TokioRuntime'' ''TokioRuntime'') m)))))))"

text \<open>The method of the object \<open>runtime\<close>, which Python calls when the process ends.\<close>

definition TokioRuntime_shutdown :: "nat \<Rightarrow> nat option \<Rightarrow> runtime_cell \<Rightarrow> runtime_cell" where
  "TokioRuntime_shutdown fresh timeout_secs c = snd (shutdown_runtime fresh timeout_secs c)"

section \<open>Looking names up\<close>

fun find_member :: "string list \<Rightarrow> py_module \<Rightarrow> member option" where
  "find_member [] m = Some (Submodule m)"
| "find_member (n # ns) m = (case map_of m n of
     Some (Submodule sub) \<Rightarrow> find_member ns sub
   | Some other \<Rightarrow> (if ns = [] then Some other else None)
   | None \<Rightarrow> None)"

text \<open>The Python name of the class of a plan node.\<close>

definition node_class_name :: "node_class \<Rightarrow> py_class" where
  "node_class_name c = (case c of
     N_Aggregate \<Rightarrow> Py_Class ''PyAggregate'' ''Aggregate''
   | N_Analyze \<Rightarrow> Py_Class ''PyAnalyze'' ''Analyze''
   | N_Distinct \<Rightarrow> Py_Class ''PyDistinct'' ''Distinct''
   | N_EmptyRelation \<Rightarrow> Py_Class ''PyEmptyRelation'' ''EmptyRelation''
   | N_Explain \<Rightarrow> Py_Class ''PyExplain'' ''Explain''
   | N_Extension \<Rightarrow> Py_Class ''PyExtension'' ''Extension''
   | N_Filter \<Rightarrow> Py_Class ''PyFilter'' ''Filter''
   | N_Join \<Rightarrow> Py_Class ''PyJoin'' ''Join''
   | N_Limit \<Rightarrow> Py_Class ''PyLimit'' ''Limit''
   | N_Projection \<Rightarrow> Py_Class ''PyProjection'' ''Projection''
   | N_Sort \<Rightarrow> Py_Class ''PySort'' ''Sort''
   | N_TableScan \<Rightarrow> Py_Class ''PyTableScan'' ''TableScan''
   | N_Subquery \<Rightarrow> Py_Class ''PySubquery'' ''Subquery''
   | N_SubqueryAlias \<Rightarrow> Py_Class ''PySubqueryAlias'' ''SubqueryAlias''
   | N_Window \<Rightarrow> Py_Class ''PyWindow'' ''WindowExpr''
   | N_Repartition \<Rightarrow> Py_Class ''PyRepartition'' ''Repartition''
   | N_Union \<Rightarrow> Py_Class ''PyUnion'' ''Union''
   | N_CreateView \<Rightarrow> Py_Class ''PyCreateView'' ''CreateView''
   | N_CreateMemoryTable \<Rightarrow> Py_Class ''PyCreateMemoryTable'' ''CreateMemoryTable''
   | N_DropTable \<Rightarrow> Py_Class ''PyDropTable'' ''DropTable'')"

definition attribute :: "string \<Rightarrow> string \<Rightarrow> member option" where
  "attribute sub name = find_member [sub, name] (internal_module [])"

lemma map_of_add_class:
  "map_of (add_class c m) n = (if n = py_name c then Some (Class (rust_name c)) else map_of m n)"
  by (simp add: add_class_def update_conv')

lemma add_classes_other: "n \<notin> py_name ` set cs \<Longrightarrow> map_of (add_classes cs m) n = map_of m n"
  unfolding add_classes_def by (induction cs arbitrary: m) (auto simp: map_of_add_class)

text \<open>A class that is registered twice stays; two classes of one name would hide each other.\<close>

lemma add_classes_lookup:
  "inj_on py_name (set cs) \<Longrightarrow> c \<in> set cs \<Longrightarrow> map_of (add_classes cs m) (py_name c) = Some (Class (rust_name c))"
proof (induction cs arbitrary: m)
  case (Cons d cs)
  show ?case
  proof (cases "c \<in> set cs")
    case True
    with Cons show ?thesis by (simp add: add_classes_def)
  next
    case False
    with Cons.prems have "c = d" "py_name c \<notin> py_name ` set cs" by (auto simp: inj_on_def)
    with add_classes_other [of "py_name c" cs "add_class d m"] show ?thesis
      by (simp add: add_classes_def map_of_add_class)
  qed
qed simp

lemma inj_on_distinct: "distinct (map f (remdups xs)) \<Longrightarrow> inj_on f (set xs)"
  by (simp add: distinct_map)

lemma classes_distinct:
  "inj_on py_name (set expr_classes)" "inj_on py_name (set common_classes)" "inj_on py_name (set internal_classes)"
  by (rule inj_on_distinct, code_simp)+

lemma expr_class_found:
  assumes "c \<in> set expr_classes"
  shows "attribute ''expr'' (py_name c) = Some (Class (rust_name c))"
  using add_classes_lookup [OF classes_distinct(1) assms, of "[]"]
  by (simp add: attribute_def internal_module_def add_submodule_def update_conv' expr_module_def)

lemma node_class_registered: "node_class_name c \<in> set expr_classes"
proof -
  have "list_all (\<lambda>c. List.member expr_classes (node_class_name c))
     [N_Aggregate, N_Analyze, N_Distinct, N_EmptyRelation, N_Explain, N_Extension, N_Filter, N_Join, N_Limit, N_Projection,
      N_Sort, N_TableScan, N_Subquery, N_SubqueryAlias, N_Window, N_Repartition, N_Union, N_CreateView,
      N_CreateMemoryTable, N_DropTable]" by code_simp
  then show ?thesis by (cases c) (simp_all only: list.pred_inject List.member_iff)
qed

definition variant_names :: "string list" where
  "variant_names = [''Alias'', ''Column'', ''ScalarVariable'', ''Like'', ''Literal'', ''BinaryExpr'', ''Not'', ''IsNotNull'',
     ''IsNull'', ''IsTrue'', ''IsFalse'', ''IsUnknown'', ''IsNotTrue'', ''IsNotFalse'', ''IsNotUnknown'', ''Negative'',
     ''Cast'', ''Case'', ''Wildcard'', ''AggregateFunction'']"

lemma variant_class_registered: "\<exists>c \<in> set expr_classes. py_name c = fst (reading tx flat_name v)"
proof -
  have "fst (reading tx flat_name v) \<in> set variant_names"
    by (cases v) (simp_all add: reading_def variant_names_def)
  moreover have "list_all (\<lambda>n. List.member (map py_name expr_classes) n) variant_names" by code_simp
  then have "\<forall>n \<in> set variant_names. n \<in> py_name ` set expr_classes"
    unfolding list_all_iff List.member_iff set_map .
  ultimately have "fst (reading tx flat_name v) \<in> py_name ` set expr_classes" by blast
  then show ?thesis by force
qed

text \<open>
  Whatever \<open>to_variant\<close> gives Python, of an expression or of a plan, its class is an attribute of the
  module \<open>expr\<close> under its own name; so is the class of every node that could be made. The package
  finds the names it imports.
\<close>

theorem objects_are_registered:
  "(to_variant tx e = Inr v \<longrightarrow> (\<exists>rust. attribute ''expr'' (fst (reading tx flat_name v)) = Some (Class rust)))
   \<and> (plan_to_variant debug p = Inr n \<longrightarrow>
        attribute ''expr'' (py_name (node_class_name (class_of n))) = Some (Class (rust_name (node_class_name (class_of n)))))
   \<and> attribute ''expr'' ''Expr'' = Some (Class ''PyExpr'')"
proof -
  obtain c where c: "c \<in> set expr_classes" "py_name c = fst (reading tx flat_name v)"
    using variant_class_registered [of tx flat_name v] by blast
  have "List.member expr_classes (Py_Class ''PyExpr'' ''Expr'')" by code_simp
  then have "Py_Class ''PyExpr'' ''Expr'' \<in> set expr_classes" by (simp only: List.member_iff)
  with expr_class_found [OF c(1)] c(2) expr_class_found [OF node_class_registered [of "class_of n"]] expr_class_found
  show ?thesis by fastforce
qed

lemma internal_class_found:
  assumes "c \<in> set internal_classes"
  shows "map_of (internal_module []) (py_name c) = Some (Class (rust_name c))"
proof -
  have "list_all (\<lambda>c. \<not> List.member [''builder'', ''optimizer'', ''parser'', ''expr'', ''common''] (py_name c)) internal_classes"
    by code_simp
  with assms have "py_name c \<notin> {''builder'', ''optimizer'', ''parser'', ''expr'', ''common''}"
    by (auto simp: list_all_iff)
  with add_classes_lookup [OF classes_distinct(3) assms] show ?thesis
    by (simp add: internal_module_def add_submodule_def update_conv')
qed

text \<open>The names the package imports (\<open>python/xorq_datafusion/__init__.py\<close>) are those of classes registered here.\<close>

definition package_imports :: "string list" where
  "package_imports = [''AggregateUDF'', ''ContextProvider'', ''DataFrame'', ''LogicalPlan'', ''LogicalPlanBuilder'',
     ''OptimizerContext'', ''OptimizerRule'', ''ScalarUDF'', ''SessionConfig'', ''SessionContext'', ''SessionState'',
     ''Table'', ''TableProvider'', ''WindowUDF'']"

lemma package_imports_found:
  assumes "n \<in> set package_imports"
  shows "\<exists>rust. map_of (internal_module []) n = Some (Class rust)"
proof -
  have "list_all (\<lambda>n. List.member (map py_name internal_classes) n) package_imports" by code_simp
  then have "\<forall>n \<in> set package_imports. n \<in> py_name ` set internal_classes"
    unfolding list_all_iff List.member_iff set_map .
  with assms obtain c where "c \<in> set internal_classes" "n = py_name c" by blast
  with internal_class_found [of c] show ?thesis by simp
qed

end
