(* ===== verification/Blocking_Calls.thy ===== *)
theory Blocking_Calls
  imports Session_Objects
begin

text \<open>
  The methods of \<open>src/dataframe.rs\<close>, \<open>src/context.rs\<close> and \<open>src/catalog.rs\<close> that wait for a future, on the
  process-wide runtime: where each of them waits, and with that what Python sees of it once
  \<open>close()\<close> has shut the runtime down. What the future and the steps after it give is the operation of
  \<open>Data_Frames\<close> or \<open>Session_Objects\<close> of the same name.
\<close>

section \<open>Waiting\<close>

type_synonym 'a on_runtime = "runtime_cell \<Rightarrow> (runtime_fault + 'a) \<times> runtime_cell"

text \<open>A call that waits and then gives \<open>r\<close>; \<open>current\<close> is the runtime the calling thread is inside of.\<close>

definition awaited :: "nat \<Rightarrow> nat option \<Rightarrow> 'a \<Rightarrow> 'a on_runtime" where
  "awaited fresh current r c = (case wait_for_future fresh current c of (w, c') \<Rightarrow> (map_ok (\<lambda>_. r) w, c'))"

text \<open>A step that may raise before the call comes to its wait.\<close>

definition first_do :: "py_err + 'x \<Rightarrow> ('x \<Rightarrow> (py_err + 'a) on_runtime) \<Rightarrow> (py_err + 'a) on_runtime" where
  "first_do step rest c = (case step of Inl e \<Rightarrow> (Inr (Inl e), c) | Inr x \<Rightarrow> rest x c)"

text \<open>A task spawned on the runtime's handle and awaited.\<close>

definition spawned :: "nat \<Rightarrow> nat option \<Rightarrow> 'a \<Rightarrow> 'a on_runtime" where
  "spawned fresh current r c = (case get_tokio_handle fresh c of
     (Inl panic, c') \<Rightarrow> (Inl panic, c')
   | (Inr _, c') \<Rightarrow> awaited fresh current r c')"

section \<open>The calls\<close>

definition repr_on ::
  "nat \<Rightarrow> nat option \<Rightarrow> renderers \<Rightarrow> (string \<Rightarrow> string) \<Rightarrow> ('f, 'b, 's) frame_api \<Rightarrow> 'f \<Rightarrow> (py_err + string) on_runtime" where
  "repr_on fresh current rd str_debug api df =
     first_do (lift_df rd (df_limit api 0 (Some 10) df)) (\<lambda>limited.
       awaited fresh current (map_ok (batches_text str_debug api) (lift_df rd (df_collect api limited))))"

definition describe_on :: "nat \<Rightarrow> nat option \<Rightarrow> renderers \<Rightarrow> ('f \<Rightarrow> inner_error + 'f) \<Rightarrow> 'f \<Rightarrow> (py_err + 'f) on_runtime" where
  "describe_on fresh current rd summarise df = awaited fresh current (lift_df rd (summarise df))"

definition collect_on ::
  "nat \<Rightarrow> nat option \<Rightarrow> renderers \<Rightarrow> ('f, 'b, 's) frame_api \<Rightarrow> ('b \<Rightarrow> py_err + 'o) \<Rightarrow> 'f \<Rightarrow> (py_err + 'o list) on_runtime" where
  "collect_on fresh current rd api to_py df =
     awaited fresh current (and_then (lift_df rd (df_collect api df)) (\<lambda>batches. collect_ok (map to_py batches)))"

text \<open>\<open>to_arrow_table\<close> collects and goes on with Python's classes; \<open>to_pandas\<close> and the others call it first.\<close>

definition to_arrow_table_on ::
  "nat \<Rightarrow> nat option \<Rightarrow> renderers \<Rightarrow> ('f, 'b, 's) frame_api \<Rightarrow> ('b \<Rightarrow> py_err + 'o) \<Rightarrow> ('o \<Rightarrow> py_err + 'sch) \<Rightarrow>
   ('s \<Rightarrow> py_err + 'sch) \<Rightarrow> ('o list \<Rightarrow> 'sch \<Rightarrow> py_err + 't) \<Rightarrow> 'f \<Rightarrow> (py_err + 't) on_runtime" where
  "to_arrow_table_on fresh current rd api to_py schema_attr schema_to_py from_batches df c =
     (case collect_on fresh current rd api to_py df c of (collected, c') \<Rightarrow>
        (map_ok (\<lambda>r. and_then r (\<lambda>batches.
           and_then (case batches of [] \<Rightarrow> schema_to_py (df_schema api df) | b # _ \<Rightarrow> schema_attr b)
             (from_batches batches))) collected, c'))"

definition collect_partitioned_on ::
  "nat \<Rightarrow> nat option \<Rightarrow> renderers \<Rightarrow> ('f, 'b, 's) frame_api \<Rightarrow> ('b \<Rightarrow> py_err + 'o) \<Rightarrow> 'f \<Rightarrow> (py_err + 'o list list) on_runtime" where
  "collect_partitioned_on fresh current rd api to_py df =
     awaited fresh current (and_then (lift_df rd (df_collect_partitioned api df)) (\<lambda>parts.
       collect_ok (map (\<lambda>rbs. collect_ok (map to_py rbs)) parts)))"

definition cache_on :: "nat \<Rightarrow> nat option \<Rightarrow> renderers \<Rightarrow> ('f, 'b, 's) frame_api \<Rightarrow> 'f \<Rightarrow> (py_err + 'f) on_runtime" where
  "cache_on fresh current rd api df = awaited fresh current (lift_df rd (df_cache api df))"

definition print_on ::
  "nat \<Rightarrow> nat option \<Rightarrow> renderers \<Rightarrow> (string \<Rightarrow> string) \<Rightarrow> ('f, 'b, 's) frame_api \<Rightarrow> (string \<Rightarrow> py_err + unit) \<Rightarrow> 'f \<Rightarrow>
   (py_err + unit) on_runtime" where
  "print_on fresh current rd str_debug api print df =
     awaited fresh current (and_then (lift_df rd (df_collect api df)) (\<lambda>batches. print (batches_text str_debug api batches)))"

definition show_on ::
  "nat \<Rightarrow> nat option \<Rightarrow> renderers \<Rightarrow> (string \<Rightarrow> string) \<Rightarrow> ('f, 'b, 's) frame_api \<Rightarrow> (string \<Rightarrow> py_err + unit) \<Rightarrow> nat \<Rightarrow> 'f \<Rightarrow>
   (py_err + unit) on_runtime" where
  "show_on fresh current rd str_debug api print num df =
     first_do (lift_df rd (df_limit api 0 (Some num) df)) (print_on fresh current rd str_debug api print)"

definition explain_on ::
  "nat \<Rightarrow> nat option \<Rightarrow> renderers \<Rightarrow> (string \<Rightarrow> string) \<Rightarrow> ('f, 'b, 's) frame_api \<Rightarrow> (string \<Rightarrow> py_err + unit) \<Rightarrow> bool \<Rightarrow>
   bool \<Rightarrow> 'f \<Rightarrow> (py_err + unit) on_runtime" where
  "explain_on fresh current rd str_debug api print verbose analyze df =
     first_do (lift_df rd (df_explain api verbose analyze df)) (print_on fresh current rd str_debug api print)"

definition write_csv_on ::
  "nat \<Rightarrow> nat option \<Rightarrow> renderers \<Rightarrow> ('f, 'b, 's) frame_api \<Rightarrow> string \<Rightarrow> 'f \<Rightarrow> (py_err + unit) on_runtime" where
  "write_csv_on fresh current rd api path df = awaited fresh current (lift_df rd (df_write_csv api path df))"

definition write_parquet_on ::
  "nat \<Rightarrow> nat option \<Rightarrow> renderers \<Rightarrow> ('f, 'b, 's) frame_api \<Rightarrow> string \<Rightarrow> string \<Rightarrow> 'f \<Rightarrow> (py_err + unit) on_runtime" where
  "write_parquet_on fresh current rd api path compression df =
     awaited fresh current (lift_df rd (df_write_parquet api path (Some compression) df))"

definition write_json_on ::
  "nat \<Rightarrow> nat option \<Rightarrow> renderers \<Rightarrow> ('f, 'b, 's) frame_api \<Rightarrow> string \<Rightarrow> 'f \<Rightarrow> (py_err + unit) on_runtime" where
  "write_json_on fresh current rd api path df = awaited fresh current (lift_df rd (df_write_json api path df))"

definition count_on :: "nat \<Rightarrow> nat option \<Rightarrow> renderers \<Rightarrow> ('f, 'b, 's) frame_api \<Rightarrow> 'f \<Rightarrow> (py_err + nat) on_runtime" where
  "count_on fresh current rd api df = awaited fresh current (lift_df rd (df_count api df))"

definition execution_plan_on ::
  "nat \<Rightarrow> nat option \<Rightarrow> renderers \<Rightarrow> ('f \<Rightarrow> inner_error + 'plan) \<Rightarrow> 'f \<Rightarrow> (py_err + 'plan) on_runtime" where
  "execution_plan_on fresh current rd create_physical_plan df =
     awaited fresh current (lift_df rd (create_physical_plan df))"

definition execute_stream_on ::
  "nat \<Rightarrow> nat option \<Rightarrow> renderers \<Rightarrow> string + (inner_error + 'st) \<Rightarrow> (py_err + 'st) on_runtime" where
  "execute_stream_on fresh current rd joined = spawned fresh current (execute_stream rd joined)"

definition execute_stream_partitioned_on ::
  "nat \<Rightarrow> nat option \<Rightarrow> renderers \<Rightarrow> string + (inner_error + 'st list) \<Rightarrow> (py_err + 'st list) on_runtime" where
  "execute_stream_partitioned_on fresh current rd joined = spawned fresh current (execute_stream_partitioned rd joined)"

definition sql_on :: "nat \<Rightarrow> nat option \<Rightarrow> renderers \<Rightarrow> (string \<Rightarrow> inner_error + 'f) \<Rightarrow> string \<Rightarrow> (py_err + 'f) on_runtime" where
  "sql_on fresh current rd ctx_sql query = awaited fresh current (lift_df rd (ctx_sql query))"

definition table_on :: "nat \<Rightarrow> nat option \<Rightarrow> renderers \<Rightarrow> (string \<Rightarrow> inner_error + 'f) \<Rightarrow> string \<Rightarrow> (py_err + 'f) on_runtime" where
  "table_on fresh current rd ctx_table name = awaited fresh current (lift_df rd (ctx_table name))"

definition database_table_on ::
  "nat \<Rightarrow> nat option \<Rightarrow> (string \<Rightarrow> inner_error + 't option) \<Rightarrow> string \<Rightarrow> (py_err + 't) on_runtime" where
  "database_table_on fresh current lookup name = awaited fresh current (database_table lookup name)"

text \<open>
  Registering files: the arguments are checked first; stores and table are registered in the future, which
  is never polled when the wait panics.
\<close>

definition registering ::
  "nat \<Rightarrow> nat option \<Rightarrow> (ctx_fault + unit) \<times> ('t, 'st) py_session \<Rightarrow> ('t, 'st) py_session \<Rightarrow> runtime_cell \<Rightarrow>
   (runtime_fault + (ctx_fault + unit)) \<times> ('t, 'st) py_session \<times> runtime_cell" where
  "registering fresh current registered ctx c = (case wait_for_future fresh current c of
     (Inl panic, c') \<Rightarrow> (Inl panic, ctx, c')
   | (Inr _, c') \<Rightarrow> (Inr (fst registered), snd registered, c'))"

definition register_parquet_on where
  "register_parquet_on fresh current rd sa env la reg name paths partition_cols ext storage_options schedule ctx c =
     (case convert_table_partition_cols partition_cols of
        Inl e \<Rightarrow> (Inr (Inl (Raise e)), ctx, c)
      | Inr _ \<Rightarrow> registering fresh current
          (finish_register rd (register_parquet_from_multiple_paths la reg name paths ext
            (register_stores sa env ''parquet'' storage_options schedule ctx))) ctx c)"

definition register_csv_on where
  "register_csv_on fresh current rd sa env la reg from_str name paths delimiter ext compression storage_options schedule ctx c =
     (if length delimiter \<noteq> 1
      then (Inr (Inl (Raise (new_err PyValueError ''Delimiter must be a single character''))), ctx, c)
      else (case parse_file_compression_type from_str compression of
        Inl e \<Rightarrow> (Inr (Inl (Raise e)), ctx, c)
      | Inr _ \<Rightarrow> registering fresh current
          (finish_register rd (register_csv_from_multiple_paths la reg name paths ext
            (register_stores sa env ''csv'' storage_options schedule ctx))) ctx c))"

section \<open>What a waiting call is\<close>

definition closed :: runtime_fault where
  "closed = Runtime_Panic ''tokio runtime has been shut down''"

text \<open>
  \<open>runs_as early call outcome\<close>: on a runtime that is not shut down the call gives \<open>outcome\<close> and at most starts
  the runtime; after a shutdown it panics, or, when a step before the wait has raised already, gives
  that exception.
\<close>

definition runs_as :: "bool \<Rightarrow> (nat \<Rightarrow> nat option \<Rightarrow> (py_err + 'a) on_runtime) \<Rightarrow> py_err + 'a \<Rightarrow> bool" where
  "runs_as early call outcome \<longleftrightarrow>
     (early \<longrightarrow> isl outcome)
     \<and> (\<forall>fresh current c. c \<noteq> Down \<longrightarrow>
          call fresh current c = (Inr outcome, if early then c else get_runtime fresh c))
     \<and> (\<forall>fresh current. call fresh current Down = (if early then Inr outcome else Inl closed, Down))"

lemma awaited_live: "c \<noteq> Down \<Longrightarrow> awaited fresh current r c = (Inr r, get_runtime fresh c)"
  by (cases c) (simp_all add: awaited_def runtime_defs split: option.splits)

lemma awaited_down: "awaited fresh current r Down = (Inl closed, Down)"
  by (simp add: awaited_def runtime_defs closed_def)

lemma spawned_awaited: "spawned fresh current r = awaited fresh current r"
  by (rule ext, case_tac x) (simp_all add: spawned_def awaited_def runtime_defs split: option.splits)

locale waiting_call =
  fixes call :: "nat \<Rightarrow> nat option \<Rightarrow> (py_err + 'a) on_runtime"
    and outcome :: "py_err + 'a"
    and early :: bool
  assumes raises_first: "early \<Longrightarrow> isl outcome \<and> call fresh current c = (Inr outcome, c)"
    and waits: "\<not> early \<Longrightarrow> call fresh current c = awaited fresh current outcome c"
begin

lemma as_outcome: "runs_as early call outcome"
  using raises_first waits by (cases early) (simp_all add: runs_as_def awaited_live awaited_down)

lemma nothing_after_shutdown: "fst (call fresh current Down) \<noteq> Inr (Inr x)"
  using as_outcome by (auto simp: runs_as_def split: if_splits)

lemma never_goes_back: "c \<le> snd (call fresh current c)"
  using as_outcome by (cases c) (auto simp: runs_as_def get_runtime_def less_eq_runtime_cell_def)

end

interpretation describe_call: waiting_call "\<lambda>fresh current. describe_on fresh current rd summarise df"
  "frame_describe rd summarise df" False for rd summarise df
  by unfold_locales (simp_all add: describe_on_def frame_describe_def)

interpretation collect_call: waiting_call "\<lambda>fresh current. collect_on fresh current rd api to_py df"
  "frame_collect rd api to_py df" False for rd api to_py df
  by unfold_locales (simp_all add: collect_on_def frame_collect_def)

interpretation arrow_call: waiting_call
  "\<lambda>fresh current. to_arrow_table_on fresh current rd api to_py schema_attr schema_to_py from_batches df"
  "to_arrow_table rd api to_py schema_attr schema_to_py from_batches df" False
  for rd api to_py schema_attr schema_to_py from_batches df
proof
  fix fresh current c
  show "to_arrow_table_on fresh current rd api to_py schema_attr schema_to_py from_batches df c =
      awaited fresh current (to_arrow_table rd api to_py schema_attr schema_to_py from_batches df) c"
  proof (cases "c = Down")
    case True
    then show ?thesis by (simp add: to_arrow_table_on_def collect_on_def awaited_down)
  next
    case False
    then show ?thesis
      by (simp add: to_arrow_table_on_def collect_on_def awaited_live to_arrow_table_def frame_collect_def)
  qed
qed simp_all

interpretation partitions_call: waiting_call "\<lambda>fresh current. collect_partitioned_on fresh current rd api to_py df"
  "frame_collect_partitioned rd api to_py df" False for rd api to_py df
  by unfold_locales (simp_all add: collect_partitioned_on_def frame_collect_partitioned_def)

interpretation cache_call: waiting_call "\<lambda>fresh current. cache_on fresh current rd api df" "frame_cache rd api df" False
  for rd api df
  by unfold_locales (simp_all add: cache_on_def frame_cache_def)

lemma first_do_simps [simp]:
  "first_do (Inl e) rest c = (Inr (Inl e), c)"
  "first_do (Inr x) rest c = rest x c"
  by (simp_all add: first_do_def)

interpretation repr_call: waiting_call "\<lambda>fresh current. repr_on fresh current rd str_debug api df"
  "frame_repr rd str_debug api df" "isl (lift_df rd (df_limit api 0 (Some 10) df))" for rd str_debug api df
  by unfold_locales
    (cases "lift_df rd (df_limit api 0 (Some 10) df)"; simp add: repr_on_def frame_repr_def)+

interpretation show_call: waiting_call "\<lambda>fresh current. show_on fresh current rd str_debug api print num df"
  "frame_show rd str_debug api print num df" "isl (lift_df rd (df_limit api 0 (Some num) df))"
  for rd str_debug api print num df
  by unfold_locales
    (cases "lift_df rd (df_limit api 0 (Some num) df)"; simp add: show_on_def frame_show_def print_on_def print_dataframe_def)+

interpretation explain_call: waiting_call
  "\<lambda>fresh current. explain_on fresh current rd str_debug api print verbose analyze df"
  "frame_explain rd str_debug api print verbose analyze df" "isl (lift_df rd (df_explain api verbose analyze df))"
  for rd str_debug api print verbose analyze df
  by unfold_locales
    (cases "lift_df rd (df_explain api verbose analyze df)";
     simp add: explain_on_def frame_explain_def print_on_def print_dataframe_def)+

interpretation csv_call: waiting_call "\<lambda>fresh current. write_csv_on fresh current rd api path df"
  "write_csv rd api path df" False for rd api path df
  by unfold_locales (simp_all add: write_csv_on_def write_csv_def)

interpretation parquet_call: waiting_call "\<lambda>fresh current. write_parquet_on fresh current rd api path compression df"
  "write_parquet rd api path compression df" False for rd api path compression df
  by unfold_locales (simp_all add: write_parquet_on_def write_parquet_def)

interpretation json_call: waiting_call "\<lambda>fresh current. write_json_on fresh current rd api path df"
  "write_json rd api path df" False for rd api path df
  by unfold_locales (simp_all add: write_json_on_def write_json_def)

interpretation count_call: waiting_call "\<lambda>fresh current. count_on fresh current rd api df" "frame_count rd api df" False
  for rd api df
  by unfold_locales (simp_all add: count_on_def frame_count_def)

interpretation plan_call: waiting_call "\<lambda>fresh current. execution_plan_on fresh current rd create_physical_plan df"
  "execution_plan rd create_physical_plan df" False for rd create_physical_plan df
  by unfold_locales (simp_all add: execution_plan_on_def execution_plan_def)

interpretation stream_call: waiting_call "\<lambda>fresh current. execute_stream_on fresh current rd joined"
  "execute_stream rd joined" False for rd joined
  by unfold_locales (simp_all add: execute_stream_on_def spawned_awaited)

interpretation streams_call: waiting_call "\<lambda>fresh current. execute_stream_partitioned_on fresh current rd joined"
  "execute_stream_partitioned rd joined" False for rd joined
  by unfold_locales (simp_all add: execute_stream_partitioned_on_def spawned_awaited)

interpretation sql_call: waiting_call "\<lambda>fresh current. sql_on fresh current rd ctx_sql query"
  "session_sql rd ctx_sql query" False for rd ctx_sql query
  by unfold_locales (simp_all add: sql_on_def session_sql_def)

interpretation table_call: waiting_call "\<lambda>fresh current. table_on fresh current rd ctx_table name"
  "session_table rd ctx_table name" False for rd ctx_table name
  by unfold_locales (simp_all add: table_on_def session_table_def)

interpretation catalog_call: waiting_call "\<lambda>fresh current. database_table_on fresh current lookup name"
  "database_table lookup name" False for lookup name
  by unfold_locales (simp_all add: database_table_on_def)

interpretation next_call: waiting_call "\<lambda>fresh current. stream_next rd fresh current item" "next_stream rd True item" False
  for rd item
  by unfold_locales (simp_all add: stream_next_def awaited_def)

lemma registering_cases:
  "c \<noteq> Down \<Longrightarrow> registering fresh current r ctx c = (Inr (fst r), snd r, get_runtime fresh c)"
  "registering fresh current r ctx Down = (Inl closed, ctx, Down)"
  by (cases c; simp add: registering_def runtime_defs closed_def split: option.splits)+

text \<open>
  On a runtime that is up, registering files is the operation of \<open>Session_Context\<close>; after a shutdown it
  changes nothing in the session, whatever the arguments.
\<close>

lemma register_parquet_runs:
  "c \<noteq> Down \<Longrightarrow>
     (\<exists>c'. register_parquet_on fresh current rd sa env la reg name paths cols ext opts schedule ctx c =
       (let r = register_parquet rd sa env la reg name paths cols ext opts schedule ctx in (Inr (fst r), snd r, c')))"
  "\<exists>f. register_parquet_on fresh current rd sa env la reg name paths cols ext opts schedule ctx Down = (f, ctx, Down)
     \<and> f \<noteq> Inr (Inr ())"
  by (auto simp: register_parquet_on_def register_parquet_def registering_cases Let_def split: sum.split)

lemma register_csv_runs:
  "c \<noteq> Down \<Longrightarrow>
     (\<exists>c'. register_csv_on fresh current rd sa env la reg from_str name paths delimiter ext compression opts schedule ctx c =
       (let r = register_csv rd sa env la reg from_str name paths delimiter ext compression opts schedule ctx
        in (Inr (fst r), snd r, c')))"
  "\<exists>f. register_csv_on fresh current rd sa env la reg from_str name paths delimiter ext compression opts schedule ctx Down
       = (f, ctx, Down) \<and> f \<noteq> Inr (Inr ())"
  by (auto simp: register_csv_on_def register_csv_def registering_cases Let_def split: sum.split)

section \<open>Properties\<close>

lemma isl_lift_df: "isl (lift_df rd r) = isl r"
  by (cases r) (simp_all add: lift_df_def)


end
