(* ===== verification/Spec2Isabelle.thy ===== *)
theory Spec2Isabelle
  imports Exec_Plans Ffi_Session Udfs Expr_Operators Expr_Unmade Plan_Nodes Session_Objects Sql_Objects Module_Entry Blocking_Calls
begin

text \<open>
  Verification of the Rust core of xorq-datafusion (\<open>src/src/\<close> of the repository), a Python extension
  module over Apache DataFusion.

  \<^bold>\<open>The program.\<close> A Python \<open>SessionContext\<close> (\<open>context.rs\<close>) registers tables: files in object stores
  (\<open>object_storage.rs\<close>), pyarrow datasets, ibis tables, Python providers and Arrow streams
  (\<open>dataset.rs\<close>, \<open>dataset_exec.rs\<close>, \<open>ibis_table.rs\<close>, \<open>ibis_table_exec.rs\<close>, \<open>provider.rs\<close>,
  \<open>py_record_batch_provider.rs\<close>), and tables of other libraries over an FFI (\<open>ffi_table_provider.rs\<close>).
  A scan of a Python-backed table translates the filters it was given into pyarrow or ibis expressions
  (\<open>pyarrow_filter_expression.rs\<close>, \<open>ibis_filter_expression.rs\<close>) and pulls batches from a blocking Python
  reader through the bridge in \<open>utils.rs\<close>. Queries call user-defined functions written in Python
  (\<open>udf.rs\<close>, \<open>udaf.rs\<close>, \<open>udwf.rs\<close>) and are run as data frames (\<open>dataframe.rs\<close>) whose streams Python
  iterates over (\<open>record_batch.rs\<close>) on one process-wide runtime. Expressions, plans and types are shown to Python as objects
  (\<open>expr.rs\<close>, \<open>expr/\<close>, \<open>sql/logical.rs\<close>, \<open>common/data_type.rs\<close>), errors as exceptions (\<open>errors.rs\<close>).

  \<^bold>\<open>Theories.\<close>
  \<^item> \<open>Xorq_Prelude\<close>: Rust's \<open>Result\<close> and its combinators as sums, the \<open>str\<close> methods, machine integers as
    words, and the locale \<open>step_invariant\<close> through which the two state machines below get their
    invariants in all reachable states.
  \<^item> \<open>Py_Errors\<close> (\<open>errors.rs\<close>, \<open>sql/exceptions.rs\<close>): the three error representations and the conversions;
    what they keep of a Python exception.
  \<^item> \<open>Data_Types\<close> (\<open>common/data_type.rs\<close>): the tables between Arrow, SQL, Python and scalar types;
    round trips through them and through the string forms.
  \<^item> \<open>Expr_Model\<close> (\<open>expr.rs\<close>): expressions, their variant objects, operands, operators and types.
  \<^item> \<open>Expr_Nodes\<close> (\<open>expr/literal.rs\<close>, \<open>expr/window.rs\<close>, \<open>expr/aggregate.rs\<close>, \<open>expr/projection.rs\<close>): typed
    access to literals, window frames and their bounds.
  \<^item> \<open>Expr_Variants\<close> (the expression classes of \<open>expr/\<close>): what the methods of the variant objects answer,
    and exactly which expressions a visitor can tell apart by them.
  \<^item> \<open>Expr_Operators\<close> (the operators of \<open>Expr\<close> in \<open>expr.rs\<close>, \<open>expr/sort_expr.rs\<close>): expressions as a Python
    program builds them. The laws of DataFusion's builders are the locale \<open>expr_builders\<close>, interpreted
    on the constructors; a filter built that way comes back to pyarrow and ibis as it was written.
  \<^item> \<open>Expr_Unmade\<close>: the expression classes no object is ever made of (\<open>expr/between.rs\<close>, \<open>in_list.rs\<close>, the
    ILIKE and SIMILAR TO of \<open>like.rs\<close> and others), and that they would hide nothing.
  \<^item> \<open>Logical_Plan\<close> (\<open>sql/logical.rs\<close> and the plan nodes of \<open>expr/\<close>): plans as Python walks them.
  \<^item> \<open>Plan_Nodes\<close> (the node files of \<open>expr/\<close>, \<open>common/df_schema.rs\<close>): every method of the node objects, texts
    included, and what of a plan can be built again from the answers.
  \<^item> \<open>Filter_Expr\<close>: both filter translators with every error path. What pyarrow and ibis do with the
    calls is stated as locales (\<open>filter_objects\<close>, \<open>pyarrow_objects\<close>, \<open>ibis_objects\<close>) and interpreted on
    call trees with a three-valued evaluator; translated filters are compared with SQL's semantics.
  \<^item> \<open>Pull_Stream\<close> (\<open>utils.rs\<close>): the reader bridge. One record per stream (channel, demand semaphore,
    coordinator, pull host, round in flight, reader), one transition per piece of code between two
    points where another activity can interfere, and the process as all streams over the two shared
    budgets. \<open>Pull_Invariants\<close>: a case lemma per transition and the invariants (control, channel,
    demand, order, end, wake-up, drop) by induction over reachable states. \<open>Pull_Properties\<close>: what a
    consumer can rely on.
  \<^item> \<open>Table_Providers\<close>: registration checks, pushdown answers, scans and the lazily built pulls of the
    Python-backed tables. The contracts \<open>pushdown_provider\<close>, \<open>conjoining\<close> and \<open>lazy_reader\<close> are locales
    interpreted on each table.
  \<^item> \<open>Scan_Results\<close>: what a query gets from a dataset or ibis table. The laws of pyarrow's scanner and of
    ibis's expressions are the locales \<open>pyarrow_scans\<close> and \<open>ibis_scans\<close>, interpreted on tables of rows; the
    filters pushed down and those DataFusion keeps together select exactly the rows of the query.
  \<^item> \<open>Exec_Plans\<close> (\<open>dataset_exec.rs\<close>, \<open>ibis_table_exec.rs\<close>, \<open>provider.rs\<close>, \<open>py_record_batch_provider.rs\<close>,
    \<open>physical_plan.rs\<close>): properties, children and texts of the plans; both scans are a \<open>leaf_plan\<close> that
    keeps what its properties promise.
  \<^item> \<open>Object_Storage\<close>: options, builders as the sequence of calls made on them, choice by scheme,
    registration in the session.
  \<^item> \<open>Session_Context\<close>: registration of tables and files, the ordering of readers, the import of
    foreign providers.
  \<^item> \<open>Ffi_Host\<close>: imported tables over a heap of \<open>Arc\<close> cells with strong counts. Counts always equal the
    references from Python and from live cells; from that, that codecs never dangle, that no session is
    retained and that nothing leaks.
  \<^item> \<open>Ffi_Session\<close> (\<open>context.rs\<close>): the codec a session exports, alive exactly as long as the session, and
    the checks of an import composed with the heap.
  \<^item> \<open>Udfs\<close>: calls on stateful Python objects. The contracts \<open>fresh_factory\<close> (accumulators) and
    \<open>shared_factory\<close> (window evaluators) are locales; so are the laws of the arrow conversions a scalar
    function is broadcast with.

  \<^item> \<open>Data_Frames\<close> (\<open>dataframe.rs\<close>, \<open>record_batch.rs\<close>, \<open>catalog.rs\<close>, the runtime of \<open>utils.rs\<close>): operations
    over the calls of DataFusion's data frame, what Python gets for an item of a stream, catalog lookups;
    the life of the runtime, which only goes up in the order of its states (an instance of \<open>order\<close>).
  \<^item> \<open>Session_Objects\<close> (the rest of \<open>context.rs\<close>, \<open>optimizer.rs\<close>, \<open>sql/builder.rs\<close>, \<open>pyarrow_util.rs\<close>):
    configurations as the calls made on them, queries, metadata of objects compared with the registration
    of their store, Python optimizer rules, the plan builder.
  \<^item> \<open>Blocking_Calls\<close>: where each method waits on the runtime. The locale \<open>waiting_call\<close> is interpreted on
    every one of them: alike with and without the cell while it is up, a panic once it is down.
  \<^item> \<open>Sql_Objects\<close> (\<open>common/schema.rs\<close>, \<open>common/function.rs\<close>, \<open>sql/parser.rs\<close>, \<open>functions/hash_int.rs\<close>): the
    schema as a refinement of a map, SQL parsing with its panics, \<open>hash_int\<close> over the string encodings.
  \<^item> \<open>Module_Entry\<close> (\<open>lib.rs\<close> and the \<open>init_module\<close> functions): the attributes of the Python module; the
    class of every object \<open>to_variant\<close> makes is found under its name.
  \<^item> This theory: the path from a Python iterator through an ibis table's pull, the bridge and the stream
    to the Python consumer, refined to plain iteration.

  \<^bold>\<open>Bounds.\<close> Nothing is fuelled. The loops of the reader bridge are transitions; that a waiting
  consumer is served is a rank of at most 12 that every fair step lowers, that a dropped stream winds
  down a rank of at most 15. A drain round is a function with a termination proof. The channel capacity,
  the speculation and the thread budget are the constants of the source. Offsets, literals and limits
  are kept at their width.

  \<^bold>\<open>Parameters.\<close> The Python objects and libraries, DataFusion's planner, catalog and object stores, the
  texts of third-party errors, and the foreign side of the FFI are arguments of the definitions. Laws
  assumed of them are hypotheses of the theorems that need them, each with a witness.

  \<^bold>\<open>Not modelled.\<close> The conversions of wrappers from and to the type they wrap, which the model's
  constructors stand for; Display texts of the explain and window objects, which Python cannot reach;
  the Debug texts of third-party types and the \<open>Any\<close> casts of option extensions; \<open>model.rs\<close>, a trait
  nothing implements. The request for an object's metadata
  waits too; it is modelled on a runtime that is up.
\<close>

section \<open>From a Python reader to a Python consumer\<close>

text \<open>
  What Python sees of a reader, told without threads, channels or error boxes: the batches of the
  iterator one after the other, each projected, until it stops; the first exception as it was raised;
  a projection that fails or a batch that breaks the table's schema as the error it becomes.
\<close>

fun iterator_seen ::
  "renderers \<Rightarrow> (data_type \<Rightarrow> string) \<Rightarrow> schema_ref \<Rightarrow> ('i \<Rightarrow> (py_err + 'd batch) option \<times> 'i) \<Rightarrow>
   ('d batch \<Rightarrow> inner_error + 'd batch) \<Rightarrow> nat \<Rightarrow> 'i \<Rightarrow> (py_err + 'd batch) list" where
  "iterator_seen rd display schema nxt proj 0 it = []"
| "iterator_seen rd display schema nxt proj (Suc n) it =
     (case nxt it of
        (None, _) \<Rightarrow> []
      | (Some (Inl e), _) \<Rightarrow> [Inl e]
      | (Some (Inr b), it') \<Rightarrow>
          (case and_then (proj b) (\<lambda>b'. map_ok (\<lambda>_. b') (check_batch_schema display schema b')) of
             Inl e \<Rightarrow> [Inl (from_datafusion_error rd e)]
           | Inr b' \<Rightarrow> Inr b' # iterator_seen rd display schema nxt proj n it'))"

definition reader_seen ::
  "renderers \<Rightarrow> (data_type \<Rightarrow> string) \<Rightarrow> schema_ref \<Rightarrow> ('i \<Rightarrow> (py_err + 'd batch) option \<times> 'i) \<Rightarrow>
   ('d batch \<Rightarrow> inner_error + 'd batch) \<Rightarrow> nat \<Rightarrow> py_err + 'i \<Rightarrow> (py_err + 'd batch) list" where
  "reader_seen rd display schema nxt proj n opened =
     (case opened of Inl e \<Rightarrow> if n = 0 then [] else [Inl e] | Inr it \<Rightarrow> iterator_seen rd display schema nxt proj n it)"

lemma open_read:
  "lp_iter p = Some it \<Longrightarrow>
   map (next_stream rd sync \<circ> Some) (items_of display schema
       (fst (read_n (ibis_pull iter_of nxt project projection) display schema n p)))
     = iterator_seen rd display schema nxt (project_batch project projection) n it"
proof (induction n arbitrary: p it)
  case (Suc n)
  obtain r it' where r: "nxt it = (r, it')" by fastforce
  have IH: "map (next_stream rd sync \<circ> Some) (items_of display schema
       (fst (read_n (ibis_pull iter_of nxt project projection) display schema n (p\<lparr>lp_iter := Some it'\<rparr>))))
     = iterator_seen rd display schema nxt (project_batch project projection) n it'"
    by (rule Suc.IH) simp
  note pull = ibis_pull_open [of p it nxt r it' iter_of project projection, OF Suc.prems r]
  consider "r = None" | e where "r = Some (Inl e)" | b where "r = Some (Inr b)"
    by (metis not_None_eq sum.exhaust)
  then show ?case
  proof cases
    case (3 b)
    show ?thesis
    proof (cases "project_batch project projection b")
      case (Inr b')
      with 3 pull IH r show ?thesis
        by (cases "check_batch_schema display schema b'")
           (simp_all add: read_n.simps(2) comp_def case_prod_unfold)
    qed (use 3 pull r in \<open>simp add: read_n.simps(2)\<close>)
  qed (use pull r in \<open>simp_all add: read_n.simps(2) to_external_err_def\<close>)
qed simp

lemma fresh_read:
  "map (next_stream rd sync \<circ> Some) (items_of display schema
       (fst (read_n (ibis_pull iter_of nxt project projection) display schema n (fresh_pull rdr))))
     = reader_seen rd display schema nxt (project_batch project projection) n (iter_of rdr)"
proof (cases "iter_of rdr")
  case (Inl e)
  then show ?thesis
    by (cases n) (simp_all add: reader_seen_def read_n.simps(2) ibis_pull_fresh to_external_err_def)
next
  case (Inr it)
  let ?p = "\<lparr>lp_source = rdr, lp_iter = Some it, lp_builds = 1\<rparr>"
  have "fst (read_n (ibis_pull iter_of nxt project projection) display schema n (fresh_pull rdr))
      = fst (read_n (ibis_pull iter_of nxt project projection) display schema n ?p)"
    by (cases n) (simp_all add: read_n.simps(2) ibis_pull_fresh Inr)
  with open_read [of ?p it] Inr show ?thesis by (simp add: reader_seen_def)
qed

text \<open>
  C1: End to end, from the iterator user code wrote to the loop that consumes the query: what the
  consumer of a scan over an ibis table has received is a prefix of what the iterator gives when it
  is simply iterated, whatever the scheduling, the read-ahead and the other streams; the user's own
  exception arrives unchanged, also one raised while the reader is opened. When the loop ends with
  \<open>StopIteration\<close> and the bridge itself did not fail, nothing is missing.
\<close>

theorem reader_to_python:
  fixes s :: "('d, ('r, 'i) lazy_pull) pstream"
  assumes "reachable (ibis_pull iter_of nxt project projection) display w" "s \<in> set (streams w)"
    "reader0 s = fresh_pull rdr"
  shows "let seen = (\<lambda>n. reader_seen rd display (ps_schema s) nxt (project_batch project projection) n (iter_of rdr));
             received = map (next_stream rd sync \<circ> Some) (delivered s)
    in (\<exists>n. prefix received (seen n))
       \<and> (rx_open s \<and> fst (poll_next first s) = Ready None \<and> filter isl (raised s) = [] \<longrightarrow>
           (\<exists>n. \<forall>m \<ge> n. received = seen m)
           \<and> next_stream rd True (None :: 'd item option) = Inl (new_err PyStopIteration ''stream exhausted''))"
proof -
  define seen where
    "seen n = reader_seen rd display (ps_schema s) nxt (project_batch project projection) n (iter_of rdr)" for n
  note read = fresh_read [of rd sync display "ps_schema s" iter_of nxt project projection _ rdr, folded seen_def]
  have o: "order_inv (ibis_pull iter_of nxt project projection) display s" by (rule reachable_stream(4) [OF assms(1,2)])
  then have "items_of display (ps_schema s) (produced s)
      = items_of display (ps_schema s) (fst (read_n (ibis_pull iter_of nxt project projection) display (ps_schema s)
          (length (produced s)) (fresh_pull rdr)))"
    using assms(3) by (simp add: order_inv_def)
  with map_mono_prefix [OF order_prefix [OF o], of "next_stream rd sync \<circ> Some"] read
  have "\<exists>n. prefix (map (next_stream rd sync \<circ> Some) (delivered s)) (seen n)" by metis
  moreover have "\<forall>m \<ge> length (produced s). map (next_stream rd sync \<circ> Some) (delivered s) = seen m"
    if e: "rx_open s" "fst (poll_next first s) = Ready None" "filter isl (raised s) = []"
    using ended_reads_all [OF assms(1,2) e] assms(3) read by (metis fst_conv)
  ultimately show ?thesis unfolding seen_def Let_def by auto
qed

definition rows :: "nat \<Rightarrow> nat batch" where
  "rows n = \<lparr>b_schema = demo_schema, b_data = n\<rparr>"

text \<open>An iterator with one batch and an exception after it.\<close>

fun failing_next :: "nat \<Rightarrow> (py_err + nat batch) option \<times> nat" where
  "failing_next 0 = (Some (Inr (rows 7)), 1)"
| "failing_next (Suc n) = (Some (Inl (new_err PyKeyError ''k'')), Suc n)"

definition scan_run :: "(nat, (unit, nat) lazy_pull) world option" where
  "scan_run = wacts (ibis_pull (\<lambda>_. Inr 0) failing_next (\<lambda>_ b. Inr b) None) plain
     (map (Pair 0) (go @ [NextSlot, NextCredit, EnterPull, PullReturns, Poll False, Poll False]))
     (wspawn demo_schema (fresh_pull ()) Buffered winit)"

theorem reader_to_python_witness:
  "map (next_stream plain_renderers True \<circ> Some) (delivered (streams (the scan_run) ! 0))
       = [Inr (rows 7), Inl (new_err PyKeyError ''k'')]
   \<and> (\<exists>n. prefix [Inr (rows 7), Inl (new_err PyKeyError ''k'')]
        (reader_seen plain_renderers plain demo_schema failing_next (project_batch (\<lambda>_ b. Inr b) None) n (Inr 0)))"
proof -
  have "scan_run \<noteq> None" by code_simp
  then have "scan_run = Some (the scan_run)" by auto
  then have r: "reachable (ibis_pull (\<lambda>_. Inr 0) failing_next (\<lambda>_ b. Inr b) None) plain (the scan_run)"
    unfolding scan_run_def using reachable_acts [OF reachable_spawn [OF reachable_init]] by metis
  have l: "length (streams (the scan_run)) = 1" by code_simp
  have f: "reader0 (streams (the scan_run) ! 0) = fresh_pull ()" "ps_schema (streams (the scan_run) ! 0) = demo_schema"
    by code_simp+
  have d: "map (next_stream plain_renderers True \<circ> Some) (delivered (streams (the scan_run) ! 0))
      = [Inr (rows 7), Inl (new_err PyKeyError ''k'')]" by code_simp
  from reader_to_python [OF r demo_stream [OF l] f(1), of plain_renderers True False] d f(2)
  show ?thesis by (simp add: Let_def)
qed

end
